(* ===== verification/Schema.thy ===== *)
theory Schema
  imports Prelude "HOL-Library.Word"
begin

text \<open>
  The Postgres schema the migrations build (\<open>migrations/0001\<close> to \<open>0016\<close>) and the row types of
  \<open>src/repo.rs\<close>.  One record per table, with every column a statement of the service reads or
  writes; \<open>db\<close> is the whole database.  Row-level security is the policy left in force by
  migrations 0010, 0013 and 0016: \<open>roles\<close>, \<open>user_roles\<close> and \<open>projects\<close> are strict,
  the other tenant tables carry the permissive policy \<open>USING (true) WITH CHECK (true)\<close>.
\<close>

section \<open>Scalars\<close>

text \<open>A UUID is its 128 bits; an instant is the number of microseconds since the epoch.\<close>

type_synonym uuid = "128 word"
type_synonym time = int

definition second :: time where
  "second = 1000000"

definition default_tenant_id :: uuid where
  "default_tenant_id = 1"

section \<open>Rows\<close>

record user_row =
  u_id :: uuid
  u_email :: string
  u_password_hash :: string
  u_status :: string
  u_email_verified :: bool
  u_failed_login_attempts :: int
  u_locked_until :: "time option"
  u_totp_secret :: "string option"
  u_totp_enabled :: bool
  u_deleted_at :: "time option"
  u_updated_at :: time

record refresh_token_row =
  rt_user_id :: uuid
  rt_token_hash :: string
  rt_expires_at :: time
  rt_revoked_at :: "time option"
  rt_replaced_by :: "string option"
  rt_tenant_id :: uuid
  rt_project_id :: "uuid option"

record role_row =
  ro_id :: int
  ro_name :: string
  ro_description :: string
  ro_tenant_id :: "uuid option"

record permission_row =
  pe_id :: int
  pe_name :: string
  pe_description :: string

record user_role_row =
  ur_user_id :: uuid
  ur_role_id :: int
  ur_tenant_id :: uuid
  ur_project_id :: "uuid option"

text \<open>\<open>email_verifications\<close> and \<open>password_resets\<close> have the same columns.\<close>

record one_time_row =
  ot_token_hash :: string
  ot_user_id :: uuid
  ot_expires_at :: time
  ot_consumed_at :: "time option"

record audit_row =
  au_id :: int
  au_actor_id :: string
  au_actor_email :: string
  au_action :: string
  au_target :: string
  au_detail :: string
  au_tenant_id :: "uuid option"
  au_created_at :: time

record outbox_row =
  ob_id :: uuid
  ob_aggregate_id :: uuid
  ob_event_type :: string
  ob_payload :: string
  ob_created_at :: time
  ob_published_at :: "time option"

record signing_key_row =
  sk_kid :: string
  sk_private_pem :: string
  sk_public_pem :: string
  sk_alg :: string
  sk_active :: bool

record oauth_client_row =
  oc_client_id :: string
  oc_client_secret_hash :: "string option"
  oc_name :: string
  oc_redirect_uris :: "string list"
  oc_scopes :: "string list"
  oc_grant_types :: "string list"
  oc_is_confidential :: bool
  oc_tenant_id :: uuid

record auth_code_row =
  ac_code_hash :: string
  ac_client_id :: string
  ac_user_id :: uuid
  ac_redirect_uri :: string
  ac_scope :: string
  ac_code_challenge :: "string option"
  ac_code_challenge_method :: "string option"
  ac_nonce :: "string option"
  ac_expires_at :: time
  ac_used :: bool

record consent_row =
  co_user_id :: uuid
  co_client_id :: string
  co_scopes :: "string list"
  co_granted_at :: time

record recovery_code_row =
  rc_id :: int
  rc_user_id :: uuid
  rc_code_hash :: string
  rc_used_at :: "time option"

record api_key_row =
  ak_id :: string
  ak_user_id :: uuid
  ak_key_hash :: string
  ak_name :: string
  ak_scopes :: "string list"
  ak_expires_at :: "time option"
  ak_revoked_at :: "time option"
  ak_last_used_at :: "time option"
  ak_created_at :: time
  ak_tenant_id :: uuid
  ak_project_id :: "uuid option"

record tenant_row =
  te_id :: uuid
  te_slug :: string
  te_name :: string
  te_status :: string

record project_row =
  pr_id :: uuid
  pr_tenant_id :: uuid
  pr_slug :: string
  pr_name :: string

record membership_row =
  me_user_id :: uuid
  me_tenant_id :: uuid
  me_status :: string

record revoked_token_row =
  rv_jti :: string
  rv_expires_at :: time
  rv_revoked_at :: time

section \<open>The database\<close>

text \<open>
  The sequence of a \<open>BIGSERIAL\<close> column is its next value.  The value a
  \<open>gen_random_uuid()\<close> default produces is an argument of the statements that rely on it.
\<close>

record db =
  users :: "user_row list"
  refresh_tokens :: "refresh_token_row list"
  roles :: "role_row list"
  role_seq :: int
  permissions :: "permission_row list"
  role_permissions :: "(int \<times> int) list"
  user_roles :: "user_role_row list"
  revoked_tokens :: "revoked_token_row list"
  email_verifications :: "one_time_row list"
  password_resets :: "one_time_row list"
  audit_events :: "audit_row list"
  audit_seq :: int
  outbox :: "outbox_row list"
  signing_keys :: "signing_key_row list"
  oauth_clients :: "oauth_client_row list"
  auth_codes :: "auth_code_row list"
  consents :: "consent_row list"
  recovery_codes :: "recovery_code_row list"
  recovery_seq :: int
  api_keys :: "api_key_row list"
  tenants :: "tenant_row list"
  projects :: "project_row list"
  memberships :: "membership_row list"

text \<open>What a statement can fail with, and the shape of a statement or transaction: on failure the
  database is left as it was (a failed transaction is rolled back).\<close>

datatype sql_error =
  Unique_violation | Fk_violation | Rls_violation | Cardinality_violation | Row_not_found
| Out_of_range | Invalid_json | Connection_lost

type_synonym 'a query = "db \<Rightarrow> sql_error + 'a \<times> db"

definition reading :: "(db \<Rightarrow> 'a) \<Rightarrow> 'a query" where
  "reading f d = Inr (f d, d)"

definition writing :: "(db \<Rightarrow> db) \<Rightarrow> unit query" where
  "writing f d = Inr ((), f d)"

lemma reading_Inr [simp]: "reading f d = Inr (x, d') \<longleftrightarrow> x = f d \<and> d' = d"
  by (auto simp: reading_def)

lemma writing_Inr [simp]: "writing f d = Inr (x, d') \<longleftrightarrow> d' = f d"
  by (auto simp: writing_def)

text \<open>Two statements in one transaction: an error of either one rolls both back.\<close>

definition then_query :: "'a query \<Rightarrow> ('a \<Rightarrow> 'b query) \<Rightarrow> 'b query" where
  "then_query p q d = (case p d of Inl e \<Rightarrow> Inl e | Inr (x, d') \<Rightarrow> q x d')"

lemma then_query_InrE:
  assumes "then_query p q d = Inr (y, d')"
  obtains x d1 where "p d = Inr (x, d1)" and "q x d1 = Inr (y, d')"
  using assms by (auto simp: then_query_def split: sum.splits prod.splits)

section \<open>Keys and foreign keys\<close>

definition has_user :: "uuid \<Rightarrow> db \<Rightarrow> bool" where
  "has_user i d \<longleftrightarrow> exists_where (\<lambda>u. u_id u = i) (users d)"

definition has_tenant :: "uuid \<Rightarrow> db \<Rightarrow> bool" where
  "has_tenant t d \<longleftrightarrow> exists_where (\<lambda>r. te_id r = t) (tenants d)"

definition has_project :: "uuid option \<Rightarrow> db \<Rightarrow> bool" where
  "has_project p d \<longleftrightarrow>
     (case p of None \<Rightarrow> True | Some i \<Rightarrow> exists_where (\<lambda>r. pr_id r = i) (projects d))"

section \<open>Row-level security\<close>

text \<open>
  \<open>App_superuser\<close> is the connection role of today (a superuser bypasses RLS), \<open>Iam_app\<close> the
  least-privilege role prepared by migration 0014, \<open>Iam_rls\<close> the role a tenant transaction
  assumes.  A session is its role and the setting \<open>app.tenant_id\<close> (\<open>None\<close>: unset or empty).
\<close>

datatype db_role = App_superuser | Iam_app | Iam_rls

record session =
  s_role :: db_role
  s_tenant :: "uuid option"

text \<open>Policy of a strict table: \<open>tenant_id IS NULL OR tenant_id = app.tenant_id\<close>; without a
  \<open>WITH CHECK\<close> clause the same condition guards writes.\<close>

definition rls_visible :: "session \<Rightarrow> uuid option \<Rightarrow> bool" where
  "rls_visible s t \<longleftrightarrow> s_role s = App_superuser \<or> t = None \<or> t = s_tenant s"

definition pool_session :: "db_role \<Rightarrow> session" where
  "pool_session r = \<lparr>s_role = r, s_tenant = None\<rparr>"

lemma rls_visible_superuser [simp]: "rls_visible \<lparr>s_role = App_superuser, s_tenant = t\<rparr> x"
  by (simp add: rls_visible_def)

lemma rls_visible_template [simp]: "rls_visible s None"
  by (simp add: rls_visible_def)

definition visible_roles :: "session \<Rightarrow> db \<Rightarrow> role_row list" where
  "visible_roles s d = filter (\<lambda>r. rls_visible s (ro_tenant_id r)) (roles d)"

definition visible_user_roles :: "session \<Rightarrow> db \<Rightarrow> user_role_row list" where
  "visible_user_roles s d = filter (\<lambda>r. rls_visible s (Some (ur_tenant_id r))) (user_roles d)"

definition visible_projects :: "session \<Rightarrow> db \<Rightarrow> project_row list" where
  "visible_projects s d = filter (\<lambda>r. rls_visible s (Some (pr_tenant_id r))) (projects d)"

lemma visible_superuser [simp]:
  "visible_roles (pool_session App_superuser) d = roles d"
  "visible_user_roles (pool_session App_superuser) d = user_roles d"
  "visible_projects (pool_session App_superuser) d = projects d"
  by (simp_all add: visible_roles_def visible_user_roles_def visible_projects_def pool_session_def
      rls_visible_def)

end
