(* ===== verification/RepoUsers.thy ===== *)
theory RepoUsers
  imports Schema
begin

text \<open>
  The statements of \<open>src/repo.rs\<close> on identities: users, soft and hard deletion, login
  counters, TOTP enrolment and recovery codes, and the outbox rows written in the same
  transaction.  Every definition is one \<open>Repo\<close> method; \<open>now\<close> is the database's
  \<open>now()\<close>, \<open>fresh\<close> the value of a \<open>gen_random_uuid()\<close> default, \<open>jsonb\<close> the cast
  \<open>$n::jsonb\<close> (\<open>None\<close> when the text is not JSON).
\<close>

section \<open>Rows the statements insert\<close>

definition new_user :: "uuid \<Rightarrow> string \<Rightarrow> string \<Rightarrow> time \<Rightarrow> user_row" where
  "new_user i email hash now =
     \<lparr>u_id = i, u_email = email, u_password_hash = hash, u_status = ''active'',
      u_email_verified = False, u_failed_login_attempts = 0, u_locked_until = None,
      u_totp_secret = None, u_totp_enabled = False, u_deleted_at = None, u_updated_at = now\<rparr>"

definition insert_user :: "uuid \<Rightarrow> string \<Rightarrow> string \<Rightarrow> time \<Rightarrow> unit query" where [query_defs]:
  "insert_user i email hash now d =
     (if exists_where (\<lambda>u. u_id u = i \<or> u_email u = email) (users d) then Inl Unique_violation
      else Inr ((), d\<lparr>users := users d @ [new_user i email hash now]\<rparr>))"

text \<open>\<open>INSERT INTO user_roles ... ON CONFLICT DO NOTHING\<close> for one selected role: the policy's
  check and the foreign keys apply to the proposed row; the unique index is on
  \<open>COALESCE(project_id, nil)\<close>.\<close>

definition ur_key :: "user_role_row \<Rightarrow> uuid \<times> int \<times> uuid \<times> uuid" where
  "ur_key r = (ur_user_id r, ur_role_id r, ur_tenant_id r,
     (case ur_project_id r of None \<Rightarrow> 0 | Some p \<Rightarrow> p))"

definition insert_user_role :: "session \<Rightarrow> user_role_row \<Rightarrow> unit query" where [query_defs]:
  "insert_user_role s r d =
     (if \<not> rls_visible s (Some (ur_tenant_id r)) then Inl Rls_violation
      else if exists_where (\<lambda>x. ur_key x = ur_key r) (user_roles d) then Inr ((), d)
      else if \<not> has_user (ur_user_id r) d \<or> \<not> has_tenant (ur_tenant_id r) d
              \<or> \<not> has_project (ur_project_id r) d then Inl Fk_violation
      else Inr ((), d\<lparr>user_roles := user_roles d @ [r]\<rparr>))"

fun insert_user_roles :: "session \<Rightarrow> user_role_row list \<Rightarrow> unit query" where
  "insert_user_roles s [] d = Inr ((), d)"
| "insert_user_roles s (r # rs) d =
     (case insert_user_role s r d of Inl e \<Rightarrow> Inl e | Inr (_, d') \<Rightarrow> insert_user_roles s rs d')"

text \<open>\<open>INSERT INTO user_roles (user_id, role_id) SELECT $1, r.id FROM roles r WHERE r.name = $2\<close>:
  the tenant column takes its default, the default tenant.\<close>

definition default_role_rows :: "session \<Rightarrow> uuid \<Rightarrow> string \<Rightarrow> db \<Rightarrow> user_role_row list" where
  "default_role_rows s i role d =
     map (\<lambda>r. \<lparr>ur_user_id = i, ur_role_id = ro_id r, ur_tenant_id = default_tenant_id,
               ur_project_id = None\<rparr>)
       (filter (\<lambda>r. ro_name r = role) (visible_roles s d))"

definition insert_outbox :: "(string \<Rightarrow> string option) \<Rightarrow> uuid \<Rightarrow> time \<Rightarrow> uuid \<Rightarrow> string \<Rightarrow> string \<Rightarrow> unit query"
  where [query_defs]:
  "insert_outbox jsonb fresh now aggregate event_type payload d =
     (case jsonb payload of
        None \<Rightarrow> Inl Invalid_json
      | Some j \<Rightarrow>
          if exists_where (\<lambda>o'. ob_id o' = fresh) (outbox d) then Inl Unique_violation
          else Inr ((), d\<lparr>outbox := outbox d @
                 [\<lparr>ob_id = fresh, ob_aggregate_id = aggregate, ob_event_type = event_type,
                   ob_payload = j, ob_created_at = now, ob_published_at = None\<rparr>]\<rparr>))"

section \<open>Creating identities\<close>

definition create_user :: "uuid \<Rightarrow> time \<Rightarrow> string \<Rightarrow> string \<Rightarrow> uuid query" where [query_defs]:
  "create_user fresh now email hash =
     then_query (insert_user fresh email hash now) (\<lambda>_. reading (\<lambda>_. fresh))"

text \<open>The session of the transaction is the connection's role with \<open>app.tenant_id\<close> set to the
  default tenant.\<close>

definition default_tenant_tx :: "db_role \<Rightarrow> session" where
  "default_tenant_tx role = \<lparr>s_role = role, s_tenant = Some default_tenant_id\<rparr>"

definition create_user_with_role ::
  "db_role \<Rightarrow> uuid \<Rightarrow> time \<Rightarrow> string \<Rightarrow> string \<Rightarrow> string \<Rightarrow> uuid query" where [query_defs]:
  "create_user_with_role conn fresh now email hash role =
     then_query (insert_user fresh email hash now) (\<lambda>_.
     then_query (\<lambda>d. insert_user_roles (default_tenant_tx conn)
                  (default_role_rows (default_tenant_tx conn) fresh role d) d) (\<lambda>_.
     reading (\<lambda>_. fresh)))"

definition create_user_with_role_event ::
  "db_role \<Rightarrow> (string \<Rightarrow> string option) \<Rightarrow> uuid \<Rightarrow> time \<Rightarrow>
   uuid \<Rightarrow> string \<Rightarrow> string \<Rightarrow> string \<Rightarrow> string \<Rightarrow> string \<Rightarrow> unit query" where [query_defs]:
  "create_user_with_role_event conn jsonb fresh now i email hash role event_type payload =
     then_query (insert_user i email hash now) (\<lambda>_.
     then_query (\<lambda>d. insert_user_roles (default_tenant_tx conn)
                  (default_role_rows (default_tenant_tx conn) i role d) d) (\<lambda>_.
     insert_outbox jsonb fresh now i event_type payload))"

section \<open>Reading identities\<close>

definition get_user_by_email :: "string \<Rightarrow> user_row option query" where [query_defs]:
  "get_user_by_email email = reading (\<lambda>d. find (\<lambda>u. u_email u = email) (users d))"

definition get_user_by_id :: "uuid \<Rightarrow> user_row option query" where [query_defs]:
  "get_user_by_id i = reading (\<lambda>d. find (\<lambda>u. u_id u = i) (users d))"

definition is_user_active :: "uuid \<Rightarrow> bool query" where [query_defs]:
  "is_user_active i = reading (\<lambda>d.
     case find (\<lambda>u. u_id u = i) (users d) of None \<Rightarrow> False | Some u \<Rightarrow> u_deleted_at u = None)"

section \<open>Deleting and restoring identities\<close>

text \<open>\<open>DELETE FROM users\<close> with the cascades the migrations declare on \<open>users(id)\<close>.\<close>

definition purge_user :: "uuid \<Rightarrow> db \<Rightarrow> db" where
  "purge_user i d = d
     \<lparr>users := delete_where (\<lambda>u. u_id u = i) (users d),
      refresh_tokens := delete_where (\<lambda>r. rt_user_id r = i) (refresh_tokens d),
      user_roles := delete_where (\<lambda>r. ur_user_id r = i) (user_roles d),
      email_verifications := delete_where (\<lambda>r. ot_user_id r = i) (email_verifications d),
      password_resets := delete_where (\<lambda>r. ot_user_id r = i) (password_resets d),
      recovery_codes := delete_where (\<lambda>r. rc_user_id r = i) (recovery_codes d),
      api_keys := delete_where (\<lambda>r. ak_user_id r = i) (api_keys d),
      memberships := delete_where (\<lambda>r. me_user_id r = i) (memberships d)\<rparr>"

definition delete_user :: "uuid \<Rightarrow> unit query" where [query_defs]:
  "delete_user i = writing (purge_user i)"

definition soft_delete_user :: "time \<Rightarrow> uuid \<Rightarrow> db \<Rightarrow> db" where
  "soft_delete_user now i d = d
     \<lparr>users := update_where (\<lambda>u. u_id u = i \<and> u_deleted_at u = None)
                 (\<lambda>u. u\<lparr>u_deleted_at := Some now, u_updated_at := now\<rparr>) (users d),
      refresh_tokens := update_where (\<lambda>r. rt_user_id r = i \<and> rt_revoked_at r = None)
                 (\<lambda>r. r\<lparr>rt_revoked_at := Some now\<rparr>) (refresh_tokens d)\<rparr>"

definition delete_user_event_soft ::
  "(string \<Rightarrow> string option) \<Rightarrow> uuid \<Rightarrow> time \<Rightarrow> uuid \<Rightarrow> bool \<Rightarrow> string \<Rightarrow> string \<Rightarrow> unit query" where
  [query_defs]:
  "delete_user_event_soft jsonb fresh now i hard event_type payload =
     then_query (writing (if hard then purge_user i else soft_delete_user now i)) (\<lambda>_.
     insert_outbox jsonb fresh now i event_type payload)"

definition restore_user_event ::
  "(string \<Rightarrow> string option) \<Rightarrow> uuid \<Rightarrow> time \<Rightarrow> uuid \<Rightarrow> string \<Rightarrow> string \<Rightarrow> unit query" where [query_defs]:
  "restore_user_event jsonb fresh now i event_type payload =
     then_query (writing (\<lambda>d. d\<lparr>users := update_where (\<lambda>u. u_id u = i)
                   (\<lambda>u. u\<lparr>u_deleted_at := None, u_updated_at := now\<rparr>) (users d)\<rparr>)) (\<lambda>_.
     insert_outbox jsonb fresh now i event_type payload)"

section \<open>Columns of one user\<close>

definition update_user :: "uuid \<Rightarrow> (user_row \<Rightarrow> user_row) \<Rightarrow> db \<Rightarrow> db" where
  "update_user i f d = d\<lparr>users := update_where (\<lambda>u. u_id u = i) f (users d)\<rparr>"

definition set_totp_secret :: "time \<Rightarrow> uuid \<Rightarrow> string \<Rightarrow> unit query" where [query_defs]:
  "set_totp_secret now i secret = writing (update_user i
     (\<lambda>u. u\<lparr>u_totp_secret := Some secret, u_totp_enabled := False, u_updated_at := now\<rparr>))"

definition enable_totp :: "time \<Rightarrow> uuid \<Rightarrow> unit query" where [query_defs]:
  "enable_totp now i = writing (update_user i
     (\<lambda>u. u\<lparr>u_totp_enabled := True, u_updated_at := now\<rparr>))"

definition disable_totp :: "time \<Rightarrow> uuid \<Rightarrow> unit query" where [query_defs]:
  "disable_totp now i = writing (update_user i
     (\<lambda>u. u\<lparr>u_totp_secret := None, u_totp_enabled := False, u_updated_at := now\<rparr>))"

text \<open>\<open>UPDATE ... RETURNING\<close> read with \<open>fetch_one\<close>: no such user is an error, and so is a
  counter that leaves the range of \<open>INT\<close>.\<close>

definition increment_login_failure :: "uuid \<Rightarrow> int query" where [query_defs]:
  "increment_login_failure i d =
     (case find (\<lambda>u. u_id u = i) (users d) of
        None \<Rightarrow> Inl Row_not_found
      | Some u \<Rightarrow>
          let n = u_failed_login_attempts u + 1 in
          if n > 2147483647 then Inl Out_of_range
          else Inr (n, update_user i
                 (\<lambda>u. u\<lparr>u_failed_login_attempts := u_failed_login_attempts u + 1\<rparr>) d))"

definition lock_user :: "uuid \<Rightarrow> time \<Rightarrow> unit query" where [query_defs]:
  "lock_user i until = writing (update_user i
     (\<lambda>u. u\<lparr>u_locked_until := Some until, u_failed_login_attempts := 0\<rparr>))"

definition reset_login_state :: "uuid \<Rightarrow> unit query" where [query_defs]:
  "reset_login_state i = writing (update_user i
     (\<lambda>u. u\<lparr>u_failed_login_attempts := 0, u_locked_until := None\<rparr>))"

definition mark_email_verified :: "uuid \<Rightarrow> unit query" where [query_defs]:
  "mark_email_verified i = writing (update_user i (\<lambda>u. u\<lparr>u_email_verified := True\<rparr>))"

definition update_password :: "time \<Rightarrow> uuid \<Rightarrow> string \<Rightarrow> unit query" where [query_defs]:
  "update_password now i hash = writing (update_user i
     (\<lambda>u. u\<lparr>u_password_hash := hash, u_updated_at := now\<rparr>))"

section \<open>Recovery codes\<close>

definition insert_recovery_code :: "uuid \<Rightarrow> string \<Rightarrow> unit query" where [query_defs]:
  "insert_recovery_code i h d =
     (if \<not> has_user i d then Inl Fk_violation
      else Inr ((), d\<lparr>recovery_codes := recovery_codes d @
             [\<lparr>rc_id = recovery_seq d, rc_user_id = i, rc_code_hash = h, rc_used_at = None\<rparr>],
           recovery_seq := recovery_seq d + 1\<rparr>))"

definition delete_recovery_codes :: "uuid \<Rightarrow> unit query" where [query_defs]:
  "delete_recovery_codes i = writing (\<lambda>d. d
     \<lparr>recovery_codes := delete_where (\<lambda>r. rc_user_id r = i) (recovery_codes d)\<rparr>)"

definition spendable_code :: "uuid \<Rightarrow> string \<Rightarrow> recovery_code_row \<Rightarrow> bool" where
  "spendable_code i h r \<longleftrightarrow> rc_user_id r = i \<and> rc_code_hash r = h \<and> rc_used_at r = None"

definition consume_recovery_code :: "time \<Rightarrow> uuid \<Rightarrow> string \<Rightarrow> bool query" where [query_defs]:
  "consume_recovery_code now i h d =
     Inr (exists_where (spendable_code i h) (recovery_codes d),
          d\<lparr>recovery_codes :=
              update_where (spendable_code i h) (\<lambda>r. r\<lparr>rc_used_at := Some now\<rparr>) (recovery_codes d)\<rparr>)"

section \<open>Facts\<close>

lemma insert_user_role_InrD:
  assumes "insert_user_role s r d = Inr (x, d')"
  shows "(d' = d \<and> ur_key r \<in> set (map ur_key (user_roles d))) \<or>
    (d' = d\<lparr>user_roles := user_roles d @ [r]\<rparr> \<and> ur_key r \<notin> set (map ur_key (user_roles d)) \<and>
     has_user (ur_user_id r) d \<and> has_tenant (ur_tenant_id r) d \<and> has_project (ur_project_id r) d)"
    and "rls_visible s (Some (ur_tenant_id r))"
  using assms by (auto simp: insert_user_role_def exists_where_key split: if_splits)

lemma has_user_roles_update [simp]:
  "has_user i (d\<lparr>user_roles := x\<rparr>) = has_user i d"
  "has_tenant t (d\<lparr>user_roles := x\<rparr>) = has_tenant t d"
  "has_project p (d\<lparr>user_roles := x\<rparr>) = has_project p d"
  by (simp_all add: has_user_def has_tenant_def has_project_def split: option.split)

lemma insert_user_roles_append:
  "insert_user_roles s rs d = Inr (x, d') \<Longrightarrow>
   \<exists>new. d' = d\<lparr>user_roles := user_roles d @ new\<rparr> \<and> set new \<subseteq> set rs \<and>
         ur_key ` set rs \<subseteq> ur_key ` set (user_roles d') \<and>
         (\<forall>r\<in>set new. rls_visible s (Some (ur_tenant_id r)) \<and> has_user (ur_user_id r) d \<and>
            has_tenant (ur_tenant_id r) d \<and> has_project (ur_project_id r) d) \<and>
         (distinct (map ur_key (user_roles d)) \<longrightarrow> distinct (map ur_key (user_roles d')))"
proof (induction rs arbitrary: d)
  case Nil
  then show ?case by (auto intro: exI [of _ "[]"])
next
  case (Cons r rs)
  then obtain d1 where step: "insert_user_role s r d = Inr ((), d1)"
    and rest: "insert_user_roles s rs d1 = Inr (x, d')"
    by (auto split: sum.splits prod.splits)
  note inv = insert_user_role_InrD [OF step]
  from Cons.IH [OF rest] obtain new where
    new: "d' = d1\<lparr>user_roles := user_roles d1 @ new\<rparr>" "set new \<subseteq> set rs"
      "ur_key ` set rs \<subseteq> ur_key ` set (user_roles d')"
      "\<forall>r\<in>set new. rls_visible s (Some (ur_tenant_id r)) \<and> has_user (ur_user_id r) d1 \<and>
         has_tenant (ur_tenant_id r) d1 \<and> has_project (ur_project_id r) d1"
      "distinct (map ur_key (user_roles d1)) \<longrightarrow> distinct (map ur_key (user_roles d'))"
    by blast
  from inv(1) show ?case
  proof
    assume "d1 = d \<and> ur_key r \<in> set (map ur_key (user_roles d))"
    with new inv(2) show ?thesis by (intro exI [of _ new]) auto
  next
    assume "d1 = d\<lparr>user_roles := user_roles d @ [r]\<rparr> \<and> ur_key r \<notin> set (map ur_key (user_roles d)) \<and>
     has_user (ur_user_id r) d \<and> has_tenant (ur_tenant_id r) d \<and> has_project (ur_project_id r) d"
    with new inv(2) show ?thesis by (intro exI [of _ "r # new"]) auto
  qed
qed

lemma find_update_user:
  "(\<And>u. u_id (f u) = u_id u) \<Longrightarrow>
   find (\<lambda>u. u_id u = i) (users (update_user i f d)) =
     map_option f (find (\<lambda>u. u_id u = i) (users d))"
  by (auto simp: update_user_def find_update_where dest: find_SomeD split: option.splits
      intro!: option.map_cong)

lemma consume_recovery_code_once:
  assumes "consume_recovery_code now i h d = Inr (r, d')"
  shows "consume_recovery_code now' i h d' = Inr (False, d')"
proof -
  have d': "d' = d\<lparr>recovery_codes :=
      update_where (spendable_code i h) (\<lambda>r. r\<lparr>rc_used_at := Some now\<rparr>) (recovery_codes d)\<rparr>"
    using assms by (simp add: consume_recovery_code_def)
  have "\<not> exists_where (spendable_code i h) (recovery_codes d')"
    unfolding d' by (simp add: exists_where_updated spendable_code_def)
  then show ?thesis
    by (simp add: consume_recovery_code_def update_where_none)
qed

end
