(* ===== verification/RepoTokens.thy ===== *)
theory RepoTokens
  imports RepoUsers
begin

text \<open>
  The statements of \<open>src/repo.rs\<close> on secrets and logs: refresh tokens, the access-token
  denylist, one-time e-mail and reset tokens, API keys, the audit trail and the outbox.
\<close>

section \<open>Refresh tokens\<close>

definition create_refresh_token ::
  "uuid \<Rightarrow> string \<Rightarrow> time \<Rightarrow> uuid \<Rightarrow> uuid option \<Rightarrow> unit query" where [query_defs]:
  "create_refresh_token user_id token_hash expires_at tenant_id project_id d =
     (if exists_where (\<lambda>r. rt_token_hash r = token_hash) (refresh_tokens d) then Inl Unique_violation
      else if \<not> has_user user_id d \<or> \<not> has_tenant tenant_id d \<or> \<not> has_project project_id d
        then Inl Fk_violation
      else Inr ((), d\<lparr>refresh_tokens := refresh_tokens d @
             [\<lparr>rt_user_id = user_id, rt_token_hash = token_hash, rt_expires_at = expires_at,
               rt_revoked_at = None, rt_replaced_by = None, rt_tenant_id = tenant_id,
               rt_project_id = project_id\<rparr>]\<rparr>))"

definition get_refresh_token :: "string \<Rightarrow> refresh_token_row option query" where [query_defs]:
  "get_refresh_token h = reading (\<lambda>d. find (\<lambda>r. rt_token_hash r = h) (refresh_tokens d))"

definition revoke_refresh_token :: "time \<Rightarrow> string \<Rightarrow> unit query" where [query_defs]:
  "revoke_refresh_token now h = writing (\<lambda>d. d\<lparr>refresh_tokens :=
     update_where (\<lambda>r. rt_token_hash r = h \<and> rt_revoked_at r = None)
       (\<lambda>r. r\<lparr>rt_revoked_at := Some now\<rparr>) (refresh_tokens d)\<rparr>)"

definition rotate_refresh_token :: "time \<Rightarrow> string \<Rightarrow> string \<Rightarrow> unit query" where [query_defs]:
  "rotate_refresh_token now h replaced_by = writing (\<lambda>d. d\<lparr>refresh_tokens :=
     update_where (\<lambda>r. rt_token_hash r = h \<and> rt_revoked_at r = None)
       (\<lambda>r. r\<lparr>rt_revoked_at := Some now, rt_replaced_by := Some replaced_by\<rparr>)
       (refresh_tokens d)\<rparr>)"

definition revoke_all_user_refresh_tokens :: "time \<Rightarrow> uuid \<Rightarrow> unit query" where [query_defs]:
  "revoke_all_user_refresh_tokens now i = writing (\<lambda>d. d\<lparr>refresh_tokens :=
     update_where (\<lambda>r. rt_user_id r = i \<and> rt_revoked_at r = None)
       (\<lambda>r. r\<lparr>rt_revoked_at := Some now\<rparr>) (refresh_tokens d)\<rparr>)"

section \<open>Access-token denylist\<close>

definition revoke_access_jti :: "time \<Rightarrow> string \<Rightarrow> time \<Rightarrow> unit query" where [query_defs]:
  "revoke_access_jti now jti expires_at = writing (\<lambda>d.
     if exists_where (\<lambda>r. rv_jti r = jti) (revoked_tokens d) then d
     else d\<lparr>revoked_tokens := revoked_tokens d @
            [\<lparr>rv_jti = jti, rv_expires_at = expires_at, rv_revoked_at = now\<rparr>]\<rparr>)"

definition is_token_revoked :: "string \<Rightarrow> bool query" where [query_defs]:
  "is_token_revoked jti = reading (\<lambda>d. exists_where (\<lambda>r. rv_jti r = jti) (revoked_tokens d))"

section \<open>One-time tokens\<close>

definition create_email_verification :: "string \<Rightarrow> uuid \<Rightarrow> time \<Rightarrow> unit query" where [query_defs]:
  "create_email_verification h i expires_at d =
     (if exists_where (\<lambda>r. ot_token_hash r = h) (email_verifications d) then Inl Unique_violation
      else if \<not> has_user i d then Inl Fk_violation
      else Inr ((), d\<lparr>email_verifications := email_verifications d @
             [\<lparr>ot_token_hash = h, ot_user_id = i, ot_expires_at = expires_at,
               ot_consumed_at = None\<rparr>]\<rparr>))"

definition create_password_reset :: "string \<Rightarrow> uuid \<Rightarrow> time \<Rightarrow> unit query" where [query_defs]:
  "create_password_reset h i expires_at d =
     (if exists_where (\<lambda>r. ot_token_hash r = h) (password_resets d) then Inl Unique_violation
      else if \<not> has_user i d then Inl Fk_violation
      else Inr ((), d\<lparr>password_resets := password_resets d @
             [\<lparr>ot_token_hash = h, ot_user_id = i, ot_expires_at = expires_at,
               ot_consumed_at = None\<rparr>]\<rparr>))"

definition spendable_token :: "time \<Rightarrow> string \<Rightarrow> one_time_row \<Rightarrow> bool" where
  "spendable_token now h r \<longleftrightarrow>
     ot_token_hash r = h \<and> ot_consumed_at r = None \<and> now < ot_expires_at r"

text \<open>\<open>UPDATE ... SET consumed_at = now() WHERE ... RETURNING user_id\<close>, read with
  \<open>fetch_optional\<close>.\<close>

definition consume_email_verification :: "time \<Rightarrow> string \<Rightarrow> uuid option query" where [query_defs]:
  "consume_email_verification now h d =
     Inr (map_option ot_user_id (find (spendable_token now h) (email_verifications d)),
          d\<lparr>email_verifications := update_where (spendable_token now h)
              (\<lambda>r. r\<lparr>ot_consumed_at := Some now\<rparr>) (email_verifications d)\<rparr>)"

definition consume_password_reset :: "time \<Rightarrow> string \<Rightarrow> uuid option query" where [query_defs]:
  "consume_password_reset now h d =
     Inr (map_option ot_user_id (find (spendable_token now h) (password_resets d)),
          d\<lparr>password_resets := update_where (spendable_token now h)
              (\<lambda>r. r\<lparr>ot_consumed_at := Some now\<rparr>) (password_resets d)\<rparr>)"

section \<open>API keys\<close>

definition create_api_key ::
  "time \<Rightarrow> string \<Rightarrow> uuid \<Rightarrow> string \<Rightarrow> string \<Rightarrow> string list \<Rightarrow> time option \<Rightarrow> uuid \<Rightarrow> uuid option \<Rightarrow>
   unit query" where [query_defs]:
  "create_api_key now i user_id key_hash name scopes expires_at tenant_id project_id d =
     (if exists_where (\<lambda>r. ak_id r = i \<or> ak_key_hash r = key_hash) (api_keys d)
        then Inl Unique_violation
      else if \<not> has_user user_id d \<or> \<not> has_tenant tenant_id d \<or> \<not> has_project project_id d
        then Inl Fk_violation
      else Inr ((), d\<lparr>api_keys := api_keys d @
             [\<lparr>ak_id = i, ak_user_id = user_id, ak_key_hash = key_hash, ak_name = name,
               ak_scopes = scopes, ak_expires_at = expires_at, ak_revoked_at = None,
               ak_last_used_at = None, ak_created_at = now, ak_tenant_id = tenant_id,
               ak_project_id = project_id\<rparr>]\<rparr>))"

definition get_api_key_by_hash :: "string \<Rightarrow> api_key_row option query" where [query_defs]:
  "get_api_key_by_hash h = reading (\<lambda>d. find (\<lambda>r. ak_key_hash r = h) (api_keys d))"

definition list_api_keys :: "uuid \<Rightarrow> api_key_row list query" where [query_defs]:
  "list_api_keys i = reading (\<lambda>d.
     order_by (\<lambda>a b. ak_created_at b \<le> ak_created_at a)
       (filter (\<lambda>r. ak_user_id r = i \<and> ak_revoked_at r = None) (api_keys d)))"

definition revoke_api_key :: "time \<Rightarrow> string \<Rightarrow> uuid \<Rightarrow> unit query" where [query_defs]:
  "revoke_api_key now i user_id = writing (\<lambda>d. d\<lparr>api_keys :=
     update_where (\<lambda>r. ak_id r = i \<and> ak_user_id r = user_id \<and> ak_revoked_at r = None)
       (\<lambda>r. r\<lparr>ak_revoked_at := Some now\<rparr>) (api_keys d)\<rparr>)"

definition touch_api_key :: "time \<Rightarrow> string \<Rightarrow> unit query" where [query_defs]:
  "touch_api_key now i = writing (\<lambda>d. d\<lparr>api_keys :=
     update_where (\<lambda>r. ak_id r = i) (\<lambda>r. r\<lparr>ak_last_used_at := Some now\<rparr>) (api_keys d)\<rparr>)"

section \<open>Audit trail\<close>

definition insert_audit ::
  "time \<Rightarrow> string \<Rightarrow> string \<Rightarrow> string \<Rightarrow> string \<Rightarrow> string \<Rightarrow> uuid option \<Rightarrow> unit query" where [query_defs]:
  "insert_audit now actor_id actor_email action target detail tenant_id =
     writing (\<lambda>d. d\<lparr>audit_events := audit_events d @
       [\<lparr>au_id = audit_seq d, au_actor_id = actor_id, au_actor_email = actor_email,
         au_action = action, au_target = target, au_detail = detail, au_tenant_id = tenant_id,
         au_created_at = now\<rparr>], audit_seq := audit_seq d + 1\<rparr>)"

text \<open>\<open>LIMIT $2\<close>: a negative limit is an error in Postgres.\<close>

definition list_audit :: "uuid \<Rightarrow> int \<Rightarrow> audit_row list query" where [query_defs]:
  "list_audit tenant_id limit d =
     (if limit < 0 then Inl Out_of_range
      else Inr (take (nat limit) (order_by (\<lambda>a b. au_id b \<le> au_id a)
             (filter (\<lambda>r. au_tenant_id r = Some tenant_id) (audit_events d))), d))"

section \<open>Outbox\<close>

definition fetch_unpublished_outbox :: "int \<Rightarrow> outbox_row list query" where [query_defs]:
  "fetch_unpublished_outbox limit d =
     (if limit < 0 then Inl Out_of_range
      else Inr (take (nat limit) (order_by (\<lambda>a b. ob_created_at a \<le> ob_created_at b)
             (filter (\<lambda>r. ob_published_at r = None) (outbox d))), d))"

definition mark_outbox_published :: "time \<Rightarrow> uuid \<Rightarrow> unit query" where [query_defs]:
  "mark_outbox_published now i = writing (\<lambda>d. d\<lparr>outbox :=
     update_where (\<lambda>r. ob_id r = i) (\<lambda>r. r\<lparr>ob_published_at := Some now\<rparr>) (outbox d)\<rparr>)"

end
