(* ===== verification/RepoTenancy.thy ===== *)
theory RepoTenancy
  imports RepoTokens
begin

text \<open>
  The statements of \<open>src/repo.rs\<close> on tenants, projects, memberships, roles and permissions.
  A method that runs on the pool sees the connection role's session with no tenant, one that opens
  \<open>tenant_tx\<close> the restricted role with the tenant set, one that opens \<open>tenant_guc_tx\<close> the
  connection role with the tenant set; the strict tables are read and written through
  that session.  \<open>le\<close> is the database's text collation.
\<close>

section \<open>Sessions\<close>

definition tenant_tx :: "uuid \<Rightarrow> session" where
  "tenant_tx t = \<lparr>s_role = Iam_rls, s_tenant = Some t\<rparr>"

definition tenant_guc_tx :: "db_role \<Rightarrow> uuid \<Rightarrow> session" where
  "tenant_guc_tx conn t = \<lparr>s_role = conn, s_tenant = Some t\<rparr>"

lemma rls_visible_tenant_tx [simp]:
  "rls_visible (tenant_tx t) x \<longleftrightarrow> x = None \<or> x = Some t"
  by (auto simp: tenant_tx_def rls_visible_def)

lemma rls_visible_own_tenant [simp]: "rls_visible (tenant_guc_tx conn t) (Some t)"
  by (simp add: tenant_guc_tx_def rls_visible_def)

section \<open>Memberships and tenants\<close>

record membership_view =
  mv_tenant_id :: uuid
  mv_tenant_slug :: string
  mv_tenant_name :: string
  mv_status :: string

definition list_memberships :: "(string \<Rightarrow> string \<Rightarrow> bool) \<Rightarrow> uuid \<Rightarrow> membership_view list query" where
  [query_defs]:
  "list_memberships le i = reading (\<lambda>d.
     order_by (\<lambda>a b. le (mv_tenant_name a) (mv_tenant_name b))
       [\<lparr>mv_tenant_id = te_id t, mv_tenant_slug = te_slug t, mv_tenant_name = te_name t,
         mv_status = me_status m\<rparr>.
         m \<leftarrow> memberships d, t \<leftarrow> tenants d,
         te_id t = me_tenant_id m \<and> me_user_id m = i \<and> me_status m = ''active''
           \<and> te_status t = ''active''])"

definition active_member :: "uuid \<Rightarrow> uuid \<Rightarrow> db \<Rightarrow> bool" where
  "active_member i tenant d \<longleftrightarrow>
     exists_where (\<lambda>m. me_user_id m = i \<and> me_tenant_id m = tenant \<and> me_status m = ''active''
       \<and> exists_where (\<lambda>t. te_id t = me_tenant_id m \<and> te_status t = ''active'') (tenants d))
       (memberships d)"

definition is_active_member :: "uuid \<Rightarrow> uuid \<Rightarrow> bool query" where [query_defs]:
  "is_active_member i tenant = reading (active_member i tenant)"

definition get_default_project :: "db_role \<Rightarrow> (string \<Rightarrow> string \<Rightarrow> bool) \<Rightarrow> uuid \<Rightarrow> uuid option query" where
  [query_defs]:
  "get_default_project conn le tenant = reading (\<lambda>d.
     case order_by (\<lambda>a b. le (pr_slug a) (pr_slug b))
            (filter (\<lambda>p. pr_tenant_id p = tenant) (visible_projects (pool_session conn) d)) of
       [] \<Rightarrow> None | p # _ \<Rightarrow> Some (pr_id p))"

definition insert_membership :: "uuid \<Rightarrow> uuid \<Rightarrow> unit query" where [query_defs]:
  "insert_membership i tenant d =
     (if exists_where (\<lambda>m. me_user_id m = i \<and> me_tenant_id m = tenant) (memberships d)
        then Inr ((), d)
      else if \<not> has_user i d \<or> \<not> has_tenant tenant d then Inl Fk_violation
      else Inr ((), d\<lparr>memberships := memberships d @
             [\<lparr>me_user_id = i, me_tenant_id = tenant, me_status = ''active''\<rparr>]\<rparr>))"

definition create_membership :: "uuid \<Rightarrow> uuid \<Rightarrow> unit query" where [query_defs]:
  "create_membership i tenant = insert_membership i tenant"

text \<open>The same insert inside a tenant transaction; \<open>memberships\<close> is permissive, so the
  session adds no condition.\<close>

definition add_member :: "uuid \<Rightarrow> uuid \<Rightarrow> unit query" where [query_defs]:
  "add_member i tenant = insert_membership i tenant"

definition remove_member :: "uuid \<Rightarrow> uuid \<Rightarrow> unit query" where [query_defs]:
  "remove_member i tenant = writing (\<lambda>d. d\<lparr>memberships :=
     delete_where (\<lambda>m. me_user_id m = i \<and> me_tenant_id m = tenant) (memberships d)\<rparr>)"

definition insert_tenant :: "uuid \<Rightarrow> string \<Rightarrow> string \<Rightarrow> tenant_row query" where [query_defs]:
  "insert_tenant fresh slug name d =
     (if exists_where (\<lambda>t. te_id t = fresh \<or> te_slug t = slug) (tenants d)
        then Inl Unique_violation
      else let t = \<lparr>te_id = fresh, te_slug = slug, te_name = name, te_status = ''active''\<rparr>
           in Inr (t, d\<lparr>tenants := tenants d @ [t]\<rparr>))"

text \<open>The admin template rows granted to the creator: \<open>r.name = 'admin' AND r.tenant_id IS NULL\<close>.
  The transaction sets no tenant.\<close>

definition admin_template_rows :: "db_role \<Rightarrow> uuid \<Rightarrow> uuid \<Rightarrow> db \<Rightarrow> user_role_row list" where
  "admin_template_rows conn creator tenant d =
     map (\<lambda>r. \<lparr>ur_user_id = creator, ur_role_id = ro_id r, ur_tenant_id = tenant,
               ur_project_id = None\<rparr>)
       (filter (\<lambda>r. ro_name r = ''admin'' \<and> ro_tenant_id r = None)
          (visible_roles (pool_session conn) d))"

definition create_tenant_with_admin ::
  "db_role \<Rightarrow> uuid \<Rightarrow> string \<Rightarrow> string \<Rightarrow> uuid \<Rightarrow> tenant_row query" where [query_defs]:
  "create_tenant_with_admin conn fresh slug name creator =
     then_query (insert_tenant fresh slug name) (\<lambda>t.
     then_query (insert_membership creator (te_id t)) (\<lambda>_.
     then_query (\<lambda>d. insert_user_roles (pool_session conn)
                  (admin_template_rows conn creator (te_id t) d) d) (\<lambda>_.
     reading (\<lambda>_. t))))"

definition list_tenants :: "(string \<Rightarrow> string \<Rightarrow> bool) \<Rightarrow> tenant_row list query" where [query_defs]:
  "list_tenants le = reading (\<lambda>d. order_by (\<lambda>a b. le (te_name a) (te_name b)) (tenants d))"

record member_view =
  mb_user_id :: uuid
  mb_email :: string
  mb_status :: string

definition list_members_by_tenant :: "(string \<Rightarrow> string \<Rightarrow> bool) \<Rightarrow> uuid \<Rightarrow> member_view list query" where
  [query_defs]:
  "list_members_by_tenant le tenant = reading (\<lambda>d.
     order_by (\<lambda>a b. le (mb_email a) (mb_email b))
       [\<lparr>mb_user_id = u_id u, mb_email = u_email u, mb_status = me_status m\<rparr>.
         m \<leftarrow> memberships d, u \<leftarrow> users d, u_id u = me_user_id m \<and> me_tenant_id m = tenant])"

section \<open>Projects\<close>

definition create_project :: "uuid \<Rightarrow> uuid \<Rightarrow> string \<Rightarrow> string \<Rightarrow> project_row query" where [query_defs]:
  "create_project fresh tenant slug name d =
     (let p = \<lparr>pr_id = fresh, pr_tenant_id = tenant, pr_slug = slug, pr_name = name\<rparr> in
      if \<not> rls_visible (tenant_tx tenant) (Some (pr_tenant_id p)) then Inl Rls_violation
      else if exists_where (\<lambda>r. pr_id r = fresh \<or> pr_tenant_id r = tenant \<and> pr_slug r = slug)
                (projects d) then Inl Unique_violation
      else if \<not> has_tenant tenant d then Inl Fk_violation
      else Inr (p, d\<lparr>projects := projects d @ [p]\<rparr>))"

definition list_projects_by_tenant :: "(string \<Rightarrow> string \<Rightarrow> bool) \<Rightarrow> uuid \<Rightarrow> project_row list query" where
  [query_defs]:
  "list_projects_by_tenant le tenant = reading (\<lambda>d.
     order_by (\<lambda>a b. le (pr_name a) (pr_name b))
       (filter (\<lambda>p. pr_tenant_id p = tenant) (visible_projects (tenant_tx tenant) d)))"

definition is_project_in_tenant :: "db_role \<Rightarrow> uuid \<Rightarrow> uuid \<Rightarrow> bool query" where [query_defs]:
  "is_project_in_tenant conn project tenant = reading (\<lambda>d.
     exists_where (\<lambda>p. pr_id p = project \<and> pr_tenant_id p = tenant)
       (visible_projects (pool_session conn) d))"

section \<open>Roles held by a user\<close>

text \<open>\<open>ur.project_id IS NULL OR ur.project_id = $3\<close>: with a null parameter the second disjunct is
  unknown and selects nothing.\<close>

definition scope_applies :: "uuid option \<Rightarrow> uuid option \<Rightarrow> bool" where
  "scope_applies assigned token \<longleftrightarrow> assigned = None \<or> (token \<noteq> None \<and> assigned = token)"

definition held_roles :: "session \<Rightarrow> (user_role_row \<Rightarrow> bool) \<Rightarrow> db \<Rightarrow> role_row list" where
  "held_roles s P d =
     [r. ur \<leftarrow> visible_user_roles s d, r \<leftarrow> visible_roles s d, P ur \<and> ro_id r = ur_role_id ur]"

definition held_permissions :: "session \<Rightarrow> (user_role_row \<Rightarrow> bool) \<Rightarrow> db \<Rightarrow> string list" where
  "held_permissions s P d = remdups
     [pe_name p. ur \<leftarrow> visible_user_roles s d, rp \<leftarrow> role_permissions d, p \<leftarrow> permissions d,
                 P ur \<and> fst rp = ur_role_id ur \<and> pe_id p = snd rp]"

definition get_user_roles :: "db_role \<Rightarrow> (string \<Rightarrow> string \<Rightarrow> bool) \<Rightarrow> uuid \<Rightarrow> string list query" where
  [query_defs]:
  "get_user_roles conn le i = reading (\<lambda>d. order_by le
     (map ro_name (held_roles (pool_session conn) (\<lambda>ur. ur_user_id ur = i) d)))"

definition get_user_permissions :: "db_role \<Rightarrow> (string \<Rightarrow> string \<Rightarrow> bool) \<Rightarrow> uuid \<Rightarrow> string list query" where
  [query_defs]:
  "get_user_permissions conn le i = reading (\<lambda>d. order_by le
     (held_permissions (pool_session conn) (\<lambda>ur. ur_user_id ur = i) d))"

definition scoped_to :: "uuid \<Rightarrow> uuid \<Rightarrow> uuid option \<Rightarrow> user_role_row \<Rightarrow> bool" where
  "scoped_to i tenant project ur \<longleftrightarrow>
     ur_user_id ur = i \<and> ur_tenant_id ur = tenant \<and> scope_applies (ur_project_id ur) project"

definition get_user_roles_scoped ::
  "db_role \<Rightarrow> (string \<Rightarrow> string \<Rightarrow> bool) \<Rightarrow> uuid \<Rightarrow> uuid \<Rightarrow> uuid option \<Rightarrow> string list query" where
  [query_defs]:
  "get_user_roles_scoped conn le i tenant project = reading (\<lambda>d. order_by le
     (map ro_name (held_roles (tenant_guc_tx conn tenant) (scoped_to i tenant project) d)))"

definition get_user_permissions_scoped ::
  "db_role \<Rightarrow> (string \<Rightarrow> string \<Rightarrow> bool) \<Rightarrow> uuid \<Rightarrow> uuid \<Rightarrow> uuid option \<Rightarrow> string list query" where
  [query_defs]:
  "get_user_permissions_scoped conn le i tenant project = reading (\<lambda>d. order_by le
     (held_permissions (tenant_guc_tx conn tenant) (scoped_to i tenant project) d))"

record role_assignment_view =
  rav_role :: string
  rav_project_id :: "uuid option"
  rav_project_slug :: "string option"

text \<open>\<open>ORDER BY r.name, p.slug NULLS FIRST\<close>, on the pool.\<close>

definition assignment_le :: "(string \<Rightarrow> string \<Rightarrow> bool) \<Rightarrow> role_assignment_view \<Rightarrow> role_assignment_view \<Rightarrow> bool"
  where
  "assignment_le le a b \<longleftrightarrow>
     (if rav_role a = rav_role b then
        (case (rav_project_slug a, rav_project_slug b) of
           (None, _) \<Rightarrow> True | (Some _, None) \<Rightarrow> False | (Some x, Some y) \<Rightarrow> le x y)
      else le (rav_role a) (rav_role b))"

definition get_user_role_assignments ::
  "db_role \<Rightarrow> (string \<Rightarrow> string \<Rightarrow> bool) \<Rightarrow> uuid \<Rightarrow> uuid \<Rightarrow> role_assignment_view list query" where
  [query_defs]:
  "get_user_role_assignments conn le i tenant = reading (\<lambda>d.
     let s = pool_session conn in
     order_by (assignment_le le)
       [\<lparr>rav_role = ro_name r, rav_project_id = ur_project_id ur,
         rav_project_slug = (case ur_project_id ur of None \<Rightarrow> None | Some p \<Rightarrow>
            map_option pr_slug (find (\<lambda>x. pr_id x = p) (visible_projects s d)))\<rparr>.
         ur \<leftarrow> visible_user_roles s d, r \<leftarrow> visible_roles s d,
         ro_id r = ur_role_id ur \<and> ur_user_id ur = i \<and> ur_tenant_id ur = tenant])"

section \<open>Role lookups\<close>

definition role_exists :: "db_role \<Rightarrow> string \<Rightarrow> bool query" where [query_defs]:
  "role_exists conn name = reading (\<lambda>d.
     exists_where (\<lambda>r. ro_name r = name) (visible_roles (pool_session conn) d))"

definition role_in_tenant :: "db_role \<Rightarrow> string \<Rightarrow> uuid \<Rightarrow> bool query" where [query_defs]:
  "role_in_tenant conn name tenant = reading (\<lambda>d.
     exists_where (\<lambda>r. ro_name r = name \<and> (ro_tenant_id r = Some tenant \<or> ro_tenant_id r = None))
       (visible_roles (pool_session conn) d))"

definition tenant_role_exists :: "db_role \<Rightarrow> string \<Rightarrow> uuid \<Rightarrow> bool query" where [query_defs]:
  "tenant_role_exists conn name tenant = reading (\<lambda>d.
     exists_where (\<lambda>r. ro_name r = name \<and> ro_tenant_id r = Some tenant)
       (visible_roles (pool_session conn) d))"

section \<open>Assigning and revoking roles\<close>

text \<open>\<open>ORDER BY r.tenant_id NULLS LAST LIMIT 1\<close>: under the policy only the tenant's own roles and
  the templates are visible, so the tenant's own role comes first.\<close>

definition resolve_role :: "string \<Rightarrow> uuid \<Rightarrow> db \<Rightarrow> role_row option" where
  "resolve_role name tenant d =
     (let rs = filter (\<lambda>r. ro_name r = name \<and> (ro_tenant_id r = Some tenant \<or> ro_tenant_id r = None))
                 (visible_roles (tenant_tx tenant) d)
      in case find (\<lambda>r. ro_tenant_id r \<noteq> None) rs of Some r \<Rightarrow> Some r
         | None \<Rightarrow> (case rs of [] \<Rightarrow> None | r # _ \<Rightarrow> Some r))"

definition assign_role :: "uuid \<Rightarrow> string \<Rightarrow> uuid \<Rightarrow> uuid option \<Rightarrow> unit query" where [query_defs]:
  "assign_role i name tenant project d =
     (case resolve_role name tenant d of
        None \<Rightarrow> Inr ((), d)
      | Some r \<Rightarrow> insert_user_role (tenant_tx tenant)
          \<lparr>ur_user_id = i, ur_role_id = ro_id r, ur_tenant_id = tenant, ur_project_id = project\<rparr> d)"

text \<open>
  \<open>ur.role_id = (SELECT r.id FROM roles r WHERE r.name = $2)\<close>: a scalar subquery that returns one
  row is its value, and one that returns none is \<open>NULL\<close>, which deletes nothing.  One that returns two
  rows is an error when it is evaluated: it is for a row that meets the other conditions, and
  otherwise as the plan has it (\<open>eager\<close>).
\<close>

definition scope_match :: "uuid \<Rightarrow> uuid \<Rightarrow> uuid option \<Rightarrow> user_role_row \<Rightarrow> bool" where
  "scope_match i tenant project ur \<longleftrightarrow> rls_visible (tenant_tx tenant) (Some (ur_tenant_id ur)) \<and>
     ur_user_id ur = i \<and> ur_tenant_id ur = tenant \<and> ur_project_id ur = project"

definition revoke_role :: "bool \<Rightarrow> uuid \<Rightarrow> string \<Rightarrow> uuid \<Rightarrow> uuid option \<Rightarrow> unit query" where
  [query_defs]:
  "revoke_role eager i name tenant project d =
     (case filter (\<lambda>r. ro_name r = name) (visible_roles (tenant_tx tenant) d) of
        [] \<Rightarrow> Inr ((), d)
      | [r] \<Rightarrow> Inr ((), d\<lparr>user_roles := delete_where
             (\<lambda>ur. scope_match i tenant project ur \<and> ur_role_id ur = ro_id r) (user_roles d)\<rparr>)
      | _ \<Rightarrow> if eager \<or> exists_where (scope_match i tenant project) (user_roles d)
             then Inl Cardinality_violation else Inr ((), d))"

section \<open>Role and permission administration\<close>

text \<open>The two partial unique indexes of \<open>roles\<close>: names of templates, and names per tenant.\<close>

definition create_role :: "string \<Rightarrow> string \<Rightarrow> uuid \<Rightarrow> role_row query" where [query_defs]:
  "create_role name description tenant d =
     (let r = \<lparr>ro_id = role_seq d, ro_name = name, ro_description = description,
               ro_tenant_id = Some tenant\<rparr> in
      if \<not> rls_visible (tenant_tx tenant) (ro_tenant_id r) then Inl Rls_violation
      else if exists_where (\<lambda>x. ro_id x = ro_id r \<or> ro_name x = name \<and> ro_tenant_id x = Some tenant)
                (roles d) then Inl Unique_violation
      else if \<not> has_tenant tenant d then Inl Fk_violation
      else Inr (r, d\<lparr>roles := roles d @ [r], role_seq := role_seq d + 1\<rparr>))"

definition own_role :: "string \<Rightarrow> uuid \<Rightarrow> role_row \<Rightarrow> bool" where
  "own_role name tenant r \<longleftrightarrow> rls_visible (tenant_tx tenant) (ro_tenant_id r) \<and>
     ro_name r = name \<and> ro_tenant_id r = Some tenant"

definition update_role :: "string \<Rightarrow> string \<Rightarrow> uuid \<Rightarrow> role_row option query" where [query_defs]:
  "update_role name description tenant d =
     (let d' = d\<lparr>roles := update_where (own_role name tenant)
                  (\<lambda>r. r\<lparr>ro_description := description\<rparr>) (roles d)\<rparr>
      in Inr (find (own_role name tenant) (roles d'), d'))"

text \<open>\<open>DELETE FROM roles\<close> cascades to the role's permissions and assignments.\<close>

definition delete_role :: "string \<Rightarrow> uuid \<Rightarrow> unit query" where [query_defs]:
  "delete_role name tenant = writing (\<lambda>d.
     let ids = map ro_id (filter (own_role name tenant) (roles d)) in
     d\<lparr>roles := delete_where (own_role name tenant) (roles d),
       role_permissions := delete_where (\<lambda>rp. fst rp \<in> set ids) (role_permissions d),
       user_roles := delete_where (\<lambda>ur. ur_role_id ur \<in> set ids) (user_roles d)\<rparr>)"

definition list_roles :: "db_role \<Rightarrow> (string \<Rightarrow> string \<Rightarrow> bool) \<Rightarrow> role_row list query" where [query_defs]:
  "list_roles conn le = reading (\<lambda>d.
     order_by (\<lambda>a b. le (ro_name a) (ro_name b)) (visible_roles (pool_session conn) d))"

record role_with_perms =
  rp_id :: int
  rp_name :: string
  rp_description :: string
  rp_permissions :: "string list"

definition role_permission_names :: "(string \<Rightarrow> string \<Rightarrow> bool) \<Rightarrow> int \<Rightarrow> db \<Rightarrow> string list" where
  "role_permission_names le i d = order_by le
     [pe_name p. rp \<leftarrow> role_permissions d, p \<leftarrow> permissions d, fst rp = i \<and> pe_id p = snd rp]"

definition list_roles_with_permissions ::
  "db_role \<Rightarrow> (string \<Rightarrow> string \<Rightarrow> bool) \<Rightarrow> uuid \<Rightarrow> role_with_perms list query" where [query_defs]:
  "list_roles_with_permissions conn le tenant = reading (\<lambda>d.
     order_by (\<lambda>a b. le (rp_name a) (rp_name b))
       (map (\<lambda>r. \<lparr>rp_id = ro_id r, rp_name = ro_name r, rp_description = ro_description r,
                  rp_permissions = role_permission_names le (ro_id r) d\<rparr>)
         (filter (\<lambda>r. ro_tenant_id r = Some tenant \<or> ro_tenant_id r = None)
            (visible_roles (pool_session conn) d))))"

definition list_role_permissions :: "(string \<Rightarrow> string \<Rightarrow> bool) \<Rightarrow> int \<Rightarrow> string list query" where
  [query_defs]:
  "list_role_permissions le i = reading (role_permission_names le i)"

definition list_permissions :: "(string \<Rightarrow> string \<Rightarrow> bool) \<Rightarrow> permission_row list query" where [query_defs]:
  "list_permissions le = reading (\<lambda>d.
     order_by (\<lambda>a b. le (pe_name a) (pe_name b)) (permissions d))"

text \<open>\<open>INSERT INTO role_permissions SELECT r.id, p.id FROM roles r, permissions p ... ON CONFLICT DO
  NOTHING\<close>.\<close>

definition grant_permission :: "string \<Rightarrow> string \<Rightarrow> uuid \<Rightarrow> unit query" where [query_defs]:
  "grant_permission role perm tenant = writing (\<lambda>d.
     let new = [(ro_id r, pe_id p). r \<leftarrow> filter (own_role role tenant) (roles d),
                                    p \<leftarrow> permissions d, pe_name p = perm]
     in d\<lparr>role_permissions := role_permissions d @
            remdups (filter (\<lambda>rp. rp \<notin> set (role_permissions d)) new)\<rparr>)"

definition revoke_permission :: "string \<Rightarrow> string \<Rightarrow> uuid \<Rightarrow> unit query" where [query_defs]:
  "revoke_permission role perm tenant d =
     (case (filter (own_role role tenant) (roles d), filter (\<lambda>p. pe_name p = perm) (permissions d)) of
        ([r], [p]) \<Rightarrow> Inr ((), d\<lparr>role_permissions :=
            delete_where (\<lambda>rp. rp = (ro_id r, pe_id p)) (role_permissions d)\<rparr>)
      | ([], _) \<Rightarrow> Inr ((), d)
      | (_, []) \<Rightarrow> Inr ((), d)
      | _ \<Rightarrow> Inl Cardinality_violation)"

end
