(* ===== verification/Platform.thy ===== *)
theory Platform
  imports Schema
begin

text \<open>
  What the service runs on.  Code that is not in the repository (the crates \<open>common\<close>, \<open>uuid\<close>,
  \<open>chrono\<close>, \<open>sha2\<close>, \<open>hex\<close>, \<open>base64\<close>, \<open>aes-gcm\<close>, \<open>rand\<close>, \<open>totp-rs\<close>, \<open>serde_json\<close>, the Redis
  service) is a parameter: the fields of \<open>env\<close>.  A handler is an action on \<open>world\<close>: it returns
  a \<open>failure\<close> (a gRPC status, or a panic of the task) or a response, and the new world either
  way, because the statements that ran before a failure stay in effect.
\<close>

section \<open>Libraries the code calls\<close>

record crypto_lib =
  sha256 :: "string \<Rightarrow> string"
  hex_encode :: "string \<Rightarrow> string"
  b64_encode :: "string \<Rightarrow> string"
  b64_decode :: "string \<Rightarrow> string option"
  b64url_encode :: "string \<Rightarrow> string"
  aes_seal :: "string \<Rightarrow> string \<Rightarrow> string \<Rightarrow> string option"
  aes_open :: "string \<Rightarrow> string \<Rightarrow> string \<Rightarrow> string option"
  rsa_public :: "string \<Rightarrow> (string \<times> string) option"
  pw_hash :: "nat \<Rightarrow> string \<Rightarrow> string option"
  pw_verify :: "string \<Rightarrow> string \<Rightarrow> bool"

text \<open>The \<open>n\<close>-th draw from the random generator.\<close>

record random_lib =
  rnd_bytes :: "nat \<Rightarrow> nat \<Rightarrow> string"
  rnd_below :: "nat \<Rightarrow> nat \<Rightarrow> nat"
  rnd_uuid :: "nat \<Rightarrow> uuid"

record text_lib =
  uuid_parse :: "string \<Rightarrow> uuid option"
  uuid_show :: "uuid \<Rightarrow> string"
  int_show :: "int \<Rightarrow> string"
  add_seconds :: "time \<Rightarrow> int \<Rightarrow> time option"
  from_timestamp :: "int \<Rightarrow> time option"
  rfc3339 :: "time \<Rightarrow> string"
  json_registered :: "string \<Rightarrow> string \<Rightarrow> string \<Rightarrow> string option"
  json_deleted :: "string \<Rightarrow> bool \<Rightarrow> string option"
  json_restored :: "string \<Rightarrow> string option"
  json_strings :: "string list \<Rightarrow> string option"
  parse_json_strings :: "string \<Rightarrow> string list option"
  parse_profile_failed :: "string \<Rightarrow> (string \<times> string) option"

record claims =
  cl_sub :: string
  cl_email :: string
  cl_jti :: string
  cl_exp :: int
  cl_tenant_id :: string
  cl_project_id :: string
  cl_purpose :: string

text \<open>\<open>common::jwt::JwtManager\<close>; signing draws a token id and reads the clock.\<close>

record jwt_lib =
  jwt_issue :: "nat \<Rightarrow> time \<Rightarrow> string \<Rightarrow> string \<Rightarrow> string \<Rightarrow> string \<Rightarrow> string option"
  jwt_issue_mfa :: "nat \<Rightarrow> time \<Rightarrow> string \<Rightarrow> int \<Rightarrow> string option"
  jwt_issue_id_token :: "nat \<Rightarrow> time \<Rightarrow> string \<Rightarrow> string \<Rightarrow> string \<Rightarrow> string \<Rightarrow> string \<Rightarrow> string option"
  jwt_parse :: "time \<Rightarrow> string \<Rightarrow> claims option"
  jwt_parse_access :: "time \<Rightarrow> string \<Rightarrow> claims option"
  jwt_access_ttl_secs :: int
  jwt_generate_rsa :: "nat \<Rightarrow> (string \<times> string \<times> string) option"
  jwt_from_pem_ok :: "string \<Rightarrow> string \<Rightarrow> (string \<rightharpoonup> string) \<Rightarrow> bool"

text \<open>\<open>totp-rs\<close>: \<open>(digits, skew, step)\<close> are the numeric arguments of \<open>TOTP::new\<close>.\<close>

type_synonym totp_params = "nat \<times> nat \<times> nat"

record totp_lib =
  tl_generate_secret :: "nat \<Rightarrow> string"
  tl_raw_bytes :: "string \<Rightarrow> string option"
  tl_to_encoded :: "string \<Rightarrow> string"
  tl_decode :: "string \<Rightarrow> string option"
  tl_new_ok :: "totp_params \<Rightarrow> string \<Rightarrow> string \<Rightarrow> string \<Rightarrow> bool"
  tl_url :: "totp_params \<Rightarrow> string \<Rightarrow> string \<Rightarrow> string \<Rightarrow> string"
  tl_check_current :: "totp_params \<Rightarrow> string \<Rightarrow> time \<Rightarrow> string \<Rightarrow> bool option"

text \<open>
  The Redis commands, each at its \<open>n\<close>-th call; \<open>None\<close> (or an unchanged store) is a command
  that failed.  The store lists its keys with their values and expiries.
\<close>

type_synonym redis_store = "(string \<times> string \<times> time) list"

record redis_lib =
  rd_set_ex :: "nat \<Rightarrow> time \<Rightarrow> string \<Rightarrow> string \<Rightarrow> int \<Rightarrow> redis_store \<Rightarrow> redis_store"
  rd_exists :: "nat \<Rightarrow> time \<Rightarrow> string \<Rightarrow> redis_store \<Rightarrow> bool option"
  rd_get :: "nat \<Rightarrow> time \<Rightarrow> string \<Rightarrow> redis_store \<Rightarrow> string option"
  rd_del :: "nat \<Rightarrow> string list \<Rightarrow> redis_store \<Rightarrow> redis_store"
  rd_scan :: "nat \<Rightarrow> time \<Rightarrow> nat \<Rightarrow> string \<Rightarrow> nat \<Rightarrow> redis_store \<Rightarrow> (nat \<times> string list) option"

text \<open>\<open>common::config\<close> and \<open>common::events\<close>.\<close>

record config_lib =
  audit_enabled :: bool
  login_max_failures :: int
  login_lockout_secs :: int
  require_email_verification :: bool
  is_production :: bool
  oidc_issuer :: string
  type_user_registered :: string
  type_user_deleted :: string
  type_user_restored :: string
  subject_prefix :: string

text \<open>
  What can happen to a call of Postgres or NATS: it runs, the request is lost before it runs, or it
  runs and its reply is lost.
\<close>

datatype fault = Fine | Lost_request | Lost_reply

text \<open>
  \<open>text_le\<close> is the collation of the database, and \<open>subquery_eager\<close> whether its plan of the \<open>n\<close>-th
  statement evaluates a scalar subquery that no row needs.
\<close>

record env =
  crypto :: crypto_lib
  rand :: random_lib
  fmt :: text_lib
  jwt :: jwt_lib
  totp :: totp_lib
  redis_api :: redis_lib
  cfg :: config_lib
  conn_role :: db_role
  text_le :: "string \<Rightarrow> string \<Rightarrow> bool"
  subquery_eager :: "nat \<Rightarrow> bool"
  jsonb :: "string \<Rightarrow> string option"
  db_uuid :: "nat \<Rightarrow> uuid"
  db_fault :: "nat \<Rightarrow> fault"
  nats_fault :: "nat \<Rightarrow> fault"
  refresh_ttl_secs :: int
  dummy_hash :: string
  cache_conn :: bool
  totp_cipher :: "string option"

text \<open>\<open>stream\<close> holds the messages the broker accepted: message id, subject and payload.\<close>

record world =
  db :: db
  redis :: redis_store
  mails :: "(string \<times> string \<times> string) list"
  now :: time
  draws :: nat
  db_calls :: nat
  redis_calls :: nat
  nats_calls :: nat
  stream :: "(string \<times> string \<times> string) list"

section \<open>Actions\<close>

datatype code =
  Invalid_argument | Unauthenticated | Permission_denied | Not_found | Already_exists
| Failed_precondition | Internal

text \<open>A gRPC status, an \<open>anyhow\<close> error of the start-up and background tasks, a panic of the task,
  or a task that never ends.\<close>

datatype failure = Status code string | Aborted string | Panic | Hang

type_synonym 'a act = "world \<Rightarrow> (failure + 'a) \<times> world"

definition ret :: "'a \<Rightarrow> 'a act" where
  "ret x w = (Inr x, w)"

definition fail :: "failure \<Rightarrow> 'a act" where
  "fail e w = (Inl e, w)"

text \<open>Rust's \<open>?\<close>: the rest runs only after a success.\<close>

definition bind_ok :: "'a act \<Rightarrow> ('a \<Rightarrow> 'b act) \<Rightarrow> 'b act" where
  "bind_ok m f w = (case m w of (Inl e, w') \<Rightarrow> (Inl e, w') | (Inr x, w') \<Rightarrow> f x w')"

definition or_fail :: "failure \<Rightarrow> 'a option \<Rightarrow> 'a act" where
  "or_fail e x = (case x of None \<Rightarrow> fail e | Some y \<Rightarrow> ret y)"

definition require :: "bool \<Rightarrow> failure \<Rightarrow> unit act" where
  "require b e = (if b then ret () else fail e)"

definition lift_sum :: "failure + 'a \<Rightarrow> 'a act" where
  "lift_sum s = (case s of Inl e \<Rightarrow> fail e | Inr x \<Rightarrow> ret x)"

definition with_now :: "(time \<Rightarrow> 'a act) \<Rightarrow> 'a act" where
  "with_now f w = f (now w) w"

definition with_call :: "(nat \<Rightarrow> 'a act) \<Rightarrow> 'a act" where
  "with_call f w = f (db_calls w) w"

definition draw :: "(nat \<Rightarrow> 'a) \<Rightarrow> 'a act" where
  "draw f w = (Inr (f (draws w)), w\<lparr>draws := draws w + 1\<rparr>)"

text \<open>\<open>Utc::now() + Duration::seconds(n)\<close>; \<open>chrono\<close> panics out of range.\<close>

definition now_plus :: "env \<Rightarrow> int \<Rightarrow> time act" where
  "now_plus E n = with_now (\<lambda>t. or_fail Panic (add_seconds (fmt E) t n))"

definition send_mail :: "string \<Rightarrow> string \<Rightarrow> string \<Rightarrow> unit act" where
  "send_mail to subject body w = (Inr (), w\<lparr>mails := mails w @ [(to, subject, body)]\<rparr>)"

text \<open>\<open>if let Err(e) = m.await { warn }\<close>: an \<open>anyhow\<close> error is logged and dropped.\<close>

definition warn_on_error :: "unit act \<Rightarrow> unit act" where
  "warn_on_error m w = (case m w of (Inl (Aborted _), w') \<Rightarrow> (Inr (), w') | r \<Rightarrow> r)"

section \<open>Database calls\<close>

definition run_query :: "env \<Rightarrow> 'a query \<Rightarrow> world \<Rightarrow> (sql_error + 'a) \<times> world" where
  "run_query E q w =
     (let w' = w\<lparr>db_calls := db_calls w + 1\<rparr> in
      case db_fault E (db_calls w) of
        Lost_request \<Rightarrow> (Inl Connection_lost, w')
      | f \<Rightarrow>
          (case q (db w) of
             Inl e \<Rightarrow> (Inl e, w')
           | Inr (x, d) \<Rightarrow> (if f = Fine then Inr x else Inl Connection_lost, w'\<lparr>db := d\<rparr>)))"

text \<open>\<open>q.await.map_err(|_| e)?\<close>\<close>

definition db_try :: "env \<Rightarrow> failure \<Rightarrow> 'a query \<Rightarrow> 'a act" where
  "db_try E e q w = (case run_query E q w of (Inl _, w') \<Rightarrow> (Inl e, w') | (Inr x, w') \<Rightarrow> (Inr x, w'))"

text \<open>\<open>q.await.ok()\<close>: with the result dropped, \<open>let _ = q.await\<close>.\<close>

definition db_ok :: "env \<Rightarrow> 'a query \<Rightarrow> 'a option act" where
  "db_ok E q w =
     (case run_query E q w of (Inl _, w') \<Rightarrow> (Inr None, w') | (Inr x, w') \<Rightarrow> (Inr (Some x), w'))"

definition db_ignore :: "env \<Rightarrow> 'a query \<Rightarrow> unit act" where
  "db_ignore E q = bind_ok (db_ok E q) (\<lambda>_. ret ())"

definition ok :: "'a act \<Rightarrow> world \<Rightarrow> bool" where
  "ok m w \<longleftrightarrow> (case fst (m w) of Inl _ \<Rightarrow> False | Inr _ \<Rightarrow> True)"

lemma okE: "ok m w \<Longrightarrow> \<exists>x w'. m w = (Inr x, w')"
  by (cases "m w"; cases "fst (m w)") (auto simp: ok_def)

section \<open>Running to success\<close>

lemma ret_Inr [act_elims]: "ret x w = (Inr y, w') \<Longrightarrow> (y = x \<Longrightarrow> w' = w \<Longrightarrow> P) \<Longrightarrow> P"
  by (simp add: ret_def)

lemma fail_Inr [act_elims]: "fail e w = (Inr y, w') \<Longrightarrow> P"
  by (simp add: fail_def)

lemma bind_ok_Inr [act_elims]:
  "bind_ok m f w = (Inr y, w') \<Longrightarrow>
   (\<And>x w1. m w = (Inr x, w1) \<Longrightarrow> f x w1 = (Inr y, w') \<Longrightarrow> P) \<Longrightarrow> P"
  by (auto simp: bind_ok_def split: prod.splits sum.splits)

lemma or_fail_Inr [act_elims]:
  "or_fail e x w = (Inr y, w') \<Longrightarrow> (x = Some y \<Longrightarrow> w' = w \<Longrightarrow> P) \<Longrightarrow> P"
  by (auto simp: or_fail_def ret_def fail_def split: option.splits)

lemma lift_sum_Inr [act_elims]:
  "lift_sum s w = (Inr y, w') \<Longrightarrow> (s = Inr y \<Longrightarrow> w' = w \<Longrightarrow> P) \<Longrightarrow> P"
  by (auto simp: lift_sum_def ret_def fail_def split: sum.splits)

lemma require_Inr [act_elims]:
  "require b e w = (Inr y, w') \<Longrightarrow> (b \<Longrightarrow> w' = w \<Longrightarrow> P) \<Longrightarrow> P"
  by (auto simp: require_def ret_def fail_def split: if_splits)

lemma with_now_Inr [act_elims]:
  "with_now f w = (Inr y, w') \<Longrightarrow> (f (now w) w = (Inr y, w') \<Longrightarrow> P) \<Longrightarrow> P"
  by (simp add: with_now_def)

lemma with_call_Inr [act_elims]:
  "with_call f w = (Inr y, w') \<Longrightarrow> (f (db_calls w) w = (Inr y, w') \<Longrightarrow> P) \<Longrightarrow> P"
  by (simp add: with_call_def)

lemma draw_Inr [act_elims]:
  "draw f w = (Inr y, w') \<Longrightarrow> (y = f (draws w) \<Longrightarrow> w' = w\<lparr>draws := draws w + 1\<rparr> \<Longrightarrow> P) \<Longrightarrow> P"
  by (simp add: draw_def)

lemma send_mail_Inr [act_elims]:
  "send_mail a s b w = (Inr y, w') \<Longrightarrow> (w' = w\<lparr>mails := mails w @ [(a, s, b)]\<rparr> \<Longrightarrow> P) \<Longrightarrow> P"
  by (simp add: send_mail_def)

lemma db_try_Inr [act_elims]:
  "db_try E e q w = (Inr x, w') \<Longrightarrow>
   (\<And>d. q (db w) = Inr (x, d) \<Longrightarrow> w' = w\<lparr>db := d, db_calls := db_calls w + 1\<rparr> \<Longrightarrow> P) \<Longrightarrow> P"
  by (auto simp: db_try_def run_query_def Let_def split: fault.splits sum.splits prod.splits if_splits)

text \<open>A call whose error is dropped: it ran or it did not.\<close>

lemma db_ok_Inr:
  "db_ok E q w = (Inr x, w') \<Longrightarrow>
   (x = None \<and> w' = w\<lparr>db_calls := db_calls w + 1\<rparr>) \<or>
   (\<exists>y d. q (db w) = Inr (y, d) \<and> x = (if db_fault E (db_calls w) = Fine then Some y else None) \<and>
          w' = w\<lparr>db := d, db_calls := db_calls w + 1\<rparr>)"
  by (auto simp: db_ok_def run_query_def Let_def split: fault.splits sum.splits prod.splits if_splits)

section \<open>Evaluation\<close>

definition fault_free :: "env \<Rightarrow> bool" where
  "fault_free E \<longleftrightarrow> (\<forall>n. db_fault E n = Fine)"

lemma ret_apply [act_simps]: "ret x w = (Inr x, w)"
  by (simp add: ret_def)

lemma fail_apply [act_simps]: "fail e w = (Inl e, w)"
  by (simp add: fail_def)

lemma bind_ok_apply [act_simps]:
  "m w = (Inl e, w') \<Longrightarrow> bind_ok m f w = (Inl e, w')"
  "m w = (Inr x, w') \<Longrightarrow> bind_ok m f w = f x w'"
  by (simp_all add: bind_ok_def)

lemma ok_bind: "m w = (Inr x, w1) \<Longrightarrow> ok (f x) w1 \<Longrightarrow> ok (bind_ok m f) w"
  by (simp add: ok_def bind_ok_apply)

lemma or_fail_apply [act_simps]:
  "or_fail e None w = (Inl e, w)" "or_fail e (Some x) w = (Inr x, w)"
  by (simp_all add: or_fail_def ret_def fail_def)

lemma lift_sum_apply [act_simps]:
  "lift_sum (Inl e) w = (Inl e, w)" "lift_sum (Inr x) w = (Inr x, w)"
  by (simp_all add: lift_sum_def ret_def fail_def)

lemma require_apply [act_simps]:
  "require b e w = (if b then (Inr (), w) else (Inl e, w))"
  by (simp add: require_def ret_def fail_def)

lemma with_now_apply [act_simps]: "with_now f w = f (now w) w"
  by (simp add: with_now_def)

lemma with_call_apply [act_simps]: "with_call f w = f (db_calls w) w"
  by (simp add: with_call_def)

lemma draw_apply [act_simps]: "draw f w = (Inr (f (draws w)), w\<lparr>draws := draws w + 1\<rparr>)"
  by (simp add: draw_def)

lemma send_mail_apply [act_simps]:
  "send_mail a s b w = (Inr (), w\<lparr>mails := mails w @ [(a, s, b)]\<rparr>)"
  by (simp add: send_mail_def)

lemma db_try_fine [act_simps]:
  "fault_free E \<Longrightarrow> q (db w) = Inl se \<Longrightarrow>
     db_try E e q w = (Inl e, w\<lparr>db_calls := db_calls w + 1\<rparr>)"
  "fault_free E \<Longrightarrow> q (db w) = Inr (x, d) \<Longrightarrow>
     db_try E e q w = (Inr x, w\<lparr>db := d, db_calls := db_calls w + 1\<rparr>)"
  by (simp_all add: db_try_def run_query_def fault_free_def)

lemma db_ok_fine [act_simps]:
  "fault_free E \<Longrightarrow> q (db w) = Inl se \<Longrightarrow>
     db_ok E q w = (Inr None, w\<lparr>db_calls := db_calls w + 1\<rparr>)"
  "fault_free E \<Longrightarrow> q (db w) = Inr (x, d) \<Longrightarrow>
     db_ok E q w = (Inr (Some x), w\<lparr>db := d, db_calls := db_calls w + 1\<rparr>)"
  by (simp_all add: db_ok_def run_query_def fault_free_def)

lemma db_ignore_fine [act_simps]:
  "fault_free E \<Longrightarrow> q (db w) = Inl se \<Longrightarrow>
     db_ignore E q w = (Inr (), w\<lparr>db_calls := db_calls w + 1\<rparr>)"
  "fault_free E \<Longrightarrow> q (db w) = Inr (x, d) \<Longrightarrow>
     db_ignore E q w = (Inr (), w\<lparr>db := d, db_calls := db_calls w + 1\<rparr>)"
  by (simp_all add: db_ignore_def act_simps)

section \<open>What every action keeps of the database\<close>

text \<open>
  \<open>stable R m\<close>: whatever the outcome and the faults, the database after \<open>m\<close> is \<open>R\<close>-related
  to the one before.  Any reflexive and transitive \<open>R\<close> that the statements respect is respected
  by the actions built from them.
\<close>

definition q_stable :: "(db \<Rightarrow> db \<Rightarrow> bool) \<Rightarrow> 'a query \<Rightarrow> bool" where
  "q_stable R q \<longleftrightarrow> (\<forall>d x d'. q d = Inr (x, d') \<longrightarrow> R d d')"

definition stable :: "(db \<Rightarrow> db \<Rightarrow> bool) \<Rightarrow> 'a act \<Rightarrow> bool" where
  "stable R m \<longleftrightarrow> (\<forall>w. R (db w) (db (snd (m w))))"

lemma q_stableI: "(\<And>d x d'. q d = Inr (x, d') \<Longrightarrow> R d d') \<Longrightarrow> q_stable R q"
  by (auto simp: q_stable_def)

lemma stableD:
  assumes "stable R m" and "m w = (r, w')"
  shows "R (db w) (db w')"
proof -
  from assms(1) have "R (db w) (db (snd (m w)))" by (simp add: stable_def)
  with assms(2) show ?thesis by simp
qed

locale db_order =
  fixes R :: "db \<Rightarrow> db \<Rightarrow> bool"
  assumes refl: "R d d"
    and trans: "R d1 d2 \<Longrightarrow> R d2 d3 \<Longrightarrow> R d1 d3"
begin

lemma q_reading: "q_stable R (reading f)"
  by (auto simp: q_stable_def refl)

lemma q_writing: "(\<And>d. R d (f d)) \<Longrightarrow> q_stable R (writing f)"
  by (auto simp: q_stable_def)

lemma q_then: "q_stable R p \<Longrightarrow> (\<And>x. q_stable R (q x)) \<Longrightarrow> q_stable R (then_query p q)"
  unfolding q_stable_def by (blast elim: then_query_InrE intro: trans)

lemma ret: "stable R (ret x)"
  by (simp add: stable_def ret_def refl)

lemma fail: "stable R (fail e)"
  by (simp add: stable_def fail_def refl)

lemma bind: "stable R m \<Longrightarrow> (\<And>x. stable R (f x)) \<Longrightarrow> stable R (bind_ok m f)"
  unfolding stable_def bind_ok_def
  by (auto split: prod.splits sum.splits) (metis snd_conv trans)+

lemma or_fail: "stable R (or_fail e x)"
  by (simp add: or_fail_def ret fail split: option.split)

lemma lift_sum: "stable R (lift_sum s)"
  by (simp add: lift_sum_def ret fail split: sum.split)

lemma require: "stable R (require b e)"
  by (simp add: require_def ret fail)

lemma with_now: "(\<And>t. stable R (f t)) \<Longrightarrow> stable R (with_now f)"
  by (simp add: stable_def with_now_def)

lemma with_call: "(\<And>n. stable R (f n)) \<Longrightarrow> stable R (with_call f)"
  by (simp add: stable_def with_call_def)

lemma draw: "stable R (draw f)"
  by (simp add: stable_def draw_def refl)

lemma send_mail: "stable R (send_mail a s b)"
  by (simp add: stable_def send_mail_def refl)

lemma warn_on_error: "stable R m \<Longrightarrow> stable R (warn_on_error m)"
  unfolding stable_def warn_on_error_def
  by (auto split: prod.splits sum.splits failure.splits) (metis snd_conv)+

lemma now_plus: "stable R (now_plus E n)"
  by (simp add: now_plus_def with_now or_fail)

lemma run_query_stable: "q_stable R q \<Longrightarrow> R (db w) (db (snd (run_query E q w)))"
  by (auto simp: q_stable_def run_query_def Let_def refl
      split: fault.splits sum.splits prod.splits)

lemma db_try: "q_stable R q \<Longrightarrow> stable R (db_try E e q)"
  unfolding stable_def
proof
  fix w
  assume "q_stable R q"
  then have "R (db w) (db (snd (run_query E q w)))" by (rule run_query_stable)
  then show "R (db w) (db (snd (db_try E e q w)))"
    by (auto simp: db_try_def split: prod.splits sum.splits)
qed

lemma db_ok: "q_stable R q \<Longrightarrow> stable R (db_ok E q)"
  unfolding stable_def
proof
  fix w
  assume "q_stable R q"
  then have "R (db w) (db (snd (run_query E q w)))" by (rule run_query_stable)
  then show "R (db w) (db (snd (db_ok E q w)))"
    by (auto simp: db_ok_def split: prod.splits sum.splits)
qed

lemma db_ignore: "q_stable R q \<Longrightarrow> stable R (db_ignore E q)"
  by (simp add: db_ignore_def bind db_ok ret)

lemma if_act: "(b \<Longrightarrow> stable R m) \<Longrightarrow> (\<not> b \<Longrightarrow> stable R n) \<Longrightarrow> stable R (if b then m else n)"
  by simp

lemma case_option_act:
  "(x = None \<Longrightarrow> stable R m) \<Longrightarrow> (\<And>y. x = Some y \<Longrightarrow> stable R (n y)) \<Longrightarrow>
   stable R (case x of None \<Rightarrow> m | Some y \<Rightarrow> n y)"
  by (cases x) auto

lemma case_sum_act:
  "(\<And>y. x = Inl y \<Longrightarrow> stable R (m y)) \<Longrightarrow> (\<And>y. x = Inr y \<Longrightarrow> stable R (n y)) \<Longrightarrow>
   stable R (case x of Inl y \<Rightarrow> m y | Inr y \<Rightarrow> n y)"
  by (cases x) auto

lemma case_prod_act: "(\<And>a b. x = (a, b) \<Longrightarrow> stable R (m a b)) \<Longrightarrow> stable R (case x of (a, b) \<Rightarrow> m a b)"
  by (cases x) auto

lemma let_act: "(\<And>y. stable R (m y)) \<Longrightarrow> stable R (Let x m)"
  by simp

lemmas act_rules = ret fail bind or_fail lift_sum require with_now with_call draw send_mail now_plus
  warn_on_error
  db_try db_ok db_ignore if_act case_option_act case_sum_act case_prod_act let_act

lemmas query_rules = q_reading q_writing q_then

end

text \<open>The finest such relation: the database is not touched at all.\<close>

interpretation unchanged: db_order "(=)"
  by unfold_locales auto

lemma unchangedD: "stable (=) m \<Longrightarrow> m w = (r, w') \<Longrightarrow> db w' = db w"
  by (drule (1) stableD) (rule sym)

text \<open>One part of the database is not touched.\<close>

interpretation kept: db_order "\<lambda>d d'. f d' = f d" for f
  by unfold_locales auto

lemma keptD: "stable (\<lambda>d d'. f d' = f d) m \<Longrightarrow> m w = (r, w') \<Longrightarrow> f (db w') = f (db w)"
  by (drule (1) stableD)

end
