(* ===== verification/TotpSecret.thy ===== *)
theory TotpSecret
  imports Platform
begin

text \<open>
  \<open>src/totpsecret.rs\<close>: encryption of TOTP secrets at rest, and \<open>src/totp.rs\<close>: secrets,
  codes and recovery codes.  An \<open>Encryptor\<close> is its AES key, or \<open>None\<close> without
  \<open>TOTP_ENC_KEY\<close>; the cipher, Base64 and SHA-256 are parameters.
\<close>

section \<open>Encryptor\<close>

definition enc_prefix :: string where
  "enc_prefix = ''enc:v1:''"

definition nonce_len :: nat where
  "nonce_len = 12"

datatype secret_error =
  Encrypt_failed | Key_not_set | Decode_failed | Too_short | Decrypt_failed | Not_utf8

definition derive_key :: "crypto_lib \<Rightarrow> string \<Rightarrow> string" where
  "derive_key C key =
     (case b64_decode C key of
        Some b \<Rightarrow> if length b = 32 then b else sha256 C key
      | None \<Rightarrow> sha256 C key)"

definition encryptor_new :: "crypto_lib \<Rightarrow> string \<Rightarrow> string option" where
  "encryptor_new C key = (if key = [] then None else Some (derive_key C key))"

definition encryptor_enabled :: "string option \<Rightarrow> bool" where
  "encryptor_enabled enc \<longleftrightarrow> enc \<noteq> None"

definition encrypt :: "crypto_lib \<Rightarrow> string option \<Rightarrow> string \<Rightarrow> string \<Rightarrow> secret_error + string" where
  "encrypt C enc nonce plaintext =
     (case enc of
        None \<Rightarrow> Inr plaintext
      | Some key \<Rightarrow>
          (case aes_seal C key nonce plaintext of
             None \<Rightarrow> Inl Encrypt_failed
           | Some ct \<Rightarrow> Inr (enc_prefix @ b64_encode C (nonce @ ct))))"

definition decrypt :: "crypto_lib \<Rightarrow> string option \<Rightarrow> string \<Rightarrow> secret_error + string" where
  "decrypt C enc stored =
     (case strip_prefix enc_prefix stored of
        None \<Rightarrow> Inr stored
      | Some rest \<Rightarrow>
          (case enc of
             None \<Rightarrow> Inl Key_not_set
           | Some key \<Rightarrow>
               (case b64_decode C rest of
                  None \<Rightarrow> Inl Decode_failed
                | Some raw \<Rightarrow>
                    if length raw < nonce_len then Inl Too_short
                    else
                      (case aes_open C key (take nonce_len raw) (drop nonce_len raw) of
                         None \<Rightarrow> Inl Decrypt_failed
                       | Some pt \<Rightarrow> if valid_utf8 pt then Inr pt else Inl Not_utf8))))"

text \<open>Documented behaviour of the libraries.\<close>

definition b64_inverse :: "crypto_lib \<Rightarrow> bool" where
  "b64_inverse C \<longleftrightarrow> (\<forall>x. b64_decode C (b64_encode C x) = Some x)"

definition aes_correct :: "crypto_lib \<Rightarrow> bool" where
  "aes_correct C \<longleftrightarrow>
     (\<forall>k n p c. length n = nonce_len \<longrightarrow> aes_seal C k n p = Some c \<longrightarrow> aes_open C k n c = Some p)"

lemma decrypt_encrypt:
  assumes "b64_inverse C" and "aes_correct C" and "length nonce = nonce_len" and "valid_utf8 pt"
    and "encrypt C (Some key) nonce pt = Inr stored"
  shows "decrypt C (Some key) stored = Inr pt"
proof -
  from assms(5) obtain ct where ct: "aes_seal C key nonce pt = Some ct"
    and st: "stored = enc_prefix @ b64_encode C (nonce @ ct)"
    by (auto simp: encrypt_def split: option.splits)
  from assms(2,3) ct have "aes_open C key nonce ct = Some pt"
    by (auto simp: aes_correct_def)
  then show ?thesis
    using assms(1,3,4) by (simp add: decrypt_def st b64_inverse_def)
qed

lemma encrypt_prefix:
  "encrypt C (Some key) nonce pt = Inr stored \<Longrightarrow> \<exists>body. stored = enc_prefix @ body"
  by (auto simp: encrypt_def split: option.splits)

lemma decrypt_plain: "strip_prefix enc_prefix stored = None \<Longrightarrow> decrypt C enc stored = Inr stored"
  by (simp add: decrypt_def)

lemma decrypt_no_key: "decrypt C None (enc_prefix @ body) = Inl Key_not_set"
  by (simp add: decrypt_def)

text \<open>\<open>encrypt\<close> inside a request: the nonce is drawn only when a key is configured.\<close>

definition encrypt_secret :: "env \<Rightarrow> string \<Rightarrow> (secret_error + string) act" where
  "encrypt_secret E plaintext =
     (case totp_cipher E of
        None \<Rightarrow> ret (encrypt (crypto E) None [] plaintext)
      | Some key \<Rightarrow>
          bind_ok (draw (\<lambda>n. rnd_bytes (rand E) n nonce_len)) (\<lambda>nonce.
          ret (encrypt (crypto E) (Some key) nonce plaintext)))"

section \<open>Codes\<close>

definition totp_issuer :: string where
  "totp_issuer = ''IAM''"

text \<open>6 digits, skew 1, step 30 (with SHA-1).\<close>

definition totp_config :: totp_params where
  "totp_config = (6, 1, 30)"

record gen_secret =
  gs_base32 :: string
  gs_otpauth_uri :: string

definition totp_generate :: "env \<Rightarrow> string \<Rightarrow> gen_secret option act" where
  "totp_generate E account =
     bind_ok (draw (tl_generate_secret (totp E))) (\<lambda>secret.
     ret (case tl_raw_bytes (totp E) secret of
            None \<Rightarrow> None
          | Some bytes \<Rightarrow>
              if tl_new_ok (totp E) totp_config bytes totp_issuer account
              then Some \<lparr>gs_base32 = tl_to_encoded (totp E) secret,
                         gs_otpauth_uri = tl_url (totp E) totp_config bytes totp_issuer account\<rparr>
              else None))"

definition totp_validate :: "totp_lib \<Rightarrow> time \<Rightarrow> string \<Rightarrow> string \<Rightarrow> bool" where
  "totp_validate T t code secret_b32 =
     (case tl_decode T secret_b32 of
        None \<Rightarrow> False
      | Some bytes \<Rightarrow>
          if tl_new_ok T totp_config bytes totp_issuer ''iam''
          then (case tl_check_current T totp_config bytes t code of Some b \<Rightarrow> b | None \<Rightarrow> False)
          else False)"

section \<open>Recovery codes\<close>

definition alpha :: string where
  "alpha = ''abcdefghjkmnpqrstuvwxyz23456789''"

fun gen_chars :: "env \<Rightarrow> nat \<Rightarrow> string act" where
  "gen_chars E 0 = ret []"
| "gen_chars E (Suc k) =
     bind_ok (draw (\<lambda>n. rnd_below (rand E) n (length alpha))) (\<lambda>i.
     bind_ok (require (i < length alpha) Panic) (\<lambda>_.
     bind_ok (gen_chars E k) (\<lambda>cs.
     ret (alpha ! i # cs))))"

definition gen_recovery_code :: "env \<Rightarrow> string act" where
  "gen_recovery_code E = bind_ok (gen_chars E 8) (\<lambda>s. ret (take 4 s @ ''-'' @ drop 4 s))"

fun generate_recovery_codes :: "env \<Rightarrow> nat \<Rightarrow> string list act" where
  "generate_recovery_codes E 0 = ret []"
| "generate_recovery_codes E (Suc n) =
     bind_ok (gen_recovery_code E) (\<lambda>c.
     bind_ok (generate_recovery_codes E n) (\<lambda>cs.
     ret (c # cs)))"

text \<open>\<open>gen_range(0..n)\<close> is below \<open>n\<close>.\<close>

definition draws_in_range :: "env \<Rightarrow> bool" where
  "draws_in_range E \<longleftrightarrow> (\<forall>i n. 0 < n \<longrightarrow> rnd_below (rand E) i n < n)"

definition recovery_code_format :: "string \<Rightarrow> bool" where
  "recovery_code_format c \<longleftrightarrow>
     length c = 9 \<and> c ! 4 = CHR ''-'' \<and> set (take 4 c @ drop 5 c) \<subseteq> set alpha"

lemma gen_chars_Inr:
  "gen_chars E k w = (Inr cs, w') \<Longrightarrow> length cs = k \<and> set cs \<subseteq> set alpha"
  by (induction k arbitrary: w cs) (fastforce elim!: act_elims)+

lemma gen_chars_ok: "draws_in_range E \<Longrightarrow> ok (gen_chars E k) w"
proof (induction k arbitrary: w)
  case 0
  then show ?case by (simp add: ok_def ret_def)
next
  case (Suc k w)
  let ?w = "w\<lparr>draws := draws w + 1\<rparr>"
  have "rnd_below (rand E) (draws w) (length alpha) < length alpha"
    using Suc.prems by (simp add: draws_in_range_def alpha_def)
  moreover obtain cs w' where "gen_chars E k ?w = (Inr cs, w')"
    using okE [OF Suc.IH [OF Suc.prems, of ?w]] by blast
  ultimately show ?case by (simp add: ok_def act_simps)
qed

lemma gen_recovery_code_Inr:
  assumes "gen_recovery_code E w = (Inr c, w')"
  shows "recovery_code_format c"
proof -
  from assms obtain s where s: "length s = 8" "set s \<subseteq> set alpha"
    and c: "c = take 4 s @ ''-'' @ drop 4 s"
    by (auto simp: gen_recovery_code_def dest!: gen_chars_Inr elim!: act_elims)
  have "take 4 c @ drop 5 c = s" and "c ! 4 = CHR ''-''" and "length c = 9"
    using s(1) by (simp_all add: c nth_append)
  with s(2) show ?thesis by (simp add: recovery_code_format_def)
qed

lemma gen_recovery_code_ok: "draws_in_range E \<Longrightarrow> ok (gen_recovery_code E) w"
  using okE [OF gen_chars_ok, of E 8 w] by (auto simp: gen_recovery_code_def ok_def act_simps)

lemma generate_recovery_codes_Inr:
  "generate_recovery_codes E n w = (Inr cs, w') \<Longrightarrow>
   length cs = n \<and> (\<forall>c\<in>set cs. recovery_code_format c)"
proof (induction n arbitrary: w cs)
  case 0
  then show ?case by (auto elim!: act_elims)
next
  case (Suc n)
  then show ?case by (fastforce dest: gen_recovery_code_Inr elim!: act_elims)
qed

lemma generate_recovery_codes_ok: "draws_in_range E \<Longrightarrow> ok (generate_recovery_codes E n) w"
proof (induction n arbitrary: w)
  case 0
  then show ?case by (simp add: ok_def ret_def)
next
  case (Suc n w)
  obtain c w1 where c: "gen_recovery_code E w = (Inr c, w1)"
    using okE [OF gen_recovery_code_ok [OF Suc.prems]] by blast
  obtain cs w2 where "generate_recovery_codes E n w1 = (Inr cs, w2)"
    using okE [OF Suc.IH [OF Suc.prems]] by blast
  with c show ?case by (simp add: ok_def act_simps)
qed

section \<open>None of this touches the database\<close>

context db_order begin

lemma encrypt_secret: "stable R (encrypt_secret E pt)"
  unfolding encrypt_secret_def by (intro act_rules)

lemma totp_generate: "stable R (totp_generate E account)"
  unfolding totp_generate_def by (intro act_rules)

lemma gen_chars: "stable R (gen_chars E k)"
  by (induction k) (auto intro!: act_rules)

lemma generate_recovery_codes: "stable R (generate_recovery_codes E n)"
  by (induction n) (auto simp: gen_recovery_code_def intro!: act_rules gen_chars)

end

end
