(* ===== verification/Cache.thy ===== *)
theory Cache
  imports Platform
begin

text \<open>
  \<open>src/cache.rs\<close>: the optional Redis layer.  Without a connection every operation is a no-op
  or a miss.  \<open>invalidate_perms\<close> loops on the cursors \<open>SCAN\<close> returns, so it is a partial
  function; it is total when \<open>SCAN\<close> keeps its documented guarantee, whichever commands fail.
\<close>

section \<open>Keys\<close>

definition perms_ttl_secs :: int where
  "perms_ttl_secs = 60"

definition or_dash :: "string \<Rightarrow> string" where
  "or_dash s = (if s = [] then ''-'' else s)"

definition perms_key :: "string \<Rightarrow> string \<Rightarrow> string \<Rightarrow> string" where
  "perms_key tenant project user_id =
     ''perms:'' @ or_dash tenant @ '':'' @ or_dash project @ '':'' @ user_id"

definition denylist_key :: "string \<Rightarrow> string" where
  "denylist_key jti = ''denylist:'' @ jti"

definition perms_pattern :: "string \<Rightarrow> string" where
  "perms_pattern user_id = ''perms:*:*:'' @ user_id"

section \<open>Operations\<close>

definition redis_next :: "world \<Rightarrow> world" where
  "redis_next w = w\<lparr>redis_calls := redis_calls w + 1\<rparr>"

definition set_ex :: "env \<Rightarrow> string \<Rightarrow> string \<Rightarrow> int \<Rightarrow> unit act" where
  "set_ex E k v ttl w =
     (Inr (), (redis_next w)\<lparr>redis :=
        rd_set_ex (redis_api E) (redis_calls w) (now w) k v ttl (redis w)\<rparr>)"

definition cache_deny :: "env \<Rightarrow> string \<Rightarrow> int \<Rightarrow> unit act" where
  "cache_deny E jti ttl =
     (if jti = [] \<or> ttl \<le> 0 then ret ()
      else if cache_conn E then set_ex E (denylist_key jti) ''1'' ttl
      else ret ())"

definition cache_is_denied :: "env \<Rightarrow> string \<Rightarrow> bool option act" where
  "cache_is_denied E jti =
     (if jti = [] \<or> \<not> cache_conn E then ret None
      else (\<lambda>w. (Inr (rd_exists (redis_api E) (redis_calls w) (now w) (denylist_key jti) (redis w)),
                 redis_next w)))"

definition cache_get_perms :: "env \<Rightarrow> string \<Rightarrow> string \<Rightarrow> string \<Rightarrow> string list option act" where
  "cache_get_perms E tenant project user_id =
     (if \<not> cache_conn E then ret None
      else (\<lambda>w. (Inr (Option.bind
                   (rd_get (redis_api E) (redis_calls w) (now w) (perms_key tenant project user_id)
                      (redis w))
                   (parse_json_strings (fmt E))),
                 redis_next w)))"

definition cache_set_perms :: "env \<Rightarrow> string \<Rightarrow> string \<Rightarrow> string \<Rightarrow> string list \<Rightarrow> unit act" where
  "cache_set_perms E tenant project user_id perms =
     (if \<not> cache_conn E then ret ()
      else (case json_strings (fmt E) perms of
              None \<Rightarrow> ret ()
            | Some json \<Rightarrow> set_ex E (perms_key tenant project user_id) json perms_ttl_secs))"

text \<open>One turn of the loop: \<open>Inl\<close> ends it.\<close>

definition scan_turn :: "env \<Rightarrow> string \<Rightarrow> nat \<Rightarrow> world \<Rightarrow> world + nat \<times> world" where
  "scan_turn E pattern cursor w =
     (case rd_scan (redis_api E) (redis_calls w) (now w) cursor pattern 100 (redis w) of
        None \<Rightarrow> Inl (redis_next w)
      | Some (next', keys) \<Rightarrow>
          let w1 = redis_next w;
              w2 = (if keys = [] then w1
                    else (redis_next w1)\<lparr>redis := rd_del (redis_api E) (redis_calls w1) keys (redis w1)\<rparr>)
          in if next' = 0 then Inl w2 else Inr (next', w2))"

partial_function (option) scan_del :: "env \<Rightarrow> string \<Rightarrow> nat \<Rightarrow> world \<Rightarrow> world option" where
  "scan_del E pattern cursor w =
     (case scan_turn E pattern cursor w of
        Inl w' \<Rightarrow> Some w'
      | Inr (next', w') \<Rightarrow> scan_del E pattern next' w')"

definition cache_invalidate_perms :: "env \<Rightarrow> string \<Rightarrow> unit act" where
  "cache_invalidate_perms E user_id w =
     (if \<not> cache_conn E then (Inr (), w)
      else (case scan_del E (perms_pattern user_id) 0 w of
              None \<Rightarrow> (Inl Hang, w)
            | Some w' \<Rightarrow> (Inr (), w')))"

text \<open>Without a connection.\<close>

lemma cache_off:
  assumes "\<not> cache_conn E"
  shows "cache_deny E j ttl = ret ()" and "cache_is_denied E j = ret None"
    and "cache_get_perms E t p u = ret None" and "cache_set_perms E t p u ps = ret ()"
    and "cache_invalidate_perms E u = ret ()"
  using assms
  by (auto simp: cache_deny_def cache_is_denied_def cache_get_perms_def cache_set_perms_def
      cache_invalidate_perms_def ret_def fun_eq_iff)

section \<open>Keys of different users, tenants and projects differ\<close>

lemma split_at_sep:
  "c \<notin> set a \<Longrightarrow> c \<notin> set b \<Longrightarrow> a @ c # x = b @ c # y \<Longrightarrow> a = b \<and> x = y"
proof (induction a arbitrary: b)
  case Nil
  then show ?case by (cases b) auto
next
  case (Cons d a)
  then show ?case by (cases b) auto
qed

lemma perms_key_inj:
  assumes "CHR '':'' \<notin> set t" "CHR '':'' \<notin> set p" "CHR '':'' \<notin> set t'" "CHR '':'' \<notin> set p'"
    and "perms_key t p u = perms_key t' p' u'"
  shows "or_dash t = or_dash t' \<and> or_dash p = or_dash p' \<and> u = u'"
proof -
  have c: "CHR '':'' \<notin> set (or_dash x)" if "CHR '':'' \<notin> set x" for x
    using that by (simp add: or_dash_def)
  from assms(5) have "or_dash t @ CHR '':'' # (or_dash p @ CHR '':'' # u)
      = or_dash t' @ CHR '':'' # (or_dash p' @ CHR '':'' # u')"
    by (simp add: perms_key_def)
  from split_at_sep [OF c [OF assms(1)] c [OF assms(3)] this]
  have "or_dash t = or_dash t'"
    and "or_dash p @ CHR '':'' # u = or_dash p' @ CHR '':'' # u'" by auto
  with split_at_sep [OF c [OF assms(2)] c [OF assms(4)]] show ?thesis by auto
qed

section \<open>The documented behaviour of Redis\<close>

text \<open>Matching of a key against a pattern whose only special character is \<open>*\<close>.\<close>

fun star_match :: "string \<Rightarrow> string \<Rightarrow> bool" where
  "star_match [] s \<longleftrightarrow> s = []"
| "star_match (p # ps) [] \<longleftrightarrow> p = CHR ''*'' \<and> star_match ps []"
| "star_match (p # ps) (c # cs) \<longleftrightarrow>
     (if p = CHR ''*'' then star_match ps (c # cs) \<or> star_match (p # ps) cs
      else p = c \<and> star_match ps cs)"

lemma star_match_self: "CHR ''*'' \<notin> set s \<Longrightarrow> star_match s s"
  by (induction s) auto

lemma star_match_prefix: "CHR ''*'' \<notin> set p \<Longrightarrow> star_match (p @ ps) (p @ s) = star_match ps s"
  by (induction p) auto

lemma star_match_star: "star_match ps s \<Longrightarrow> star_match (CHR ''*'' # ps) (x @ s)"
proof (induction x)
  case Nil
  then show ?case by (cases s) auto
next
  case (Cons a x)
  then show ?case by auto
qed

lemma perms_key_matches:
  assumes "CHR ''*'' \<notin> set u"
  shows "star_match (perms_pattern u) (perms_key t p u)"
proof -
  have "star_match (CHR '':'' # u) (CHR '':'' # u)"
    using star_match_self [OF assms] by simp
  then have "star_match (CHR ''*'' # CHR '':'' # u) (or_dash p @ CHR '':'' # u)"
    by (rule star_match_star)
  then have "star_match (CHR '':'' # CHR ''*'' # CHR '':'' # u) (CHR '':'' # or_dash p @ CHR '':'' # u)"
    by simp
  then have "star_match (CHR ''*'' # CHR '':'' # CHR ''*'' # CHR '':'' # u)
      (or_dash t @ CHR '':'' # or_dash p @ CHR '':'' # u)"
    by (rule star_match_star)
  then show ?thesis
    by (simp add: perms_pattern_def perms_key_def)
qed

definition stored_keys :: "redis_store \<Rightarrow> string set" where
  "stored_keys s = fst ` set s"

text \<open>
  The two guarantees the documentation of \<open>SCAN\<close> gives.  It ends when the collection is bounded: no
  endless iteration, in which each call gets the cursor the one before returned and none returns 0,
  visits stores of at most \<open>B\<close> keys.  And a full iteration, from cursor 0 back to 0, returns every
  matching key that is stored throughout.  Any command may fail.
\<close>

definition endless_scan ::
  "redis_lib \<Rightarrow> string \<Rightarrow> (nat \<Rightarrow> nat) \<Rightarrow> (nat \<Rightarrow> time) \<Rightarrow> (nat \<Rightarrow> nat) \<Rightarrow> (nat \<Rightarrow> redis_store) \<Rightarrow> bool" where
  "endless_scan A pat call at cur store \<longleftrightarrow> cur 0 = 0 \<and>
     (\<forall>i. call i < call (Suc i) \<and> cur (Suc i) \<noteq> 0 \<and>
        (\<exists>ks. rd_scan A (call i) (at i) (cur i) pat 100 (store i) = Some (cur (Suc i), ks)))"

definition scan_ends :: "redis_lib \<Rightarrow> bool" where
  "scan_ends A \<longleftrightarrow> (\<forall>pat call at cur store B. endless_scan A pat call at cur store \<longrightarrow>
     (\<exists>i. B < card (stored_keys (store i))))"

inductive full_scan :: "redis_lib \<Rightarrow> string \<Rightarrow> nat \<Rightarrow> (redis_store \<times> string list) list \<Rightarrow> bool"
  for A pat where
  last: "rd_scan A n t c pat 100 s = Some (0, ks) \<Longrightarrow> full_scan A pat c [(s, ks)]"
| more: "rd_scan A n t c pat 100 s = Some (c', ks) \<Longrightarrow> c' \<noteq> 0 \<Longrightarrow> full_scan A pat c' xs \<Longrightarrow>
    full_scan A pat c ((s, ks) # xs)"

definition scan_complete :: "redis_lib \<Rightarrow> bool" where
  "scan_complete A \<longleftrightarrow> (\<forall>pat xs k. full_scan A pat 0 xs \<and> star_match pat k \<and>
     (\<forall>(s, ks)\<in>set xs. k \<in> stored_keys s) \<longrightarrow> (\<exists>(s, ks)\<in>set xs. k \<in> set ks))"

text \<open>\<open>DEL\<close>, whether it fails or not, adds no key and leaves the entries of other keys alone.\<close>

definition entries :: "string \<Rightarrow> redis_store \<Rightarrow> redis_store" where
  "entries k s = filter (\<lambda>e. fst e = k) s"

definition del_only :: "redis_lib \<Rightarrow> bool" where
  "del_only A \<longleftrightarrow> (\<forall>n ks s k. k \<notin> set ks \<longrightarrow> entries k (rd_del A n ks s) = entries k s) \<and>
     (\<forall>n ks s. stored_keys (rd_del A n ks s) \<subseteq> stored_keys s)"

text \<open>The \<open>SCAN\<close> and \<open>DEL\<close> commands among the calls from \<open>m\<close> to before \<open>m'\<close> were answered: none failed.\<close>

definition answered :: "redis_lib \<Rightarrow> nat \<Rightarrow> nat \<Rightarrow> bool" where
  "answered A m m' \<longleftrightarrow> (\<forall>n. m \<le> n \<and> n < m' \<longrightarrow>
     (\<forall>t c pat s. rd_scan A n t c pat 100 s \<noteq> None) \<and>
     (\<forall>ks s. stored_keys (rd_del A n ks s) = stored_keys s - set ks))"

lemma answered_weaken: "answered A m m' \<Longrightarrow> m \<le> n \<Longrightarrow> n' \<le> m' \<Longrightarrow> answered A n n'"
  unfolding answered_def by (meson order.strict_trans2 order_trans)

section \<open>The loop ends\<close>

lemma scan_turn_more:
  assumes "scan_turn E pat c w = Inr (c', w')" and "del_only (redis_api E)"
  shows "c' \<noteq> 0 \<and> redis_calls w < redis_calls w' \<and> stored_keys (redis w') \<subseteq> stored_keys (redis w) \<and>
    (\<exists>ks. rd_scan (redis_api E) (redis_calls w) (now w) c pat 100 (redis w) = Some (c', ks))"
proof -
  have del: "stored_keys (rd_del (redis_api E) n ks s) \<subseteq> stored_keys s" for n ks s
    using assms(2) by (simp add: del_only_def)
  from assms(1) obtain ks where
    scan: "rd_scan (redis_api E) (redis_calls w) (now w) c pat 100 (redis w) = Some (c', ks)"
    and w': "c' \<noteq> 0" "redis_calls w < redis_calls w'"
      "redis w' = redis w \<or> redis w' = rd_del (redis_api E) (Suc (redis_calls w)) ks (redis w)"
    by (auto simp: scan_turn_def Let_def redis_next_def split: option.splits if_splits)
  from w'(3) have "stored_keys (redis w') \<subseteq> stored_keys (redis w)"
    by (elim disjE) (simp_all only: del order_refl)
  with scan w'(1,2) show ?thesis by blast
qed

definition next_turn :: "env \<Rightarrow> string \<Rightarrow> nat \<times> world \<Rightarrow> nat \<times> world" where
  "next_turn E pat p = projr (scan_turn E pat (fst p) (snd p))"

lemma scan_del_None:
  assumes "scan_del E pat c w = None"
  shows "scan_turn E pat c w = Inr (next_turn E pat (c, w))"
    and "scan_del E pat (fst (next_turn E pat (c, w))) (snd (next_turn E pat (c, w))) = None"
  using assms by (subst (asm) scan_del.simps; auto simp: next_turn_def split: sum.splits)+

text \<open>A loop that never ends is an endless iteration of \<open>SCAN\<close> over a collection that never grows.\<close>

lemma scan_del_ends:
  assumes "scan_ends (redis_api E)" and "del_only (redis_api E)"
  shows "scan_del E pat 0 w \<noteq> None"
proof
  define turn where "turn i = (next_turn E pat ^^ i) (0, w)" for i
  assume "scan_del E pat 0 w = None"
  then have none: "scan_del E pat (fst (turn i)) (snd (turn i)) = None" for i
    by (induction i) (auto simp: turn_def dest: scan_del_None(2))
  have runs: "scan_turn E pat (fst (turn i)) (snd (turn i)) = Inr (turn (Suc i))" for i
    using scan_del_None(1) [OF none] by (simp add: turn_def)
  have step: "fst (turn (Suc i)) \<noteq> 0 \<and> redis_calls (snd (turn i)) < redis_calls (snd (turn (Suc i))) \<and>
      stored_keys (redis (snd (turn (Suc i)))) \<subseteq> stored_keys (redis (snd (turn i))) \<and>
      (\<exists>ks. rd_scan (redis_api E) (redis_calls (snd (turn i))) (now (snd (turn i))) (fst (turn i)) pat 100
         (redis (snd (turn i))) = Some (fst (turn (Suc i)), ks))" for i
    using scan_turn_more [OF _ assms(2)] runs [of i] by (metis prod.collapse)
  have "fst (turn 0) = 0" by (simp add: turn_def)
  with step have endless: "endless_scan (redis_api E) pat (\<lambda>i. redis_calls (snd (turn i)))
      (\<lambda>i. now (snd (turn i))) (\<lambda>i. fst (turn i)) (\<lambda>i. redis (snd (turn i)))"
    by (simp add: endless_scan_def)
  have "stored_keys (redis (snd (turn i))) \<subseteq> stored_keys (redis w)" for i
    using step by (induction i) (simp add: turn_def, blast)
  then have "card (stored_keys (redis (snd (turn i)))) \<le> card (stored_keys (redis w))" for i
    by (intro card_mono) (simp_all add: stored_keys_def)
  with assms(1) endless show False
    unfolding scan_ends_def by (meson linorder_not_le)
qed

section \<open>Nothing that matches is left\<close>

lemma scan_turn_calls:
  "scan_turn E pat c w = Inl w' \<Longrightarrow> redis_calls w < redis_calls w'"
  "scan_turn E pat c w = Inr (c', w') \<Longrightarrow> redis_calls w < redis_calls w' \<and> c' \<noteq> 0"
  by (auto simp: scan_turn_def Let_def redis_next_def split: option.splits if_splits)

lemma scan_turn_answered:
  assumes "scan_turn E pat c w = Inl w' \<and> c' = 0 \<or> scan_turn E pat c w = Inr (c', w') \<and> c' \<noteq> 0"
    and "answered (redis_api E) (redis_calls w) (redis_calls w')"
  shows "\<exists>ks. rd_scan (redis_api E) (redis_calls w) (now w) c pat 100 (redis w) = Some (c', ks) \<and>
    stored_keys (redis w') = stored_keys (redis w) - set ks"
proof -
  have "redis_calls w < redis_calls w'" using assms(1) scan_turn_calls by blast
  with assms(2) have "rd_scan (redis_api E) (redis_calls w) (now w) c pat 100 (redis w) \<noteq> None"
    unfolding answered_def by (meson order_refl)
  then obtain c1 ks where scan: "rd_scan (redis_api E) (redis_calls w) (now w) c pat 100 (redis w) = Some (c1, ks)"
    by auto
  have del: "stored_keys (rd_del (redis_api E) (Suc (redis_calls w)) ks (redis w)) = stored_keys (redis w) - set ks"
    if "Suc (redis_calls w) < redis_calls w'"
    using assms(2) that unfolding answered_def by (meson Suc_leD order_refl le_SucI)
  show ?thesis
    using assms(1) scan del by (auto simp: scan_turn_def Let_def redis_next_def split: if_splits)
qed

text \<open>What the answered turns from cursor \<open>c\<close> on leave.\<close>

definition swept :: "redis_lib \<Rightarrow> string \<Rightarrow> nat \<Rightarrow> world \<Rightarrow> world \<Rightarrow> bool" where
  "swept A pat c w w' \<longleftrightarrow> redis_calls w \<le> redis_calls w' \<and>
     (answered A (redis_calls w) (redis_calls w') \<longrightarrow> stored_keys (redis w') \<subseteq> stored_keys (redis w) \<and>
        (\<exists>xs. full_scan A pat c xs \<and> (\<forall>(s, ks)\<in>set xs. stored_keys (redis w') \<subseteq> stored_keys s - set ks)))"

lemma swept_last:
  assumes turn: "scan_turn E pat c w = Inl w'"
  shows "swept (redis_api E) pat c w w'"
  unfolding swept_def
proof (intro conjI impI)
  show "redis_calls w \<le> redis_calls w'" using scan_turn_calls(1) [OF turn] by simp
  assume "answered (redis_api E) (redis_calls w) (redis_calls w')"
  with turn obtain ks where
    scan: "rd_scan (redis_api E) (redis_calls w) (now w) c pat 100 (redis w) = Some (0, ks)"
    and del: "stored_keys (redis w') = stored_keys (redis w) - set ks"
    using scan_turn_answered [of E pat c w w' 0] by auto
  show "stored_keys (redis w') \<subseteq> stored_keys (redis w)" using del by blast
  show "\<exists>xs. full_scan (redis_api E) pat c xs \<and>
      (\<forall>(s, ks)\<in>set xs. stored_keys (redis w') \<subseteq> stored_keys s - set ks)"
    using full_scan.last [OF scan] del by (intro exI [of _ "[(redis w, ks)]"]) simp
qed

lemma swept_more:
  assumes turn: "scan_turn E pat c w = Inr (c', w1)" and rest: "swept (redis_api E) pat c' w1 w'"
  shows "swept (redis_api E) pat c w w'"
  unfolding swept_def
proof (intro conjI impI)
  note calls = scan_turn_calls(2) [OF turn]
  show "redis_calls w \<le> redis_calls w'" using calls rest by (simp add: swept_def)
  assume ans: "answered (redis_api E) (redis_calls w) (redis_calls w')"
  have "answered (redis_api E) (redis_calls w) (redis_calls w1)"
    using answered_weaken [OF ans] rest by (simp add: swept_def)
  with turn calls obtain ks where
    scan: "rd_scan (redis_api E) (redis_calls w) (now w) c pat 100 (redis w) = Some (c', ks)"
    and del: "stored_keys (redis w1) = stored_keys (redis w) - set ks"
    using scan_turn_answered [of E pat c w w1 c'] by auto
  have "answered (redis_api E) (redis_calls w1) (redis_calls w')"
    using answered_weaken [OF ans] calls by simp
  with rest obtain xs where sub: "stored_keys (redis w') \<subseteq> stored_keys (redis w1)"
    and xs: "full_scan (redis_api E) pat c' xs"
      "\<forall>(s, ks)\<in>set xs. stored_keys (redis w') \<subseteq> stored_keys s - set ks"
    by (auto simp: swept_def)
  show "stored_keys (redis w') \<subseteq> stored_keys (redis w)" using sub del by blast
  have "c' \<noteq> 0" using calls by simp
  from full_scan.more [OF scan this xs(1)] xs(2) sub del
  show "\<exists>xs. full_scan (redis_api E) pat c xs \<and>
      (\<forall>(s, ks)\<in>set xs. stored_keys (redis w') \<subseteq> stored_keys s - set ks)"
    by (intro exI [of _ "(redis w, ks) # xs"]) simp
qed

lemma scan_del_swept:
  assumes "scan_del E pat c w = Some w'"
  shows "swept (redis_api E) pat c w w'"
proof (rule scan_del.raw_induct [where P = "\<lambda>E pat c w w'. swept (redis_api E) pat c w w'", OF _ assms])
  fix scan E pat c w w'
  assume IH: "\<And>E pat c w w'. scan E pat c w = Some w' \<Longrightarrow> swept (redis_api E) pat c w w'"
    and eq: "(case scan_turn E pat c w of Inl w' \<Rightarrow> Some w' | Inr (n, w') \<Rightarrow> scan E pat n w') = Some w'"
  show "swept (redis_api E) pat c w w'"
  proof (cases "scan_turn E pat c w")
    case (Inl w1)
    with eq swept_last [OF Inl] show ?thesis by simp
  next
    case (Inr p)
    then obtain n w1 where p: "scan_turn E pat c w = Inr (n, w1)" by (cases p) auto
    with eq have "scan E pat n w1 = Some w'" by simp
    from swept_more [OF p IH [OF this]] show ?thesis .
  qed
qed

lemma scan_del_leaves_none:
  assumes "scan_del E pat 0 w = Some w'" and "scan_complete (redis_api E)"
    and "answered (redis_api E) (redis_calls w) (redis_calls w')" and "star_match pat k"
  shows "k \<notin> stored_keys (redis w')"
proof
  assume k: "k \<in> stored_keys (redis w')"
  from scan_del_swept [OF assms(1)] assms(3) obtain xs where full: "full_scan (redis_api E) pat 0 xs"
    and left: "\<forall>(s, ks)\<in>set xs. stored_keys (redis w') \<subseteq> stored_keys s - set ks"
    by (auto simp: swept_def)
  from left k have "\<forall>(s, ks)\<in>set xs. k \<in> stored_keys s" by auto
  with assms(2,4) full have "\<exists>(s, ks)\<in>set xs. k \<in> set ks" unfolding scan_complete_def by blast
  with left k show False by auto
qed

section \<open>The cache never touches the database\<close>

lemma scan_turn_db:
  "scan_turn E pat c w = Inl w' \<Longrightarrow> db w' = db w"
  "scan_turn E pat c w = Inr (c', w') \<Longrightarrow> db w' = db w"
  by (auto simp: scan_turn_def Let_def redis_next_def split: option.splits if_splits)

lemma scan_del_db:
  assumes "scan_del E pat c w = Some w'"
  shows "db w' = db w"
proof (rule scan_del.raw_induct [where P = "\<lambda>E pat c w w'. db w' = db w", OF _ assms])
  fix scan E pat c w w'
  assume IH: "\<And>E pat c w w'. scan E pat c w = Some w' \<Longrightarrow> db w' = db w"
    and eq: "(case scan_turn E pat c w of Inl w' \<Rightarrow> Some w' | Inr (n, w') \<Rightarrow> scan E pat n w') = Some w'"
  show "db w' = db w"
  proof (cases "scan_turn E pat c w")
    case (Inl w1)
    with eq scan_turn_db(1) [OF Inl] show ?thesis by simp
  next
    case (Inr p)
    then obtain n w1 where p: "scan_turn E pat c w = Inr (n, w1)" by (cases p) auto
    with eq have "scan E pat n w1 = Some w'" by simp
    from IH [OF this] scan_turn_db(2) [OF p] show ?thesis by simp
  qed
qed

context db_order begin

lemma set_ex: "stable R (set_ex E k v ttl)"
  by (simp add: stable_def set_ex_def redis_next_def refl)

lemma cache_deny: "stable R (cache_deny E jti ttl)"
  by (simp add: cache_deny_def ret set_ex)

lemma cache_is_denied: "stable R (cache_is_denied E jti)"
  by (simp add: cache_is_denied_def ret) (simp add: stable_def redis_next_def refl)

lemma cache_get_perms: "stable R (cache_get_perms E t p u)"
  by (simp add: cache_get_perms_def ret) (simp add: stable_def redis_next_def refl)

lemma cache_set_perms: "stable R (cache_set_perms E t p u ps)"
  unfolding cache_set_perms_def by (intro act_rules set_ex)

lemma cache_invalidate_perms: "stable R (cache_invalidate_perms E u)"
  by (auto simp: stable_def cache_invalidate_perms_def refl dest: scan_del_db split: option.split)

lemmas cache_rules = cache_deny cache_is_denied cache_get_perms cache_set_perms cache_invalidate_perms

end

end
