(* ===== verification/ServiceBase.thy ===== *)
theory ServiceBase
  imports RepoTenancy TotpSecret Cache
begin

text \<open>
  The helpers of \<open>src/grpc.rs\<close> that the handlers share: permissions and identity from the
  gateway's metadata, PKCE, audit records, and the minting of token pairs.  Metadata maps a key to
  the value \<open>md.get(key)\<close> yields when it is present and readable as text.
\<close>

type_synonym metadata = "string \<Rightarrow> string option"

section \<open>Caller identity and permissions\<close>

definition default_role :: string where
  "default_role = ''user''"

definition refresh_rotation_grace_secs :: int where
  "refresh_rotation_grace_secs = 60"

definition mfa_token_ttl_secs :: int where
  "mfa_token_ttl_secs = 300"

definition comma :: char where
  "comma = CHR '',''"

definition has_perm :: "metadata \<Rightarrow> string \<Rightarrow> bool" where
  "has_perm md perm \<longleftrightarrow>
     (case md ''x-user-permissions'' of None \<Rightarrow> False | Some s \<Rightarrow> perm \<in> set (split_on comma s))"

definition require_perm :: "metadata \<Rightarrow> string \<Rightarrow> unit act" where
  "require_perm md perm =
     require (has_perm md perm) (Status Permission_denied (''permission denied: '' @ perm))"

definition meta :: "metadata \<Rightarrow> string \<Rightarrow> string" where
  "meta md key = (case md key of None \<Rightarrow> [] | Some v \<Rightarrow> v)"

definition caller_perms :: "metadata \<Rightarrow> string list" where
  "caller_perms md = filter (\<lambda>s. s \<noteq> []) (split_on comma (meta md ''x-user-permissions''))"

definition caller_uuid :: "env \<Rightarrow> metadata \<Rightarrow> failure + uuid" where
  "caller_uuid E md =
     (case uuid_parse (fmt E) (meta md ''x-user-id'') of
        None \<Rightarrow> Inl (Status Unauthenticated ''missing or invalid caller identity'')
      | Some i \<Rightarrow> Inr i)"

definition active_tenant :: "env \<Rightarrow> metadata \<Rightarrow> failure + uuid" where
  "active_tenant E md =
     (let t = meta md ''x-tenant-id'' in
      if t = [] then Inl (Status Failed_precondition ''no active tenant on token'')
      else (case uuid_parse (fmt E) t of
              None \<Rightarrow> Inl (Status Internal ''invalid active tenant'')
            | Some i \<Rightarrow> Inr i))"

definition is_builtin_role :: "string \<Rightarrow> bool" where
  "is_builtin_role name \<longleftrightarrow> name = ''admin'' \<or> name = ''user''"

definition parse_opt_project :: "env \<Rightarrow> string \<Rightarrow> failure + uuid option" where
  "parse_opt_project E s =
     (if s = [] then Inr None
      else (case uuid_parse (fmt E) s of
              None \<Rightarrow> Inl (Status Invalid_argument ''invalid project id'')
            | Some i \<Rightarrow> Inr (Some i)))"

section \<open>Secrets\<close>

definition hash_token :: "crypto_lib \<Rightarrow> string \<Rightarrow> string" where
  "hash_token C token = hex_encode C (sha256 C token)"

definition gen_hex :: "env \<Rightarrow> nat \<Rightarrow> string act" where
  "gen_hex E n =
     bind_ok (draw (\<lambda>i. rnd_bytes (rand E) i n)) (\<lambda>b. ret (hex_encode (crypto E) b))"

definition gen_refresh_token :: "env \<Rightarrow> string act" where
  "gen_refresh_token E =
     bind_ok (draw (\<lambda>i. rnd_bytes (rand E) i 32)) (\<lambda>b. ret (hex_encode (crypto E) b))"

definition verify_pkce :: "crypto_lib \<Rightarrow> string \<Rightarrow> string \<Rightarrow> string \<Rightarrow> bool" where
  "verify_pkce C challenge method verifier =
     (if method = ''S256'' then b64url_encode C (sha256 C verifier) = challenge
      else if method = ''plain'' \<or> method = [] then verifier = challenge
      else False)"

section \<open>Audit\<close>

definition audit_as ::
  "env \<Rightarrow> string \<Rightarrow> string \<Rightarrow> string \<Rightarrow> string \<Rightarrow> string \<Rightarrow> uuid option \<Rightarrow> unit act" where
  "audit_as E actor_id actor_email action target detail tenant =
     (if audit_enabled (cfg E) then
        with_now (\<lambda>t. db_ignore E (insert_audit t actor_id actor_email action target detail tenant))
      else ret ())"

definition audit :: "env \<Rightarrow> metadata \<Rightarrow> string \<Rightarrow> string \<Rightarrow> string \<Rightarrow> unit act" where
  "audit E md action target detail =
     audit_as E (meta md ''x-user-id'') (meta md ''x-user-email'') action target detail
       (case active_tenant E md of Inl _ \<Rightarrow> None | Inr t \<Rightarrow> Some t)"

section \<open>Token pairs\<close>

record token_pair =
  access_token :: string
  refresh_token :: string
  expires_in :: int
  token_type :: string
  mfa_required :: bool
  mfa_token :: string

definition show_opt_uuid :: "env \<Rightarrow> uuid option \<Rightarrow> string" where
  "show_opt_uuid E p = (case p of None \<Rightarrow> [] | Some i \<Rightarrow> uuid_show (fmt E) i)"

definition issue_tokens :: "env \<Rightarrow> uuid \<Rightarrow> string \<Rightarrow> uuid \<Rightarrow> uuid option \<Rightarrow> token_pair act" where
  "issue_tokens E user_id email tenant_id project_id =
     with_now (\<lambda>t.
     bind_ok (draw (\<lambda>n. jwt_issue (jwt E) n t (uuid_show (fmt E) user_id) email
                          (uuid_show (fmt E) tenant_id) (show_opt_uuid E project_id))) (\<lambda>signed.
     bind_ok (or_fail (Status Internal ''failed to sign token'') signed) (\<lambda>access.
     bind_ok (gen_refresh_token E) (\<lambda>refresh.
     bind_ok (now_plus E (refresh_ttl_secs E)) (\<lambda>expires.
     bind_ok (db_try E (Status Internal ''failed to persist refresh token'')
       (create_refresh_token user_id (hash_token (crypto E) refresh) expires tenant_id project_id)) (\<lambda>_.
     ret \<lparr>access_token = access, refresh_token = refresh,
          expires_in = jwt_access_ttl_secs (jwt E), token_type = ''Bearer'',
          mfa_required = False, mfa_token = []\<rparr>))))))"

definition issue_for_active_tenant :: "env \<Rightarrow> uuid \<Rightarrow> string \<Rightarrow> token_pair act" where
  "issue_for_active_tenant E user_id email =
     bind_ok (db_try E (Status Internal ''failed to load memberships'')
       (list_memberships (text_le E) user_id)) (\<lambda>members.
     issue_tokens E user_id email
       (case members of [] \<Rightarrow> default_tenant_id | m # _ \<Rightarrow> mv_tenant_id m) None)"

section \<open>Guards of the role handlers\<close>

definition validate_assign :: "env \<Rightarrow> string \<Rightarrow> string \<Rightarrow> uuid \<Rightarrow> uuid option act" where
  "validate_assign E role_name project_id tenant =
     bind_ok (db_try E (Status Internal ''db error'')
       (role_in_tenant (conn_role E) role_name tenant)) (\<lambda>found.
     bind_ok (require found (Status Not_found ''role not found in this tenant'')) (\<lambda>_.
     bind_ok (lift_sum (parse_opt_project E project_id)) (\<lambda>project.
     case project of
       None \<Rightarrow> ret None
     | Some pid \<Rightarrow>
         bind_ok (db_try E (Status Internal ''db error'')
           (is_project_in_tenant (conn_role E) pid tenant)) (\<lambda>inside.
         bind_ok (require inside
           (Status Invalid_argument ''project does not belong to this tenant'')) (\<lambda>_.
         ret (Some pid))))))"

definition perm_role_guard :: "env \<Rightarrow> string \<Rightarrow> uuid \<Rightarrow> unit act" where
  "perm_role_guard E role_name tenant =
     bind_ok (require (\<not> is_builtin_role role_name)
       (Status Failed_precondition
         (''cannot modify a built-in role'' @ [CHR 0x27] @ ''s permissions''))) (\<lambda>_.
     bind_ok (db_try E (Status Internal ''db error'')
       (tenant_role_exists (conn_role E) role_name tenant)) (\<lambda>found.
     require found (Status Not_found ''role not found in this tenant'')))"

section \<open>Facts\<close>

text \<open>A permission without a comma is granted exactly when it is one of the listed ones.\<close>

lemma has_perm_join:
  assumes "md ''x-user-permissions'' = Some (join_on comma ps)" and "ps \<noteq> []"
    and "\<And>p. p \<in> set ps \<Longrightarrow> comma \<notin> set p"
  shows "has_perm md perm \<longleftrightarrow> perm \<in> set ps"
  using assms by (simp add: has_perm_def split_join_on)

lemma require_perm_Inr [act_elims]:
  "require_perm md p w = (Inr x, w') \<Longrightarrow> (has_perm md p \<Longrightarrow> w' = w \<Longrightarrow> P) \<Longrightarrow> P"
  by (auto simp: require_perm_def elim!: act_elims)

lemma audit_as_Inr:
  "audit_as E a e ac tg de ten w = (Inr x, w') \<Longrightarrow>
   db w' = db w \<or> (\<exists>t. insert_audit t a e ac tg de ten (db w) = Inr ((), db w'))"
  by (auto simp: audit_as_def db_ignore_def dest!: db_ok_Inr split: if_splits elim!: act_elims)

text \<open>A successful \<open>issue_tokens\<close> wrote exactly one refresh-token row and signed for the same
  user, tenant and project.\<close>

lemma issue_tokens_Inr:
  assumes "issue_tokens E user_id email tenant_id project_id w = (Inr tp, w')"
  shows "\<exists>expires d. add_seconds (fmt E) (now w) (refresh_ttl_secs E) = Some expires \<and>
    create_refresh_token user_id (hash_token (crypto E) (refresh_token tp)) expires tenant_id project_id
      (db w) = Inr ((), db w') \<and>
    jwt_issue (jwt E) (draws w) (now w) (uuid_show (fmt E) user_id) email
      (uuid_show (fmt E) tenant_id) (show_opt_uuid E project_id) = Some (access_token tp) \<and>
    mfa_required tp = False \<and> mfa_token tp = [] \<and> now w' = now w \<and> redis w' = redis w \<and>
    mails w' = mails w"
  using assms unfolding issue_tokens_def gen_refresh_token_def now_plus_def
  by (auto elim!: act_elims)

context db_order begin

lemma require_perm: "stable R (require_perm md p)"
  by (simp add: require_perm_def require)

lemma gen_hex: "stable R (gen_hex E n)"
  unfolding gen_hex_def by (intro act_rules)

lemma gen_refresh_token: "stable R (gen_refresh_token E)"
  unfolding gen_refresh_token_def by (intro act_rules)

lemma audit_as:
  "(\<And>t. q_stable R (insert_audit t a e ac tg de ten)) \<Longrightarrow> stable R (audit_as E a e ac tg de ten)"
  unfolding audit_as_def by (intro act_rules)

lemma audit:
  "(\<And>t a e ten. q_stable R (insert_audit t a e ac tg de ten)) \<Longrightarrow> stable R (audit E md ac tg de)"
  unfolding audit_def by (intro audit_as)

lemma issue_tokens:
  "(\<And>h exp. q_stable R (create_refresh_token i h exp ten p)) \<Longrightarrow> stable R (issue_tokens E i em ten p)"
  unfolding issue_tokens_def by (intro act_rules gen_refresh_token)

lemma issue_for_active_tenant:
  "(\<And>h exp ten. q_stable R (create_refresh_token i h exp ten None)) \<Longrightarrow>
   stable R (issue_for_active_tenant E i em)"
  unfolding issue_for_active_tenant_def list_memberships_def by (intro act_rules q_reading issue_tokens)

lemma validate_assign: "stable R (validate_assign E r p t)"
  unfolding validate_assign_def role_in_tenant_def is_project_in_tenant_def
  by (intro act_rules q_reading)

lemma perm_role_guard: "stable R (perm_role_guard E r t)"
  unfolding perm_role_guard_def tenant_role_exists_def by (intro act_rules q_reading)

lemmas base_rules = act_rules cache_rules require_perm gen_hex gen_refresh_token encrypt_secret
  totp_generate generate_recovery_codes validate_assign perm_role_guard

end

end
