(* ===== verification/SvcSession.thy ===== *)
theory SvcSession
  imports ServiceBase
begin

text \<open>
  The session handlers of \<open>src/grpc.rs\<close>: \<open>login\<close>, \<open>login_totp\<close>, \<open>refresh\<close>,
  \<open>logout\<close>, \<open>validate_token\<close>, \<open>list_my_memberships\<close> and \<open>switch_tenant\<close>.  A
  handler takes the metadata it reads and the fields of its request.
\<close>

section \<open>Password step\<close>

definition locked :: "time \<Rightarrow> user_row \<Rightarrow> bool" where
  "locked t u \<longleftrightarrow> (case u_locked_until u of None \<Rightarrow> False | Some until \<Rightarrow> until > t)"

text \<open>The failure counter and the lock, the same in \<open>login\<close> and \<open>login_totp\<close> up to the detail
  of the audit record.\<close>

definition count_failure :: "env \<Rightarrow> uuid \<Rightarrow> string \<Rightarrow> string \<Rightarrow> unit act" where
  "count_failure E uid email detail =
     (if login_max_failures (cfg E) > 0 then
        bind_ok (db_ok E (increment_login_failure uid)) (\<lambda>n.
        case n of
          None \<Rightarrow> ret ()
        | Some k \<Rightarrow>
            if k \<ge> login_max_failures (cfg E) then
              bind_ok (now_plus E (login_lockout_secs (cfg E))) (\<lambda>until.
              bind_ok (db_ignore E (lock_user uid until)) (\<lambda>_.
              audit_as E (uuid_show (fmt E) uid) email ''login.locked'' [] detail None))
            else ret ())
      else ret ())"

definition mfa_challenge :: "string \<Rightarrow> token_pair" where
  "mfa_challenge mfa =
     \<lparr>access_token = [], refresh_token = [], expires_in = 0, token_type = ''Bearer'',
      mfa_required = True, mfa_token = mfa\<rparr>"

definition rpc_login :: "env \<Rightarrow> string \<Rightarrow> string \<Rightarrow> token_pair act" where
  "rpc_login E email password =
     bind_ok (db_try E (Status Internal ''db error'') (get_user_by_email email)) (\<lambda>found.
     bind_ok (or_fail (Status Unauthenticated ''invalid credentials'') found) (\<lambda>user.
     with_now (\<lambda>t.
     bind_ok (require (\<not> locked t user)
       (Status Unauthenticated ''account temporarily locked, try again later'')) (\<lambda>_.
     if \<not> pw_verify (crypto E) (u_password_hash user) password then
       bind_ok (count_failure E (u_id user) (u_email user) ''too many failed attempts'') (\<lambda>_.
       bind_ok (audit_as E (uuid_show (fmt E) (u_id user)) (u_email user) ''login.failure'' [] [] None)
         (\<lambda>_.
       fail (Status Unauthenticated ''invalid credentials'')))
     else
       bind_ok (require (\<not> (require_email_verification (cfg E) \<and> \<not> u_email_verified user))
         (Status Unauthenticated ''email not verified'')) (\<lambda>_.
       bind_ok (require (u_deleted_at user = None)
         (Status Unauthenticated ''invalid credentials'')) (\<lambda>_.
       bind_ok (db_ignore E (reset_login_state (u_id user))) (\<lambda>_.
       if u_totp_enabled user then
         bind_ok (audit_as E (uuid_show (fmt E) (u_id user)) (u_email user) ''login.mfa_challenge'' [] []
           None) (\<lambda>_.
         bind_ok (draw (\<lambda>n. jwt_issue_mfa (jwt E) n t (uuid_show (fmt E) (u_id user))
           mfa_token_ttl_secs)) (\<lambda>signed.
         bind_ok (or_fail (Status Internal ''failed to issue mfa token'') signed) (\<lambda>mfa.
         ret (mfa_challenge mfa))))
       else
         bind_ok (audit_as E (uuid_show (fmt E) (u_id user)) (u_email user) ''login.success'' [] []
           None) (\<lambda>_.
         issue_for_active_tenant E (u_id user) (u_email user)))))))))"

section \<open>Second factor\<close>

definition mfa_ready :: "user_row \<Rightarrow> bool" where
  "mfa_ready u \<longleftrightarrow> u_deleted_at u = None \<and> u_totp_enabled u \<and> u_totp_secret u \<noteq> None"

definition second_factor_ok :: "env \<Rightarrow> time \<Rightarrow> uuid \<Rightarrow> string \<Rightarrow> string \<Rightarrow> bool act" where
  "second_factor_ok E t uid code secret =
     (if totp_validate (totp E) t code secret then ret True
      else db_try E (Status Internal ''db error'')
             (consume_recovery_code t uid (hash_token (crypto E) code)))"

definition rpc_login_totp :: "env \<Rightarrow> string \<Rightarrow> string \<Rightarrow> token_pair act" where
  "rpc_login_totp E mfa code =
     with_now (\<lambda>t.
     bind_ok (or_fail (Status Unauthenticated ''invalid or expired mfa token'')
       (jwt_parse (jwt E) t mfa)) (\<lambda>claims.
     bind_ok (require (cl_purpose claims = ''mfa'')
       (Status Unauthenticated ''invalid mfa token'')) (\<lambda>_.
     bind_ok (or_fail (Status Unauthenticated ''invalid mfa token'')
       (uuid_parse (fmt E) (cl_sub claims))) (\<lambda>uid.
     bind_ok (db_try E (Status Internal ''db error'') (get_user_by_id uid)) (\<lambda>found.
     bind_ok (or_fail (Status Unauthenticated ''invalid credentials'')
       (case found of Some u \<Rightarrow> if mfa_ready u then Some u else None | None \<Rightarrow> None)) (\<lambda>user.
     bind_ok (require (\<not> locked t user)
       (Status Unauthenticated ''account temporarily locked, try again later'')) (\<lambda>_.
     bind_ok (or_fail Panic (u_totp_secret user)) (\<lambda>stored.
     let secret = (case decrypt (crypto E) (totp_cipher E) stored of Inr s \<Rightarrow> s | Inl _ \<Rightarrow> []) in
     bind_ok (second_factor_ok E t uid code secret) (\<lambda>good.
     if \<not> good then
       bind_ok (count_failure E uid (u_email user) ''too many failed mfa attempts'') (\<lambda>_.
       bind_ok (audit_as E (uuid_show (fmt E) uid) (u_email user) ''login.mfa_failure'' [] [] None) (\<lambda>_.
       fail (Status Unauthenticated ''invalid code'')))
     else
       bind_ok (db_ignore E (reset_login_state uid)) (\<lambda>_.
       bind_ok (audit_as E (uuid_show (fmt E) uid) (u_email user) ''login.success'' [] ''2fa'' None) (\<lambda>_.
       issue_for_active_tenant E uid (u_email user))))))))))))"

section \<open>Refresh\<close>

definition rotated :: "refresh_token_row \<Rightarrow> bool" where
  "rotated r \<longleftrightarrow> (case rt_replaced_by r of None \<Rightarrow> False | Some s \<Rightarrow> s \<noteq> [])"

definition within_grace :: "time \<Rightarrow> time \<Rightarrow> bool" where
  "within_grace t revoked_at \<longleftrightarrow> t - revoked_at < refresh_rotation_grace_secs * second"

definition rpc_refresh :: "env \<Rightarrow> string \<Rightarrow> token_pair act" where
  "rpc_refresh E token =
     (let h = hash_token (crypto E) token in
     bind_ok (db_try E (Status Internal ''db error'') (get_refresh_token h)) (\<lambda>found.
     bind_ok (or_fail (Status Unauthenticated ''invalid refresh token'') found) (\<lambda>row.
     with_now (\<lambda>t.
     case rt_revoked_at row of
       Some revoked_at \<Rightarrow>
         if rotated row \<and> within_grace t revoked_at then
           bind_ok (db_try E (Status Internal ''db error'') (get_user_by_id (rt_user_id row))) (\<lambda>u.
           bind_ok (or_fail (Status Unauthenticated ''user not found'') u) (\<lambda>user.
           issue_tokens E (u_id user) (u_email user) (rt_tenant_id row) (rt_project_id row)))
         else
           bind_ok (db_ignore E (revoke_all_user_refresh_tokens t (rt_user_id row))) (\<lambda>_.
           bind_ok (audit_as E (uuid_show (fmt E) (rt_user_id row)) [] ''refresh.reuse_detected'' []
             ''all sessions revoked'' None) (\<lambda>_.
           fail (Status Unauthenticated ''refresh token revoked'')))
     | None \<Rightarrow>
         bind_ok (require (\<not> rt_expires_at row < t)
           (Status Unauthenticated ''refresh token expired'')) (\<lambda>_.
         bind_ok (db_try E (Status Internal ''db error'') (get_user_by_id (rt_user_id row))) (\<lambda>u.
         bind_ok (or_fail (Status Unauthenticated ''user not found'') u) (\<lambda>user.
         bind_ok (issue_tokens E (u_id user) (u_email user) (rt_tenant_id row) (rt_project_id row)) (\<lambda>pair.
         bind_ok (db_ignore E (rotate_refresh_token t h (hash_token (crypto E) (refresh_token pair)))) (\<lambda>_.
         ret pair)))))))))"

section \<open>Logout\<close>

definition timestamp :: "time \<Rightarrow> int" where
  "timestamp t = t div second"

definition rpc_logout :: "env \<Rightarrow> metadata \<Rightarrow> string \<Rightarrow> string \<Rightarrow> bool act" where
  "rpc_logout E md refresh access =
     bind_ok (with_now (\<lambda>t. db_try E (Status Internal ''failed to revoke token'')
       (revoke_refresh_token t (hash_token (crypto E) refresh)))) (\<lambda>_.
     bind_ok
       (if access = [] then ret ()
        else with_now (\<lambda>t.
          case jwt_parse (jwt E) t access of
            None \<Rightarrow> ret ()
          | Some claims \<Rightarrow>
              bind_ok
                (case from_timestamp (fmt E) (cl_exp claims) of
                   None \<Rightarrow> ret ()
                 | Some exp \<Rightarrow> db_ignore E (revoke_access_jti t (cl_jti claims) exp)) (\<lambda>_.
              cache_deny E (cl_jti claims) (cl_exp claims - timestamp t)))) (\<lambda>_.
     bind_ok (audit E md ''auth.logout'' [] []) (\<lambda>_.
     ret True)))"

section \<open>Validating an access token\<close>

record validated =
  va_user_id :: string
  va_email :: string
  va_roles :: "string list"
  va_permissions :: "string list"
  va_tenant_id :: string
  va_project_id :: string

text \<open>The Redis denylist when it answers, else the one in Postgres.\<close>

definition token_denied :: "env \<Rightarrow> string \<Rightarrow> bool act" where
  "token_denied E jti =
     bind_ok (cache_is_denied E jti) (\<lambda>answer.
     case answer of
       Some d \<Rightarrow> ret d
     | None \<Rightarrow> db_try E (Status Internal ''failed to check token status'') (is_token_revoked jti))"

definition token_tenant :: "env \<Rightarrow> uuid \<Rightarrow> string \<Rightarrow> uuid option act" where
  "token_tenant E user_id tenant_claim =
     (if tenant_claim = [] then ret None
      else
        bind_ok (or_fail (Status Unauthenticated ''invalid tenant claim'')
          (uuid_parse (fmt E) tenant_claim)) (\<lambda>tid.
        bind_ok (db_try E (Status Internal ''failed to check membership'')
          (is_active_member user_id tid)) (\<lambda>member.
        bind_ok (require member (Status Unauthenticated ''tenant membership revoked'')) (\<lambda>_.
        ret (Some tid)))))"

definition token_project :: "env \<Rightarrow> string \<Rightarrow> uuid option act" where
  "token_project E project_claim =
     (if project_claim = [] then ret None
      else
        bind_ok (or_fail (Status Unauthenticated ''invalid project claim'')
          (uuid_parse (fmt E) project_claim)) (\<lambda>pid. ret (Some pid)))"

definition load_permissions :: "env \<Rightarrow> claims \<Rightarrow> uuid \<Rightarrow> uuid option \<Rightarrow> uuid option \<Rightarrow> string list act" where
  "load_permissions E claims user_id tenant project =
     bind_ok (cache_get_perms E (cl_tenant_id claims) (cl_project_id claims) (cl_sub claims)) (\<lambda>hit.
     case hit of
       Some p \<Rightarrow> ret p
     | None \<Rightarrow>
         bind_ok (db_try E (Status Internal ''failed to load permissions'')
           (case tenant of
              Some tid \<Rightarrow> get_user_permissions_scoped (conn_role E) (text_le E) user_id tid project
            | None \<Rightarrow> get_user_permissions (conn_role E) (text_le E) user_id)) (\<lambda>p.
         bind_ok (cache_set_perms E (cl_tenant_id claims) (cl_project_id claims) (cl_sub claims) p) (\<lambda>_.
         ret p)))"

definition rpc_validate_token :: "env \<Rightarrow> string \<Rightarrow> validated act" where
  "rpc_validate_token E access =
     with_now (\<lambda>t.
     bind_ok (or_fail (Status Unauthenticated ''invalid or expired token'')
       (jwt_parse_access (jwt E) t access)) (\<lambda>claims.
     bind_ok (token_denied E (cl_jti claims)) (\<lambda>denied.
     bind_ok (require (\<not> denied) (Status Unauthenticated ''token revoked'')) (\<lambda>_.
     bind_ok (or_fail (Status Unauthenticated ''invalid subject'')
       (uuid_parse (fmt E) (cl_sub claims))) (\<lambda>user_id.
     bind_ok (db_try E (Status Internal ''failed to check account status'')
       (is_user_active user_id)) (\<lambda>active.
     bind_ok (require active (Status Unauthenticated ''account is not active'')) (\<lambda>_.
     bind_ok (token_tenant E user_id (cl_tenant_id claims)) (\<lambda>tenant.
     bind_ok (token_project E (cl_project_id claims)) (\<lambda>project.
     bind_ok (db_try E (Status Internal ''failed to load roles'')
       (case tenant of
          Some tid \<Rightarrow> get_user_roles_scoped (conn_role E) (text_le E) user_id tid project
        | None \<Rightarrow> get_user_roles (conn_role E) (text_le E) user_id)) (\<lambda>roles.
     bind_ok (load_permissions E claims user_id tenant project) (\<lambda>permissions.
     ret \<lparr>va_user_id = cl_sub claims, va_email = cl_email claims, va_roles = roles,
          va_permissions = permissions, va_tenant_id = cl_tenant_id claims,
          va_project_id = cl_project_id claims\<rparr>)))))))))))"

section \<open>Tenants of the caller\<close>

definition rpc_list_my_memberships :: "env \<Rightarrow> metadata \<Rightarrow> (string \<times> string \<times> string \<times> string) list act"
  where
  "rpc_list_my_memberships E md =
     bind_ok (lift_sum (caller_uuid E md)) (\<lambda>caller.
     bind_ok (db_try E (Status Internal ''failed to load memberships'')
       (list_memberships (text_le E) caller)) (\<lambda>rows.
     ret (map (\<lambda>m. (uuid_show (fmt E) (mv_tenant_id m), mv_tenant_slug m, mv_tenant_name m,
                    mv_status m)) rows)))"

definition rpc_switch_tenant :: "env \<Rightarrow> metadata \<Rightarrow> string \<Rightarrow> string \<Rightarrow> token_pair act" where
  "rpc_switch_tenant E md tenant project =
     bind_ok (lift_sum (caller_uuid E md)) (\<lambda>caller.
     bind_ok (or_fail (Status Invalid_argument ''invalid tenant id'')
       (uuid_parse (fmt E) tenant)) (\<lambda>tenant_id.
     bind_ok (db_try E (Status Internal ''failed to check membership'')
       (is_active_member caller tenant_id)) (\<lambda>member.
     bind_ok (require member (Status Permission_denied ''not a member of that tenant'')) (\<lambda>_.
     bind_ok
       (if project = [] then ret None
        else
          bind_ok (or_fail (Status Invalid_argument ''invalid project id'')
            (uuid_parse (fmt E) project)) (\<lambda>pid.
          bind_ok (db_try E (Status Internal ''project check failed'')
            (is_project_in_tenant (conn_role E) pid tenant_id)) (\<lambda>inside.
          bind_ok (require inside
            (Status Invalid_argument ''project does not belong to this tenant'')) (\<lambda>_.
          ret (Some pid))))) (\<lambda>project_id.
     bind_ok (db_try E (Status Internal ''db error'') (get_user_by_id caller)) (\<lambda>u.
     bind_ok (or_fail (Status Unauthenticated ''user not found'') u) (\<lambda>user.
     issue_tokens E caller (u_email user) tenant_id project_id)))))))"

end
