(* ===== verification/SvcOidc.thy ===== *)
theory SvcOidc
  imports ServiceBase
begin

text \<open>
  The OIDC provider of \<open>src/grpc.rs\<close>: JWKS, clients, authorization codes with PKCE, consents.
  Its statements are inline in the handlers, on the pool; the tables are permissive.
\<close>

section \<open>Statements\<close>

definition find_client :: "string \<Rightarrow> oauth_client_row option query" where [query_defs]:
  "find_client i = reading (\<lambda>d. find (\<lambda>c. oc_client_id c = i) (oauth_clients d))"

definition client_tenant_one :: "string \<Rightarrow> uuid query" where [query_defs]:
  "client_tenant_one i d =
     (case find (\<lambda>c. oc_client_id c = i) (oauth_clients d) of
        None \<Rightarrow> Inl Row_not_found | Some c \<Rightarrow> Inr (oc_tenant_id c, d))"

definition user_email_one :: "uuid \<Rightarrow> string query" where [query_defs]:
  "user_email_one i d =
     (case find (\<lambda>u. u_id u = i) (users d) of
        None \<Rightarrow> Inl Row_not_found | Some u \<Rightarrow> Inr (u_email u, d))"

definition nullif_empty :: "string \<Rightarrow> string option" where
  "nullif_empty s = (if s = [] then None else Some s)"

definition insert_auth_code :: "auth_code_row \<Rightarrow> unit query" where [query_defs]:
  "insert_auth_code r d =
     (if exists_where (\<lambda>c. ac_code_hash c = ac_code_hash r) (auth_codes d) then Inl Unique_violation
      else if \<not> exists_where (\<lambda>c. oc_client_id c = ac_client_id r) (oauth_clients d)
        then Inl Fk_violation
      else Inr ((), d\<lparr>auth_codes := auth_codes d @ [r]\<rparr>))"

definition find_code :: "string \<Rightarrow> auth_code_row option query" where [query_defs]:
  "find_code h = reading (\<lambda>d. find (\<lambda>c. ac_code_hash c = h) (auth_codes d))"

definition claimable :: "string \<Rightarrow> auth_code_row \<Rightarrow> bool" where
  "claimable h c \<longleftrightarrow> ac_code_hash c = h \<and> \<not> ac_used c"

text \<open>\<open>UPDATE ... SET used = true WHERE code_hash = $1 AND used = false\<close>, with its row count.\<close>

definition claim_code :: "string \<Rightarrow> nat query" where [query_defs]:
  "claim_code h d =
     Inr (length (filter (claimable h) (auth_codes d)),
          d\<lparr>auth_codes := update_where (claimable h) (\<lambda>c. c\<lparr>ac_used := True\<rparr>) (auth_codes d)\<rparr>)"

definition find_consent :: "uuid \<Rightarrow> string \<Rightarrow> consent_row option query" where [query_defs]:
  "find_consent u c = reading (\<lambda>d.
     find (\<lambda>r. co_user_id r = u \<and> co_client_id r = c) (consents d))"

definition upsert_consent :: "time \<Rightarrow> uuid \<Rightarrow> string \<Rightarrow> string list \<Rightarrow> unit query" where [query_defs]:
  "upsert_consent t u c scopes d =
     (if exists_where (\<lambda>r. co_user_id r = u \<and> co_client_id r = c) (consents d)
        then Inr ((), d\<lparr>consents := update_where (\<lambda>r. co_user_id r = u \<and> co_client_id r = c)
               (\<lambda>r. r\<lparr>co_scopes := scopes, co_granted_at := t\<rparr>) (consents d)\<rparr>)
      else if \<not> exists_where (\<lambda>x. oc_client_id x = c) (oauth_clients d) then Inl Fk_violation
      else Inr ((), d\<lparr>consents := consents d @
             [\<lparr>co_user_id = u, co_client_id = c, co_scopes = scopes, co_granted_at = t\<rparr>]\<rparr>))"

definition insert_client :: "oauth_client_row \<Rightarrow> unit query" where [query_defs]:
  "insert_client r d =
     (if exists_where (\<lambda>c. oc_client_id c = oc_client_id r) (oauth_clients d) then Inl Unique_violation
      else if \<not> has_tenant (oc_tenant_id r) d then Inl Fk_violation
      else Inr ((), d\<lparr>oauth_clients := oauth_clients d @ [r]\<rparr>))"

section \<open>Keys and clients\<close>

record jwk =
  jk_kid :: string
  jk_kty :: string
  jk_use :: string
  jk_alg :: string
  jk_n :: string
  jk_e :: string

fun jwks_of :: "crypto_lib \<Rightarrow> signing_key_row list \<Rightarrow> jwk list act" where
  "jwks_of C [] = ret []"
| "jwks_of C (r # rs) =
     bind_ok (or_fail (Status Internal ''invalid public key'') (rsa_public C (sk_public_pem r))) (\<lambda>ne.
     bind_ok (jwks_of C rs) (\<lambda>ks.
     ret (\<lparr>jk_kid = sk_kid r, jk_kty = ''RSA'', jk_use = ''sig'', jk_alg = ''RS256'',
           jk_n = b64url_encode C (fst ne), jk_e = b64url_encode C (snd ne)\<rparr> # ks)))"

definition rpc_get_jwks :: "env \<Rightarrow> jwk list act" where
  "rpc_get_jwks E =
     bind_ok (db_try E (Status Internal ''jwks query failed'') (reading signing_keys)) (\<lambda>rows.
     jwks_of (crypto E) rows)"

text \<open>The columns \<open>get_client\<close> selects and returns: no secret hash and no tenant.\<close>

record client_view =
  cv_client_id :: string
  cv_name :: string
  cv_redirect_uris :: "string list"
  cv_scopes :: "string list"
  cv_grant_types :: "string list"
  cv_is_confidential :: bool

definition show_client :: "oauth_client_row \<Rightarrow> client_view" where
  "show_client c = \<lparr>cv_client_id = oc_client_id c, cv_name = oc_name c,
     cv_redirect_uris = oc_redirect_uris c, cv_scopes = oc_scopes c,
     cv_grant_types = oc_grant_types c, cv_is_confidential = oc_is_confidential c\<rparr>"

definition rpc_get_client :: "env \<Rightarrow> string \<Rightarrow> client_view act" where
  "rpc_get_client E client_id =
     bind_ok (db_try E (Status Internal ''client lookup failed'') (find_client client_id)) (\<lambda>row.
     or_fail (Status Not_found ''client not found'') (map_option show_client row))"

definition rpc_register_client ::
  "env \<Rightarrow> metadata \<Rightarrow> string \<Rightarrow> string list \<Rightarrow> string list \<Rightarrow> bool \<Rightarrow> (string \<times> string) act" where
  "rpc_register_client E md name redirect_uris scopes confidential =
     bind_ok (require_perm md ''role:write'') (\<lambda>_.
     bind_ok (lift_sum (active_tenant E md)) (\<lambda>tenant.
     bind_ok (draw (\<lambda>n. uuid_show (fmt E) (rnd_uuid (rand E) n))) (\<lambda>client_id.
     bind_ok
       (if confidential then
          bind_ok (draw (\<lambda>n. b64url_encode (crypto E) (rnd_bytes (rand E) n 32))) (\<lambda>s.
          ret (s, Some (hash_token (crypto E) s)))
        else ret ([], None)) (\<lambda>secret.
     bind_ok (db_try E (Status Internal ''could not register client'')
       (insert_client
          \<lparr>oc_client_id = client_id, oc_client_secret_hash = snd secret, oc_name = name,
           oc_redirect_uris = redirect_uris,
           oc_scopes = (if scopes = [] then [''openid'', ''profile'', ''email''] else scopes),
           oc_grant_types = [''authorization_code'', ''refresh_token''],
           oc_is_confidential = confidential, oc_tenant_id = tenant\<rparr>)) (\<lambda>_.
     ret (client_id, fst secret))))))"

section \<open>Authorization codes\<close>

definition rpc_create_authorization_code ::
  "env \<Rightarrow> string \<Rightarrow> string \<Rightarrow> string \<Rightarrow> string \<Rightarrow> string \<Rightarrow> string \<Rightarrow> string \<Rightarrow> string act" where
  "rpc_create_authorization_code E client_id user redirect_uri scope challenge method nonce =
     bind_ok (or_fail (Status Invalid_argument ''invalid user id'') (uuid_parse (fmt E) user)) (\<lambda>user_id.
     bind_ok (db_try E (Status Internal ''client lookup failed'') (find_client client_id)) (\<lambda>row.
     bind_ok (or_fail (Status Not_found ''client not found'') row) (\<lambda>client.
     bind_ok (db_try E (Status Internal ''membership check failed'')
       (is_active_member user_id (oc_tenant_id client))) (\<lambda>member.
     bind_ok (require member (Status Permission_denied
       (''not a member of this client'' @ [CHR 0x27] @ ''s organization''))) (\<lambda>_.
     bind_ok (draw (\<lambda>n. b64url_encode (crypto E) (rnd_bytes (rand E) n 32))) (\<lambda>code.
     with_now (\<lambda>t.
     bind_ok (db_try E (Status Internal ''could not create authorization code'')
       (insert_auth_code
          \<lparr>ac_code_hash = hash_token (crypto E) code, ac_client_id = client_id, ac_user_id = user_id,
           ac_redirect_uri = redirect_uri, ac_scope = scope,
           ac_code_challenge = nullif_empty challenge,
           ac_code_challenge_method = nullif_empty method, ac_nonce = nullif_empty nonce,
           ac_expires_at = t + 300 * second, ac_used = False\<rparr>)) (\<lambda>_.
     ret code))))))))"

record oidc_tokens =
  od_access_token :: string
  od_id_token :: string
  od_refresh_token :: string
  od_expires_in :: int
  od_token_type :: string
  od_scope :: string

definition str_or :: "string \<Rightarrow> string option \<Rightarrow> string" where
  "str_or z x = (case x of None \<Rightarrow> z | Some s \<Rightarrow> s)"

definition has_pkce :: "auth_code_row \<Rightarrow> bool" where
  "has_pkce c \<longleftrightarrow> (case ac_code_challenge c of None \<Rightarrow> False | Some s \<Rightarrow> s \<noteq> [])"

definition pkce_accepts :: "crypto_lib \<Rightarrow> auth_code_row \<Rightarrow> string \<Rightarrow> bool" where
  "pkce_accepts C c verifier \<longleftrightarrow>
     verify_pkce C (str_or [] (ac_code_challenge c)) (str_or ''S256'' (ac_code_challenge_method c)) verifier"

definition invalid_grant :: failure where
  "invalid_grant = Status Invalid_argument ''invalid_grant''"

text \<open>
  The exchange in the two parts between which concurrent exchanges of one code can meet: the lookup
  with its checks, and the rest from the claim of the code on.
\<close>

definition exchange_find :: "env \<Rightarrow> string \<Rightarrow> string \<Rightarrow> string \<Rightarrow> auth_code_row act" where
  "exchange_find E code_hash req_client_id req_redirect_uri =
     with_now (\<lambda>t.
     bind_ok (db_try E (Status Internal ''code lookup failed'') (find_code code_hash)) (\<lambda>found.
     bind_ok (or_fail invalid_grant found) (\<lambda>row.
     bind_ok (require (\<not> (ac_used row \<or> ac_expires_at row < t \<or> ac_client_id row \<noteq> req_client_id
                         \<or> ac_redirect_uri row \<noteq> req_redirect_uri)) invalid_grant) (\<lambda>_.
     ret row))))"

definition exchange_finish ::
  "env \<Rightarrow> string \<Rightarrow> auth_code_row \<Rightarrow> string \<Rightarrow> string \<Rightarrow> oidc_tokens act" where
  "exchange_finish E code_hash row verifier client_secret =
     bind_ok (db_ok E (claim_code code_hash)) (\<lambda>claimed.
     bind_ok (require (claimed = Some 1) invalid_grant) (\<lambda>_.
     bind_ok (require (\<not> (has_pkce row \<and> \<not> pkce_accepts (crypto E) row verifier)) invalid_grant) (\<lambda>_.
     bind_ok (db_try E (Status Internal ''client lookup failed'') (find_client (ac_client_id row))) (\<lambda>c.
     bind_ok (or_fail (Status Invalid_argument ''invalid_client'') c) (\<lambda>client.
     bind_ok
       (if oc_is_confidential client then
          require (oc_client_secret_hash client = Some (hash_token (crypto E) client_secret))
            (Status Unauthenticated ''invalid_client'')
        else require (has_pkce row)
          (Status Invalid_argument ''PKCE required for public clients'')) (\<lambda>_.
     bind_ok (db_try E (Status Internal ''user lookup failed'') (user_email_one (ac_user_id row))) (\<lambda>email.
     bind_ok (db_try E (Status Internal ''client tenant lookup failed'')
       (client_tenant_one (ac_client_id row))) (\<lambda>tenant.
     bind_ok (db_try E (Status Internal ''membership check failed'')
       (is_active_member (ac_user_id row) tenant)) (\<lambda>member.
     bind_ok (require member (Status Permission_denied ''not a member of this organization'')) (\<lambda>_.
     bind_ok (issue_tokens E (ac_user_id row) email tenant None) (\<lambda>tp.
     with_now (\<lambda>t.
     bind_ok (draw (\<lambda>n. jwt_issue_id_token (jwt E) n t (uuid_show (fmt E) (ac_user_id row)) email
                          (ac_client_id row) (str_or [] (ac_nonce row)) (oidc_issuer (cfg E)))) (\<lambda>signed.
     bind_ok (or_fail (Status Internal ''failed to sign id_token'') signed) (\<lambda>id_token.
     ret \<lparr>od_access_token = access_token tp, od_id_token = id_token,
          od_refresh_token = refresh_token tp, od_expires_in = expires_in tp,
          od_token_type = ''Bearer'', od_scope = ac_scope row\<rparr>))))))))))))))"

definition rpc_exchange_authorization_code ::
  "env \<Rightarrow> string \<Rightarrow> string \<Rightarrow> string \<Rightarrow> string \<Rightarrow> string \<Rightarrow> oidc_tokens act" where
  "rpc_exchange_authorization_code E code req_client_id req_redirect_uri verifier client_secret =
     (let code_hash = hash_token (crypto E) code in
      bind_ok (exchange_find E code_hash req_client_id req_redirect_uri) (\<lambda>row.
      exchange_finish E code_hash row verifier client_secret))"

section \<open>Consents\<close>

definition rpc_get_consent :: "env \<Rightarrow> string \<Rightarrow> string \<Rightarrow> string list act" where
  "rpc_get_consent E user client_id =
     bind_ok (or_fail (Status Invalid_argument ''invalid user id'') (uuid_parse (fmt E) user)) (\<lambda>user_id.
     bind_ok (db_try E (Status Internal ''consent lookup failed'') (find_consent user_id client_id)) (\<lambda>row.
     ret (case row of None \<Rightarrow> [] | Some r \<Rightarrow> co_scopes r)))"

definition rpc_save_consent :: "env \<Rightarrow> string \<Rightarrow> string \<Rightarrow> string list \<Rightarrow> bool act" where
  "rpc_save_consent E user client_id scopes =
     bind_ok (or_fail (Status Invalid_argument ''invalid user id'') (uuid_parse (fmt E) user)) (\<lambda>user_id.
     with_now (\<lambda>t.
     bind_ok (db_try E (Status Internal ''could not save consent'')
       (upsert_consent t user_id client_id scopes)) (\<lambda>_.
     ret True)))"

end
