(* ===== verification/SvcAccount.thy ===== *)
theory SvcAccount
  imports ServiceBase
begin

text \<open>
  The identity handlers of \<open>src/grpc.rs\<close>: registration, deletion and restoration, e-mail
  verification, password reset and change, the audit view; and the TOTP handlers (enrolment,
  activation, removal).
\<close>

section \<open>Registration\<close>

text \<open>\<open>req.email.split('@').next().unwrap_or(&req.email)\<close>\<close>

definition display_name :: "string \<Rightarrow> string" where
  "display_name email = (case split_on (CHR ''@'') email of [] \<Rightarrow> email | p # _ \<Rightarrow> p)"

definition rpc_register :: "env \<Rightarrow> string \<Rightarrow> string \<Rightarrow> (string \<times> string) act" where
  "rpc_register E email password =
     bind_ok (require (\<not> (email = [] \<or> password = []))
       (Status Invalid_argument ''email and password are required'')) (\<lambda>_.
     bind_ok (draw (\<lambda>n. pw_hash (crypto E) n password)) (\<lambda>hashed.
     bind_ok (or_fail (Status Internal ''failed to hash password'') hashed) (\<lambda>hash.
     bind_ok (draw (rnd_uuid (rand E))) (\<lambda>i.
     bind_ok (or_fail (Status Internal ''failed to encode event'')
       (json_registered (fmt E) (uuid_show (fmt E) i) email (display_name email))) (\<lambda>payload.
     with_now (\<lambda>t. with_call (\<lambda>n.
     bind_ok (db_try E (Status Already_exists ''email already registered'')
       (create_user_with_role_event (conn_role E) (jsonb E) (db_uuid E n) t i email hash default_role
          (type_user_registered (cfg E)) payload)) (\<lambda>_.
     bind_ok (db_ignore E (create_membership i default_tenant_id)) (\<lambda>_.
     bind_ok (audit_as E (uuid_show (fmt E) i) email ''user.register'' [] [] None) (\<lambda>_.
     ret (uuid_show (fmt E) i, email)))))))))))"

section \<open>Deletion and restoration\<close>

definition rpc_delete_user :: "env \<Rightarrow> metadata \<Rightarrow> string \<Rightarrow> bool \<Rightarrow> bool act" where
  "rpc_delete_user E md user hard =
     bind_ok (require_perm md ''user:delete'') (\<lambda>_.
     bind_ok (or_fail (Status Invalid_argument ''invalid user id'') (uuid_parse (fmt E) user)) (\<lambda>user_id.
     bind_ok (or_fail (Status Internal ''failed to encode event'')
       (json_deleted (fmt E) user hard)) (\<lambda>payload.
     with_now (\<lambda>t. with_call (\<lambda>n.
     bind_ok (db_try E (Status Internal ''failed to delete user'')
       (delete_user_event_soft (jsonb E) (db_uuid E n) t user_id hard (type_user_deleted (cfg E)) payload))
       (\<lambda>_.
     bind_ok (audit E md ''user.delete'' user (if hard then ''hard'' else ''soft'')) (\<lambda>_.
     ret True)))))))"

definition rpc_restore_user :: "env \<Rightarrow> metadata \<Rightarrow> string \<Rightarrow> bool act" where
  "rpc_restore_user E md user =
     bind_ok (require_perm md ''user:delete'') (\<lambda>_.
     bind_ok (or_fail (Status Invalid_argument ''invalid user id'') (uuid_parse (fmt E) user)) (\<lambda>user_id.
     bind_ok (or_fail (Status Internal ''failed to encode event'')
       (json_restored (fmt E) user)) (\<lambda>payload.
     with_now (\<lambda>t. with_call (\<lambda>n.
     bind_ok (db_try E (Status Internal ''failed to restore user'')
       (restore_user_event (jsonb E) (db_uuid E n) t user_id (type_user_restored (cfg E)) payload)) (\<lambda>_.
     bind_ok (audit E md ''user.restore'' user []) (\<lambda>_.
     ret True)))))))"

section \<open>E-mail verification and password reset\<close>

text \<open>The two request handlers differ in the token table, the lifetime and the texts; the user
  lookup that fails is answered like one that finds nothing.  The response is \<open>(success,
  dev_token)\<close>.\<close>

definition rpc_request_email_verification :: "env \<Rightarrow> string \<Rightarrow> (bool \<times> string) act" where
  "rpc_request_email_verification E email =
     bind_ok (db_ok E (get_user_by_email email)) (\<lambda>found.
     case found of
       Some (Some user) \<Rightarrow>
         bind_ok (gen_refresh_token E) (\<lambda>token.
         bind_ok (now_plus E (24 * 3600)) (\<lambda>exp.
         bind_ok (db_try E (Status Internal ''failed to create verification'')
           (create_email_verification (hash_token (crypto E) token) (u_id user) exp)) (\<lambda>_.
         bind_ok (send_mail (u_email user) ''Verify your email''
           (''Your email verification token: '' @ token)) (\<lambda>_.
         bind_ok (audit_as E (uuid_show (fmt E) (u_id user)) (u_email user)
           ''email.verification_requested'' [] [] None) (\<lambda>_.
         ret (True, if is_production (cfg E) then [] else token))))))
     | _ \<Rightarrow> ret (True, []))"

definition rpc_verify_email :: "env \<Rightarrow> string \<Rightarrow> bool act" where
  "rpc_verify_email E token =
     bind_ok (with_now (\<lambda>t. db_try E (Status Internal ''db error'')
       (consume_email_verification t (hash_token (crypto E) token)))) (\<lambda>found.
     bind_ok (or_fail (Status Invalid_argument ''invalid or expired token'') found) (\<lambda>uid.
     bind_ok (db_try E (Status Internal ''failed to verify email'') (mark_email_verified uid)) (\<lambda>_.
     bind_ok (audit_as E (uuid_show (fmt E) uid) [] ''email.verified'' [] [] None) (\<lambda>_.
     ret True))))"

definition rpc_request_password_reset :: "env \<Rightarrow> string \<Rightarrow> (bool \<times> string) act" where
  "rpc_request_password_reset E email =
     bind_ok (db_ok E (get_user_by_email email)) (\<lambda>found.
     case found of
       Some (Some user) \<Rightarrow>
         bind_ok (gen_refresh_token E) (\<lambda>token.
         bind_ok (now_plus E 3600) (\<lambda>exp.
         bind_ok (db_try E (Status Internal ''failed to create reset token'')
           (create_password_reset (hash_token (crypto E) token) (u_id user) exp)) (\<lambda>_.
         bind_ok (send_mail (u_email user) ''Reset your password''
           (''Your password reset token: '' @ token)) (\<lambda>_.
         bind_ok (audit_as E (uuid_show (fmt E) (u_id user)) (u_email user)
           ''password.reset_requested'' [] [] None) (\<lambda>_.
         ret (True, if is_production (cfg E) then [] else token))))))
     | _ \<Rightarrow> ret (True, []))"

definition password_too_short :: failure where
  "password_too_short = Status Invalid_argument ''password must be at least 8 characters''"

definition rpc_reset_password :: "env \<Rightarrow> string \<Rightarrow> string \<Rightarrow> bool act" where
  "rpc_reset_password E token new_password =
     bind_ok (require (\<not> length new_password < 8) password_too_short) (\<lambda>_.
     bind_ok (with_now (\<lambda>t. db_try E (Status Internal ''db error'')
       (consume_password_reset t (hash_token (crypto E) token)))) (\<lambda>found.
     bind_ok (or_fail (Status Invalid_argument ''invalid or expired token'') found) (\<lambda>uid.
     bind_ok (draw (\<lambda>n. pw_hash (crypto E) n new_password)) (\<lambda>hashed.
     bind_ok (or_fail (Status Internal ''failed to hash password'') hashed) (\<lambda>hash.
     bind_ok (with_now (\<lambda>t. db_try E (Status Internal ''failed to update password'')
       (update_password t uid hash))) (\<lambda>_.
     bind_ok (with_now (\<lambda>t. db_ignore E (revoke_all_user_refresh_tokens t uid))) (\<lambda>_.
     bind_ok (audit_as E (uuid_show (fmt E) uid) [] ''password.reset'' [] [] None) (\<lambda>_.
     ret True))))))))"

definition rpc_change_password :: "env \<Rightarrow> metadata \<Rightarrow> string \<Rightarrow> string \<Rightarrow> bool act" where
  "rpc_change_password E md old_password new_password =
     bind_ok (lift_sum (caller_uuid E md)) (\<lambda>uid.
     bind_ok (require (\<not> length new_password < 8) password_too_short) (\<lambda>_.
     bind_ok (db_try E (Status Internal ''db error'') (get_user_by_id uid)) (\<lambda>found.
     bind_ok (or_fail (Status Unauthenticated ''user not found'') found) (\<lambda>user.
     bind_ok (require (pw_verify (crypto E) (u_password_hash user) old_password)
       (Status Unauthenticated ''current password is incorrect'')) (\<lambda>_.
     bind_ok (draw (\<lambda>n. pw_hash (crypto E) n new_password)) (\<lambda>hashed.
     bind_ok (or_fail (Status Internal ''failed to hash password'') hashed) (\<lambda>hash.
     bind_ok (with_now (\<lambda>t. db_try E (Status Internal ''failed to update password'')
       (update_password t uid hash))) (\<lambda>_.
     bind_ok (with_now (\<lambda>t. db_ignore E (revoke_all_user_refresh_tokens t uid))) (\<lambda>_.
     bind_ok (audit_as E (uuid_show (fmt E) uid) (u_email user) ''password.change'' [] [] None) (\<lambda>_.
     ret True))))))))))"

section \<open>Audit view\<close>

definition audit_limit :: "int \<Rightarrow> int" where
  "audit_limit limit = (if limit \<le> 0 \<or> limit > 200 then 50 else limit)"

definition rpc_list_audit_events :: "env \<Rightarrow> metadata \<Rightarrow> int \<Rightarrow> (audit_row \<times> string) list act" where
  "rpc_list_audit_events E md limit =
     bind_ok (require_perm md ''audit:read'') (\<lambda>_.
     bind_ok (lift_sum (active_tenant E md)) (\<lambda>tenant.
     bind_ok (db_try E (Status Internal ''failed to list audit events'')
       (list_audit tenant (audit_limit limit))) (\<lambda>rows.
     ret (map (\<lambda>e. (e, rfc3339 (fmt E) (au_created_at e))) rows))))"

section \<open>TOTP\<close>

record enrolment =
  en_secret :: string
  en_otpauth_uri :: string
  en_recovery_codes :: "string list"

fun store_recovery_codes :: "env \<Rightarrow> uuid \<Rightarrow> string list \<Rightarrow> unit act" where
  "store_recovery_codes E uid [] = ret ()"
| "store_recovery_codes E uid (c # cs) =
     bind_ok (db_try E (Status Internal ''failed to store recovery code'')
       (insert_recovery_code uid (hash_token (crypto E) c))) (\<lambda>_.
     store_recovery_codes E uid cs)"

definition rpc_enroll_totp :: "env \<Rightarrow> metadata \<Rightarrow> enrolment act" where
  "rpc_enroll_totp E md =
     bind_ok (lift_sum (caller_uuid E md)) (\<lambda>uid.
     bind_ok (db_try E (Status Internal ''db error'') (get_user_by_id uid)) (\<lambda>found.
     bind_ok (or_fail (Status Not_found ''user not found'') found) (\<lambda>user.
     bind_ok (require (\<not> u_totp_enabled user)
       (Status Failed_precondition ''2FA is already enabled; disable it first'')) (\<lambda>_.
     bind_ok (totp_generate E (u_email user)) (\<lambda>generated.
     bind_ok (or_fail (Status Internal ''failed to generate secret'') generated) (\<lambda>secret.
     bind_ok (generate_recovery_codes E 10) (\<lambda>recovery.
     bind_ok (encrypt_secret E (gs_base32 secret)) (\<lambda>encrypted.
     bind_ok (case encrypted of
                Inl _ \<Rightarrow> fail (Status Internal ''failed to encrypt secret'')
              | Inr s \<Rightarrow> ret s) (\<lambda>stored.
     bind_ok (with_now (\<lambda>t. db_try E (Status Internal ''failed to store secret'')
       (set_totp_secret t uid stored))) (\<lambda>_.
     bind_ok (db_ignore E (delete_recovery_codes uid)) (\<lambda>_.
     bind_ok (store_recovery_codes E uid recovery) (\<lambda>_.
     bind_ok (audit E md ''totp.enroll'' [] []) (\<lambda>_.
     ret \<lparr>en_secret = gs_base32 secret, en_otpauth_uri = gs_otpauth_uri secret,
          en_recovery_codes = recovery\<rparr>)))))))))))))"

definition rpc_get_totp_status :: "env \<Rightarrow> metadata \<Rightarrow> bool act" where
  "rpc_get_totp_status E md =
     bind_ok (lift_sum (caller_uuid E md)) (\<lambda>uid.
     bind_ok (db_try E (Status Internal ''db error'') (get_user_by_id uid)) (\<lambda>found.
     bind_ok (or_fail (Status Not_found ''user not found'') found) (\<lambda>user.
     ret (u_totp_enabled user))))"

definition rpc_activate_totp :: "env \<Rightarrow> metadata \<Rightarrow> string \<Rightarrow> bool act" where
  "rpc_activate_totp E md code =
     bind_ok (lift_sum (caller_uuid E md)) (\<lambda>uid.
     bind_ok (db_try E (Status Internal ''db error'') (get_user_by_id uid)) (\<lambda>found.
     bind_ok (or_fail (Status Not_found ''user not found'') found) (\<lambda>user.
     bind_ok (or_fail (Status Failed_precondition ''no pending enrollment; call EnrollTotp first'')
       (u_totp_secret user)) (\<lambda>stored.
     bind_ok (case decrypt (crypto E) (totp_cipher E) stored of
                Inl _ \<Rightarrow> fail (Status Internal ''failed to read secret'')
              | Inr s \<Rightarrow> ret s) (\<lambda>secret.
     with_now (\<lambda>t.
     bind_ok (require (totp_validate (totp E) t code secret)
       (Status Unauthenticated ''invalid code'')) (\<lambda>_.
     bind_ok (db_try E (Status Internal ''failed to enable 2FA'') (enable_totp t uid)) (\<lambda>_.
     bind_ok (audit E md ''totp.activate'' [] []) (\<lambda>_.
     ret True)))))))))"

definition rpc_disable_totp :: "env \<Rightarrow> metadata \<Rightarrow> string \<Rightarrow> bool act" where
  "rpc_disable_totp E md code =
     bind_ok (lift_sum (caller_uuid E md)) (\<lambda>uid.
     bind_ok (db_try E (Status Internal ''db error'') (get_user_by_id uid)) (\<lambda>found.
     bind_ok (or_fail (Status Not_found ''user not found'') found) (\<lambda>user.
     if \<not> u_totp_enabled user then ret True
     else
       with_now (\<lambda>t.
       bind_ok
         (if (case u_totp_secret user of
                None \<Rightarrow> False
              | Some s \<Rightarrow> (case decrypt (crypto E) (totp_cipher E) s of
                             Inl _ \<Rightarrow> False
                           | Inr plain \<Rightarrow> totp_validate (totp E) t code plain))
          then ret True
          else db_try E (Status Internal ''db error'')
                 (consume_recovery_code t uid (hash_token (crypto E) code))) (\<lambda>good.
       bind_ok (require good (Status Unauthenticated ''invalid code'')) (\<lambda>_.
       bind_ok (db_try E (Status Internal ''failed to disable 2FA'') (disable_totp t uid)) (\<lambda>_.
       bind_ok (db_ignore E (delete_recovery_codes uid)) (\<lambda>_.
       bind_ok (audit E md ''totp.disable'' [] []) (\<lambda>_.
       ret True))))))))) "

end
