(* ===== verification/SvcTenancy.thy ===== *)
theory SvcTenancy
  imports ServiceBase
begin

text \<open>
  The administration handlers of \<open>src/grpc.rs\<close>: tenants, projects, members, roles,
  permissions, and the API keys bound to a tenant.
\<close>

section \<open>Tenants, projects and members\<close>

definition show_tenant :: "env \<Rightarrow> tenant_row \<Rightarrow> string \<times> string \<times> string \<times> string" where
  "show_tenant E t = (uuid_show (fmt E) (te_id t), te_slug t, te_name t, te_status t)"

definition rpc_create_tenant ::
  "env \<Rightarrow> metadata \<Rightarrow> string \<Rightarrow> string \<Rightarrow> (string \<times> string \<times> string \<times> string) act" where
  "rpc_create_tenant E md slug name =
     bind_ok (require_perm md ''tenant:write'') (\<lambda>_.
     bind_ok (lift_sum (caller_uuid E md)) (\<lambda>caller.
     bind_ok (require (\<not> (slug = [] \<or> name = []))
       (Status Invalid_argument ''slug and name are required'')) (\<lambda>_.
     with_call (\<lambda>n.
     bind_ok (db_try E (Status Already_exists ''tenant slug already taken'')
       (create_tenant_with_admin (conn_role E) (db_uuid E n) slug name caller)) (\<lambda>t.
     bind_ok (audit_as E (uuid_show (fmt E) caller) [] ''tenant.create''
       (uuid_show (fmt E) (te_id t)) slug None) (\<lambda>_.
     ret (show_tenant E t)))))))"

definition rpc_list_tenants :: "env \<Rightarrow> metadata \<Rightarrow> (string \<times> string \<times> string \<times> string) list act" where
  "rpc_list_tenants E md =
     bind_ok (require_perm md ''tenant:read'') (\<lambda>_.
     bind_ok (db_try E (Status Internal ''failed to list tenants'') (list_tenants (text_le E))) (\<lambda>rows.
     ret (map (show_tenant E) rows)))"

definition show_project :: "env \<Rightarrow> project_row \<Rightarrow> string \<times> string \<times> string \<times> string" where
  "show_project E p =
     (uuid_show (fmt E) (pr_id p), uuid_show (fmt E) (pr_tenant_id p), pr_slug p, pr_name p)"

definition rpc_create_project ::
  "env \<Rightarrow> metadata \<Rightarrow> string \<Rightarrow> string \<Rightarrow> (string \<times> string \<times> string \<times> string) act" where
  "rpc_create_project E md slug name =
     bind_ok (require_perm md ''project:write'') (\<lambda>_.
     bind_ok (lift_sum (active_tenant E md)) (\<lambda>tenant.
     bind_ok (require (\<not> (slug = [] \<or> name = []))
       (Status Invalid_argument ''slug and name are required'')) (\<lambda>_.
     with_call (\<lambda>n.
     bind_ok (db_try E (Status Already_exists ''project slug already taken in this tenant'')
       (create_project (db_uuid E n) tenant slug name)) (\<lambda>p.
     ret (show_project E p))))))"

definition rpc_list_projects :: "env \<Rightarrow> metadata \<Rightarrow> (string \<times> string \<times> string \<times> string) list act" where
  "rpc_list_projects E md =
     bind_ok (require_perm md ''project:read'') (\<lambda>_.
     bind_ok (lift_sum (active_tenant E md)) (\<lambda>tenant.
     bind_ok (db_try E (Status Internal ''failed to list projects'')
       (list_projects_by_tenant (text_le E) tenant)) (\<lambda>rows.
     ret (map (show_project E) rows))))"

definition rpc_add_member :: "env \<Rightarrow> metadata \<Rightarrow> string \<Rightarrow> (string \<times> string \<times> string) act" where
  "rpc_add_member E md email =
     bind_ok (require_perm md ''member:write'') (\<lambda>_.
     bind_ok (lift_sum (active_tenant E md)) (\<lambda>tenant.
     bind_ok (db_try E (Status Internal ''user lookup failed'') (get_user_by_email email)) (\<lambda>found.
     bind_ok (or_fail (Status Not_found ''no user with that email'') found) (\<lambda>user.
     bind_ok (db_try E (Status Internal ''could not add member'') (add_member (u_id user) tenant)) (\<lambda>_.
     bind_ok (audit_as E (uuid_show (fmt E) (u_id user)) (u_email user) ''member.add''
       (uuid_show (fmt E) tenant) [] (Some tenant)) (\<lambda>_.
     ret (uuid_show (fmt E) (u_id user), u_email user, ''active'')))))))"

definition rpc_remove_member :: "env \<Rightarrow> metadata \<Rightarrow> string \<Rightarrow> bool act" where
  "rpc_remove_member E md user =
     bind_ok (require_perm md ''member:write'') (\<lambda>_.
     bind_ok (lift_sum (active_tenant E md)) (\<lambda>tenant.
     bind_ok (or_fail (Status Invalid_argument ''invalid user id'') (uuid_parse (fmt E) user)) (\<lambda>uid.
     bind_ok (db_try E (Status Internal ''could not remove member'') (remove_member uid tenant)) (\<lambda>_.
     bind_ok (audit_as E user [] ''member.remove'' (uuid_show (fmt E) tenant) [] (Some tenant)) (\<lambda>_.
     ret True)))))"

definition rpc_list_members :: "env \<Rightarrow> metadata \<Rightarrow> (string \<times> string \<times> string) list act" where
  "rpc_list_members E md =
     bind_ok (require_perm md ''member:read'') (\<lambda>_.
     bind_ok (lift_sum (active_tenant E md)) (\<lambda>tenant.
     bind_ok (db_try E (Status Internal ''failed to list members'')
       (list_members_by_tenant (text_le E) tenant)) (\<lambda>rows.
     ret (map (\<lambda>m. (uuid_show (fmt E) (mb_user_id m), mb_email m, mb_status m)) rows))))"

section \<open>Roles\<close>

record role_view =
  rv_id :: int
  rv_name :: string
  rv_description :: string
  rv_permissions :: "string list"

definition show_role :: "role_row \<Rightarrow> role_view" where
  "show_role r = \<lparr>rv_id = ro_id r, rv_name = ro_name r, rv_description = ro_description r,
                  rv_permissions = []\<rparr>"

definition rpc_create_role :: "env \<Rightarrow> metadata \<Rightarrow> string \<Rightarrow> string \<Rightarrow> role_view act" where
  "rpc_create_role E md name description =
     bind_ok (require_perm md ''role:write'') (\<lambda>_.
     bind_ok (lift_sum (active_tenant E md)) (\<lambda>tenant.
     bind_ok (require (name \<noteq> []) (Status Invalid_argument ''role name is required'')) (\<lambda>_.
     bind_ok (require (\<not> is_builtin_role name)
       (Status Failed_precondition ''name reserved for a built-in role'')) (\<lambda>_.
     bind_ok (db_try E (Status Already_exists ''role already exists'')
       (create_role name description tenant)) (\<lambda>role.
     bind_ok (audit E md ''role.create'' name []) (\<lambda>_.
     ret (show_role role)))))))"

definition rpc_update_role :: "env \<Rightarrow> metadata \<Rightarrow> string \<Rightarrow> string \<Rightarrow> role_view act" where
  "rpc_update_role E md name description =
     bind_ok (require_perm md ''role:write'') (\<lambda>_.
     bind_ok (lift_sum (active_tenant E md)) (\<lambda>tenant.
     bind_ok (require (\<not> is_builtin_role name)
       (Status Failed_precondition ''cannot modify a built-in role'')) (\<lambda>_.
     bind_ok (db_try E (Status Internal ''db error'') (update_role name description tenant)) (\<lambda>found.
     bind_ok (or_fail (Status Not_found ''role not found in this tenant'') found) (\<lambda>role.
     ret (show_role role))))))"

definition rpc_delete_role :: "env \<Rightarrow> metadata \<Rightarrow> string \<Rightarrow> bool act" where
  "rpc_delete_role E md name =
     bind_ok (require_perm md ''role:write'') (\<lambda>_.
     bind_ok (lift_sum (active_tenant E md)) (\<lambda>tenant.
     bind_ok (require (\<not> is_builtin_role name)
       (Status Failed_precondition ''cannot delete a built-in role'')) (\<lambda>_.
     bind_ok (db_try E (Status Internal ''db error'')
       (tenant_role_exists (conn_role E) name tenant)) (\<lambda>found.
     bind_ok (require found (Status Not_found ''role not found in this tenant'')) (\<lambda>_.
     bind_ok (db_try E (Status Internal ''failed to delete role'') (delete_role name tenant)) (\<lambda>_.
     bind_ok (audit E md ''role.delete'' name []) (\<lambda>_.
     ret True)))))))"

definition rpc_list_roles :: "env \<Rightarrow> metadata \<Rightarrow> role_view list act" where
  "rpc_list_roles E md =
     bind_ok (require_perm md ''role:read'') (\<lambda>_.
     bind_ok (lift_sum (active_tenant E md)) (\<lambda>tenant.
     bind_ok (db_try E (Status Internal ''failed to list roles'')
       (list_roles_with_permissions (conn_role E) (text_le E) tenant)) (\<lambda>rows.
     ret (map (\<lambda>r. \<lparr>rv_id = rp_id r, rv_name = rp_name r, rv_description = rp_description r,
                     rv_permissions = rp_permissions r\<rparr>) rows))))"

definition rpc_assign_role :: "env \<Rightarrow> metadata \<Rightarrow> string \<Rightarrow> string \<Rightarrow> string \<Rightarrow> bool act" where
  "rpc_assign_role E md user role_name project_id =
     bind_ok (require_perm md ''role:assign'') (\<lambda>_.
     bind_ok (lift_sum (active_tenant E md)) (\<lambda>tenant.
     bind_ok (or_fail (Status Invalid_argument ''invalid user id'') (uuid_parse (fmt E) user)) (\<lambda>user_id.
     bind_ok (validate_assign E role_name project_id tenant) (\<lambda>project.
     bind_ok (db_try E (Status Internal ''failed to assign role'')
       (assign_role user_id role_name tenant project)) (\<lambda>_.
     bind_ok (cache_invalidate_perms E user) (\<lambda>_.
     bind_ok (audit E md ''role.assign'' user role_name) (\<lambda>_.
     ret True)))))))"

text \<open>One round of the loop of \<open>assign_role_bulk\<close>: whether the role was assigned.  The counter of the
  loop is an \<open>i32\<close>.\<close>

definition assign_one :: "env \<Rightarrow> string \<Rightarrow> uuid \<Rightarrow> uuid option \<Rightarrow> string \<Rightarrow> bool act" where
  "assign_one E role_name tenant project user =
     (case uuid_parse (fmt E) user of
        None \<Rightarrow> ret False
      | Some user_id \<Rightarrow>
          bind_ok (db_ok E (assign_role user_id role_name tenant project)) (\<lambda>done'.
          if done' = None then ret False
          else bind_ok (cache_invalidate_perms E user) (\<lambda>_. ret True)))"

fun assign_each :: "env \<Rightarrow> string \<Rightarrow> uuid \<Rightarrow> uuid option \<Rightarrow> string list \<Rightarrow> 32 word \<Rightarrow>
    string list \<Rightarrow> (32 word \<times> string list) act" where
  "assign_each E role_name tenant project [] assigned failed = ret (assigned, failed)"
| "assign_each E role_name tenant project (u # us) assigned failed =
     bind_ok (assign_one E role_name tenant project u) (\<lambda>good.
     if good then assign_each E role_name tenant project us (assigned + 1) failed
     else assign_each E role_name tenant project us assigned (failed @ [u]))"

definition rpc_assign_role_bulk ::
  "env \<Rightarrow> metadata \<Rightarrow> string list \<Rightarrow> string \<Rightarrow> string \<Rightarrow> (32 word \<times> string list) act" where
  "rpc_assign_role_bulk E md user_ids role_name project_id =
     bind_ok (require_perm md ''role:assign'') (\<lambda>_.
     bind_ok (lift_sum (active_tenant E md)) (\<lambda>tenant.
     bind_ok (validate_assign E role_name project_id tenant) (\<lambda>project.
     bind_ok (assign_each E role_name tenant project user_ids 0 []) (\<lambda>result.
     bind_ok (audit E md ''role.assign_bulk'' role_name
       (int_show (fmt E) (sint (fst result)) @ '' assigned, '' @
        int_show (fmt E) (int (length (snd result))) @ '' failed'')) (\<lambda>_.
     ret result)))))"

definition rpc_revoke_role :: "env \<Rightarrow> metadata \<Rightarrow> string \<Rightarrow> string \<Rightarrow> string \<Rightarrow> bool act" where
  "rpc_revoke_role E md user role_name project_id =
     bind_ok (require_perm md ''role:assign'') (\<lambda>_.
     bind_ok (lift_sum (active_tenant E md)) (\<lambda>tenant.
     bind_ok (or_fail (Status Invalid_argument ''invalid user id'') (uuid_parse (fmt E) user)) (\<lambda>user_id.
     bind_ok (db_try E (Status Internal ''db error'') (role_exists (conn_role E) role_name)) (\<lambda>found.
     bind_ok (require found (Status Not_found ''role not found'')) (\<lambda>_.
     bind_ok (lift_sum (parse_opt_project E project_id)) (\<lambda>project.
     with_call (\<lambda>k.
     bind_ok (db_try E (Status Internal ''failed to revoke role'')
       (revoke_role (subquery_eager E k) user_id role_name tenant project)) (\<lambda>_.
     bind_ok (cache_invalidate_perms E user) (\<lambda>_.
     bind_ok (audit E md ''role.revoke'' user role_name) (\<lambda>_.
     ret True))))))))))"

definition rpc_get_user_role_assignments ::
  "env \<Rightarrow> metadata \<Rightarrow> string \<Rightarrow> (string \<times> string \<times> string) list act" where
  "rpc_get_user_role_assignments E md user =
     bind_ok (require_perm md ''role:read'') (\<lambda>_.
     bind_ok (lift_sum (active_tenant E md)) (\<lambda>tenant.
     bind_ok (or_fail (Status Invalid_argument ''invalid user id'') (uuid_parse (fmt E) user)) (\<lambda>user_id.
     bind_ok (db_try E (Status Internal ''failed to load role assignments'')
       (get_user_role_assignments (conn_role E) (text_le E) user_id tenant)) (\<lambda>rows.
     ret (map (\<lambda>r. (rav_role r, show_opt_uuid E (rav_project_id r),
                    case rav_project_slug r of None \<Rightarrow> [] | Some s \<Rightarrow> s)) rows)))))"

definition rpc_list_permissions :: "env \<Rightarrow> metadata \<Rightarrow> permission_row list act" where
  "rpc_list_permissions E md =
     bind_ok (require_perm md ''role:read'') (\<lambda>_.
     db_try E (Status Internal ''failed to list permissions'') (list_permissions (text_le E)))"

definition rpc_grant_permission :: "env \<Rightarrow> metadata \<Rightarrow> string \<Rightarrow> string \<Rightarrow> bool act" where
  "rpc_grant_permission E md role_name permission_name =
     bind_ok (require_perm md ''role:write'') (\<lambda>_.
     bind_ok (lift_sum (active_tenant E md)) (\<lambda>tenant.
     bind_ok (perm_role_guard E role_name tenant) (\<lambda>_.
     bind_ok (db_try E (Status Internal ''failed to grant permission'')
       (grant_permission role_name permission_name tenant)) (\<lambda>_.
     bind_ok (audit E md ''permission.grant'' role_name permission_name) (\<lambda>_.
     ret True)))))"

definition rpc_revoke_permission :: "env \<Rightarrow> metadata \<Rightarrow> string \<Rightarrow> string \<Rightarrow> bool act" where
  "rpc_revoke_permission E md role_name permission_name =
     bind_ok (require_perm md ''role:write'') (\<lambda>_.
     bind_ok (lift_sum (active_tenant E md)) (\<lambda>tenant.
     bind_ok (perm_role_guard E role_name tenant) (\<lambda>_.
     bind_ok (db_try E (Status Internal ''failed to revoke permission'')
       (revoke_permission role_name permission_name tenant)) (\<lambda>_.
     bind_ok (audit E md ''permission.revoke'' role_name permission_name) (\<lambda>_.
     ret True)))))"

section \<open>API keys\<close>

record api_key_view =
  kv_id :: string
  kv_name :: string
  kv_scopes :: "string list"
  kv_created_at :: string
  kv_expires_at :: string
  kv_last_used_at :: string

definition show_opt_time :: "env \<Rightarrow> time option \<Rightarrow> string" where
  "show_opt_time E t = (case t of None \<Rightarrow> [] | Some x \<Rightarrow> rfc3339 (fmt E) x)"

definition rpc_create_api_key ::
  "env \<Rightarrow> metadata \<Rightarrow> string \<Rightarrow> string list \<Rightarrow> int \<Rightarrow> (string \<times> api_key_view) act" where
  "rpc_create_api_key E md name scopes ttl_seconds =
     bind_ok (lift_sum (caller_uuid E md)) (\<lambda>uid.
     bind_ok (require (name \<noteq> []) (Status Invalid_argument ''name is required'')) (\<lambda>_.
     bind_ok (case find (\<lambda>s. s \<notin> set (caller_perms md)) scopes of
                Some s \<Rightarrow> fail (Status Permission_denied (''cannot grant a scope you do not hold: '' @ s))
              | None \<Rightarrow> ret ()) (\<lambda>_.
     bind_ok (gen_hex E 8) (\<lambda>key_id.
     bind_ok (gen_hex E 24) (\<lambda>secret.
     let full = ''iamk_'' @ key_id @ ''_'' @ secret in
     bind_ok (if ttl_seconds > 0 then bind_ok (now_plus E ttl_seconds) (\<lambda>x. ret (Some x))
              else ret None) (\<lambda>expires.
     bind_ok (lift_sum (active_tenant E md)) (\<lambda>tenant.
     bind_ok (lift_sum (parse_opt_project E (meta md ''x-project-id''))) (\<lambda>project.
     with_now (\<lambda>t.
     bind_ok (db_try E (Status Internal ''failed to create api key'')
       (create_api_key t key_id uid (hash_token (crypto E) full) name scopes expires tenant project)) (\<lambda>_.
     bind_ok (audit E md ''apikey.create'' key_id name) (\<lambda>_.
     ret (full, \<lparr>kv_id = key_id, kv_name = name, kv_scopes = scopes,
                 kv_created_at = rfc3339 (fmt E) t, kv_expires_at = show_opt_time E expires,
                 kv_last_used_at = []\<rparr>))))))))))))"

definition rpc_list_api_keys :: "env \<Rightarrow> metadata \<Rightarrow> api_key_view list act" where
  "rpc_list_api_keys E md =
     bind_ok (lift_sum (caller_uuid E md)) (\<lambda>uid.
     bind_ok (db_try E (Status Internal ''failed to list api keys'') (list_api_keys uid)) (\<lambda>rows.
     ret (map (\<lambda>r. \<lparr>kv_id = ak_id r, kv_name = ak_name r, kv_scopes = ak_scopes r,
                     kv_created_at = rfc3339 (fmt E) (ak_created_at r),
                     kv_expires_at = show_opt_time E (ak_expires_at r),
                     kv_last_used_at = show_opt_time E (ak_last_used_at r)\<rparr>) rows)))"

definition rpc_revoke_api_key :: "env \<Rightarrow> metadata \<Rightarrow> string \<Rightarrow> bool act" where
  "rpc_revoke_api_key E md i =
     bind_ok (lift_sum (caller_uuid E md)) (\<lambda>uid.
     bind_ok (with_now (\<lambda>t. db_try E (Status Internal ''failed to revoke api key'')
       (revoke_api_key t i uid))) (\<lambda>_.
     bind_ok (audit E md ''apikey.revoke'' i []) (\<lambda>_.
     ret True)))"

record key_identity =
  ki_user_id :: string
  ki_email :: string
  ki_scopes :: "string list"

definition rpc_validate_api_key :: "env \<Rightarrow> string \<Rightarrow> key_identity act" where
  "rpc_validate_api_key E api_key =
     bind_ok (db_try E (Status Internal ''db error'')
       (get_api_key_by_hash (hash_token (crypto E) api_key))) (\<lambda>found.
     bind_ok (or_fail (Status Unauthenticated ''invalid api key'') found) (\<lambda>row.
     bind_ok (require (ak_revoked_at row = None) (Status Unauthenticated ''api key revoked'')) (\<lambda>_.
     with_now (\<lambda>t.
     bind_ok (require (case ak_expires_at row of None \<Rightarrow> True | Some exp \<Rightarrow> \<not> exp < t)
       (Status Unauthenticated ''api key expired'')) (\<lambda>_.
     bind_ok (db_try E (Status Internal ''db error'') (get_user_by_id (ak_user_id row))) (\<lambda>u.
     bind_ok (or_fail (Status Unauthenticated ''invalid api key'')
       (case u of Some x \<Rightarrow> if u_deleted_at x = None then Some x else None | None \<Rightarrow> None)) (\<lambda>user.
     bind_ok (db_try E (Status Internal ''db error'')
       (is_active_member (ak_user_id row) (ak_tenant_id row))) (\<lambda>member.
     bind_ok (require member
       (Status Unauthenticated ''api key tenant membership revoked'')) (\<lambda>_.
     bind_ok (db_try E (Status Internal ''failed to load permissions'')
       (get_user_permissions_scoped (conn_role E) (text_le E) (ak_user_id row) (ak_tenant_id row)
          (ak_project_id row))) (\<lambda>perms.
     bind_ok (db_ignore E (touch_api_key t (ak_id row))) (\<lambda>_.
     ret \<lparr>ki_user_id = uuid_show (fmt E) (ak_user_id row), ki_email = u_email user,
          ki_scopes = filter (\<lambda>s. s \<in> set perms) (ak_scopes row)\<rparr>)))))))))))"

end
