(* ===== verification/Events.thy ===== *)
theory Events
  imports RepoTokens Platform
begin

text \<open>
  The event tasks: \<open>src/relay.rs\<close> drains the outbox to NATS JetStream and \<open>src/saga.rs\<close>
  consumes \<open>ProfileCreationFailed\<close> events.  The broker is a parameter: a publication may be lost
  before or after it is stored; a stream of deliveries is a list whose items are a payload or a
  receive error.
\<close>

section \<open>Relay\<close>

definition publish :: "env \<Rightarrow> string \<Rightarrow> string \<Rightarrow> string \<Rightarrow> unit act" where
  "publish E msg_id subject payload w =
     (let w' = w\<lparr>nats_calls := nats_calls w + 1\<rparr>;
          w'' = w'\<lparr>stream := stream w @ [(msg_id, subject, payload)]\<rparr> in
      case nats_fault E (nats_calls w) of
        Fine \<Rightarrow> (Inr (), w'')
      | Lost_request \<Rightarrow> (Inl (Aborted ''publish failed''), w')
      | Lost_reply \<Rightarrow> (Inl (Aborted ''publish failed''), w''))"

fun relay_rows :: "env \<Rightarrow> outbox_row list \<Rightarrow> unit act" where
  "relay_rows E [] = ret ()"
| "relay_rows E (row # rows) =
     bind_ok (publish E (uuid_show (fmt E) (ob_id row))
       (subject_prefix (cfg E) @ ob_event_type row) (ob_payload row)) (\<lambda>_.
     bind_ok (with_now (\<lambda>t. db_try E (Aborted ''database error'')
       (mark_outbox_published t (ob_id row)))) (\<lambda>_.
     relay_rows E rows))"

definition drain :: "env \<Rightarrow> unit act" where
  "drain E =
     bind_ok (db_try E (Aborted ''database error'') (fetch_unpublished_outbox 100)) (\<lambda>rows.
     relay_rows E rows)"

text \<open>One tick of the loop of \<open>run\<close>.\<close>

definition relay_tick :: "env \<Rightarrow> unit act" where
  "relay_tick E = warn_on_error (drain E)"

section \<open>Saga\<close>

text \<open>One message; every message is acknowledged.\<close>

definition saga_message :: "env \<Rightarrow> string \<Rightarrow> unit act" where
  "saga_message E payload =
     (case parse_profile_failed (fmt E) payload of
        Some (user_id, reason) \<Rightarrow>
          (case uuid_parse (fmt E) user_id of
             Some _ \<Rightarrow> with_now (\<lambda>t. db_ignore E
               (insert_audit t ''system'' ''saga'' ''profile.creation_failed'' user_id reason None))
           | None \<Rightarrow> ret ())
      | None \<Rightarrow> ret ())"

text \<open>The inner loop over one stream of deliveries (\<open>None\<close>: a receive error ends it), returning
  the acknowledged payloads.\<close>

fun saga_stream :: "env \<Rightarrow> string option list \<Rightarrow> string list act" where
  "saga_stream E [] = ret []"
| "saga_stream E (None # items) = ret []"
| "saga_stream E (Some payload # items) =
     bind_ok (saga_message E payload) (\<lambda>_.
     bind_ok (saga_stream E items) (\<lambda>acked.
     ret (payload # acked)))"

text \<open>The outer loop over the streams obtained from the consumer (\<open>None\<close>: no stream).\<close>

fun saga_consume :: "env \<Rightarrow> string option list option list \<Rightarrow> string list act" where
  "saga_consume E [] = ret []"
| "saga_consume E (None # streams) = saga_consume E streams"
| "saga_consume E (Some items # streams) =
     bind_ok (saga_stream E items) (\<lambda>a.
     bind_ok (saga_consume E streams) (\<lambda>b.
     ret (a @ b)))"

section \<open>What the tasks keep of the database\<close>

context db_order begin

lemma publish: "stable R (publish E i s p)"
  by (auto simp: stable_def publish_def Let_def refl split: fault.split)

lemma relay_rows:
  assumes "\<And>t i. q_stable R (mark_outbox_published t i)"
  shows "stable R (relay_rows E rows)"
  by (induction rows) (auto intro!: act_rules publish assms)

lemma q_fetch_unpublished_outbox: "q_stable R (fetch_unpublished_outbox k)"
  by (auto simp: q_stable_def fetch_unpublished_outbox_def refl split: if_splits)

lemma relay_tick:
  assumes "\<And>t i. q_stable R (mark_outbox_published t i)"
  shows "stable R (relay_tick E)"
  unfolding relay_tick_def drain_def
  by (intro act_rules q_fetch_unpublished_outbox relay_rows assms)

lemma saga_message:
  assumes "\<And>t user reason. q_stable R
    (insert_audit t ''system'' ''saga'' ''profile.creation_failed'' user reason None)"
  shows "stable R (saga_message E p)"
  unfolding saga_message_def by (intro act_rules assms)

lemma saga_stream:
  assumes "\<And>t user reason. q_stable R
    (insert_audit t ''system'' ''saga'' ''profile.creation_failed'' user reason None)"
  shows "stable R (saga_stream E items)"
  by (induction E items rule: saga_stream.induct) (auto intro!: act_rules saga_message assms)

lemma saga_consume:
  assumes "\<And>t user reason. q_stable R
    (insert_audit t ''system'' ''saga'' ''profile.creation_failed'' user reason None)"
  shows "stable R (saga_consume E streams)"
  by (induction E streams rule: saga_consume.induct) (auto intro!: act_rules saga_stream assms)

end

end
