(* ===== verification/Keys.thy ===== *)
theory Keys
  imports Platform
begin

text \<open>
  \<open>src/keys.rs\<close>: the RS256 signing keys.  \<open>load_jwt_manager\<close> runs once at start-up on the
  rows of \<open>oidc_signing_keys\<close>; key generation and PEM parsing belong to \<open>common::jwt\<close>, so the
  manager is the record of the arguments \<open>JwtManager::from_pem\<close> accepted.
\<close>

record jwt_manager =
  jm_kid :: string
  jm_private_pem :: string
  jm_publics :: "string \<rightharpoonup> string"
  jm_issuer :: string
  jm_access_ttl_secs :: int

text \<open>The primary key is \<open>kid\<close>, and a partial unique index allows one active key.\<close>

definition insert_signing_key :: "string \<Rightarrow> string \<Rightarrow> string \<Rightarrow> unit query" where [query_defs]:
  "insert_signing_key kid priv pub d =
     (if exists_where (\<lambda>k. sk_kid k = kid \<or> sk_active k) (signing_keys d) then Inl Unique_violation
      else Inr ((), d\<lparr>signing_keys := signing_keys d @
             [\<lparr>sk_kid = kid, sk_private_pem = priv, sk_public_pem = pub, sk_alg = ''RS256'',
               sk_active = True\<rparr>]\<rparr>))"

text \<open>The loop over the rows: every public key is collected, the last active row is the signing
  key.\<close>

fun collect_keys :: "signing_key_row list \<Rightarrow> (string \<rightharpoonup> string) \<Rightarrow> (string \<times> string) option \<Rightarrow>
    (string \<rightharpoonup> string) \<times> (string \<times> string) option" where
  "collect_keys [] publics found = (publics, found)"
| "collect_keys (r # rs) publics found =
     collect_keys rs (publics(sk_kid r \<mapsto> sk_public_pem r))
       (if sk_active r then Some (sk_kid r, sk_private_pem r) else found)"

definition db_error :: failure where
  "db_error = Aborted ''database error''"

definition load_jwt_manager :: "env \<Rightarrow> string \<Rightarrow> int \<Rightarrow> jwt_manager act" where
  "load_jwt_manager E issuer ttl =
     bind_ok (db_try E db_error (reading signing_keys)) (\<lambda>rows.
     bind_ok
       (if rows = [] then
          bind_ok (draw (jwt_generate_rsa (jwt E))) (\<lambda>g.
          bind_ok (or_fail (Aborted ''key generation failed'') g) (\<lambda>(kid, priv, pub).
          bind_ok (db_try E db_error (insert_signing_key kid priv pub)) (\<lambda>_.
          ret ([kid \<mapsto> pub], (kid, priv)))))
        else
          (let (publics, found) = collect_keys rows Map.empty None in
           bind_ok (or_fail (Aborted ''no active signing key'') found) (\<lambda>active.
           ret (publics, active)))) (\<lambda>(publics, (kid, priv)).
     if jwt_from_pem_ok (jwt E) kid priv publics
     then ret \<lparr>jm_kid = kid, jm_private_pem = priv, jm_publics = publics, jm_issuer = issuer,
               jm_access_ttl_secs = ttl\<rparr>
     else fail (Aborted ''invalid key'')))"

section \<open>Facts\<close>

lemma collect_keys_publics:
  "fst (collect_keys rs m f) = m ++ map_of (rev (map (\<lambda>r. (sk_kid r, sk_public_pem r)) rs))"
  by (induction rs arbitrary: m f) (auto simp: map_add_def fun_eq_iff split: option.split)

lemma collect_keys_found:
  "snd (collect_keys rs m f) = Some (kid, priv) \<Longrightarrow>
   f = Some (kid, priv) \<or> (\<exists>r\<in>set rs. sk_active r \<and> sk_kid r = kid \<and> sk_private_pem r = priv)"
  by (induction rs arbitrary: m f) (fastforce split: if_splits)+

lemma collect_keys_none:
  "snd (collect_keys rs m f) = None \<longleftrightarrow> f = None \<and> (\<forall>r\<in>set rs. \<not> sk_active r)"
  by (induction rs arbitrary: m f) auto

context db_order begin

lemma load_jwt_manager:
  assumes "\<And>k p q. q_stable R (insert_signing_key k p q)"
  shows "stable R (load_jwt_manager E i ttl)"
  unfolding load_jwt_manager_def
  by (intro act_rules q_reading assms)

end

end
