(* ===== verification/Startup.thy ===== *)
theory Startup
  imports ServiceBase Keys
begin

text \<open>
  \<open>src/main.rs\<close>: the connection retry, the idempotent bootstrap of the first accounts and of the
  console client, and the interceptor that guards every call.  \<open>cfg_or key default\<close> is
  \<open>common::env_or\<close>.
\<close>

type_synonym env_or = "string \<Rightarrow> string \<Rightarrow> string"

section \<open>Connecting\<close>

text \<open>\<open>connect k\<close> is the outcome of the \<open>k\<close>-th attempt.  The result comes with the number of
  two-second pauses; \<open>last_err.unwrap()\<close> panics when no attempt was made.\<close>

fun connect_loop :: "(nat \<Rightarrow> string + 'pool) \<Rightarrow> nat \<Rightarrow> nat \<Rightarrow> string option \<Rightarrow> (failure + 'pool) \<times> nat" where
  "connect_loop connect k 0 last_err =
     (case last_err of None \<Rightarrow> (Inl Panic, 0)
      | Some e \<Rightarrow> (Inl (Aborted (''postgres not reachable: '' @ e)), 0))"
| "connect_loop connect k (Suc n) last_err =
     (case connect k of
        Inr pool \<Rightarrow> (Inr pool, 0)
      | Inl e \<Rightarrow> map_prod id Suc (connect_loop connect (k + 1) n (Some e)))"

definition connect_with_retry :: "(nat \<Rightarrow> string + 'pool) \<Rightarrow> (failure + 'pool) \<times> nat" where
  "connect_with_retry connect = connect_loop connect 0 15 None"

section \<open>Bootstrap accounts\<close>

definition bootstrap_user :: "env \<Rightarrow> string \<Rightarrow> string \<Rightarrow> string \<Rightarrow> string \<Rightarrow> unit act" where
  "bootstrap_user E email pass role hash_error =
     (if email = [] \<or> pass = [] then ret ()
      else
        bind_ok (db_try E db_error (get_user_by_email email)) (\<lambda>found.
        if found \<noteq> None then ret ()
        else
          bind_ok (draw (\<lambda>n. pw_hash (crypto E) n pass)) (\<lambda>hashed.
          bind_ok (or_fail (Aborted hash_error) hashed) (\<lambda>hash.
          with_now (\<lambda>t. with_call (\<lambda>n.
          bind_ok (db_try E db_error
            (create_user_with_role (conn_role E) (db_uuid E n) t email hash role)) (\<lambda>i.
          db_try E db_error (create_membership i default_tenant_id))))))))"

definition bootstrap_admin :: "env \<Rightarrow> env_or \<Rightarrow> unit act" where
  "bootstrap_admin E cfg_or =
     bootstrap_user E (cfg_or ''BOOTSTRAP_ADMIN_EMAIL'' []) (cfg_or ''BOOTSTRAP_ADMIN_PASSWORD'' [])
       ''admin'' ''hash admin password''"

definition bootstrap_demo :: "env \<Rightarrow> env_or \<Rightarrow> unit act" where
  "bootstrap_demo E cfg_or =
     bootstrap_user E (cfg_or ''DEMO_EMAIL'' ''demo@iam.local'') (cfg_or ''DEMO_PASSWORD'' ''demo1234'')
       ''viewer'' ''hash demo password''"

section \<open>Bootstrap client\<close>

text \<open>\<open>str::trim\<close>: the UTF-8 encodings of the characters with the property \<open>White_Space\<close>.\<close>

definition white_space :: "string list" where
  "white_space =
     map (\<lambda>n. [char_of n]) [9, 10, 11, 12, 13, 32::nat] @
     map (map char_of) ([[194, 133], [194, 160], [225, 154, 128]] @
       map (\<lambda>n. [226, 128, n]) ([128..<139] @ [168, 169, 175]) @ [[226, 129, 159], [227, 128, 128::nat]])"

fun trim_front :: "nat \<Rightarrow> string list \<Rightarrow> string \<Rightarrow> string" where
  "trim_front 0 seqs s = s"
| "trim_front (Suc n) seqs s =
     (case find (\<lambda>p. strip_prefix p s \<noteq> None) seqs of
        None \<Rightarrow> s
      | Some p \<Rightarrow> trim_front n seqs (drop (length p) s))"

text \<open>Every turn removes at least one byte, so the length of the string is enough fuel.\<close>

definition trim :: "string \<Rightarrow> string" where
  "trim s =
     (let t = trim_front (length s) white_space s
      in rev (trim_front (length t) (map rev white_space) (rev t)))"

text \<open>\<open>INSERT ... ON CONFLICT (client_id) DO NOTHING\<close>; the tenant column takes its default.\<close>

definition seed_client :: "oauth_client_row \<Rightarrow> unit query" where [query_defs]:
  "seed_client r d =
     (if exists_where (\<lambda>c. oc_client_id c = oc_client_id r) (oauth_clients d) then Inr ((), d)
      else if \<not> has_tenant (oc_tenant_id r) d then Inl Fk_violation
      else Inr ((), d\<lparr>oauth_clients := oauth_clients d @ [r]\<rparr>))"

definition bootstrap_oidc_client :: "env \<Rightarrow> env_or \<Rightarrow> unit act" where
  "bootstrap_oidc_client E cfg_or =
     db_try E db_error (seed_client
       \<lparr>oc_client_id = cfg_or ''OIDC_CONSOLE_CLIENT_ID'' ''iam-admin-console'',
        oc_client_secret_hash = Some (hash_token (crypto E)
          (cfg_or ''OIDC_CONSOLE_SECRET'' ''console-demo-secret-change-me'')),
        oc_name = ''IAM Admin Console'',
        oc_redirect_uris = map trim (split_on comma
          (cfg_or ''OIDC_CONSOLE_REDIRECT_URIS'' ''http://localhost:3000/api/auth/callback/iam'')),
        oc_scopes = [''openid'', ''profile'', ''email''],
        oc_grant_types = [''authorization_code'', ''refresh_token''],
        oc_is_confidential = True, oc_tenant_id = default_tenant_id\<rparr>)"

text \<open>The part of \<open>main\<close> between the migrations and the server.\<close>

definition bootstrap :: "env \<Rightarrow> env_or \<Rightarrow> string \<Rightarrow> int \<Rightarrow> jwt_manager act" where
  "bootstrap E cfg_or issuer access_ttl =
     bind_ok (load_jwt_manager E issuer access_ttl) (\<lambda>jm.
     bind_ok (bootstrap_admin E cfg_or) (\<lambda>_.
     bind_ok (bootstrap_oidc_client E cfg_or) (\<lambda>_.
     bind_ok (bootstrap_demo E cfg_or) (\<lambda>_.
     ret jm))))"

section \<open>Interceptor\<close>

text \<open>\<open>main\<close>'s closure \<open>check\<close>; \<open>internal_optional\<close> is \<open>common::config::internal_auth_optional()\<close>.\<close>

definition check_internal :: "string \<Rightarrow> bool \<Rightarrow> metadata \<Rightarrow> unit act" where
  "check_internal token internal_optional md =
     (if token = [] \<and> internal_optional then ret ()
      else require (case md ''x-internal-token'' of None \<Rightarrow> False | Some t \<Rightarrow> token \<noteq> [] \<and> t = token)
        (Status Unauthenticated ''missing or invalid internal service token''))"

context db_order begin

lemma bootstrap_user:
  assumes "\<And>f t h. q_stable R (create_user_with_role (conn_role E) f t email h role)"
    and "\<And>i t. q_stable R (create_membership i t)"
  shows "stable R (bootstrap_user E email pass role e)"
  unfolding bootstrap_user_def get_user_by_email_def by (intro act_rules q_reading assms)

end

end
