(* ===== verification/Service.thy ===== *)
theory Service
  imports SvcSession SvcOidc SvcAccount SvcTenancy Events Startup
begin

text \<open>
  The service as a whole: the requests of \<open>AuthService\<close> and their dispatch, the steps the
  deployed program takes, and the interface \<open>statements\<close>: an order on databases that every
  statement of the repository respects is respected by every request, task and step.
\<close>

section \<open>Requests\<close>

datatype (plugins only: size) request =
  Get_jwks | Get_client string
| Register_client string "string list" "string list" bool
| Create_authorization_code string string string string string string string
| Exchange_authorization_code string string string string string
| Get_consent string string | Save_consent string string "string list"
| Register string string | Login string string | Login_totp string string | Refresh string
| Logout string string | Validate_token string | List_my_memberships | Switch_tenant string string
| Create_tenant string string | List_tenants | Create_project string string | List_projects
| Add_member string | Remove_member string | List_members
| Delete_user string bool | Restore_user string
| Enroll_totp | Get_totp_status | Activate_totp string | Disable_totp string
| Create_api_key string "string list" int | List_api_keys | Revoke_api_key string
| Validate_api_key string
| Create_role string string | Update_role string string | Delete_role string | List_roles
| Assign_role string string string | Assign_role_bulk "string list" string string
| Revoke_role string string string | Get_user_role_assignments string | List_permissions
| Grant_permission string string | Revoke_permission string string
| Request_email_verification string | Verify_email string
| Request_password_reset string | Reset_password string string
| Change_password string string | List_audit_events int

definition done_with :: "'a act \<Rightarrow> unit act" where
  "done_with m = bind_ok m (\<lambda>_. ret ())"

primrec handle :: "env \<Rightarrow> metadata \<Rightarrow> request \<Rightarrow> unit act" where
  "handle E md Get_jwks = done_with (rpc_get_jwks E)"
| "handle E md (Get_client i) = done_with (rpc_get_client E i)"
| "handle E md (Register_client n us ss c) = done_with (rpc_register_client E md n us ss c)"
| "handle E md (Create_authorization_code c u r s ch m n) =
     done_with (rpc_create_authorization_code E c u r s ch m n)"
| "handle E md (Exchange_authorization_code c i r v s) =
     done_with (rpc_exchange_authorization_code E c i r v s)"
| "handle E md (Get_consent u c) = done_with (rpc_get_consent E u c)"
| "handle E md (Save_consent u c ss) = done_with (rpc_save_consent E u c ss)"
| "handle E md (Register e p) = done_with (rpc_register E e p)"
| "handle E md (Login e p) = done_with (rpc_login E e p)"
| "handle E md (Login_totp m c) = done_with (rpc_login_totp E m c)"
| "handle E md (Refresh r) = done_with (rpc_refresh E r)"
| "handle E md (Logout r a) = done_with (rpc_logout E md r a)"
| "handle E md (Validate_token a) = done_with (rpc_validate_token E a)"
| "handle E md List_my_memberships = done_with (rpc_list_my_memberships E md)"
| "handle E md (Switch_tenant t p) = done_with (rpc_switch_tenant E md t p)"
| "handle E md (Create_tenant s n) = done_with (rpc_create_tenant E md s n)"
| "handle E md List_tenants = done_with (rpc_list_tenants E md)"
| "handle E md (Create_project s n) = done_with (rpc_create_project E md s n)"
| "handle E md List_projects = done_with (rpc_list_projects E md)"
| "handle E md (Add_member e) = done_with (rpc_add_member E md e)"
| "handle E md (Remove_member u) = done_with (rpc_remove_member E md u)"
| "handle E md List_members = done_with (rpc_list_members E md)"
| "handle E md (Delete_user u h) = done_with (rpc_delete_user E md u h)"
| "handle E md (Restore_user u) = done_with (rpc_restore_user E md u)"
| "handle E md Enroll_totp = done_with (rpc_enroll_totp E md)"
| "handle E md Get_totp_status = done_with (rpc_get_totp_status E md)"
| "handle E md (Activate_totp c) = done_with (rpc_activate_totp E md c)"
| "handle E md (Disable_totp c) = done_with (rpc_disable_totp E md c)"
| "handle E md (Create_api_key n ss ttl) = done_with (rpc_create_api_key E md n ss ttl)"
| "handle E md List_api_keys = done_with (rpc_list_api_keys E md)"
| "handle E md (Revoke_api_key i) = done_with (rpc_revoke_api_key E md i)"
| "handle E md (Validate_api_key k) = done_with (rpc_validate_api_key E k)"
| "handle E md (Create_role n de) = done_with (rpc_create_role E md n de)"
| "handle E md (Update_role n de) = done_with (rpc_update_role E md n de)"
| "handle E md (Delete_role n) = done_with (rpc_delete_role E md n)"
| "handle E md List_roles = done_with (rpc_list_roles E md)"
| "handle E md (Assign_role u r p) = done_with (rpc_assign_role E md u r p)"
| "handle E md (Assign_role_bulk us r p) = done_with (rpc_assign_role_bulk E md us r p)"
| "handle E md (Revoke_role u r p) = done_with (rpc_revoke_role E md u r p)"
| "handle E md (Get_user_role_assignments u) = done_with (rpc_get_user_role_assignments E md u)"
| "handle E md List_permissions = done_with (rpc_list_permissions E md)"
| "handle E md (Grant_permission r p) = done_with (rpc_grant_permission E md r p)"
| "handle E md (Revoke_permission r p) = done_with (rpc_revoke_permission E md r p)"
| "handle E md (Request_email_verification e) = done_with (rpc_request_email_verification E e)"
| "handle E md (Verify_email t) = done_with (rpc_verify_email E t)"
| "handle E md (Request_password_reset e) = done_with (rpc_request_password_reset E e)"
| "handle E md (Reset_password t p) = done_with (rpc_reset_password E t p)"
| "handle E md (Change_password old new) = done_with (rpc_change_password E md old new)"
| "handle E md (List_audit_events l) = done_with (rpc_list_audit_events E md l)"

text \<open>The requests that can add to what a user may do.\<close>

definition may_grant :: "request \<Rightarrow> bool" where
  "may_grant rq \<longleftrightarrow> (case rq of
     Register _ _ \<Rightarrow> True | Create_tenant _ _ \<Rightarrow> True | Assign_role _ _ _ \<Rightarrow> True
   | Assign_role_bulk _ _ _ \<Rightarrow> True | Grant_permission _ _ \<Rightarrow> True | _ \<Rightarrow> False)"

section \<open>Steps of the deployed program\<close>

text \<open>
  \<open>main\<close>'s server calls the interceptor and then the handler; besides requests, the clock
  advances, Redis drops keys, the relay ticks, the saga consumes deliveries and the process
  restarts.  A request runs to its end before the next one starts.
\<close>

record deployment =
  dp_env :: env
  dp_token :: string
  dp_optional :: bool
  dp_cfg_or :: env_or
  dp_issuer :: string
  dp_access_ttl :: int

definition serve :: "deployment \<Rightarrow> metadata \<Rightarrow> request \<Rightarrow> unit act" where
  "serve D md rq =
     bind_ok (check_internal (dp_token D) (dp_optional D) md) (\<lambda>_. handle (dp_env D) md rq)"

inductive step :: "deployment \<Rightarrow> world \<Rightarrow> world \<Rightarrow> bool" for D where
  request: "serve D md rq w = (r, w') \<Longrightarrow> step D w w'"
| clock: "now w \<le> t \<Longrightarrow> step D w (w\<lparr>now := t\<rparr>)"
| evict: "set s \<subseteq> set (redis w) \<Longrightarrow> step D w (w\<lparr>redis := s\<rparr>)"
| relay: "relay_tick (dp_env D) w = (r, w') \<Longrightarrow> step D w w'"
| saga: "saga_consume (dp_env D) streams w = (r, w') \<Longrightarrow> step D w w'"
| restart: "bootstrap (dp_env D) (dp_cfg_or D) (dp_issuer D) (dp_access_ttl D) w = (r, w') \<Longrightarrow>
    step D w w'"

inductive_cases stepE: "step D w w'"

inductive reaches :: "deployment \<Rightarrow> world \<Rightarrow> world \<Rightarrow> bool" for D w where
  start: "reaches D w w"
| more: "reaches D w w1 \<Longrightarrow> step D w1 w2 \<Longrightarrow> reaches D w w2"


section \<open>What every step keeps of the database\<close>

text \<open>
  The interface between the statements and the service: an order on databases which every
  writing statement of the program respects.  The statements that can add permissions to a user are
  apart: without them the order is respected by the requests that use none of them.
\<close>

locale plain_statements = db_order +
  fixes E :: env
  assumes w_delete: "q_stable R (delete_user_event_soft (jsonb E) f t i hard ty p)"
    and w_restore: "q_stable R (restore_user_event (jsonb E) f t i ty p)"
    and w_set_totp: "q_stable R (set_totp_secret t i s)"
    and w_enable_totp: "q_stable R (enable_totp t i)"
    and w_disable_totp: "q_stable R (disable_totp t i)"
    and w_failure: "q_stable R (increment_login_failure i)"
    and w_lock: "q_stable R (lock_user i t)"
    and w_reset_login: "q_stable R (reset_login_state i)"
    and w_verified: "q_stable R (mark_email_verified i)"
    and w_password: "q_stable R (update_password t i h)"
    and w_insert_code: "q_stable R (insert_recovery_code i h)"
    and w_delete_codes: "q_stable R (delete_recovery_codes i)"
    and w_consume_code: "q_stable R (consume_recovery_code t i h)"
    and w_refresh: "q_stable R (create_refresh_token i h t ten pr)"
    and w_revoke_refresh: "q_stable R (revoke_refresh_token t h)"
    and w_rotate: "q_stable R (rotate_refresh_token t h h')"
    and w_revoke_all: "q_stable R (revoke_all_user_refresh_tokens t i)"
    and w_deny: "q_stable R (revoke_access_jti t j x)"
    and w_new_verification: "q_stable R (create_email_verification h i t)"
    and w_use_verification: "q_stable R (consume_email_verification t h)"
    and w_new_reset: "q_stable R (create_password_reset h i t)"
    and w_use_reset: "q_stable R (consume_password_reset t h)"
    and w_new_key: "q_stable R (create_api_key t k i h n ss ex ten pr)"
    and w_revoke_key: "q_stable R (revoke_api_key t k i)"
    and w_touch_key: "q_stable R (touch_api_key t k)"
    and w_audit: "q_stable R (insert_audit t a em ac tg de tn)"
    and w_published: "q_stable R (mark_outbox_published t i)"
    and w_member: "q_stable R (insert_membership i ten)"
    and w_unmember: "q_stable R (remove_member i ten)"
    and w_project: "q_stable R (create_project f ten sl n)"
    and w_unassign: "q_stable R (revoke_role eager i n ten pr)"
    and w_role: "\<not> is_builtin_role n \<Longrightarrow> q_stable R (create_role n de ten)"
    and w_update_role: "q_stable R (update_role n de ten)"
    and w_delete_role: "q_stable R (delete_role n ten)"
    and w_ungrant: "q_stable R (revoke_permission n pn ten)"
    and w_client: "q_stable R (insert_client c)"
    and w_seed_client: "q_stable R (seed_client c)"
    and w_code: "q_stable R (insert_auth_code cr)"
    and w_claim: "q_stable R (claim_code h)"
    and w_consent: "q_stable R (upsert_consent t i ci ss)"
    and w_signing_key: "q_stable R (insert_signing_key k p q)"
begin

lemma q_case_option:
  "(\<And>y. x = Some y \<Longrightarrow> q_stable R (g y)) \<Longrightarrow> (x = None \<Longrightarrow> q_stable R f) \<Longrightarrow>
   q_stable R (case x of None \<Rightarrow> f | Some y \<Rightarrow> g y)"
  by (cases x) auto

lemma q_reads:
  "q_stable R (get_user_by_email em)" "q_stable R (get_user_by_id i)"
  "q_stable R (is_user_active i)" "q_stable R (get_refresh_token h)"
  "q_stable R (is_token_revoked j)" "q_stable R (get_api_key_by_hash h)"
  "q_stable R (list_api_keys i)" "q_stable R (list_memberships le i)"
  "q_stable R (is_active_member i ten)" "q_stable R (list_tenants le)"
  "q_stable R (list_members_by_tenant le ten)" "q_stable R (list_projects_by_tenant le ten)"
  "q_stable R (is_project_in_tenant cr p ten)" "q_stable R (get_user_roles cr le i)"
  "q_stable R (get_user_permissions cr le i)" "q_stable R (get_user_roles_scoped cr le i ten pr)"
  "q_stable R (get_user_permissions_scoped cr le i ten pr)"
  "q_stable R (get_user_role_assignments cr le i ten)" "q_stable R (role_exists cr n)"
  "q_stable R (role_in_tenant cr n ten)" "q_stable R (tenant_role_exists cr n ten)"
  "q_stable R (list_roles_with_permissions cr le ten)" "q_stable R (list_permissions le)"
  "q_stable R (find_client c)" "q_stable R (find_code h)" "q_stable R (find_consent i c)"
  by (simp_all only: query_defs q_reading)

lemma q_list_audit: "q_stable R (list_audit ten k)"
  by (auto simp: q_stable_def list_audit_def refl split: if_splits)

lemma q_user_email_one: "q_stable R (user_email_one i)"
  by (auto simp: q_stable_def user_email_one_def refl split: option.splits)

lemma q_client_tenant_one: "q_stable R (client_tenant_one i)"
  by (auto simp: q_stable_def client_tenant_one_def refl split: option.splits)

lemma w_create_membership: "q_stable R (create_membership i ten)"
  unfolding create_membership_def by (rule w_member)

lemma w_add_member: "q_stable R (add_member i ten)"
  unfolding add_member_def by (rule w_member)

lemmas statement_rules = q_reading q_case_option q_reads q_list_audit q_user_email_one
  q_client_tenant_one w_create_membership w_add_member w_delete w_restore
  w_set_totp w_enable_totp w_disable_totp w_failure w_lock w_reset_login w_verified w_password
  w_insert_code w_delete_codes w_consume_code w_refresh w_revoke_refresh w_rotate w_revoke_all
  w_deny w_new_verification w_use_verification w_new_reset w_use_reset w_new_key w_revoke_key
  w_touch_key w_audit w_published w_unmember w_project w_unassign w_update_role w_delete_role
  w_ungrant w_client w_seed_client w_code w_claim w_consent w_signing_key

lemmas service_rules = base_rules audit_as audit issue_tokens issue_for_active_tenant
  statement_rules

lemma done_with: "stable R m \<Longrightarrow> stable R (done_with m)"
  unfolding done_with_def by (intro act_rules)

lemma count_failure: "stable R (count_failure E i em d)"
  unfolding count_failure_def by (intro service_rules)

lemma session_handlers:
  "stable R (rpc_login E em pw)" "stable R (rpc_login_totp E mfa code)"
  "stable R (rpc_refresh E tok)" "stable R (rpc_logout E md tok acc)"
  "stable R (rpc_validate_token E acc)" "stable R (rpc_list_my_memberships E md)"
  "stable R (rpc_switch_tenant E md ten pr)"
  unfolding rpc_login_def rpc_login_totp_def second_factor_ok_def rpc_refresh_def rpc_logout_def rpc_validate_token_def
    token_denied_def token_tenant_def token_project_def load_permissions_def
    rpc_list_my_memberships_def rpc_switch_tenant_def
  by (intro service_rules count_failure)+

lemma jwks_of: "stable R (jwks_of C rows)"
  by (induction rows) (auto intro!: act_rules)

lemma oidc_handlers:
  "stable R (rpc_get_jwks E)" "stable R (rpc_get_client E c)"
  "stable R (rpc_register_client E md n us ss b)"
  "stable R (rpc_create_authorization_code E c u r s ch m nn)"
  "stable R (rpc_exchange_authorization_code E code ci ru v sec)"
  "stable R (rpc_get_consent E u c)" "stable R (rpc_save_consent E u c ss)"
  unfolding rpc_get_jwks_def rpc_get_client_def rpc_register_client_def
    rpc_create_authorization_code_def rpc_exchange_authorization_code_def
    exchange_find_def exchange_finish_def rpc_get_consent_def rpc_save_consent_def
  by (intro service_rules jwks_of)+

lemma store_recovery_codes: "stable R (store_recovery_codes E i cs)"
  by (induction cs) (auto intro!: service_rules)

lemma account_handlers:
  "stable R (rpc_delete_user E md u hard)"
  "stable R (rpc_restore_user E md u)" "stable R (rpc_request_email_verification E em)"
  "stable R (rpc_verify_email E tok)" "stable R (rpc_request_password_reset E em)"
  "stable R (rpc_reset_password E tok pw)" "stable R (rpc_change_password E md old new)"
  "stable R (rpc_list_audit_events E md k)"
  unfolding rpc_delete_user_def rpc_restore_user_def
    rpc_request_email_verification_def rpc_verify_email_def rpc_request_password_reset_def
    rpc_reset_password_def rpc_change_password_def rpc_list_audit_events_def
  by (intro service_rules)+

lemma totp_handlers:
  "stable R (rpc_enroll_totp E md)" "stable R (rpc_get_totp_status E md)"
  "stable R (rpc_activate_totp E md code)" "stable R (rpc_disable_totp E md code)"
  unfolding rpc_enroll_totp_def rpc_get_totp_status_def rpc_activate_totp_def rpc_disable_totp_def
  by (intro service_rules store_recovery_codes)+

lemma tenancy_handlers:
  "stable R (rpc_list_tenants E md)"
  "stable R (rpc_create_project E md sl n)" "stable R (rpc_list_projects E md)"
  "stable R (rpc_add_member E md em)" "stable R (rpc_remove_member E md u)"
  "stable R (rpc_list_members E md)"
  unfolding rpc_list_tenants_def rpc_create_project_def rpc_list_projects_def rpc_add_member_def
    rpc_remove_member_def rpc_list_members_def
  by (intro service_rules)+

text \<open>A reserved name is refused before the statement.\<close>

lemma create_role_handler: "stable R (rpc_create_role E md n de)"
proof (cases "is_builtin_role n")
  case True
  then have "bind_ok (require (\<not> is_builtin_role n) e) f = fail e" for e and f :: "unit \<Rightarrow> role_view act"
    by (simp add: fun_eq_iff bind_ok_def require_def fail_def)
  then show ?thesis unfolding rpc_create_role_def by (simp only:) (intro service_rules)
next
  case False
  show ?thesis unfolding rpc_create_role_def by (intro service_rules w_role [OF False])
qed

lemma role_handlers:
  "stable R (rpc_update_role E md n de)" "stable R (rpc_delete_role E md n)"
  "stable R (rpc_list_roles E md)" "stable R (rpc_revoke_role E md u n p)"
  "stable R (rpc_get_user_role_assignments E md u)" "stable R (rpc_list_permissions E md)"
  "stable R (rpc_revoke_permission E md n pn)"
  unfolding rpc_update_role_def rpc_delete_role_def rpc_list_roles_def rpc_revoke_role_def
    rpc_get_user_role_assignments_def rpc_list_permissions_def rpc_revoke_permission_def
  by (intro service_rules)+

lemma api_key_handlers:
  "stable R (rpc_create_api_key E md n ss ttl)" "stable R (rpc_list_api_keys E md)"
  "stable R (rpc_revoke_api_key E md i)" "stable R (rpc_validate_api_key E k)"
  unfolding rpc_create_api_key_def rpc_list_api_keys_def rpc_revoke_api_key_def
    rpc_validate_api_key_def
  by (intro service_rules)+

lemma plain_handle: "\<not> may_grant rq \<Longrightarrow> stable R (handle E md rq)"
  by (cases rq) (simp_all only: may_grant_def request.case simp_thms handle.simps done_with
    session_handlers oidc_handlers account_handlers totp_handlers tenancy_handlers role_handlers
    create_role_handler api_key_handlers)

end

locale statements = plain_statements +
  assumes w_register: "q_stable R (create_user_with_role_event (conn_role E) (jsonb E) f t i em h default_role ty p)"
    and w_bootstrap: "q_stable R (create_user_with_role (conn_role E) f t em h ro)"
    and w_tenant: "q_stable R (create_tenant_with_admin (conn_role E) f sl n i)"
    and w_assign: "q_stable R (assign_role i n ten pr)"
    and w_grant: "q_stable R (grant_permission n pn ten)"
begin

lemmas all_service_rules = service_rules w_register w_tenant w_assign w_grant

lemma assign_each: "stable R (assign_each E n ten pr us k fs)"
  by (induction us arbitrary: k fs) (auto simp: assign_one_def intro!: all_service_rules)

lemma granting_handlers:
  "stable R (rpc_register E em pw)" "stable R (rpc_create_tenant E md sl n)"
  "stable R (rpc_assign_role E md u ro p)" "stable R (rpc_assign_role_bulk E md us ro p)"
  "stable R (rpc_grant_permission E md ro pn)"
  unfolding rpc_register_def rpc_create_tenant_def rpc_assign_role_def rpc_assign_role_bulk_def
    rpc_grant_permission_def
  by (intro all_service_rules assign_each)+

lemma handle: "stable R (handle E md rq)"
proof (cases "may_grant rq")
  case True
  then show ?thesis
    by (cases rq) (simp_all only: may_grant_def request.case simp_thms handle.simps done_with
      granting_handlers)
qed (rule plain_handle)

lemma bootstrap: "stable R (bootstrap E cfg_or issuer ttl)"
  unfolding bootstrap_def bootstrap_admin_def bootstrap_demo_def bootstrap_oidc_client_def
  by (intro service_rules w_bootstrap load_jwt_manager bootstrap_user)

lemma step:
  assumes "step D w w'" and "dp_env D = E"
  shows "R (db w) (db w')"
  using assms(1)
proof (cases rule: step.cases)
  case (request md rq r)
  have "stable R (serve D md rq)"
    unfolding serve_def check_internal_def using handle assms(2) by (intro act_rules) simp_all
  from stableD [OF this request] show ?thesis .
next
  case (relay r)
  from stableD [OF relay_tick [OF w_published] relay] show ?thesis .
next
  case (saga streams r)
  from stableD [OF saga_consume [OF w_audit] saga] show ?thesis .
next
  case (restart r)
  from stableD [OF bootstrap restart [unfolded assms(2)]] show ?thesis .
qed (simp_all add: refl)

lemma reaches: "reaches D w w' \<Longrightarrow> dp_env D = E \<Longrightarrow> R (db w) (db w')"
  by (induction rule: reaches.induct) (auto intro: refl trans step)

end

end
