(* ===== verification/Demo.thy ===== *)
theory Demo
  imports Service
begin

text \<open>
  A concrete deployment on which the theorems with hypotheses are applied: toy libraries that have
  the documented behaviour (an invertible cipher and encodings, a random generator, tokens whose
  fields can be read back), a small database and a running clock.
\<close>

section \<open>Libraries\<close>

definition demo_crypto :: crypto_lib where
  "demo_crypto = \<lparr>
     sha256 = (\<lambda>s. ''h'' @ s), hex_encode = (\<lambda>s. s),
     b64_encode = (\<lambda>s. s), b64_decode = Some, b64url_encode = (\<lambda>s. s),
     aes_seal = (\<lambda>k n p. Some (k @ p)), aes_open = (\<lambda>k n c. strip_prefix k c),
     rsa_public = (\<lambda>p. Some (p, p)),
     pw_hash = (\<lambda>n p. Some (CHR ''#'' # p)), pw_verify = (\<lambda>h p. h = CHR ''#'' # p)\<rparr>"

definition letter :: "nat \<Rightarrow> char" where
  "letter n = char_of (n mod 26 + 65)"

definition demo_random :: random_lib where
  "demo_random = \<lparr>rnd_bytes = (\<lambda>i n. replicate n (letter i)), rnd_below = (\<lambda>i n. i mod n),
     rnd_uuid = (\<lambda>i. of_nat (i + 65))\<rparr>"

definition read_uuid :: "string \<Rightarrow> uuid option" where
  "read_uuid s = (case s of [c] \<Rightarrow> Some (of_nat (of_char c)) | _ \<Rightarrow> None)"

definition show_uuid :: "uuid \<Rightarrow> string" where
  "show_uuid u = [char_of (unat u)]"

definition demo_text :: text_lib where
  "demo_text = \<lparr>uuid_parse = read_uuid, uuid_show = show_uuid, int_show = (\<lambda>n. ''n''),
     add_seconds = (\<lambda>t n. if n < 1000000000 then Some (t + n * second) else None),
     from_timestamp = (\<lambda>n. Some (n * second)), rfc3339 = (\<lambda>t. ''t''),
     json_registered = (\<lambda>i e n. Some ''{}''), json_deleted = (\<lambda>i h. Some ''{}''),
     json_restored = (\<lambda>i. Some ''{}''), json_strings = (\<lambda>ps. Some (join_on comma ps)),
     parse_json_strings = (\<lambda>s. Some (split_on comma s)),
     parse_profile_failed = (\<lambda>s. Some (s, ''gone''))\<rparr>"

definition bar :: char where
  "bar = CHR ''|''"

text \<open>A token is its kind, subject, e-mail, id, tenant and project; it expires at second 9000.\<close>

definition token_of :: "string \<Rightarrow> string \<Rightarrow> string \<Rightarrow> string \<Rightarrow> string \<Rightarrow> string \<Rightarrow> string" where
  "token_of k s e j t p = join_on bar [k, s, e, j, t, p]"

definition read_token :: "string \<Rightarrow> claims option" where
  "read_token s =
     (case split_on bar s of
        [k, s, e, j, t, p] \<Rightarrow> Some \<lparr>cl_sub = s, cl_email = e, cl_jti = j, cl_exp = 9000,
           cl_tenant_id = t, cl_project_id = p, cl_purpose = k\<rparr>
      | _ \<Rightarrow> None)"

lemma letter_not_bar [simp]: "letter n \<noteq> bar"
proof
  assume "letter n = bar"
  then have "(of_char (letter n) :: nat) = of_char bar" by simp
  then have "(n mod 26 + 65) mod 256 = 124" by (simp add: letter_def bar_def)
  moreover have "n mod 26 < 26" by simp
  ultimately show False by simp
qed

lemma read_token_of:
  assumes "bar \<notin> set k" "bar \<notin> set s" "bar \<notin> set e" "bar \<notin> set j" "bar \<notin> set t" "bar \<notin> set p"
  shows "read_token (token_of k s e j t p) = Some \<lparr>cl_sub = s, cl_email = e, cl_jti = j,
    cl_exp = 9000, cl_tenant_id = t, cl_project_id = p, cl_purpose = k\<rparr>"
proof -
  have "split_on bar (token_of k s e j t p) = [k, s, e, j, t, p]"
    unfolding token_of_def using assms by (intro split_join_on) auto
  then show ?thesis by (simp add: read_token_def)
qed

definition demo_jwt :: jwt_lib where
  "demo_jwt = \<lparr>
     jwt_issue = (\<lambda>n t s e ten p. Some (token_of ''access'' s e [letter n] ten p)),
     jwt_issue_mfa = (\<lambda>n t s ttl. Some (token_of ''mfa'' s [] [letter n] [] [])),
     jwt_issue_id_token = (\<lambda>n t s e c nonce iss. Some (token_of ''id'' s e [letter n] c nonce)),
     jwt_parse = (\<lambda>t s. if t < 9000 * second then read_token s else None),
     jwt_parse_access = (\<lambda>t s. if t < 9000 * second then
        (case read_token s of Some c \<Rightarrow> if cl_purpose c = ''access'' then Some c else None
         | None \<Rightarrow> None) else None),
     jwt_access_ttl_secs = 900,
     jwt_generate_rsa = (\<lambda>n. Some ([letter n], ''priv'', ''pub'')),
     jwt_from_pem_ok = (\<lambda>k p pubs. pubs k \<noteq> None)\<rparr>"

definition demo_totp :: totp_lib where
  "demo_totp = \<lparr>tl_generate_secret = (\<lambda>n. [letter n]), tl_raw_bytes = Some, tl_to_encoded = (\<lambda>s. s),
     tl_decode = Some, tl_new_ok = (\<lambda>p b i a. True), tl_url = (\<lambda>p b i a. b),
     tl_check_current = (\<lambda>p b t c. Some (c = b))\<rparr>"

definition live :: "time \<Rightarrow> redis_store \<Rightarrow> redis_store" where
  "live t s = filter (\<lambda>e. t < snd (snd e)) s"

definition demo_redis :: redis_lib where
  "demo_redis = \<lparr>
     rd_set_ex = (\<lambda>n t k v ttl s. (k, v, t + ttl * second) # filter (\<lambda>e. fst e \<noteq> k) s),
     rd_exists = (\<lambda>n t k s. Some (k \<in> fst ` set (live t s))),
     rd_get = (\<lambda>n t k s. map_option fst (map_of (live t s) k)),
     rd_del = (\<lambda>n ks s. filter (\<lambda>e. fst e \<notin> set ks) s),
     rd_scan = (\<lambda>n t c pat k s. Some (0, filter (star_match pat) (map fst s)))\<rparr>"

definition demo_config :: config_lib where
  "demo_config = \<lparr>audit_enabled = True, login_max_failures = 3, login_lockout_secs = 600,
     require_email_verification = True, is_production = True, oidc_issuer = ''iss'',
     type_user_registered = ''user.registered'', type_user_deleted = ''user.deleted'',
     type_user_restored = ''user.restored'', subject_prefix = ''iam.''\<rparr>"

definition demo_env :: env where
  "demo_env = \<lparr>crypto = demo_crypto, rand = demo_random, fmt = demo_text, jwt = demo_jwt,
     totp = demo_totp, redis_api = demo_redis, cfg = demo_config, conn_role = App_superuser,
     text_le = (\<lambda>a b. True),
     subquery_eager = (\<lambda>n. True), jsonb = Some, db_uuid = (\<lambda>n. of_nat (n + 97)), db_fault = (\<lambda>n. Fine),
     nats_fault = (\<lambda>n. Fine), refresh_ttl_secs = 86400, dummy_hash = ''#'', cache_conn = False,
     totp_cipher = None\<rparr>"

lemma demo_fault_free [simp]: "fault_free demo_env"
  by (simp add: fault_free_def demo_env_def)

section \<open>Database\<close>

text \<open>Two tenants, the default one (1) and tenant 50 (shown \<open>2\<close>); the user 51 (shown \<open>3\<close>) is an
  administrator of the default tenant, the user 52 (shown \<open>4\<close>) has a second factor.\<close>

definition demo_user :: "uuid \<Rightarrow> string \<Rightarrow> user_row" where
  "demo_user i email =
     \<lparr>u_id = i, u_email = email, u_password_hash = ''#longsecret'', u_status = ''active'',
      u_email_verified = True, u_failed_login_attempts = 0, u_locked_until = None,
      u_totp_secret = None, u_totp_enabled = False, u_deleted_at = None, u_updated_at = 0\<rparr>"

definition ann :: user_row where
  "ann = demo_user 51 ''ann@x''"

definition bob :: user_row where
  "bob = (demo_user 52 ''bob@x'')\<lparr>u_totp_secret := Some ''123456'', u_totp_enabled := True\<rparr>"

definition demo_role :: "int \<Rightarrow> string \<Rightarrow> uuid option \<Rightarrow> role_row" where
  "demo_role i n t = \<lparr>ro_id = i, ro_name = n, ro_description = [], ro_tenant_id = t\<rparr>"

definition demo_db :: db where
  "demo_db = \<lparr>users = [ann, bob], refresh_tokens = [],
     roles = [demo_role 1 ''admin'' None, demo_role 2 ''user'' None, demo_role 3 ''viewer'' None,
              demo_role 4 ''editor'' (Some 1), demo_role 5 ''viewer'' (Some 50)],
     role_seq = 6,
     permissions = [\<lparr>pe_id = 1, pe_name = ''user:read'', pe_description = []\<rparr>,
                    \<lparr>pe_id = 2, pe_name = ''role:write'', pe_description = []\<rparr>],
     role_permissions = [(1, 1), (1, 2), (3, 1)],
     user_roles = [\<lparr>ur_user_id = 51, ur_role_id = 1, ur_tenant_id = 1, ur_project_id = None\<rparr>],
     revoked_tokens = [], email_verifications = [], password_resets = [], audit_events = [],
     audit_seq = 1, outbox = [], signing_keys = [], oauth_clients = [], auth_codes = [],
     consents = [], recovery_codes = [], recovery_seq = 1, api_keys = [],
     tenants = [\<lparr>te_id = 1, te_slug = ''default'', te_name = ''Default'', te_status = ''active''\<rparr>,
                \<lparr>te_id = 50, te_slug = ''acme'', te_name = ''Acme'', te_status = ''active''\<rparr>],
     projects = [\<lparr>pr_id = 60, pr_tenant_id = 1, pr_slug = ''p'', pr_name = ''P''\<rparr>],
     memberships = [\<lparr>me_user_id = 51, me_tenant_id = 1, me_status = ''active''\<rparr>,
                    \<lparr>me_user_id = 52, me_tenant_id = 1, me_status = ''active''\<rparr>]\<rparr>"

definition demo_world :: world where
  "demo_world = \<lparr>db = demo_db, redis = [], mails = [], now = 1000 * second, draws = 0, db_calls = 0,
     redis_calls = 0, nats_calls = 0, stream = []\<rparr>"

text \<open>What the gateway forwards for the administrator.\<close>

definition ann_md :: metadata where
  "ann_md = [''x-user-id'' \<mapsto> ''3'', ''x-user-email'' \<mapsto> ''ann@x'',
     ''x-user-permissions'' \<mapsto> ''user:read,role:write'', ''x-tenant-id'' \<mapsto> [char_of (1::nat)],
     ''x-internal-token'' \<mapsto> ''internal'']"

definition demo_deployment :: deployment where
  "demo_deployment = \<lparr>dp_env = demo_env, dp_token = ''internal'', dp_optional = False,
     dp_cfg_or = (\<lambda>k d. d), dp_issuer = ''iss'', dp_access_ttl = 900\<rparr>"

section \<open>Running a request\<close>

text \<open>
  The demonstrations evaluate a handler by rewriting from its first statement to its last: the
  congruences keep the simplifier out of the continuation until the statement before it has run.
\<close>

lemma demo_sel [simp]:
  "crypto demo_env = demo_crypto" "rand demo_env = demo_random" "fmt demo_env = demo_text"
  "jwt demo_env = demo_jwt" "totp demo_env = demo_totp" "redis_api demo_env = demo_redis"
  "cfg demo_env = demo_config" "conn_role demo_env = App_superuser" "text_le demo_env a b"
  "subquery_eager demo_env n"
  "jsonb demo_env = Some" "db_uuid demo_env n = of_nat (n + 97)" "db_fault demo_env n = Fine"
  "nats_fault demo_env n = Fine" "refresh_ttl_secs demo_env = 86400" "cache_conn demo_env = False"
  "totp_cipher demo_env = None"
  by (simp_all add: demo_env_def)

lemma replicate_other:
  "length s \<noteq> n \<Longrightarrow> replicate n c = s \<longleftrightarrow> False"
  "length s \<noteq> n \<Longrightarrow> s = replicate n c \<longleftrightarrow> False"
  by auto

lemmas demo_libs = demo_crypto_def demo_random_def demo_text_def demo_jwt_def demo_totp_def
  demo_redis_def demo_config_def letter_def show_uuid_def read_uuid_def token_of_def bar_def
  read_token_def comma_def replicate_other

lemmas demo_data = demo_world_def demo_db_def ann_def bob_def demo_user_def demo_role_def
  default_tenant_id_def second_def ann_md_def

lemma bind_weak: "w = w' \<Longrightarrow> bind_ok m f w = bind_ok m f w'" by simp
lemma now_weak: "w = w' \<Longrightarrow> with_now f w = with_now f w'" by simp
lemma call_weak: "w = w' \<Longrightarrow> with_call f w = with_call f w'" by simp

lemmas run_weak = bind_weak now_weak call_weak

text \<open>The simplifier cannot read the result off \<open>False = ?x\<close>.\<close>

lemma bind_ok_False: "m w = (Inr False, w') \<Longrightarrow> bind_ok m f w = f False w'"
  by (simp add: bind_ok_def)

lemma char_one: "char_of (Suc 0) = CHR 0x01"
  by code_simp

lemmas action_runs = ok_def bind_ok_apply bind_ok_False char_one ret_apply fail_apply or_fail_apply lift_sum_apply
  require_apply with_now_apply with_call_apply draw_apply send_mail_apply db_try_def db_ok_def
  db_ignore_def [THEN fun_cong] run_query_def reading_def writing_def then_query_def
  now_plus_def [THEN fun_cong] warn_on_error_def

lemmas table_runs = has_user_def has_tenant_def has_project_def update_user_def visible_roles_def
  visible_user_roles_def visible_projects_def pool_session_def tenant_tx_def tenant_guc_tx_def
  default_tenant_tx_def rls_visible_def new_user_def default_role_rows_def insert_user_role_def
  ur_key_def scope_match_def active_member_def held_permissions_def held_roles_def scoped_to_def scope_applies_def
  soft_delete_user_def purge_user_def

lemmas helper_runs = require_perm_def [THEN fun_cong] has_perm_def meta_def caller_uuid_def
  caller_perms_def active_tenant_def parse_opt_project_def hash_token_def is_builtin_role_def
  gen_hex_def [THEN fun_cong] gen_refresh_token_def [THEN fun_cong] audit_as_def [THEN fun_cong]
  audit_def [THEN fun_cong] issue_tokens_def [THEN fun_cong] show_opt_uuid_def
  issue_for_active_tenant_def [THEN fun_cong] validate_assign_def [THEN fun_cong]
  perm_role_guard_def [THEN fun_cong] verify_pkce_def cache_deny_def cache_is_denied_def
  cache_get_perms_def cache_set_perms_def cache_invalidate_perms_def locked_def
  count_failure_def [THEN fun_cong] rotated_def within_grace_def refresh_rotation_grace_secs_def
  token_denied_def [THEN fun_cong] token_tenant_def [THEN fun_cong]
  token_project_def [THEN fun_cong] load_permissions_def [THEN fun_cong] mfa_challenge_def
  mfa_ready_def second_factor_ok_def [THEN fun_cong] totp_validate_def totp_config_def totp_issuer_def decrypt_def encrypt_def
  strip_prefix_def enc_prefix_def spendable_code_def spendable_token_def claimable_def
  nullif_empty_def str_or_def has_pkce_def pkce_accepts_def invalid_grant_def timestamp_def
  default_role_def display_name_def

lemmas handler_runs = rpc_login_def [THEN fun_cong] rpc_login_totp_def [THEN fun_cong]
  rpc_refresh_def [THEN fun_cong, unfolded Let_def] rpc_logout_def [THEN fun_cong]
  rpc_validate_token_def [THEN fun_cong] rpc_switch_tenant_def [THEN fun_cong]
  rpc_register_client_def [THEN fun_cong] rpc_create_authorization_code_def [THEN fun_cong]
  rpc_exchange_authorization_code_def [THEN fun_cong, unfolded Let_def]
  exchange_find_def [THEN fun_cong] exchange_finish_def [THEN fun_cong]
  rpc_save_consent_def [THEN fun_cong] rpc_get_consent_def [THEN fun_cong]
  rpc_register_def [THEN fun_cong] rpc_delete_user_def [THEN fun_cong]
  rpc_restore_user_def [THEN fun_cong] rpc_reset_password_def [THEN fun_cong]
  rpc_change_password_def [THEN fun_cong] rpc_enroll_totp_def [THEN fun_cong]
  rpc_activate_totp_def [THEN fun_cong] rpc_list_audit_events_def [THEN fun_cong]
  rpc_create_role_def [THEN fun_cong] rpc_assign_role_def [THEN fun_cong]
  rpc_create_api_key_def [THEN fun_cong, unfolded Let_def] rpc_validate_api_key_def [THEN fun_cong]

lemmas demo_runs = demo_libs demo_data action_runs table_runs helper_runs handler_runs query_defs

end
