(* ===== verification/Interleaving.thy ===== *)
theory Interleaving
  imports Service
begin

text \<open>
  Concurrency.  The server runs many requests at once, in several replicas, next to the relay and
  the saga: what the database executes is an interleaving of their statements.  \<open>statement E\<close> is
  one statement (or transaction) of the program with any arguments (a role is created only under a
  name that is not reserved), \<open>interleaved E\<close> any sequence
  of them: every interleaving of any number of requests is one of these sequences, and so is every
  run of one request after the other.
\<close>

section \<open>Statements\<close>

definition runs_to :: "'a query \<Rightarrow> db \<Rightarrow> db \<Rightarrow> bool" where
  "runs_to q d d' \<longleftrightarrow> (\<exists>x. q d = Inr (x, d'))"

inductive statement :: "env \<Rightarrow> db \<Rightarrow> db \<Rightarrow> bool" for E where
  s_register: "\<And>f t i em h ty p.
    runs_to (create_user_with_role_event (conn_role E) (jsonb E) f t i em h default_role ty p) d d' \<Longrightarrow>
    statement E d d'"
| s_bootstrap: "\<And>f t em h ro. runs_to (create_user_with_role (conn_role E) f t em h ro) d d' \<Longrightarrow>
    statement E d d'"
| s_delete: "\<And>f t i hard ty p. runs_to (delete_user_event_soft (jsonb E) f t i hard ty p) d d' \<Longrightarrow>
    statement E d d'"
| s_restore: "\<And>f t i ty p. runs_to (restore_user_event (jsonb E) f t i ty p) d d' \<Longrightarrow>
    statement E d d'"
| s_set_totp: "\<And>t i s. runs_to (set_totp_secret t i s) d d' \<Longrightarrow> statement E d d'"
| s_enable_totp: "\<And>t i. runs_to (enable_totp t i) d d' \<Longrightarrow> statement E d d'"
| s_disable_totp: "\<And>t i. runs_to (disable_totp t i) d d' \<Longrightarrow> statement E d d'"
| s_failure: "\<And>i. runs_to (increment_login_failure i) d d' \<Longrightarrow> statement E d d'"
| s_lock: "\<And>i t. runs_to (lock_user i t) d d' \<Longrightarrow> statement E d d'"
| s_reset_login: "\<And>i. runs_to (reset_login_state i) d d' \<Longrightarrow> statement E d d'"
| s_verified: "\<And>i. runs_to (mark_email_verified i) d d' \<Longrightarrow> statement E d d'"
| s_password: "\<And>t i h. runs_to (update_password t i h) d d' \<Longrightarrow> statement E d d'"
| s_insert_code: "\<And>i h. runs_to (insert_recovery_code i h) d d' \<Longrightarrow>
    statement E d d'"
| s_delete_codes: "\<And>i. runs_to (delete_recovery_codes i) d d' \<Longrightarrow> statement E d d'"
| s_consume_code: "\<And>t i h. runs_to (consume_recovery_code t i h) d d' \<Longrightarrow>
    statement E d d'"
| s_refresh: "\<And>i h t ten pr. runs_to (create_refresh_token i h t ten pr) d d' \<Longrightarrow>
    statement E d d'"
| s_revoke_refresh: "\<And>t h. runs_to (revoke_refresh_token t h) d d' \<Longrightarrow>
    statement E d d'"
| s_rotate: "\<And>t h h'. runs_to (rotate_refresh_token t h h') d d' \<Longrightarrow>
    statement E d d'"
| s_revoke_all: "\<And>t i. runs_to (revoke_all_user_refresh_tokens t i) d d' \<Longrightarrow>
    statement E d d'"
| s_deny: "\<And>t j x. runs_to (revoke_access_jti t j x) d d' \<Longrightarrow> statement E d d'"
| s_new_verification: "\<And>h i t. runs_to (create_email_verification h i t) d d' \<Longrightarrow>
    statement E d d'"
| s_use_verification: "\<And>t h. runs_to (consume_email_verification t h) d d' \<Longrightarrow>
    statement E d d'"
| s_new_reset: "\<And>h i t. runs_to (create_password_reset h i t) d d' \<Longrightarrow>
    statement E d d'"
| s_use_reset: "\<And>t h. runs_to (consume_password_reset t h) d d' \<Longrightarrow>
    statement E d d'"
| s_new_key: "\<And>t k i h n ss ex ten pr. runs_to (create_api_key t k i h n ss ex ten pr) d d' \<Longrightarrow>
    statement E d d'"
| s_revoke_key: "\<And>t k i. runs_to (revoke_api_key t k i) d d' \<Longrightarrow> statement E d d'"
| s_touch_key: "\<And>t k. runs_to (touch_api_key t k) d d' \<Longrightarrow> statement E d d'"
| s_audit: "\<And>t a em ac tg de tn. runs_to (insert_audit t a em ac tg de tn) d d' \<Longrightarrow>
    statement E d d'"
| s_published: "\<And>t i. runs_to (mark_outbox_published t i) d d' \<Longrightarrow>
    statement E d d'"
| s_member: "\<And>i ten. runs_to (insert_membership i ten) d d' \<Longrightarrow> statement E d d'"
| s_unmember: "\<And>i ten. runs_to (remove_member i ten) d d' \<Longrightarrow> statement E d d'"
| s_tenant: "\<And>f sl n i. runs_to (create_tenant_with_admin (conn_role E) f sl n i) d d' \<Longrightarrow>
    statement E d d'"
| s_project: "\<And>f ten sl n. runs_to (create_project f ten sl n) d d' \<Longrightarrow>
    statement E d d'"
| s_assign: "\<And>i n ten pr. runs_to (assign_role i n ten pr) d d' \<Longrightarrow>
    statement E d d'"
| s_unassign: "\<And>eager i n ten pr. runs_to (revoke_role eager i n ten pr) d d' \<Longrightarrow>
    statement E d d'"
| s_role: "\<And>n de ten. runs_to (create_role n de ten) d d' \<Longrightarrow> \<not> is_builtin_role n \<Longrightarrow>
    statement E d d'"
| s_update_role: "\<And>n de ten. runs_to (update_role n de ten) d d' \<Longrightarrow>
    statement E d d'"
| s_delete_role: "\<And>n ten. runs_to (delete_role n ten) d d' \<Longrightarrow> statement E d d'"
| s_grant: "\<And>n pn ten. runs_to (grant_permission n pn ten) d d' \<Longrightarrow>
    statement E d d'"
| s_ungrant: "\<And>n pn ten. runs_to (revoke_permission n pn ten) d d' \<Longrightarrow>
    statement E d d'"
| s_client: "\<And>c. runs_to (insert_client c) d d' \<Longrightarrow> statement E d d'"
| s_seed_client: "\<And>c. runs_to (seed_client c) d d' \<Longrightarrow> statement E d d'"
| s_code: "\<And>cr. runs_to (insert_auth_code cr) d d' \<Longrightarrow> statement E d d'"
| s_claim: "\<And>h. runs_to (claim_code h) d d' \<Longrightarrow> statement E d d'"
| s_consent: "\<And>t i ci ss. runs_to (upsert_consent t i ci ss) d d' \<Longrightarrow>
    statement E d d'"
| s_signing_key: "\<And>k p q. runs_to (insert_signing_key k p q) d d' \<Longrightarrow>
    statement E d d'"

definition interleaved :: "env \<Rightarrow> db \<Rightarrow> db \<Rightarrow> bool" where
  "interleaved E = (statement E)\<^sup>*\<^sup>*"

lemma q_stable_runs: "q_stable R q \<longleftrightarrow> (\<forall>d d'. runs_to q d d' \<longrightarrow> R d d')"
  by (auto simp: q_stable_def runs_to_def)

lemma q_stableD: "q_stable R q \<Longrightarrow> runs_to q d d' \<Longrightarrow> R d d'"
  by (simp add: q_stable_runs)

section \<open>An order that every statement respects is respected by every interleaving\<close>

context statements begin

lemmas writes = w_register w_bootstrap w_delete w_restore w_set_totp w_enable_totp w_disable_totp
  w_failure w_lock w_reset_login w_verified w_password w_insert_code w_delete_codes
  w_consume_code w_refresh w_revoke_refresh w_rotate w_revoke_all w_deny w_new_verification
  w_use_verification w_new_reset w_use_reset w_new_key w_revoke_key w_touch_key w_audit
  w_published w_member w_unmember w_tenant w_project w_assign w_unassign w_role
  w_update_role w_delete_role w_grant w_ungrant w_client w_seed_client w_code w_claim
  w_consent w_signing_key

lemma statement: "statement E d d' \<Longrightarrow> R d d'"
  by (induction rule: statement.induct) (erule q_stableD [rotated], rule writes, assumption?)+

lemma interleaved: "interleaved E d d' \<Longrightarrow> R d d'"
  unfolding interleaved_def by (induction rule: rtranclp.induct) (auto intro: refl trans statement)

end

section \<open>A request is a sequence of statements\<close>

text \<open>
  The finest such order: whatever the faults and the outcome, what a request, a task or a start
  did to the database is a sequence of the program's statements.
\<close>

interpretation runs: statements "interleaved E" E for E
  by unfold_locales
    (auto simp: interleaved_def q_stable_runs intro: r_into_rtranclp statement.intros)

lemma reaches_interleaved: "reaches D w w' \<Longrightarrow> dp_env D = E \<Longrightarrow> interleaved E (db w) (db w')"
  by (rule runs.reaches)

end
