(* ===== verification/Effects.thy ===== *)
theory Effects
  imports SvcOidc Keys Startup
begin

text \<open>
  What a statement that succeeded did to the database, one inversion rule per statement: which
  checks it passed and which tables it changed.  The rules are collected in \<open>query_elims\<close>; the
  invariants of the development are proved from them and not from the definitions.
\<close>

section \<open>Statements that insert\<close>

lemma writing_E [query_elims]:
  "writing f d = Inr (x, d') \<Longrightarrow> (d' = f d \<Longrightarrow> P) \<Longrightarrow> P"
  by simp

lemma insert_user_E [query_elims]:
  assumes "insert_user i em h t d = Inr (x, d')"
  obtains "\<not> exists_where (\<lambda>u. u_id u = i \<or> u_email u = em) (users d)"
    and "d' = d\<lparr>users := users d @ [new_user i em h t]\<rparr>"
  using assms by (auto simp: insert_user_def split: if_splits)

definition role_rows_ok :: "session \<Rightarrow> user_role_row list \<Rightarrow> user_role_row list \<Rightarrow> db \<Rightarrow> bool" where
  "role_rows_ok s rs new d \<longleftrightarrow> set new \<subseteq> set rs \<and>
     (\<forall>r\<in>set new. rls_visible s (Some (ur_tenant_id r)) \<and> has_user (ur_user_id r) d \<and>
        has_tenant (ur_tenant_id r) d \<and> has_project (ur_project_id r) d) \<and>
     (distinct (map ur_key (user_roles d)) \<longrightarrow> distinct (map ur_key (user_roles d @ new)))"

lemma insert_user_roles_E [query_elims]:
  assumes "insert_user_roles s rs d = Inr (x, d')"
  obtains new where "d' = d\<lparr>user_roles := user_roles d @ new\<rparr>" and "role_rows_ok s rs new d"
  using insert_user_roles_append [OF assms] by (auto simp: role_rows_ok_def)

lemma insert_user_role_E [query_elims]:
  assumes "insert_user_role s r d = Inr (x, d')"
  obtains new where "d' = d\<lparr>user_roles := user_roles d @ new\<rparr>" and "role_rows_ok s [r] new d"
proof -
  have "insert_user_roles s [r] d = Inr ((), d')"
    using assms by simp
  then show thesis by (rule insert_user_roles_E) (rule that)
qed

lemma insert_outbox_E [query_elims]:
  assumes "insert_outbox js f t a ty p d = Inr (x, d')"
  obtains j where "js p = Some j" and "\<not> exists_where (\<lambda>r. ob_id r = f) (outbox d)"
    and "d' = d\<lparr>outbox := outbox d @
      [\<lparr>ob_id = f, ob_aggregate_id = a, ob_event_type = ty, ob_payload = j, ob_created_at = t,
        ob_published_at = None\<rparr>]\<rparr>"
  using assms by (auto simp: insert_outbox_def split: option.splits if_splits)

lemma default_role_rows_users [simp]:
  "default_role_rows s i ro (d\<lparr>users := us\<rparr>) = default_role_rows s i ro d"
  by (simp add: default_role_rows_def visible_roles_def)

lemma create_user_with_role_E [query_elims]:
  assumes "create_user_with_role c f t em h ro d = Inr (x, d')"
  obtains new where "x = f"
    and "\<not> exists_where (\<lambda>u. u_id u = f \<or> u_email u = em) (users d)"
    and "d' = d\<lparr>users := users d @ [new_user f em h t], user_roles := user_roles d @ new\<rparr>"
    and "role_rows_ok (default_tenant_tx c) (default_role_rows (default_tenant_tx c) f ro d) new
           (d\<lparr>users := users d @ [new_user f em h t]\<rparr>)"
  using assms unfolding create_user_with_role_def
  by (elim then_query_InrE insert_user_E insert_user_roles_E) simp

lemma create_user_with_role_event_E [query_elims]:
  assumes "create_user_with_role_event c js f t i em h ro ty p d = Inr (x, d')"
  obtains new j where
    "\<not> exists_where (\<lambda>u. u_id u = i \<or> u_email u = em) (users d)"
    and "js p = Some j" and "\<not> exists_where (\<lambda>r. ob_id r = f) (outbox d)"
    and "d' = d\<lparr>users := users d @ [new_user i em h t], user_roles := user_roles d @ new,
       outbox := outbox d @
      [\<lparr>ob_id = f, ob_aggregate_id = i, ob_event_type = ty, ob_payload = j, ob_created_at = t,
        ob_published_at = None\<rparr>]\<rparr>"
    and "role_rows_ok (default_tenant_tx c) (default_role_rows (default_tenant_tx c) i ro d) new
           (d\<lparr>users := users d @ [new_user i em h t]\<rparr>)"
  using assms unfolding create_user_with_role_event_def
  by (elim then_query_InrE insert_user_E insert_user_roles_E insert_outbox_E) simp

lemma delete_user_event_soft_E [query_elims]:
  assumes "delete_user_event_soft js f t i hard ty p d = Inr (x, d')"
  obtains j where "hard" and "js p = Some j" and "\<not> exists_where (\<lambda>r. ob_id r = f) (outbox d)"
    and "d' = (purge_user i d)\<lparr>outbox := outbox d @
      [\<lparr>ob_id = f, ob_aggregate_id = i, ob_event_type = ty, ob_payload = j, ob_created_at = t,
        ob_published_at = None\<rparr>]\<rparr>"
  | j where "\<not> hard" and "js p = Some j" and "\<not> exists_where (\<lambda>r. ob_id r = f) (outbox d)"
    and "d' = (soft_delete_user t i d)\<lparr>outbox := outbox d @
      [\<lparr>ob_id = f, ob_aggregate_id = i, ob_event_type = ty, ob_payload = j, ob_created_at = t,
        ob_published_at = None\<rparr>]\<rparr>"
  using assms unfolding delete_user_event_soft_def
  by (elim then_query_InrE insert_outbox_E)
    (auto simp: purge_user_def soft_delete_user_def split: if_splits)

lemma restore_user_event_E [query_elims]:
  assumes "restore_user_event js f t i ty p d = Inr (x, d')"
  obtains j where "js p = Some j" and "\<not> exists_where (\<lambda>r. ob_id r = f) (outbox d)"
    and "d' = d\<lparr>users := update_where (\<lambda>u. u_id u = i)
                   (\<lambda>u. u\<lparr>u_deleted_at := None, u_updated_at := t\<rparr>) (users d),
       outbox := outbox d @
      [\<lparr>ob_id = f, ob_aggregate_id = i, ob_event_type = ty, ob_payload = j, ob_created_at = t,
        ob_published_at = None\<rparr>]\<rparr>"
  using assms unfolding restore_user_event_def
  by (elim then_query_InrE insert_outbox_E) auto

lemma insert_recovery_code_E [query_elims]:
  assumes "insert_recovery_code i h d = Inr (x, d')"
  obtains "has_user i d" and "d' = d\<lparr>recovery_codes := recovery_codes d @
      [\<lparr>rc_id = recovery_seq d, rc_user_id = i, rc_code_hash = h, rc_used_at = None\<rparr>],
      recovery_seq := recovery_seq d + 1\<rparr>"
  using assms by (auto simp: insert_recovery_code_def split: if_splits)

lemma create_refresh_token_E [query_elims]:
  assumes "create_refresh_token i h ex ten pr d = Inr (x, d')"
  obtains "\<not> exists_where (\<lambda>r. rt_token_hash r = h) (refresh_tokens d)"
    and "has_user i d" and "has_tenant ten d" and "has_project pr d"
    and "d' = d\<lparr>refresh_tokens := refresh_tokens d @
      [\<lparr>rt_user_id = i, rt_token_hash = h, rt_expires_at = ex, rt_revoked_at = None,
        rt_replaced_by = None, rt_tenant_id = ten, rt_project_id = pr\<rparr>]\<rparr>"
  using assms by (auto simp: create_refresh_token_def split: if_splits)

lemma create_email_verification_E [query_elims]:
  assumes "create_email_verification h i ex d = Inr (x, d')"
  obtains "\<not> exists_where (\<lambda>r. ot_token_hash r = h) (email_verifications d)" and "has_user i d"
    and "d' = d\<lparr>email_verifications := email_verifications d @
      [\<lparr>ot_token_hash = h, ot_user_id = i, ot_expires_at = ex, ot_consumed_at = None\<rparr>]\<rparr>"
  using assms by (auto simp: create_email_verification_def split: if_splits)

lemma create_password_reset_E [query_elims]:
  assumes "create_password_reset h i ex d = Inr (x, d')"
  obtains "\<not> exists_where (\<lambda>r. ot_token_hash r = h) (password_resets d)" and "has_user i d"
    and "d' = d\<lparr>password_resets := password_resets d @
      [\<lparr>ot_token_hash = h, ot_user_id = i, ot_expires_at = ex, ot_consumed_at = None\<rparr>]\<rparr>"
  using assms by (auto simp: create_password_reset_def split: if_splits)

lemma create_api_key_E [query_elims]:
  assumes "create_api_key t k i h n ss ex ten pr d = Inr (x, d')"
  obtains "\<not> exists_where (\<lambda>r. ak_id r = k \<or> ak_key_hash r = h) (api_keys d)"
    and "has_user i d" and "has_tenant ten d" and "has_project pr d"
    and "d' = d\<lparr>api_keys := api_keys d @
      [\<lparr>ak_id = k, ak_user_id = i, ak_key_hash = h, ak_name = n, ak_scopes = ss,
        ak_expires_at = ex, ak_revoked_at = None, ak_last_used_at = None, ak_created_at = t,
        ak_tenant_id = ten, ak_project_id = pr\<rparr>]\<rparr>"
  using assms by (auto simp: create_api_key_def split: if_splits)

definition new_members :: "uuid \<Rightarrow> uuid \<Rightarrow> db \<Rightarrow> membership_row list" where
  "new_members i ten d =
     (if exists_where (\<lambda>m. me_user_id m = i \<and> me_tenant_id m = ten) (memberships d) then []
      else [\<lparr>me_user_id = i, me_tenant_id = ten, me_status = ''active''\<rparr>])"

lemma insert_membership_E [query_elims]:
  assumes "insert_membership i ten d = Inr (x, d')"
  obtains "d' = d\<lparr>memberships := memberships d @ new_members i ten d\<rparr>"
    and "\<forall>m\<in>set (new_members i ten d). has_user i d \<and> has_tenant ten d"
  using assms by (auto simp: insert_membership_def new_members_def split: if_splits)

lemma insert_tenant_E [query_elims]:
  assumes "insert_tenant f sl n d = Inr (x, d')"
  obtains "x = \<lparr>te_id = f, te_slug = sl, te_name = n, te_status = ''active''\<rparr>"
    and "\<not> exists_where (\<lambda>t. te_id t = f \<or> te_slug t = sl) (tenants d)"
    and "d' = d\<lparr>tenants := tenants d @ [x]\<rparr>"
  using assms by (auto simp: insert_tenant_def Let_def split: if_splits)

lemma tenant_updates [simp]:
  "new_members i ten (d\<lparr>tenants := ts\<rparr>) = new_members i ten d"
  "has_user i (d\<lparr>tenants := ts\<rparr>) = has_user i d"
  "admin_template_rows c i ten (d\<lparr>tenants := ts\<rparr>) = admin_template_rows c i ten d"
  "admin_template_rows c i ten (d\<lparr>memberships := ms\<rparr>) = admin_template_rows c i ten d"
  by (simp_all add: new_members_def has_user_def admin_template_rows_def visible_roles_def)

lemma create_tenant_with_admin_E [query_elims]:
  assumes "create_tenant_with_admin c f sl n i d = Inr (x, d')"
  obtains new where "x = \<lparr>te_id = f, te_slug = sl, te_name = n, te_status = ''active''\<rparr>"
    and "\<not> exists_where (\<lambda>t. te_id t = f \<or> te_slug t = sl) (tenants d)"
    and "\<forall>m\<in>set (new_members i f d). has_user i d"
    and "d' = d\<lparr>tenants := tenants d @ [x], memberships := memberships d @ new_members i f d,
               user_roles := user_roles d @ new\<rparr>"
    and "role_rows_ok (pool_session c) (admin_template_rows c i f d) new
           (d\<lparr>tenants := tenants d @ [x], memberships := memberships d @ new_members i f d\<rparr>)"
  using assms unfolding create_tenant_with_admin_def
  by (elim then_query_InrE insert_tenant_E insert_membership_E insert_user_roles_E) simp

lemma create_project_E [query_elims]:
  assumes "create_project f ten sl n d = Inr (x, d')"
  obtains "x = \<lparr>pr_id = f, pr_tenant_id = ten, pr_slug = sl, pr_name = n\<rparr>"
    and "\<not> exists_where (\<lambda>r. pr_id r = f \<or> pr_tenant_id r = ten \<and> pr_slug r = sl) (projects d)"
    and "has_tenant ten d" and "d' = d\<lparr>projects := projects d @ [x]\<rparr>"
  using assms by (auto simp: create_project_def Let_def split: if_splits)

lemma create_role_E [query_elims]:
  assumes "create_role n de ten d = Inr (x, d')"
  obtains "x = \<lparr>ro_id = role_seq d, ro_name = n, ro_description = de, ro_tenant_id = Some ten\<rparr>"
    and "\<not> exists_where (\<lambda>r. ro_id r = role_seq d \<or> ro_name r = n \<and> ro_tenant_id r = Some ten) (roles d)"
    and "has_tenant ten d" and "d' = d\<lparr>roles := roles d @ [x], role_seq := role_seq d + 1\<rparr>"
  using assms by (auto simp: create_role_def Let_def split: if_splits)

lemma resolve_role_SomeD:
  assumes "resolve_role n ten d = Some r"
  shows "r \<in> set (roles d) \<and> ro_name r = n \<and> (ro_tenant_id r = Some ten \<or> ro_tenant_id r = None)"
proof -
  let ?rs = "filter (\<lambda>r. ro_name r = n \<and> (ro_tenant_id r = Some ten \<or> ro_tenant_id r = None))
                 (visible_roles (tenant_tx ten) d)"
  have "r \<in> set ?rs"
    using assms unfolding resolve_role_def Let_def
    by (cases "find (\<lambda>r. ro_tenant_id r \<noteq> None) ?rs"; cases ?rs)
      (auto dest: find_SomeD split: if_splits simp del: filter.simps)
  then show ?thesis by (auto simp: visible_roles_def)
qed

lemma assign_role_E [query_elims]:
  assumes "assign_role i n ten pr d = Inr (x, d')"
  obtains "d' = d" and "resolve_role n ten d = None"
  | r new where "resolve_role n ten d = Some r"
    and "d' = d\<lparr>user_roles := user_roles d @ new\<rparr>"
    and "role_rows_ok (tenant_tx ten)
      [\<lparr>ur_user_id = i, ur_role_id = ro_id r, ur_tenant_id = ten, ur_project_id = pr\<rparr>] new d"
  using assms by (auto simp: assign_role_def split: option.splits elim: insert_user_role_E)

lemma insert_client_E [query_elims]:
  assumes "insert_client c d = Inr (x, d')"
  obtains "\<not> exists_where (\<lambda>r. oc_client_id r = oc_client_id c) (oauth_clients d)"
    and "has_tenant (oc_tenant_id c) d" and "d' = d\<lparr>oauth_clients := oauth_clients d @ [c]\<rparr>"
  using assms by (auto simp: insert_client_def split: if_splits)

lemma seed_client_E [query_elims]:
  assumes "seed_client c d = Inr (x, d')"
  obtains "d' = d" and "exists_where (\<lambda>r. oc_client_id r = oc_client_id c) (oauth_clients d)"
  | "\<not> exists_where (\<lambda>r. oc_client_id r = oc_client_id c) (oauth_clients d)"
    and "has_tenant (oc_tenant_id c) d" and "d' = d\<lparr>oauth_clients := oauth_clients d @ [c]\<rparr>"
  using assms by (auto simp: seed_client_def split: if_splits)

lemma insert_auth_code_E [query_elims]:
  assumes "insert_auth_code c d = Inr (x, d')"
  obtains "\<not> exists_where (\<lambda>r. ac_code_hash r = ac_code_hash c) (auth_codes d)"
    and "exists_where (\<lambda>r. oc_client_id r = ac_client_id c) (oauth_clients d)"
    and "d' = d\<lparr>auth_codes := auth_codes d @ [c]\<rparr>"
  using assms by (auto simp: insert_auth_code_def split: if_splits)

lemma upsert_consent_E [query_elims]:
  assumes "upsert_consent t i c ss d = Inr (x, d')"
  obtains "exists_where (\<lambda>r. co_user_id r = i \<and> co_client_id r = c) (consents d)"
    and "d' = d\<lparr>consents := update_where (\<lambda>r. co_user_id r = i \<and> co_client_id r = c)
               (\<lambda>r. r\<lparr>co_scopes := ss, co_granted_at := t\<rparr>) (consents d)\<rparr>"
  | "\<not> exists_where (\<lambda>r. co_user_id r = i \<and> co_client_id r = c) (consents d)"
    and "exists_where (\<lambda>x. oc_client_id x = c) (oauth_clients d)"
    and "d' = d\<lparr>consents := consents d @
             [\<lparr>co_user_id = i, co_client_id = c, co_scopes = ss, co_granted_at = t\<rparr>]\<rparr>"
  using assms by (auto simp: upsert_consent_def split: if_splits)

lemma insert_signing_key_E [query_elims]:
  assumes "insert_signing_key k p q d = Inr (x, d')"
  obtains "\<not> exists_where (\<lambda>r. sk_kid r = k \<or> sk_active r) (signing_keys d)"
    and "d' = d\<lparr>signing_keys := signing_keys d @
      [\<lparr>sk_kid = k, sk_private_pem = p, sk_public_pem = q, sk_alg = ''RS256'', sk_active = True\<rparr>]\<rparr>"
  using assms by (auto simp: insert_signing_key_def split: if_splits)

section \<open>Statements that update or delete\<close>

lemma increment_login_failure_E [query_elims]:
  assumes "increment_login_failure i d = Inr (n, d')"
  obtains u where "find (\<lambda>u. u_id u = i) (users d) = Some u" and "n = u_failed_login_attempts u + 1"
    and "d' = update_user i (\<lambda>u. u\<lparr>u_failed_login_attempts := u_failed_login_attempts u + 1\<rparr>) d"
  using assms by (auto simp: increment_login_failure_def Let_def split: option.splits if_splits)

lemma consume_recovery_code_E [query_elims]:
  assumes "consume_recovery_code t i h d = Inr (x, d')"
  obtains "x = exists_where (spendable_code i h) (recovery_codes d)"
    and "d' = d\<lparr>recovery_codes :=
      update_where (spendable_code i h) (\<lambda>r. r\<lparr>rc_used_at := Some t\<rparr>) (recovery_codes d)\<rparr>"
  using assms by (simp add: consume_recovery_code_def)

lemma consume_email_verification_E [query_elims]:
  assumes "consume_email_verification t h d = Inr (x, d')"
  obtains "x = map_option ot_user_id (find (spendable_token t h) (email_verifications d))"
    and "d' = d\<lparr>email_verifications := update_where (spendable_token t h)
              (\<lambda>r. r\<lparr>ot_consumed_at := Some t\<rparr>) (email_verifications d)\<rparr>"
  using assms by (simp add: consume_email_verification_def)

lemma consume_password_reset_E [query_elims]:
  assumes "consume_password_reset t h d = Inr (x, d')"
  obtains "x = map_option ot_user_id (find (spendable_token t h) (password_resets d))"
    and "d' = d\<lparr>password_resets := update_where (spendable_token t h)
              (\<lambda>r. r\<lparr>ot_consumed_at := Some t\<rparr>) (password_resets d)\<rparr>"
  using assms by (simp add: consume_password_reset_def)

lemma revoke_role_E [query_elims]:
  assumes "revoke_role eager i n ten pr d = Inr (x, d')"
  obtains "d' = d"
  | r where "filter (\<lambda>r. ro_name r = n) (visible_roles (tenant_tx ten) d) = [r]"
    and "d' = d\<lparr>user_roles := delete_where
             (\<lambda>ur. scope_match i ten pr ur \<and> ur_role_id ur = ro_id r) (user_roles d)\<rparr>"
  using assms by (auto simp: revoke_role_def split: list.splits if_splits)

lemma update_role_E [query_elims]:
  assumes "update_role n de ten d = Inr (x, d')"
  obtains "d' = d\<lparr>roles := update_where (own_role n ten) (\<lambda>r. r\<lparr>ro_description := de\<rparr>) (roles d)\<rparr>"
    and "x = find (own_role n ten) (roles d')"
  using assms by (auto simp: update_role_def Let_def)

lemma revoke_permission_E [query_elims]:
  assumes "revoke_permission n pn ten d = Inr (x, d')"
  obtains "d' = d"
  | r p where "filter (own_role n ten) (roles d) = [r]"
    and "filter (\<lambda>p. pe_name p = pn) (permissions d) = [p]"
    and "d' = d\<lparr>role_permissions :=
            delete_where (\<lambda>rp. rp = (ro_id r, pe_id p)) (role_permissions d)\<rparr>"
  using assms by (auto simp: revoke_permission_def split: list.splits)

lemma claim_code_E [query_elims]:
  assumes "claim_code h d = Inr (x, d')"
  obtains "x = length (filter (claimable h) (auth_codes d))"
    and "d' = d\<lparr>auth_codes := update_where (claimable h) (\<lambda>c. c\<lparr>ac_used := True\<rparr>) (auth_codes d)\<rparr>"
  using assms by (simp add: claim_code_def)

lemma revoke_access_jti_E [query_elims]:
  assumes "revoke_access_jti t j ex d = Inr (x, d')"
  obtains "d' = d" and "exists_where (\<lambda>r. rv_jti r = j) (revoked_tokens d)"
  | "\<not> exists_where (\<lambda>r. rv_jti r = j) (revoked_tokens d)"
    and "d' = d\<lparr>revoked_tokens := revoked_tokens d @
      [\<lparr>rv_jti = j, rv_expires_at = ex, rv_revoked_at = t\<rparr>]\<rparr>"
  using assms by (auto simp: revoke_access_jti_def split: if_splits)

definition new_grants :: "string \<Rightarrow> string \<Rightarrow> uuid \<Rightarrow> db \<Rightarrow> (int \<times> int) list" where
  "new_grants n pn ten d = remdups (filter (\<lambda>rp. rp \<notin> set (role_permissions d))
    [(ro_id r, pe_id p). r \<leftarrow> filter (own_role n ten) (roles d), p \<leftarrow> permissions d, pe_name p = pn])"

lemma grant_permission_E [query_elims]:
  assumes "grant_permission n pn ten d = Inr (x, d')"
  obtains "d' = d\<lparr>role_permissions := role_permissions d @ new_grants n pn ten d\<rparr>"
  using assms by (simp add: grant_permission_def new_grants_def Let_def)

text \<open>The statements that always succeed: their definitions are their effects.\<close>

lemmas write_defs = set_totp_secret_def enable_totp_def disable_totp_def lock_user_def
  reset_login_state_def mark_email_verified_def update_password_def delete_recovery_codes_def
  revoke_refresh_token_def rotate_refresh_token_def revoke_all_user_refresh_tokens_def
  revoke_api_key_def touch_api_key_def insert_audit_def
  mark_outbox_published_def remove_member_def delete_role_def

lemmas row_change_defs = update_user_def purge_user_def soft_delete_user_def Let_def

end
