(* ===== verification/History.thy ===== *)
theory History
  imports Interleaving Effects
begin

text \<open>
  Histories of the deployed program: what no request, task or restart ever undoes.  Each fact is an
  order on databases interpreted as \<open>statements\<close>, so that it holds from any state to every
  state reached from it, whatever the requests, faults and restarts in between.
\<close>

section \<open>Tables that only grow\<close>

definition grows :: "(db \<Rightarrow> 'a list) \<Rightarrow> db \<Rightarrow> db \<Rightarrow> bool" where
  "grows f d d' \<longleftrightarrow> (\<exists>new. f d' = f d @ new)"

lemma grows_refl [intro, simp]: "grows f d d"
  by (simp add: grows_def)

lemma grows_trans: "grows f d1 d2 \<Longrightarrow> grows f d2 d3 \<Longrightarrow> grows f d1 d3"
  by (auto simp: grows_def)

lemma grows_same: "f d' = f d \<Longrightarrow> grows f d d'"
  by (simp add: grows_def)

lemma grows_append: "f d' = f d @ xs \<Longrightarrow> grows f d d'"
  by (auto simp: grows_def)

text \<open>What an outbox row says, without the relay's mark.\<close>

definition event_of :: "outbox_row \<Rightarrow> uuid \<times> uuid \<times> string \<times> string" where
  "event_of r = (ob_id r, ob_aggregate_id r, ob_event_type r, ob_payload r)"

definition events :: "db \<Rightarrow> (uuid \<times> uuid \<times> string \<times> string) list" where
  "events d = map event_of (outbox d)"

definition ledger :: "db \<Rightarrow> db \<Rightarrow> bool" where
  "ledger d d' \<longleftrightarrow> grows audit_events d d' \<and> grows events d d' \<and> grows signing_keys d d' \<and>
     grows oauth_clients d d' \<and> grows tenants d d' \<and> grows projects d d'"

lemmas ledger_defs = ledger_def grows_def events_def event_of_def

interpretation ledger: statements ledger E for E
proof (unfold_locales, goal_cases)
  case 1 then show ?case by (simp add: ledger_def)
next
  case 2 then show ?case by (auto simp: ledger_def intro: grows_trans)
qed (rule q_stableI; auto simp: write_defs row_change_defs ledger_defs elim!: query_elims)+

section \<open>What is spent stays spent\<close>

definition code_spent :: "string \<Rightarrow> db \<Rightarrow> bool" where
  "code_spent h d \<longleftrightarrow> exists_where (\<lambda>c. ac_code_hash c = h) (auth_codes d) \<and>
     (\<forall>c\<in>set (auth_codes d). ac_code_hash c = h \<longrightarrow> ac_used c)"

definition jti_denied :: "string \<Rightarrow> db \<Rightarrow> bool" where
  "jti_denied j d \<longleftrightarrow> exists_where (\<lambda>r. rv_jti r = j) (revoked_tokens d)"

definition spent_stays :: "db \<Rightarrow> db \<Rightarrow> bool" where
  "spent_stays d d' \<longleftrightarrow>
     (\<forall>h. code_spent h d \<longrightarrow> code_spent h d') \<and> (\<forall>j. jti_denied j d \<longrightarrow> jti_denied j d')"

lemma code_spent_append:
  "code_spent h d \<Longrightarrow> \<not> exists_where (\<lambda>r. ac_code_hash r = ac_code_hash c) (auth_codes d) \<Longrightarrow>
   code_spent h (d\<lparr>auth_codes := auth_codes d @ [c]\<rparr>)"
  by (auto simp: code_spent_def exists_where_iff)

lemma code_spent_claim:
  "code_spent h d \<Longrightarrow>
   code_spent h (d\<lparr>auth_codes := update_where (claimable k) (\<lambda>c. c\<lparr>ac_used := True\<rparr>) (auth_codes d)\<rparr>)"
  by (auto simp: code_spent_def exists_where_iff set_update_where claimable_def)

interpretation spent: statements spent_stays E for E
proof (unfold_locales, goal_cases)
  case 1 then show ?case by (simp add: spent_stays_def)
next
  case 2 then show ?case by (simp add: spent_stays_def)
next
  case 40 then show ?case
    by (rule q_stableI)
      (auto simp: spent_stays_def jti_denied_def elim!: query_elims intro: code_spent_append)
next
  case 41 then show ?case
    by (rule q_stableI)
      (auto simp: spent_stays_def jti_denied_def elim!: query_elims intro: code_spent_claim)
qed (rule q_stableI; auto simp: write_defs row_change_defs spent_stays_def code_spent_def jti_denied_def
    elim!: query_elims split: if_splits)+

section \<open>The shared role templates never change\<close>

definition sound_roles :: "db \<Rightarrow> bool" where
  "sound_roles d \<longleftrightarrow> distinct (map ro_id (roles d)) \<and> (\<forall>r\<in>set (roles d). ro_id r < role_seq d)"

definition template_roles :: "db \<Rightarrow> role_row list" where
  "template_roles d = filter (\<lambda>r. ro_tenant_id r = None) (roles d)"

definition template_grants :: "db \<Rightarrow> (int \<times> int) list" where
  "template_grants d = filter (\<lambda>rp. fst rp \<in> ro_id ` set (template_roles d)) (role_permissions d)"

definition templates_fixed :: "db \<Rightarrow> db \<Rightarrow> bool" where
  "templates_fixed d d' \<longleftrightarrow> (sound_roles d \<longrightarrow>
     sound_roles d' \<and> template_roles d' = template_roles d \<and>
     template_grants d' = template_grants d \<and> permissions d' = permissions d)"

lemma own_role_not_template:
  "sound_roles d \<Longrightarrow> r \<in> set (roles d) \<Longrightarrow> own_role n ten r \<Longrightarrow> ro_id r \<notin> ro_id ` set (template_roles d)"
  by (auto simp: sound_roles_def template_roles_def own_role_def dest: distinct_map_inj)

lemma templates_create_role:
  assumes "create_role n de ten d = Inr (x, d')"
  shows "templates_fixed d d'"
  using assms
proof (rule create_role_E)
  assume x: "x = \<lparr>ro_id = role_seq d, ro_name = n, ro_description = de, ro_tenant_id = Some ten\<rparr>"
    and d': "d' = d\<lparr>roles := roles d @ [x], role_seq := role_seq d + 1\<rparr>"
  have "template_roles d' = template_roles d"
    by (simp add: template_roles_def d' x)
  moreover have "sound_roles d \<Longrightarrow> sound_roles d'"
    by (fastforce simp: sound_roles_def d' x)
  ultimately show ?thesis
    by (simp add: templates_fixed_def template_grants_def d')
qed

lemma templates_update_role:
  assumes "update_role n de ten d = Inr (x, d')"
  shows "templates_fixed d d'"
proof -
  let ?f = "\<lambda>r. r\<lparr>ro_description := de\<rparr>"
  have d': "d' = d\<lparr>roles := update_where (own_role n ten) ?f (roles d)\<rparr>"
    using assms by (rule update_role_E)
  have "template_roles d' = template_roles d"
    unfolding template_roles_def d' by (simp, rule filter_update_where_disjoint) (simp_all add: own_role_def)
  moreover have "sound_roles d \<Longrightarrow> sound_roles d'"
    by (auto simp: d' sound_roles_def set_update_where)
  ultimately show ?thesis
    by (simp add: templates_fixed_def template_grants_def d')
qed

lemma templates_delete_role:
  assumes "delete_role n ten d = Inr (x, d')"
  shows "templates_fixed d d'"
proof -
  let ?gone = "\<lambda>rp. fst rp \<in> set (map ro_id (filter (own_role n ten) (roles d)))"
  have d': "roles d' = delete_where (own_role n ten) (roles d)" "role_seq d' = role_seq d"
    "role_permissions d' = delete_where ?gone (role_permissions d)" "permissions d' = permissions d"
    using assms by (simp_all add: delete_role_def Let_def)
  have tr: "template_roles d' = template_roles d"
    unfolding template_roles_def d'(1) by (rule filter_delete_where_disjoint) (simp add: own_role_def)
  moreover have "sound_roles d \<Longrightarrow> sound_roles d'"
    by (simp add: d' sound_roles_def distinct_map_delete_where)
  moreover have "template_grants d' = template_grants d" if "sound_roles d"
    unfolding template_grants_def tr d'(3)
  proof (rule filter_delete_where_disjoint)
    show "fst rp \<notin> ro_id ` set (template_roles d)" if "?gone rp" for rp
    proof -
      from \<open>?gone rp\<close> obtain r where "r \<in> set (roles d)" "own_role n ten r" "fst rp = ro_id r"
        by auto
      with own_role_not_template [OF \<open>sound_roles d\<close>] show ?thesis by simp
    qed
  qed
  ultimately show ?thesis
    by (simp add: templates_fixed_def d')
qed

lemma templates_grant:
  assumes "grant_permission n pn ten d = Inr (x, d')"
  shows "templates_fixed d d'"
proof -
  have d': "d' = d\<lparr>role_permissions := role_permissions d @ new_grants n pn ten d\<rparr>"
    using assms by (rule grant_permission_E)
  have "fst rp \<notin> ro_id ` set (template_roles d)"
    if "sound_roles d" "rp \<in> set (new_grants n pn ten d)" for rp
    using that own_role_not_template [OF that(1)] by (fastforce simp: new_grants_def)
  then show ?thesis
    by (auto simp: templates_fixed_def sound_roles_def template_roles_def template_grants_def d'
        filter_empty_conv)
qed

lemma templates_ungrant:
  assumes "revoke_permission n pn ten d = Inr (x, d')"
  shows "templates_fixed d d'"
  using assms
proof (rule revoke_permission_E)
  assume "d' = d"
  then show ?thesis by (simp add: templates_fixed_def)
next
  fix r p
  assume own: "filter (own_role n ten) (roles d) = [r]"
    and d': "d' = d\<lparr>role_permissions :=
      delete_where (\<lambda>rp. rp = (ro_id r, pe_id p)) (role_permissions d)\<rparr>"
  have r: "r \<in> set (roles d)" "own_role n ten r"
    using arg_cong [OF own, of set] by auto
  have tr: "template_roles d' = template_roles d"
    by (simp add: d' template_roles_def)
  have "template_grants d' = template_grants d" if "sound_roles d"
    unfolding template_grants_def tr using own_role_not_template [OF that r]
    by (auto simp: d' intro!: filter_delete_where_disjoint)
  with tr show ?thesis
    by (simp add: templates_fixed_def sound_roles_def d')
qed

interpretation templates: statements templates_fixed E for E
proof (unfold_locales, goal_cases)
  case 1 then show ?case by (simp add: templates_fixed_def)
next
  case 2 then show ?case by (simp add: templates_fixed_def)
qed (rule q_stableI;
    (erule templates_create_role | erule templates_update_role | erule templates_delete_role |
     erule templates_grant | erule templates_ungrant |
     auto simp: write_defs row_change_defs templates_fixed_def sound_roles_def template_roles_def
       template_grants_def elim!: query_elims split: if_splits))+

section \<open>Reserved role names\<close>

text \<open>No tenant has a role of its own named \<open>admin\<close> or \<open>user\<close>.\<close>

definition names_reserved :: "db \<Rightarrow> bool" where
  "names_reserved d \<longleftrightarrow> (\<forall>r\<in>set (roles d). is_builtin_role (ro_name r) \<longrightarrow> ro_tenant_id r = None)"

definition reserved_kept :: "db \<Rightarrow> db \<Rightarrow> bool" where
  "reserved_kept d d' \<longleftrightarrow> (names_reserved d \<longrightarrow> names_reserved d')"

interpretation reserved: statements reserved_kept E for E
proof (unfold_locales, goal_cases)
  case 1 then show ?case by (simp add: reserved_kept_def)
next
  case 2 then show ?case by (simp add: reserved_kept_def)
qed (rule q_stableI; auto simp: write_defs row_change_defs reserved_kept_def names_reserved_def
    set_update_where elim!: query_elims split: if_splits)+

end
