(* ===== verification/SessionProps.thy ===== *)
theory SessionProps
  imports Demo History
begin

text \<open>
  What the session handlers guarantee: who gets a token pair, what refreshing, logging out and
  switching tenants do to the stored sessions, and which access tokens are accepted.
\<close>

section \<open>Shared facts\<close>

text \<open>A stored, unrevoked refresh token for this user, tenant and project.\<close>

definition session_for :: "uuid \<Rightarrow> uuid \<Rightarrow> uuid option \<Rightarrow> string \<Rightarrow> db \<Rightarrow> bool" where
  "session_for i ten pr h d \<longleftrightarrow> exists_where (\<lambda>r. rt_user_id r = i \<and> rt_tenant_id r = ten \<and>
     rt_project_id r = pr \<and> rt_token_hash r = h \<and> rt_revoked_at r = None) (refresh_tokens d)"

text \<open>The tenant a login is bound to.\<close>

definition login_tenant :: "(string \<Rightarrow> string \<Rightarrow> bool) \<Rightarrow> uuid \<Rightarrow> db \<Rightarrow> uuid" where
  "login_tenant le i d = (case list_memberships le i d of
     Inr (m # _, _) \<Rightarrow> mv_tenant_id m | _ \<Rightarrow> default_tenant_id)"

lemma issued_session:
  assumes "issue_tokens E i em ten pr w = (Inr tp, w')"
  shows "session_for i ten pr (hash_token (crypto E) (refresh_token tp)) (db w') \<and> \<not> mfa_required tp"
proof -
  from issue_tokens_Inr [OF assms] obtain ex where
    "create_refresh_token i (hash_token (crypto E) (refresh_token tp)) ex ten pr (db w) = Inr ((), db w')"
    and "\<not> mfa_required tp" by auto
  then show ?thesis
    by (auto simp: session_for_def elim!: create_refresh_token_E)
qed

lemma issue_active_tenant:
  assumes "issue_for_active_tenant E i em w = (Inr tp, w')"
  shows "issue_tokens E i em (login_tenant (text_le E) i (db w)) None
    (w\<lparr>db_calls := Suc (db_calls w)\<rparr>) = (Inr tp, w')"
  using assms
  by (auto simp: issue_for_active_tenant_def login_tenant_def list_memberships_def reading_def
      split: list.splits elim!: act_elims)

lemma issued_active_session:
  assumes "issue_for_active_tenant E i em w = (Inr tp, w')"
  shows "session_for i (login_tenant (text_le E) i (db w)) None
    (hash_token (crypto E) (refresh_token tp)) (db w') \<and> \<not> mfa_required tp"
  using issued_session [OF issue_active_tenant [OF assms]] .

lemma login_tenant_member:
  "login_tenant le i d = default_tenant_id \<or> active_member i (login_tenant le i d) d"
proof (cases "list_memberships le i d")
  case (Inr p)
  then obtain ms d' where p: "list_memberships le i d = Inr (ms, d')" by (cases p) auto
  show ?thesis
  proof (cases ms)
    case (Cons m rest)
    then have "m \<in> set ms" by simp
    with p have "active_member i (mv_tenant_id m) d"
      by (auto simp: list_memberships_def reading_def active_member_def exists_where_iff) metis
    then show ?thesis by (simp add: login_tenant_def p Cons)
  qed (simp add: login_tenant_def p)
qed (simp add: login_tenant_def)

lemma audit_users:
  assumes "audit_as E a em ac tg de ten w = (r, w')"
  shows "users (db w') = users (db w)" "refresh_tokens (db w') = refresh_tokens (db w)"
    "memberships (db w') = memberships (db w)" "tenants (db w') = tenants (db w)" "now w' = now w"
  using assms
  by (auto simp: audit_as_def with_now_def db_ignore_def bind_ok_def db_ok_def run_query_def ret_def
      insert_audit_def writing_def Let_def split: if_splits fault.splits)

text \<open>The session handlers write to \<open>users\<close>, \<open>refresh_tokens\<close> and the audit trail only.\<close>

lemma session_frame:
  assumes u: "\<And>d x. f (d\<lparr>users := x\<rparr>) = f d" and r: "\<And>d x. f (d\<lparr>refresh_tokens := x\<rparr>) = f d"
    and a: "\<And>d x y. f (d\<lparr>audit_events := x, audit_seq := y\<rparr>) = f d"
  shows "stable (\<lambda>d d'. f d' = f d) (audit_as E ac em act tg de ten)"
    and "stable (\<lambda>d d'. f d' = f d) (issue_tokens E i em tn pr)"
    and "stable (\<lambda>d d'. f d' = f d) (issue_for_active_tenant E i em)"
    and "stable (\<lambda>d d'. f d' = f d) (db_ignore E (reset_login_state i))"
    and "stable (\<lambda>d d'. f d' = f d) (count_failure E i em de)"
    and "stable (\<lambda>d d'. f d' = f d) (rpc_login E em pw)"
    and "stable (\<lambda>d d'. f d' = f d) (rpc_refresh E tok)"
proof -
  note q = q_stableI [where R = "\<lambda>d d'. f d' = f d"]
  show aud: "stable (\<lambda>d d'. f d' = f d) (audit_as E ac em act tg de ten)"
    for ac em act tg de ten by (rule kept.audit_as, rule q) (auto simp: insert_audit_def a)
  show iss: "stable (\<lambda>d d'. f d' = f d) (issue_tokens E i em tn pr)" for i em tn pr
    by (rule kept.issue_tokens, rule q) (auto simp: r elim!: create_refresh_token_E)
  show act: "stable (\<lambda>d d'. f d' = f d) (issue_for_active_tenant E i em)" for i em
    by (rule kept.issue_for_active_tenant, rule q) (auto simp: r elim!: create_refresh_token_E)
  show res: "stable (\<lambda>d d'. f d' = f d) (db_ignore E (reset_login_state i))" for i
    by (rule kept.db_ignore, rule q) (auto simp: reset_login_state_def update_user_def u)
  show cnt: "stable (\<lambda>d d'. f d' = f d) (count_failure E i em de)" for i em de
    unfolding count_failure_def
    by (intro kept.act_rules aud; rule q)
      (auto simp: lock_user_def update_user_def u elim!: increment_login_failure_E)
  show "stable (\<lambda>d d'. f d' = f d) (rpc_login E em pw)"
    unfolding rpc_login_def get_user_by_email_def
    by (intro kept.act_rules kept.q_reading aud act res cnt)
  show "stable (\<lambda>d d'. f d' = f d) (rpc_refresh E tok)"
    unfolding rpc_refresh_def get_refresh_token_def get_user_by_id_def
    by (intro kept.act_rules kept.q_reading aud iss; rule q)
      (auto simp: r revoke_all_user_refresh_tokens_def rotate_refresh_token_def)
qed

lemmas recovery_frame = session_frame [where f = recovery_codes, simplified]

section \<open>Login\<close>

lemma login_cases:
  assumes "rpc_login E email password w = (Inr tp, w')" and "\<not> mfa_required tp"
  obtains u w3 w4 where "find (\<lambda>u. u_email u = email) (users (db w)) = Some u"
    "pw_verify (crypto E) (u_password_hash u) password" "\<not> locked (now w) u" "u_deleted_at u = None"
    "\<not> (require_email_verification (cfg E) \<and> \<not> u_email_verified u)" "\<not> u_totp_enabled u"
    "db_ignore E (reset_login_state (u_id u)) (w\<lparr>db_calls := Suc (db_calls w)\<rparr>) = (Inr (), w3)"
    "audit_as E (uuid_show (fmt E) (u_id u)) (u_email u) ''login.success'' [] [] None w3 = (Inr (), w4)"
    "issue_for_active_tenant E (u_id u) (u_email u) w4 = (Inr tp, w')"
  using assms unfolding rpc_login_def get_user_by_email_def
  by (auto simp: mfa_challenge_def split: if_splits elim!: act_elims)

text \<open>
  C1: a password login that returns tokens is a login of an existing identity with that e-mail,
  whose password was verified, which is neither locked nor deleted, whose e-mail is verified when
  the configuration asks for it and which has no second factor; the refresh token is stored for
  that identity, bound to one of its active memberships (or to the default tenant).
\<close>

theorem login_authenticates:
  assumes "rpc_login E email password w = (Inr tp, w')" and "\<not> mfa_required tp"
  shows "\<exists>u\<in>set (users (db w)). u_email u = email \<and>
    pw_verify (crypto E) (u_password_hash u) password \<and> \<not> locked (now w) u \<and>
    u_deleted_at u = None \<and> (require_email_verification (cfg E) \<longrightarrow> u_email_verified u) \<and>
    \<not> u_totp_enabled u \<and>
    (\<exists>ten. session_for (u_id u) ten None (hash_token (crypto E) (refresh_token tp)) (db w') \<and>
       (ten = default_tenant_id \<or> active_member (u_id u) ten (db w)))"
proof -
  from login_cases [OF assms] obtain u w3 w4 where
    u: "find (\<lambda>u. u_email u = email) (users (db w)) = Some u"
    and pw: "pw_verify (crypto E) (u_password_hash u) password" "\<not> locked (now w) u"
      "u_deleted_at u = None" "\<not> (require_email_verification (cfg E) \<and> \<not> u_email_verified u)"
      "\<not> u_totp_enabled u"
    and reset: "db_ignore E (reset_login_state (u_id u)) (w\<lparr>db_calls := Suc (db_calls w)\<rparr>) = (Inr (), w3)"
    and aud: "audit_as E (uuid_show (fmt E) (u_id u)) (u_email u) ''login.success'' [] [] None w3 = (Inr (), w4)"
    and iss: "issue_for_active_tenant E (u_id u) (u_email u) w4 = (Inr tp, w')"
    by blast
  have same: "memberships (db w4) = memberships (db w)" "tenants (db w4) = tenants (db w)"
    using audit_users [OF aud] reset
    by (auto simp: db_ignore_def reset_login_state_def update_user_def dest!: db_ok_Inr elim!: act_elims)
  have "session_for (u_id u) (login_tenant (text_le E) (u_id u) (db w4)) None
      (hash_token (crypto E) (refresh_token tp)) (db w')"
    using issued_active_session [OF iss] by simp
  moreover have "active_member i ten (db w4) = active_member i ten (db w)" for i ten
    by (simp add: active_member_def same)
  ultimately show ?thesis
    using find_SomeD [OF u] pw login_tenant_member by metis
qed

theorem login_authenticates_witness:
  "\<exists>tp w'. rpc_login demo_env ''ann@x'' ''longsecret'' demo_world = (Inr tp, w') \<and>
     \<not> mfa_required tp \<and>
     (\<exists>u\<in>set (users demo_db). u_email u = ''ann@x'' \<and> \<not> u_totp_enabled u \<and>
        (\<exists>ten. session_for (u_id u) ten None (hash_token demo_crypto (refresh_token tp)) (db w')))"
proof -
  have run: "ok (rpc_login demo_env ''ann@x'' ''longsecret'') demo_world"
    by (simp add: demo_runs cong: run_weak)
  have fst: "case fst (rpc_login demo_env ''ann@x'' ''longsecret'' demo_world) of
      Inr tp \<Rightarrow> \<not> mfa_required tp | Inl _ \<Rightarrow> False"
    by (simp add: demo_runs cong: run_weak)
  obtain tp w' where r: "rpc_login demo_env ''ann@x'' ''longsecret'' demo_world = (Inr tp, w')"
    using okE [OF run] by blast
  with fst have m: "\<not> mfa_required tp" by simp
  from login_authenticates [OF r m] r m show ?thesis
    by (auto simp: demo_world_def)
qed

text \<open>With a second factor the password step yields only an MFA challenge: both tokens are empty, no
  session is stored, and the challenge is signed for that identity.\<close>

lemma login_challenges:
  assumes "rpc_login E email password w = (Inr tp, w')" and "mfa_required tp"
  shows "\<exists>u\<in>set (users (db w)). u_email u = email \<and>
    pw_verify (crypto E) (u_password_hash u) password \<and> \<not> locked (now w) u \<and>
    u_deleted_at u = None \<and> u_totp_enabled u \<and>
    access_token tp = [] \<and> refresh_token tp = [] \<and>
    refresh_tokens (db w') = refresh_tokens (db w) \<and>
    (\<exists>n. jwt_issue_mfa (jwt E) n (now w) (uuid_show (fmt E) (u_id u)) mfa_token_ttl_secs =
       Some (mfa_token tp))"
proof -
  from assms obtain u w3 w4 w5 where
    u: "find (\<lambda>u. u_email u = email) (users (db w)) = Some u"
    and pw: "pw_verify (crypto E) (u_password_hash u) password" "\<not> locked (now w) u"
      "u_deleted_at u = None" "u_totp_enabled u"
    and reset: "db_ignore E (reset_login_state (u_id u)) (w\<lparr>db_calls := Suc (db_calls w)\<rparr>) = (Inr (), w3)"
    and aud: "audit_as E (uuid_show (fmt E) (u_id u)) (u_email u) ''login.mfa_challenge'' [] [] None w3 = (Inr (), w4)"
    and w': "w' = w4\<lparr>draws := Suc (draws w4)\<rparr>"
    and mfa: "jwt_issue_mfa (jwt E) (draws w4) (now w) (uuid_show (fmt E) (u_id u)) mfa_token_ttl_secs = Some (mfa_token tp)"
    and tp: "access_token tp = []" "refresh_token tp = []"
    unfolding rpc_login_def get_user_by_email_def
    by (auto simp: mfa_challenge_def split: if_splits elim!: act_elims dest: issued_active_session)
  have "refresh_tokens (db w') = refresh_tokens (db w)"
    using audit_users [OF aud] reset
    by (auto simp: w' db_ignore_def reset_login_state_def update_user_def dest!: db_ok_Inr elim!: act_elims)
  with find_SomeD [OF u] pw mfa tp show ?thesis by blast
qed

text \<open>While an account is locked every login is refused, whatever the password.\<close>

lemma locked_login_refused:
  assumes "fault_free E" and "find (\<lambda>u. u_email u = email) (users (db w)) = Some u"
    and "locked (now w) u"
  shows "rpc_login E email password w =
    (Inl (Status Unauthenticated ''account temporarily locked, try again later''),
     w\<lparr>db_calls := db_calls w + 1\<rparr>)"
  using assms
  by (simp add: rpc_login_def get_user_by_email_def reading_def bind_ok_def db_try_def run_query_def
      fault_free_def or_fail_def ret_def with_now_def require_def fail_def Let_def)

definition counted :: "env \<Rightarrow> time \<Rightarrow> user_row \<Rightarrow> user_row" where
  "counted E t u =
     (if u_failed_login_attempts u + 1 \<ge> login_max_failures (cfg E)
      then u\<lparr>u_failed_login_attempts := 0,
             u_locked_until := add_seconds (fmt E) t (login_lockout_secs (cfg E))\<rparr>
      else u\<lparr>u_failed_login_attempts := u_failed_login_attempts u + 1\<rparr>)"

lemma update_user_twice:
  "(\<And>u. u_id (f u) = u_id u) \<Longrightarrow> update_user i g (update_user i f d) = update_user i (g \<circ> f) d"
  by (simp add: update_user_def update_where_def)

lemma update_user_cong:
  "(\<And>u. u \<in> set (users d) \<Longrightarrow> u_id u = i \<Longrightarrow> f u = g u) \<Longrightarrow> update_user i f d = update_user i g d"
  by (simp add: update_user_def update_where_def cong: map_cong)

lemma audit_ok: "\<exists>w'. audit_as E a em ac tg de ten w = (Inr (), w')"
proof -
  have "\<exists>w'. db_ignore E q v = (Inr (), w')" for q :: "unit query" and v
    by (cases "run_query E q v") (auto simp: db_ignore_def bind_ok_def db_ok_def ret_def split: sum.split)
  then show ?thesis by (simp add: audit_as_def with_now_def ret_def)
qed

lemma count_failure_counts:
  assumes "fault_free E" and "0 < login_max_failures (cfg E)"
    and "find (\<lambda>u. u_id u = i) (users (db w)) = Some u"
    and "u_failed_login_attempts u < 2147483647"
    and "\<And>v. v \<in> set (users (db w)) \<Longrightarrow> u_id v = i \<Longrightarrow> v = u"
    and "add_seconds (fmt E) (now w) (login_lockout_secs (cfg E)) = Some until"
  shows "\<exists>w'. count_failure E i em de w = (Inr (), w') \<and>
    users (db w') = users (update_user i (counted E (now w)) (db w)) \<and> now w' = now w"
proof -
  let ?w1 = "w\<lparr>db := update_user i (\<lambda>u. u\<lparr>u_failed_login_attempts := u_failed_login_attempts u + 1\<rparr>) (db w),
    db_calls := db_calls w + 1\<rparr>"
  have inc: "db_ok E (increment_login_failure i) w = (Inr (Some (u_failed_login_attempts u + 1)), ?w1)"
    using assms(1,3,4) by (simp add: db_ok_def run_query_def fault_free_def increment_login_failure_def)
  show ?thesis
  proof (cases "login_max_failures (cfg E) \<le> u_failed_login_attempts u + 1")
    case False
    have "update_user i (counted E (now w)) (db w) =
        update_user i (\<lambda>u. u\<lparr>u_failed_login_attempts := u_failed_login_attempts u + 1\<rparr>) (db w)"
      using assms(5) False by (intro update_user_cong) (auto simp: counted_def)
    with False inc assms(2) show ?thesis
      by (simp add: count_failure_def bind_ok_def ret_def)
  next
    case True
    let ?w2 = "?w1\<lparr>db := update_user i (\<lambda>u. u\<lparr>u_locked_until := Some until, u_failed_login_attempts := 0\<rparr>)
      (db ?w1), db_calls := db_calls w + 2\<rparr>"
    have lock: "db_ignore E (lock_user i until) ?w1 = (Inr (), ?w2)"
      using assms(1) by (simp add: db_ignore_def db_ok_def run_query_def fault_free_def lock_user_def
          writing_def bind_ok_def ret_def)
    obtain w3 where aud: "audit_as E (uuid_show (fmt E) i) em ''login.locked'' [] de None ?w2 = (Inr (), w3)"
      using audit_ok by blast
    have "count_failure E i em de w = (Inr (), w3)"
      using True inc lock aud assms(2,6)
      by (simp add: count_failure_def bind_ok_def now_plus_def with_now_def or_fail_def ret_def)
    moreover have "users (db ?w2) = users (update_user i (counted E (now w)) (db w))"
      using assms(5,6) True
      by (simp add: update_user_twice, intro arg_cong [where f = users] update_user_cong)
        (auto simp: counted_def)
    ultimately show ?thesis using audit_users [OF aud] by simp
  qed
qed

text \<open>A wrong password counts: below the maximum the counter goes up by one, the attempt that
  reaches it locks the account.\<close>

lemma failed_login_counts:
  assumes "fault_free E" and "0 < login_max_failures (cfg E)"
    and "find (\<lambda>u. u_email u = email) (users (db w)) = Some u"
    and "distinct (map u_id (users (db w)))" and "u_failed_login_attempts u < 2147483647"
    and "\<not> locked (now w) u" and "\<not> pw_verify (crypto E) (u_password_hash u) password"
    and "add_seconds (fmt E) (now w) (login_lockout_secs (cfg E)) = Some until"
  shows "\<exists>w'. rpc_login E email password w = (Inl (Status Unauthenticated ''invalid credentials''), w') \<and>
    users (db w') = users (update_user (u_id u) (counted E (now w)) (db w))"
proof -
  let ?w1 = "w\<lparr>db_calls := Suc (db_calls w)\<rparr>"
  from find_SomeD [OF assms(3)] have u: "u \<in> set (users (db w))" by simp
  have uniq: "v = u" if "v \<in> set (users (db w))" "u_id v = u_id u" for v
    using distinct_map_inj [OF assms(4)] u that by blast
  have "\<exists>w2. count_failure E (u_id u) (u_email u) ''too many failed attempts'' ?w1 = (Inr (), w2) \<and>
      users (db w2) = users (update_user (u_id u) (counted E (now ?w1)) (db ?w1)) \<and> now w2 = now ?w1"
    using find_unique_key [OF assms(4) u refl] uniq assms(8)
    by (intro count_failure_counts [OF assms(1,2) _ assms(5)]) simp_all
  then obtain w2 where c: "count_failure E (u_id u) (u_email u) ''too many failed attempts'' ?w1 = (Inr (), w2)"
    and users: "users (db w2) = users (update_user (u_id u) (counted E (now w)) (db w))"
    by auto
  obtain w3 where a: "audit_as E (uuid_show (fmt E) (u_id u)) (u_email u) ''login.failure'' [] [] None w2 = (Inr (), w3)"
    using audit_ok by blast
  have "rpc_login E email password w = (Inl (Status Unauthenticated ''invalid credentials''), w3)"
    using assms(1,3,6,7) c a
    by (simp add: rpc_login_def get_user_by_email_def reading_def bind_ok_def db_try_def run_query_def
        fault_free_def or_fail_def ret_def with_now_def require_def fail_def Let_def)
  with users audit_users [OF a] show ?thesis by auto
qed

text \<open>The world after logins that are tried at the given times.\<close>

definition tried_logins :: "env \<Rightarrow> string \<Rightarrow> (time \<times> string) list \<Rightarrow> world \<Rightarrow> world" where
  "tried_logins E email tps w = fold (\<lambda>(t, pw) v. snd (rpc_login E email pw (v\<lparr>now := t\<rparr>))) tps w"

lemma tried_logins_simps [simp]:
  "tried_logins E email [] w = w"
  "tried_logins E email (tps @ [(t, pw)]) w = snd (rpc_login E email pw (tried_logins E email tps w\<lparr>now := t\<rparr>))"
  by (simp_all add: tried_logins_def)

lemma users_update_user: "users (update_user i f d) = update_where (\<lambda>u. u_id u = i) f (users d)"
  by (simp add: update_user_def)

lemma update_where_twice:
  "(\<And>x. P (f x) = P x) \<Longrightarrow> update_where P g (update_where P f xs) = update_where P (g \<circ> f) xs"
  by (simp add: update_where_def)

text \<open>One more wrong password, after \<open>k\<close> of them.\<close>

lemma wrong_login_step:
  assumes "fault_free E" and "k < login_max_failures (cfg E)" and "0 \<le> k" and "login_max_failures (cfg E) < 2147483648"
    and "find (\<lambda>u. u_email u = email) us = Some u" and "distinct (map u_id us)"
    and "\<not> locked t u" and "\<not> pw_verify (crypto E) (u_password_hash u) pw"
    and "add_seconds (fmt E) t (login_lockout_secs (cfg E)) = Some until"
    and "users (db v) = update_where (\<lambda>x. u_id x = u_id u) (\<lambda>x. x\<lparr>u_failed_login_attempts := k\<rparr>) us"
  shows "users (db (snd (rpc_login E email pw (v\<lparr>now := t\<rparr>)))) =
    update_where (\<lambda>x. u_id x = u_id u)
      (\<lambda>x. if k + 1 < login_max_failures (cfg E) then x\<lparr>u_failed_login_attempts := k + 1\<rparr>
           else x\<lparr>u_failed_login_attempts := 0, u_locked_until := Some until\<rparr>) us"
proof -
  let ?P = "\<lambda>x. u_id x = u_id u" and ?u = "u\<lparr>u_failed_login_attempts := k\<rparr>"
  have found: "find (\<lambda>u. u_email u = email) (users (db v)) = Some ?u"
    by (simp add: assms(5,10) find_update_where)
  have ids: "map u_id (users (db v)) = map u_id us"
    by (simp add: assms(10) update_where_def)
  have "\<exists>w'. rpc_login E email pw (v\<lparr>now := t\<rparr>) = (Inl (Status Unauthenticated ''invalid credentials''), w') \<and>
      users (db w') = users (update_user (u_id ?u) (counted E t) (db v))"
    using failed_login_counts [of E email "v\<lparr>now := t\<rparr>" ?u pw until] assms found ids
    by (simp add: locked_def)
  then have "users (db (snd (rpc_login E email pw (v\<lparr>now := t\<rparr>)))) =
      update_where ?P (counted E t \<circ> (\<lambda>x. x\<lparr>u_failed_login_attempts := k\<rparr>)) us"
    by (auto simp: users_update_user assms(10) update_where_twice)
  also have "\<dots> = update_where ?P
      (\<lambda>x. if k + 1 < login_max_failures (cfg E) then x\<lparr>u_failed_login_attempts := k + 1\<rparr>
           else x\<lparr>u_failed_login_attempts := 0, u_locked_until := Some until\<rparr>) us"
    using assms(9) by (intro arg_cong [where f = "\<lambda>f. update_where ?P f us"]) (auto simp: counted_def)
  finally show ?thesis .
qed

lemma wrong_logins_count:
  assumes "fault_free E" and "login_max_failures (cfg E) < 2147483648"
    and "find (\<lambda>u. u_email u = email) (users (db w)) = Some u" and "distinct (map u_id (users (db w)))"
    and "u_failed_login_attempts u = 0"
    and "\<forall>(t, pw)\<in>set tps. \<not> locked t u \<and> \<not> pw_verify (crypto E) (u_password_hash u) pw \<and>
      add_seconds (fmt E) t (login_lockout_secs (cfg E)) \<noteq> None"
    and "int (length tps) < login_max_failures (cfg E)"
  shows "users (db (tried_logins E email tps w)) = update_where (\<lambda>x. u_id x = u_id u)
    (\<lambda>x. x\<lparr>u_failed_login_attempts := int (length tps)\<rparr>) (users (db w))"
  using assms(6,7)
proof (induction tps rule: rev_induct)
  case Nil
  have "x\<lparr>u_failed_login_attempts := 0\<rparr> = x" if "x \<in> set (users (db w))" "u_id x = u_id u" for x
    using distinct_map_inj [OF assms(4)] find_SomeD [OF assms(3)] that assms(5) by fastforce
  then show ?case by (simp add: update_where_def map_idI)
next
  case (snoc tp tps)
  obtain t pw until where tp: "tp = (t, pw)" and "add_seconds (fmt E) t (login_lockout_secs (cfg E)) = Some until"
    using snoc.prems(1) by (cases tp) auto
  with wrong_login_step [OF assms(1) _ _ assms(2,3,4), of "int (length tps)" t pw until "tried_logins E email tps w"]
    snoc show ?case by (simp add: add.commute)
qed

text \<open>
  C25: wrong passwords are counted, and as many as configured lock the account: whenever they are
  tried, every one before the last only raises the counter, the last one restarts it and locks the
  account for the configured time, and until then every login is refused, with the right password
  too, and leaves the database as it is.
\<close>

theorem wrong_passwords_lock_out:
  assumes "fault_free E" and "login_max_failures (cfg E) < 2147483648"
    and "find (\<lambda>u. u_email u = email) (users (db w)) = Some u" and "distinct (map u_id (users (db w)))"
    and "u_failed_login_attempts u = 0"
    and "\<forall>(t, pw)\<in>set (tps @ [(t', pw')]). \<not> locked t u \<and> \<not> pw_verify (crypto E) (u_password_hash u) pw \<and>
      add_seconds (fmt E) t (login_lockout_secs (cfg E)) \<noteq> None"
    and "int (length tps) + 1 = login_max_failures (cfg E)"
    and "add_seconds (fmt E) t' (login_lockout_secs (cfg E)) = Some until"
  shows "(\<forall>k\<le>length tps. users (db (tried_logins E email (take k tps) w)) = update_where (\<lambda>x. u_id x = u_id u)
        (\<lambda>x. x\<lparr>u_failed_login_attempts := int k\<rparr>) (users (db w))) \<and>
    users (db (tried_logins E email (tps @ [(t', pw')]) w)) = update_where (\<lambda>x. u_id x = u_id u)
        (\<lambda>x. x\<lparr>u_failed_login_attempts := 0, u_locked_until := Some until\<rparr>) (users (db w)) \<and>
    (\<forall>v password. users (db v) = users (db (tried_logins E email (tps @ [(t', pw')]) w)) \<and> now v < until \<longrightarrow>
       rpc_login E email password v =
         (Inl (Status Unauthenticated ''account temporarily locked, try again later''),
          v\<lparr>db_calls := db_calls v + 1\<rparr>))"
proof (intro conjI allI impI)
  fix k assume k: "k \<le> length tps"
  have "set (take k tps) \<subseteq> set (tps @ [(t', pw')])" using set_take_subset by fastforce
  with assms(6) have "\<forall>(t, pw)\<in>set (take k tps). \<not> locked t u \<and> \<not> pw_verify (crypto E) (u_password_hash u) pw \<and>
      add_seconds (fmt E) t (login_lockout_secs (cfg E)) \<noteq> None" by blast
  with k assms(7) show "users (db (tried_logins E email (take k tps) w)) = update_where (\<lambda>x. u_id x = u_id u)
        (\<lambda>x. x\<lparr>u_failed_login_attempts := int k\<rparr>) (users (db w))"
    using wrong_logins_count [OF assms(1-5), of "take k tps"] by simp
next
  have "users (db (tried_logins E email tps w)) = update_where (\<lambda>x. u_id x = u_id u)
    (\<lambda>x. x\<lparr>u_failed_login_attempts := int (length tps)\<rparr>) (users (db w))"
    using wrong_logins_count [OF assms(1-5), of tps] assms(6,7) by auto
  from wrong_login_step [OF assms(1) _ _ assms(2-4) _ _ assms(8) this, of pw'] assms(6,7)
  show last: "users (db (tried_logins E email (tps @ [(t', pw')]) w)) = update_where (\<lambda>x. u_id x = u_id u)
        (\<lambda>x. x\<lparr>u_failed_login_attempts := 0, u_locked_until := Some until\<rparr>) (users (db w))"
    by simp
  fix v :: world and password
  assume v: "users (db v) = users (db (tried_logins E email (tps @ [(t', pw')]) w)) \<and> now v < until"
  have "find (\<lambda>u. u_email u = email) (users (db v)) =
      Some (u\<lparr>u_failed_login_attempts := 0, u_locked_until := Some until\<rparr>)"
    using v unfolding last by (simp add: find_update_where assms(3))
  from locked_login_refused [OF assms(1) this] v
  show "rpc_login E email password v =
      (Inl (Status Unauthenticated ''account temporarily locked, try again later''), v\<lparr>db_calls := db_calls v + 1\<rparr>)"
    by (simp add: locked_def)
qed

theorem wrong_passwords_lock_out_witness:
  "let w' = tried_logins demo_env ''ann@x'' [(second, ''a''), (2 * second, ''b''), (3 * second, ''c'')] demo_world in
     users (db w') = [ann\<lparr>u_locked_until := Some (603 * second)\<rparr>, bob] \<and>
     fst (rpc_login demo_env ''ann@x'' ''longsecret'' (w'\<lparr>now := 602 * second\<rparr>)) =
       Inl (Status Unauthenticated ''account temporarily locked, try again later'')"
proof -
  let ?w = "tried_logins demo_env ''ann@x'' ([(second, ''a''), (2 * second, ''b'')] @ [(3 * second, ''c'')]) demo_world"
  have "users (db ?w) = update_where (\<lambda>x. u_id x = u_id ann)
      (\<lambda>x. x\<lparr>u_failed_login_attempts := 0, u_locked_until := Some (603 * second)\<rparr>) (users (db demo_world)) \<and>
    (\<forall>v password. users (db v) = users (db ?w) \<and> now v < 603 * second \<longrightarrow>
       rpc_login demo_env ''ann@x'' password v =
         (Inl (Status Unauthenticated ''account temporarily locked, try again later''),
          v\<lparr>db_calls := db_calls v + 1\<rparr>))"
    by (rule wrong_passwords_lock_out [THEN conjunct2]) (simp_all add: demo_data demo_libs locked_def)
  then have a: "users (db ?w) = update_where (\<lambda>x. u_id x = u_id ann)
      (\<lambda>x. x\<lparr>u_failed_login_attempts := 0, u_locked_until := Some (603 * second)\<rparr>) (users (db demo_world))"
    and b: "fst (rpc_login demo_env ''ann@x'' ''longsecret'' (?w\<lparr>now := 602 * second\<rparr>)) =
       Inl (Status Unauthenticated ''account temporarily locked, try again later'')"
    by (auto simp: second_def)
  from a have "users (db ?w) = [ann\<lparr>u_locked_until := Some (603 * second)\<rparr>, bob]"
    by (simp add: demo_world_def demo_db_def update_where_def ann_def bob_def demo_user_def)
  with b show ?thesis by simp
qed

section \<open>Second factor\<close>

definition stored_secret :: "env \<Rightarrow> user_row \<Rightarrow> string" where
  "stored_secret E u = (case u_totp_secret u of None \<Rightarrow> [] | Some s \<Rightarrow>
     (case decrypt (crypto E) (totp_cipher E) s of Inr p \<Rightarrow> p | Inl _ \<Rightarrow> []))"

text \<open>
  C11: the second step returns tokens only for a valid MFA token of an identity that has a second
  factor, is neither deleted nor locked, and only for a code that is the current TOTP code of its
  secret or one of its unspent recovery codes, which is then spent.
\<close>

theorem second_factor_authenticates:
  assumes "rpc_login_totp E mfa code w = (Inr tp, w')"
  shows "\<exists>c u ten. jwt_parse (jwt E) (now w) mfa = Some c \<and> cl_purpose c = ''mfa'' \<and>
    uuid_parse (fmt E) (cl_sub c) = Some (u_id u) \<and> u \<in> set (users (db w)) \<and>
    u_deleted_at u = None \<and> u_totp_enabled u \<and> u_totp_secret u \<noteq> None \<and> \<not> locked (now w) u \<and>
    session_for (u_id u) ten None (hash_token (crypto E) (refresh_token tp)) (db w') \<and>
    (totp_validate (totp E) (now w) code (stored_secret E u) \<or>
     exists_where (spendable_code (u_id u) (hash_token (crypto E) code)) (recovery_codes (db w)) \<and>
     \<not> exists_where (spendable_code (u_id u) (hash_token (crypto E) code)) (recovery_codes (db w')))"
proof -
  from assms obtain c i u w2 w3 w4 where
    c: "jwt_parse (jwt E) (now w) mfa = Some c" "cl_purpose c = ''mfa''"
      "uuid_parse (fmt E) (cl_sub c) = Some i"
    and u: "find (\<lambda>u. u_id u = i) (users (db w)) = Some u"
    and ready: "mfa_ready u" "\<not> locked (now w) u"
    and good: "second_factor_ok E (now w) i code (stored_secret E u)
       (w\<lparr>db_calls := Suc (db_calls w)\<rparr>) = (Inr True, w2)"
    and reset: "db_ignore E (reset_login_state i) w2 = (Inr (), w3)"
    and aud: "audit_as E (uuid_show (fmt E) i) (u_email u) ''login.success'' [] ''2fa'' None w3 = (Inr (), w4)"
    and iss: "issue_for_active_tenant E i (u_email u) w4 = (Inr tp, w')"
    unfolding rpc_login_totp_def get_user_by_id_def stored_secret_def
    by (auto simp: Let_def split: if_splits option.splits elim!: act_elims)
  have i: "u_id u = i" "u \<in> set (users (db w))" using find_SomeD [OF u] by auto
  have keep: "recovery_codes (db w') = recovery_codes (db w2)"
    using keptD [OF recovery_frame(3) iss] keptD [OF recovery_frame(1) aud]
      keptD [OF recovery_frame(4) reset] by simp
  have "totp_validate (totp E) (now w) code (stored_secret E u) \<or>
     exists_where (spendable_code i (hash_token (crypto E) code)) (recovery_codes (db w)) \<and>
     \<not> exists_where (spendable_code i (hash_token (crypto E) code)) (recovery_codes (db w'))"
    using good unfolding keep second_factor_ok_def
    by (auto split: if_splits elim!: act_elims consume_recovery_code_E
        simp: exists_where_updated spendable_code_def)
  then show ?thesis
    using c i ready issued_active_session [OF iss] unfolding mfa_ready_def by blast
qed

theorem second_factor_authenticates_witness:
  "\<exists>tp w'. rpc_login_totp demo_env (token_of ''mfa'' ''4'' [] ''j'' [] []) ''123456'' demo_world = (Inr tp, w') \<and>
    totp_validate demo_totp (now demo_world) ''123456'' (stored_secret demo_env bob) \<and>
    (\<exists>ten. session_for 52 ten None (hash_token demo_crypto (refresh_token tp)) (db w'))"
proof -
  have "ok (rpc_login_totp demo_env (token_of ''mfa'' ''4'' [] ''j'' [] []) ''123456'') demo_world"
    by (simp add: demo_runs cong: run_weak)
  then obtain tp w' where r:
    "rpc_login_totp demo_env (token_of ''mfa'' ''4'' [] ''j'' [] []) ''123456'' demo_world = (Inr tp, w')"
    using okE by blast
  have "totp_validate demo_totp (now demo_world) ''123456'' (stored_secret demo_env bob)"
    by (simp add: demo_runs stored_secret_def)
  with second_factor_authenticates [OF r] r show ?thesis
    by (auto simp: demo_data demo_libs)
qed

end
