(* ===== verification/GuessProps.thy ===== *)
theory GuessProps
  imports SessionProps
begin

text \<open>
  The lockout against the second factor.  \<open>login_totp\<close> counts wrong codes with the same counter
  as the password step, but a successful password step clears that counter: someone who knows the
  password and starts every guess with a fresh login is never locked out.
\<close>

text \<open>One guess: a password login at one time, then the code, at another, with the MFA token it
  returned.\<close>

definition guess :: "env \<Rightarrow> string \<Rightarrow> string \<Rightarrow> time \<times> time \<times> string \<Rightarrow> world \<Rightarrow> world" where
  "guess E email password g w =
     (case g of (t, t', code) \<Rightarrow>
        (case rpc_login E email password (w\<lparr>now := t\<rparr>) of
           (Inr tp, w') \<Rightarrow> snd (rpc_login_totp E (mfa_token tp) code (w'\<lparr>now := t'\<rparr>))
         | (Inl _, w') \<Rightarrow> w'))"

text \<open>MFA tokens of this user can be issued at the one time and read back at the other (behaviour of
  \<open>JwtManager\<close> within the token's lifetime).\<close>

definition mfa_tokens_work :: "env \<Rightarrow> time \<Rightarrow> time \<Rightarrow> uuid \<Rightarrow> bool" where
  "mfa_tokens_work E t t' i \<longleftrightarrow>
     uuid_parse (fmt E) (uuid_show (fmt E) i) = Some i \<and>
     (\<forall>n. \<exists>tok c. jwt_issue_mfa (jwt E) n t (uuid_show (fmt E) i) mfa_token_ttl_secs = Some tok \<and>
        jwt_parse (jwt E) t' tok = Some c \<and> cl_purpose c = ''mfa'' \<and> cl_sub c = uuid_show (fmt E) i)"

text \<open>The account can be asked for its second factor.\<close>

definition challengeable :: "env \<Rightarrow> string \<Rightarrow> user_row \<Rightarrow> bool" where
  "challengeable E password u \<longleftrightarrow> pw_verify (crypto E) (u_password_hash u) password \<and>
     (require_email_verification (cfg E) \<longrightarrow> u_email_verified u) \<and> mfa_ready u"

lemma db_ignore_runs:
  assumes "fault_free E"
  shows "db_ignore E (writing f) w = (Inr (), w\<lparr>db := f (db w), db_calls := db_calls w + 1\<rparr>)"
  using assms by (simp add: db_ignore_fine writing_def)

lemma login_challenge_runs:
  assumes "fault_free E" and "find (\<lambda>u. u_email u = email) (users (db w)) = Some v"
    and "\<not> locked (now w) v" and "challengeable E password v" and "mfa_tokens_work E (now w) t' (u_id v)"
  shows "\<exists>tok c w1. rpc_login E email password w = (Inr (mfa_challenge tok), w1) \<and>
    jwt_parse (jwt E) t' tok = Some c \<and> cl_purpose c = ''mfa'' \<and>
    cl_sub c = uuid_show (fmt E) (u_id v) \<and>
    users (db w1) = users (update_user (u_id v)
      (\<lambda>u. u\<lparr>u_failed_login_attempts := 0, u_locked_until := None\<rparr>) (db w)) \<and>
    recovery_codes (db w1) = recovery_codes (db w)"
proof -
  let ?w1 = "w\<lparr>db_calls := Suc (db_calls w)\<rparr>"
  let ?w2 = "w\<lparr>db := update_user (u_id v)
      (\<lambda>u. u\<lparr>u_failed_login_attempts := 0, u_locked_until := None\<rparr>) (db w), db_calls := Suc (Suc (db_calls w))\<rparr>"
  have reset: "db_ignore E (reset_login_state (u_id v)) ?w1 = (Inr (), ?w2)"
    by (simp add: reset_login_state_def db_ignore_runs [OF assms(1)])
  obtain w3 where aud: "audit_as E (uuid_show (fmt E) (u_id v)) (u_email v) ''login.mfa_challenge'' [] []
      None ?w2 = (Inr (), w3)"
    using audit_ok by blast
  from assms(5) obtain tok c where tok:
    "jwt_issue_mfa (jwt E) (draws w3) (now w) (uuid_show (fmt E) (u_id v)) mfa_token_ttl_secs = Some tok"
    "jwt_parse (jwt E) t' tok = Some c" "cl_purpose c = ''mfa''"
    "cl_sub c = uuid_show (fmt E) (u_id v)"
    unfolding mfa_tokens_work_def by blast
  have "rpc_login E email password w = (Inr (mfa_challenge tok), w3\<lparr>draws := draws w3 + 1\<rparr>)"
    using assms(1-4) reset aud tok(1)
    by (simp add: rpc_login_def get_user_by_email_def reading_def db_try_def run_query_def
        fault_free_def challengeable_def mfa_ready_def bind_ok_def or_fail_def ret_def with_now_def
        require_def draw_def Let_def)
  moreover have "recovery_codes (db w3) = recovery_codes (db w)"
    using keptD [OF recovery_frame(1) aud] by (simp add: update_user_def)
  ultimately show ?thesis
    using tok audit_users [OF aud] by auto
qed

text \<open>A failure that does not reach the maximum: the counter goes up by one, when failures are counted.\<close>

definition missed :: "env \<Rightarrow> user_row \<Rightarrow> user_row" where
  "missed E u = (if 0 < login_max_failures (cfg E)
     then u\<lparr>u_failed_login_attempts := u_failed_login_attempts u + 1\<rparr> else u)"

lemma missed_sel [simp]: "u_id (missed E u) = u_id u" "u_email (missed E u) = u_email u"
  by (simp_all add: missed_def)

lemma count_failure_below:
  assumes "fault_free E" and "find (\<lambda>u. u_id u = i) (users (db w)) = Some u"
    and "u_failed_login_attempts u = 0" and "login_max_failures (cfg E) \<noteq> 1"
  shows "\<exists>k. count_failure E i em de w = (Inr (), w\<lparr>db := update_user i (missed E) (db w), db_calls := k\<rparr>)"
proof (cases "0 < login_max_failures (cfg E)")
  case True
  then have f: "missed E = (\<lambda>u. u\<lparr>u_failed_login_attempts := u_failed_login_attempts u + 1\<rparr>)"
    by (simp add: missed_def fun_eq_iff)
  from True assms show ?thesis
    unfolding f
    by (cases w) (simp add: count_failure_def bind_ok_def db_ok_def run_query_def fault_free_def ret_def
        increment_login_failure_def)
next
  case False
  then have "missed E = (\<lambda>u. u)" by (simp add: missed_def fun_eq_iff)
  with False show ?thesis
    by (cases w) (simp add: count_failure_def ret_def update_user_def update_where_def)
qed

lemma wrong_code_counts:
  assumes "fault_free E" and "login_max_failures (cfg E) \<noteq> 1" and "distinct (map u_id (users (db w)))"
    and "v \<in> set (users (db w))" and "\<not> locked (now w) v" and "mfa_ready v"
    and "u_failed_login_attempts v = 0"
    and "jwt_parse (jwt E) (now w) tok = Some c" and "cl_purpose c = ''mfa''"
    and "cl_sub c = uuid_show (fmt E) (u_id v)"
    and "uuid_parse (fmt E) (uuid_show (fmt E) (u_id v)) = Some (u_id v)"
    and "\<not> totp_validate (totp E) (now w) code (stored_secret E v)"
    and "\<not> exists_where (spendable_code (u_id v) (hash_token (crypto E) code)) (recovery_codes (db w))"
  shows "\<exists>w'. rpc_login_totp E tok code w = (Inl (Status Unauthenticated ''invalid code''), w') \<and>
    users (db w') = users (update_user (u_id v) (missed E) (db w)) \<and>
    recovery_codes (db w') = recovery_codes (db w)"
proof -
  let ?w2 = "w\<lparr>db_calls := Suc (Suc (db_calls w))\<rparr>"
  have found: "find (\<lambda>u. u_id u = u_id v) (users (db w)) = Some v"
    by (rule find_unique_key [OF assms(3,4) refl])
  from assms(6) obtain s where s: "u_totp_secret v = Some s" by (auto simp: mfa_ready_def)
  obtain k where count: "count_failure E (u_id v) (u_email v) ''too many failed mfa attempts'' ?w2 =
      (Inr (), ?w2\<lparr>db := update_user (u_id v) (missed E) (db ?w2), db_calls := k\<rparr>)"
    using count_failure_below [OF assms(1) _ assms(7,2), of "u_id v" ?w2] found by auto
  define w3 where "w3 = ?w2\<lparr>db := update_user (u_id v) (missed E) (db ?w2), db_calls := k\<rparr>"
  obtain w4 where aud: "audit_as E (uuid_show (fmt E) (u_id v)) (u_email v) ''login.mfa_failure'' [] []
      None w3 = (Inr (), w4)"
    using audit_ok by blast
  have wrong: "second_factor_ok E (now w) (u_id v) code (stored_secret E v) (w\<lparr>db_calls := Suc (db_calls w)\<rparr>)
      = (Inr False, ?w2)"
    using assms(1,12,13)
    by (simp add: second_factor_ok_def consume_recovery_code_def db_try_def run_query_def fault_free_def
        update_where_none)
  have "rpc_login_totp E tok code w = (Inl (Status Unauthenticated ''invalid code''), w4)"
    using assms(1,5,6,8,9,10,11) found s wrong count [folded w3_def] aud
    by (simp add: rpc_login_totp_def get_user_by_id_def reading_def db_try_def run_query_def
        fault_free_def bind_ok_def or_fail_def ret_def fail_def with_now_def require_def Let_def
        stored_secret_def)
  moreover have "recovery_codes (db w4) = recovery_codes (db w)"
    using keptD [OF recovery_frame(1) aud] by (simp add: w3_def update_user_def)
  ultimately show ?thesis
    using audit_users [OF aud] by (auto simp: w3_def)
qed

lemma find_email_update:
  assumes "\<And>x. u_email (f x) = u_email x"
  shows "find (\<lambda>x. u_email x = em) (users (update_user i f d)) =
    map_option (\<lambda>x. if u_id x = i then f x else x) (find (\<lambda>x. u_email x = em) (users d))"
  using assms by (simp add: update_user_def find_update_where)

text \<open>What a guess finds and leaves: the account of \<open>u\<close>, with some counter and lock.\<close>

definition account :: "user_row \<Rightarrow> recovery_code_row list \<Rightarrow> int \<Rightarrow> time option \<Rightarrow> world \<Rightarrow> bool" where
  "account u codes n l w \<longleftrightarrow> recovery_codes (db w) = codes \<and> distinct (map u_id (users (db w))) \<and>
     find (\<lambda>x. u_email x = u_email u) (users (db w)) =
       Some (u\<lparr>u_failed_login_attempts := n, u_locked_until := l\<rparr>)"

definition wrong_guess :: "env \<Rightarrow> user_row \<Rightarrow> recovery_code_row list \<Rightarrow> time \<times> time \<times> string \<Rightarrow> bool" where
  "wrong_guess E u codes g \<longleftrightarrow> (case g of (t, t', code) \<Rightarrow> mfa_tokens_work E t t' (u_id u) \<and>
     \<not> totp_validate (totp E) t' code (stored_secret E u) \<and>
     \<not> exists_where (spendable_code (u_id u) (hash_token (crypto E) code)) codes)"

lemma guess_leaves:
  assumes "fault_free E" and "login_max_failures (cfg E) \<noteq> 1" and "challengeable E password u"
    and "wrong_guess E u codes (t, t', code)" and "account u codes n l w"
    and "\<not> locked t (u\<lparr>u_locked_until := l\<rparr>)"
  shows "account u codes (if 0 < login_max_failures (cfg E) then 1 else 0) None
    (guess E (u_email u) password (t, t', code) w)"
proof -
  let ?v = "u\<lparr>u_failed_login_attempts := n, u_locked_until := l\<rparr>"
  let ?r = "\<lambda>u. u\<lparr>u_failed_login_attempts := 0, u_locked_until := None\<rparr>"
  from assms(5) have found: "find (\<lambda>x. u_email x = u_email u) (users (db (w\<lparr>now := t\<rparr>))) = Some ?v"
    and dist: "distinct (map u_id (users (db w)))" and codes: "recovery_codes (db w) = codes"
    by (simp_all add: account_def)
  have "\<not> locked (now (w\<lparr>now := t\<rparr>)) ?v" using assms(6) by (simp add: locked_def)
  moreover have "challengeable E password ?v" using assms(3) by (simp add: challengeable_def mfa_ready_def)
  moreover have "mfa_tokens_work E (now (w\<lparr>now := t\<rparr>)) t' (u_id ?v)"
    using assms(4) by (simp add: wrong_guess_def)
  ultimately obtain tok c w1 where
    login: "rpc_login E (u_email u) password (w\<lparr>now := t\<rparr>) = (Inr (mfa_challenge tok), w1)"
    and tok: "jwt_parse (jwt E) t' tok = Some c" "cl_purpose c = ''mfa''" "cl_sub c = uuid_show (fmt E) (u_id u)"
    and w1: "users (db w1) = users (update_user (u_id u) ?r (db w))" "recovery_codes (db w1) = codes"
    using login_challenge_runs [OF assms(1) found, of password t'] codes by auto
  have "?r ?v \<in> set (users (db w1))"
    using find_SomeD [OF found] unfolding w1(1)
    by (auto simp: update_user_def set_update_where intro!: image_eqI [of _ _ ?v])
  then have in1: "?r u \<in> set (users (db (w1\<lparr>now := t'\<rparr>)))" by simp
  have dist1: "distinct (map u_id (users (db (w1\<lparr>now := t'\<rparr>))))"
    using dist by (simp add: w1(1) update_user_def)
  have "\<exists>w2. rpc_login_totp E tok code (w1\<lparr>now := t'\<rparr>) = (Inl (Status Unauthenticated ''invalid code''), w2) \<and>
      users (db w2) = users (update_user (u_id (?r u)) (missed E) (db (w1\<lparr>now := t'\<rparr>))) \<and>
      recovery_codes (db w2) = recovery_codes (db (w1\<lparr>now := t'\<rparr>))"
    using assms(3,4) tok w1(2)
    by (intro wrong_code_counts [OF assms(1,2) dist1 in1, where c = c])
      (simp_all add: wrong_guess_def locked_def challengeable_def mfa_ready_def mfa_tokens_work_def stored_secret_def)
  then obtain w2 where totp: "snd (rpc_login_totp E tok code (w1\<lparr>now := t'\<rparr>)) = w2"
    and w2: "users (db w2) = users (update_user (u_id u) (missed E) (db w1))" "recovery_codes (db w2) = codes"
    using w1(2) by auto
  have "users (db w2) = users (update_user (u_id u) (missed E) (update_user (u_id u) ?r (db w)))"
    unfolding w2(1) using w1(1) by (simp add: update_user_def)
  then have "find (\<lambda>x. u_email x = u_email u) (users (db w2)) = Some (missed E (?r u))"
    using found by (simp only:) (simp add: find_email_update)
  moreover have "guess E (u_email u) password (t, t', code) w = w2"
    using login totp by (simp add: guess_def mfa_challenge_def)
  moreover have "distinct (map u_id (users (db w2)))"
    using dist1 by (simp add: w2(1) update_user_def)
  ultimately show ?thesis
    using w2(2) by (auto simp: account_def missed_def)
qed

text \<open>
  C26: with the database answering, and unless the configured maximum is a single failure, however
  many wrong second-factor codes are tried at whatever times, each after a fresh password login and
  within the life of the MFA token it gave, the account is not locked: the counter never passes one,
  and a login with the password is challenged again at any time.
\<close>

theorem second_factor_guesses_never_lock:
  assumes "fault_free E" and "login_max_failures (cfg E) \<noteq> 1" and "challengeable E password u"
    and "account u codes n l w" and "\<forall>g\<in>set guesses. wrong_guess E u codes g"
    and "guesses \<noteq> []" and "\<not> locked (fst (hd guesses)) (u\<lparr>u_locked_until := l\<rparr>)"
  shows "account u codes (if 0 < login_max_failures (cfg E) then 1 else 0) None
      (fold (guess E (u_email u) password) guesses w) \<and>
    (\<forall>t t'. mfa_tokens_work E t t' (u_id u) \<longrightarrow> (\<exists>tok w'. rpc_login E (u_email u) password
       ((fold (guess E (u_email u) password) guesses w)\<lparr>now := t\<rparr>) = (Inr (mfa_challenge tok), w')))"
proof -
  let ?n = "if 0 < login_max_failures (cfg E) then 1 else 0 :: int"
  let ?last = "fold (guess E (u_email u) password) guesses w"
  have rest: "account u codes ?n None (fold (guess E (u_email u) password) gs v)"
    if "account u codes ?n None v" "\<forall>g\<in>set gs. wrong_guess E u codes g" for gs v
    using that
  proof (induction gs arbitrary: v)
    case (Cons g gs)
    obtain t t' code where g: "g = (t, t', code)" by (cases g) auto
    have "account u codes ?n None (guess E (u_email u) password g v)"
      using guess_leaves [OF assms(1-3) _ Cons.prems(1)] Cons.prems(2) by (simp add: g locked_def)
    with Cons show ?case by simp
  qed simp
  obtain t t' code gs where gs: "guesses = (t, t', code) # gs"
    using assms(6) by (cases guesses) auto
  have "account u codes ?n None (guess E (u_email u) password (t, t', code) w)"
    using guess_leaves [OF assms(1-3) _ assms(4)] assms(5,7) by (simp add: gs)
  with rest assms(5) have left: "account u codes ?n None ?last" by (simp add: gs)
  have "\<exists>tok w'. rpc_login E (u_email u) password (?last\<lparr>now := t\<rparr>) = (Inr (mfa_challenge tok), w')"
    if "mfa_tokens_work E t t' (u_id u)" for t t'
    using login_challenge_runs [OF assms(1), of "u_email u" "?last\<lparr>now := t\<rparr>"
        "u\<lparr>u_failed_login_attempts := ?n, u_locked_until := None\<rparr>" password t'] left assms(3) that
    by (auto simp: account_def locked_def challengeable_def mfa_ready_def)
  with left show ?thesis by blast
qed

text \<open>Five codes for Bob in five minutes, where three wrong passwords would lock him out.\<close>

definition bob_guesses :: "(time \<times> time \<times> string) list" where
  "bob_guesses = [(1000 * second, 1010 * second, ''000000''), (1060 * second, 1070 * second, ''000001''),
     (1120 * second, 1130 * second, ''000002''), (1180 * second, 1190 * second, ''000003''),
     (1240 * second, 1250 * second, ''000004'')]"

theorem second_factor_guesses_never_lock_witness:
  "account bob [] 1 None (fold (guess demo_env ''bob@x'' ''longsecret'') bob_guesses demo_world)"
proof -
  have plain: "bar \<noteq> char_of (52::nat)" "bar \<notin> set ''mfa''"
    by code_simp (simp add: bar_def)
  have tokens: "mfa_tokens_work demo_env t t' 52" if "t' < 9000 * second" for t t'
    using plain that by (simp add: mfa_tokens_work_def demo_jwt_def demo_text_def show_uuid_def
        read_uuid_def read_token_of letter_not_bar [symmetric])
  have bob: "u_email bob = ''bob@x''" "u_id bob = 52"
    by (simp_all add: bob_def demo_user_def)
  have "account bob [] (if 0 < login_max_failures (cfg demo_env) then 1 else 0) None
      (fold (guess demo_env (u_email bob) ''longsecret'') bob_guesses demo_world)"
  proof (rule second_factor_guesses_never_lock [THEN conjunct1])
    show "challengeable demo_env ''longsecret'' bob"
      by (simp add: challengeable_def mfa_ready_def demo_data demo_libs)
    show "account bob [] 0 None demo_world"
      by (simp add: account_def demo_data)
    show "\<forall>g\<in>set bob_guesses. wrong_guess demo_env bob [] g"
      by (simp add: bob_guesses_def wrong_guess_def bob(2) tokens second_def)
        (simp add: demo_data demo_libs stored_secret_def totp_validate_def decrypt_def strip_prefix_def enc_prefix_def)
  qed (simp_all add: demo_libs bob_guesses_def locked_def)
  with bob show ?thesis by (simp add: demo_libs)
qed

end
