(* ===== verification/RefreshProps.thy ===== *)
theory RefreshProps
  imports SessionProps
begin

text \<open>
  Refreshing and ending sessions.  The abstract state is the set of live sessions: the token hash,
  user, tenant and project of the stored refresh tokens that are not revoked.
\<close>

section \<open>Live sessions\<close>

definition session_key :: "refresh_token_row \<Rightarrow> string \<times> uuid \<times> uuid \<times> uuid option" where
  "session_key r = (rt_token_hash r, rt_user_id r, rt_tenant_id r, rt_project_id r)"

definition live_sessions :: "db \<Rightarrow> (string \<times> uuid \<times> uuid \<times> uuid option) set" where
  "live_sessions d = session_key ` {r \<in> set (refresh_tokens d). rt_revoked_at r = None}"

type_synonym session_id = "string \<times> uuid \<times> uuid \<times> uuid option"

definition session_user :: "session_id \<Rightarrow> uuid" where
  "session_user s = fst (snd s)"

lemma live_iff:
  "s \<in> live_sessions d \<longleftrightarrow>
     (\<exists>r\<in>set (refresh_tokens d). rt_revoked_at r = None \<and> session_key r = s)"
  by (auto simp: live_sessions_def)

lemma live_create:
  assumes "create_refresh_token i h ex ten pr d = Inr (x, d')"
  shows "live_sessions d' = insert (h, i, ten, pr) (live_sessions d)"
  using assms by (intro set_eqI, elim create_refresh_token_E) (auto simp: live_iff session_key_def)

lemma live_revoke:
  assumes "refresh_tokens d' = update_where P f (refresh_tokens d)"
    and "P = (\<lambda>r. Q (session_key r) \<and> rt_revoked_at r = None)" and "\<And>r. rt_revoked_at (f r) \<noteq> None"
  shows "live_sessions d' = {s \<in> live_sessions d. \<not> Q s}"
  using assms(3)
  by (intro set_eqI) (auto simp: live_iff assms(1,2) set_update_where simp del: not_None_eq)

lemma live_revoke_one:
  "revoke_refresh_token t h d = Inr (x, d') \<Longrightarrow>
   live_sessions d' = {s \<in> live_sessions d. fst s \<noteq> h}"
  by (rule live_revoke [where f = "\<lambda>r. r\<lparr>rt_revoked_at := Some t\<rparr>"])
    (auto simp: revoke_refresh_token_def session_key_def)

lemma live_rotate:
  "rotate_refresh_token t h h' d = Inr (x, d') \<Longrightarrow>
   live_sessions d' = {s \<in> live_sessions d. fst s \<noteq> h}"
  by (rule live_revoke [where f = "\<lambda>r. r\<lparr>rt_revoked_at := Some t, rt_replaced_by := Some h'\<rparr>"])
    (auto simp: rotate_refresh_token_def session_key_def)

lemma live_revoke_all:
  "revoke_all_user_refresh_tokens t i d = Inr (x, d') \<Longrightarrow>
   live_sessions d' = {s \<in> live_sessions d. session_user s \<noteq> i}"
  by (rule live_revoke [where f = "\<lambda>r. r\<lparr>rt_revoked_at := Some t\<rparr>"])
    (auto simp: revoke_all_user_refresh_tokens_def session_key_def session_user_def)

section \<open>The session store\<close>

text \<open>
  What the handlers rely on: the sessions a store holds and its four operations, in terms of the
  abstract set.  A store knows the hashes it ever issued a session for and refuses to issue one
  twice.
\<close>

locale session_store =
  fixes sessions :: "'s \<Rightarrow> session_id set"
    and knows :: "string \<Rightarrow> 's \<Rightarrow> bool"
    and open_session :: "uuid \<Rightarrow> string \<Rightarrow> time \<Rightarrow> uuid \<Rightarrow> uuid option \<Rightarrow> 's \<Rightarrow> 'e + unit \<times> 's"
    and close_session :: "time \<Rightarrow> string \<Rightarrow> 's \<Rightarrow> 'e + unit \<times> 's"
    and replace_session :: "time \<Rightarrow> string \<Rightarrow> string \<Rightarrow> 's \<Rightarrow> 'e + unit \<times> 's"
    and close_all :: "time \<Rightarrow> uuid \<Rightarrow> 's \<Rightarrow> 'e + unit \<times> 's"
  assumes known: "x \<in> sessions s \<Longrightarrow> knows (fst x) s"
    and opened: "open_session i h ex ten pr s = Inr (u, s') \<Longrightarrow>
      sessions s' = insert (h, i, ten, pr) (sessions s) \<and> \<not> knows h s"
    and closed: "close_session t h s = Inr (u, s') \<Longrightarrow> sessions s' = {x \<in> sessions s. fst x \<noteq> h}"
    and replaced: "replace_session t h h' s = Inr (u, s') \<Longrightarrow> sessions s' = {x \<in> sessions s. fst x \<noteq> h}"
    and all_closed: "close_all t i s = Inr (u, s') \<Longrightarrow> sessions s' = {x \<in> sessions s. session_user x \<noteq> i}"
begin

text \<open>Opening a session and retiring a known one exchanges them.\<close>

lemma exchange:
  assumes "open_session i h' ex ten pr s = Inr (u, s1)" and "replace_session t h h' s1 = Inr (v, s2)"
    and "knows h s"
  shows "sessions s2 = insert (h', i, ten, pr) {x \<in> sessions s. fst x \<noteq> h}"
  using opened [OF assms(1)] replaced [OF assms(2)] assms(3) by auto

end

interpretation stored: session_store live_sessions
  "\<lambda>h d. exists_where (\<lambda>r. rt_token_hash r = h) (refresh_tokens d)"
  create_refresh_token revoke_refresh_token rotate_refresh_token revoke_all_user_refresh_tokens
proof (unfold_locales, goal_cases)
  case 1
  then show ?case by (auto simp: live_iff session_key_def exists_where_iff)
next
  case 2
  then show ?case by (auto simp: live_create elim: create_refresh_token_E)
next
  case 3
  then show ?case by (rule live_revoke_one)
next
  case 4
  then show ?case by (rule live_rotate)
next
  case 5
  then show ?case by (rule live_revoke_all)
qed

lemma live_audit:
  "audit_as E a em ac tg de ten w = (r, w') \<Longrightarrow> live_sessions (db w') = live_sessions (db w)"
  by (simp add: live_sessions_def audit_users)

lemma db_ignore_fine_Inr:
  "fault_free E \<Longrightarrow> db_ignore E (writing f) w = (Inr x, w') \<Longrightarrow>
   w' = w\<lparr>db := f (db w), db_calls := db_calls w + 1\<rparr>"
  by (auto simp: db_ignore_def db_ok_def run_query_def fault_free_def bind_ok_def ret_def writing_def)

lemma db_ignore_writes:
  "db_ignore E (writing f) w = (Inr x, w') \<Longrightarrow> db w' = f (db w) \<or> \<not> fault_free E \<and> db w' = db w"
  by (cases "db_fault E (db_calls w)")
    (auto simp: db_ignore_def db_ok_def run_query_def bind_ok_def ret_def writing_def fault_free_def
      intro: exI [of _ "db_calls w"])

section \<open>Refresh\<close>

text \<open>The two ways a refresh returns tokens.\<close>

lemma refresh_cases:
  assumes "rpc_refresh E token w = (Inr tp, w')"
  obtains (grace) r u t where
      "find (\<lambda>r. rt_token_hash r = hash_token (crypto E) token) (refresh_tokens (db w)) = Some r"
      "rt_revoked_at r = Some t" "rotated r" "within_grace (now w) t"
      "find (\<lambda>u. u_id u = rt_user_id r) (users (db w)) = Some u"
      "issue_tokens E (u_id u) (u_email u) (rt_tenant_id r) (rt_project_id r)
         (w\<lparr>db_calls := Suc (Suc (db_calls w))\<rparr>) = (Inr tp, w')"
  | (rotate) r u w2 where
      "find (\<lambda>r. rt_token_hash r = hash_token (crypto E) token) (refresh_tokens (db w)) = Some r"
      "rt_revoked_at r = None" "\<not> rt_expires_at r < now w"
      "find (\<lambda>u. u_id u = rt_user_id r) (users (db w)) = Some u"
      "issue_tokens E (u_id u) (u_email u) (rt_tenant_id r) (rt_project_id r)
         (w\<lparr>db_calls := Suc (Suc (db_calls w))\<rparr>) = (Inr tp, w2)"
      "db_ignore E (rotate_refresh_token (now w) (hash_token (crypto E) token)
         (hash_token (crypto E) (refresh_token tp))) w2 = (Inr (), w')"
  using assms unfolding rpc_refresh_def get_refresh_token_def get_user_by_id_def
  by (auto simp: Let_def split: option.splits if_splits elim!: act_elims)

lemma found_other_hash:
  assumes "find (\<lambda>r. rt_token_hash r = h) (refresh_tokens d) = Some r"
    and "create_refresh_token i h' ex ten pr d = Inr (x, d')"
  shows "h' \<noteq> h \<and> find (\<lambda>r. rt_token_hash r = h) (refresh_tokens d') = Some r"
  using assms find_SomeD [OF assms(1)]
  by (auto simp: exists_where_iff find_append elim!: create_refresh_token_E)

lemma session_for_live: "session_for i ten pr h d \<longleftrightarrow> (h, i, ten, pr) \<in> live_sessions d"
  by (auto simp: session_for_def live_iff session_key_def exists_where_iff)

lemma rotate_keeps_others:
  assumes "db_ignore E (rotate_refresh_token t h h') w = (Inr x, w')" and "(k, y) \<in> live_sessions (db w)"
    and "k \<noteq> h"
  shows "(k, y) \<in> live_sessions (db w')"
  using assms live_rotate [of t h h' "db w"]
  by (auto simp: db_ignore_def dest!: db_ok_Inr elim!: act_elims)

text \<open>
  C2: a refresh that returns tokens was made with a stored token that is either live and unexpired
  or was rotated less than the grace period ago; the new pair is for the same user, tenant and
  project, the access token signed for them and the new refresh token stored as a live session.
\<close>

theorem refresh_preserves_binding:
  assumes "rpc_refresh E token w = (Inr tp, w')"
  shows "\<exists>r\<in>set (refresh_tokens (db w)). \<exists>u\<in>set (users (db w)).
    rt_token_hash r = hash_token (crypto E) token \<and> u_id u = rt_user_id r \<and>
    (case rt_revoked_at r of None \<Rightarrow> now w \<le> rt_expires_at r
     | Some t \<Rightarrow> rotated r \<and> within_grace (now w) t) \<and>
    (\<exists>n. jwt_issue (jwt E) n (now w) (uuid_show (fmt E) (u_id u)) (u_email u)
       (uuid_show (fmt E) (rt_tenant_id r)) (show_opt_uuid E (rt_project_id r)) = Some (access_token tp)) \<and>
    session_for (u_id u) (rt_tenant_id r) (rt_project_id r)
      (hash_token (crypto E) (refresh_token tp)) (db w')"
  using assms
proof (cases rule: refresh_cases)
  case (grace r u t)
  from issue_tokens_Inr [OF grace(6)] issued_session [OF grace(6)] grace find_SomeD [OF grace(1)]
    find_SomeD [OF grace(5)]
  show ?thesis by (intro bexI [of _ r] bexI [of _ u]) auto
next
  case (rotate r u w2)
  from issue_tokens_Inr [OF rotate(5)] obtain ex where
    made: "create_refresh_token (u_id u) (hash_token (crypto E) (refresh_token tp)) ex (rt_tenant_id r)
      (rt_project_id r) (db w) = Inr ((), db w2)" by auto
  have "session_for (u_id u) (rt_tenant_id r) (rt_project_id r)
      (hash_token (crypto E) (refresh_token tp)) (db w')"
    using issued_session [OF rotate(5)] found_other_hash [OF rotate(1) made]
      rotate_keeps_others [OF rotate(6)] unfolding session_for_live by blast
  with issue_tokens_Inr [OF rotate(5)] rotate find_SomeD [OF rotate(1)] find_SomeD [OF rotate(4)]
  show ?thesis by (intro bexI [of _ r] bexI [of _ u]) auto
qed

text \<open>A world in which \<open>ann\<close> holds one session, with the token \<open>r1\<close>.\<close>

definition demo_session :: refresh_token_row where
  "demo_session = \<lparr>rt_user_id = 51, rt_token_hash = ''hr1'', rt_expires_at = 5000 * second,
     rt_revoked_at = None, rt_replaced_by = None, rt_tenant_id = 1, rt_project_id = Some 60\<rparr>"

definition session_world :: world where
  "session_world = demo_world\<lparr>db := demo_db\<lparr>refresh_tokens := [demo_session]\<rparr>\<rparr>"

lemmas session_data = session_world_def demo_session_def

lemma demo_refresh_runs: "ok (rpc_refresh demo_env ''r1'') session_world"
  by (simp add: session_data demo_runs replicate_other cong: run_weak)

theorem refresh_preserves_binding_witness:
  "\<exists>tp w'. rpc_refresh demo_env ''r1'' session_world = (Inr tp, w') \<and>
     session_for 51 1 (Some 60) (hash_token demo_crypto (refresh_token tp)) (db w')"
proof -
  obtain tp w' where run: "rpc_refresh demo_env ''r1'' session_world = (Inr tp, w')"
    using okE [OF demo_refresh_runs] by blast
  from refresh_preserves_binding [OF run] run show ?thesis
    by (auto simp: session_data demo_world_def demo_db_def)
qed

text \<open>
  C3: in terms of live sessions, a refresh made with a live token exchanges that session for a new
  one with the same user, tenant and project, and leaves every other session as it was; if the
  database loses the rotation, the presented session stays live beside the new one.
\<close>

theorem refresh_exchanges_session:
  assumes "rpc_refresh E token w = (Inr tp, w')"
    and "find (\<lambda>r. rt_token_hash r = hash_token (crypto E) token) (refresh_tokens (db w)) = Some r"
    and "rt_revoked_at r = None"
  shows "(\<exists>kept. live_sessions (db w') =
      insert (hash_token (crypto E) (refresh_token tp), rt_user_id r, rt_tenant_id r, rt_project_id r) kept \<and>
    (kept = {s \<in> live_sessions (db w). fst s \<noteq> hash_token (crypto E) token} \<or>
     \<not> fault_free E \<and> kept = live_sessions (db w)))"
  using assms(1)
proof (cases rule: refresh_cases)
  case (grace r' u t)
  with assms(2,3) show ?thesis by simp
next
  case (rotate r' u w2)
  let ?h = "hash_token (crypto E) token" and ?h' = "hash_token (crypto E) (refresh_token tp)"
  have r: "r' = r" and u: "u_id u = rt_user_id r" using rotate assms(2) find_SomeD [OF rotate(4)] by auto
  from issue_tokens_Inr [OF rotate(5)] obtain ex where
    made: "create_refresh_token (u_id u) ?h' ex (rt_tenant_id r) (rt_project_id r) (db w) = Inr ((), db w2)"
    by (auto simp: r)
  have known: "exists_where (\<lambda>r. rt_token_hash r = ?h) (refresh_tokens (db w))"
    using assms(2) by (simp add: exists_where_find)
  consider "rotate_refresh_token (now w) ?h ?h' (db w2) = Inr ((), db w')" | "\<not> fault_free E" "db w' = db w2"
    using db_ignore_writes [OF rotate(6) [unfolded rotate_refresh_token_def]]
    by (auto simp: rotate_refresh_token_def)
  then show ?thesis
  proof cases
    case 1
    from stored.exchange [OF made this known] show ?thesis by (auto simp: u)
  next
    case 2
    with live_create [OF made] show ?thesis by (auto simp: u)
  qed
qed

theorem refresh_exchanges_session_witness:
  "\<exists>tp w'. rpc_refresh demo_env ''r1'' session_world = (Inr tp, w') \<and>
     live_sessions (db w') = {(hash_token demo_crypto (refresh_token tp), 51, 1, Some 60)}"
proof -
  obtain tp w' where run: "rpc_refresh demo_env ''r1'' session_world = (Inr tp, w')"
    using okE [OF demo_refresh_runs] by blast
  have "live_sessions (db session_world) = {(''hr1'', 51, 1, Some 60)}"
    by (auto simp: live_iff session_key_def session_data demo_world_def demo_db_def)
  with refresh_exchanges_session [OF run, of demo_session] run show ?thesis
    by (auto simp: session_data demo_world_def demo_db_def hash_token_def demo_crypto_def)
qed

text \<open>
  C4: presenting a token that was revoked, and not just rotated within the grace period, is refused
  and ends every live session of its user, and no session of anyone else.
\<close>

theorem reuse_ends_family:
  assumes "fault_free E"
    and "find (\<lambda>r. rt_token_hash r = hash_token (crypto E) token) (refresh_tokens (db w)) = Some r"
    and "rt_revoked_at r = Some t" and "\<not> (rotated r \<and> within_grace (now w) t)"
  shows "\<exists>w'. rpc_refresh E token w = (Inl (Status Unauthenticated ''refresh token revoked''), w') \<and>
    live_sessions (db w') = {s \<in> live_sessions (db w). session_user s \<noteq> rt_user_id r}"
proof -
  let ?w1 = "w\<lparr>db_calls := Suc (db_calls w)\<rparr>"
  obtain d where rev: "revoke_all_user_refresh_tokens (now w) (rt_user_id r) (db w) = Inr ((), d)"
    by (simp add: revoke_all_user_refresh_tokens_def)
  then have ign: "db_ignore E (revoke_all_user_refresh_tokens (now w) (rt_user_id r)) ?w1 =
      (Inr (), ?w1\<lparr>db := d, db_calls := db_calls w + 2\<rparr>)"
    using db_ignore_fine(2) [OF assms(1), of "revoke_all_user_refresh_tokens (now w) (rt_user_id r)" ?w1]
    by simp
  obtain w' where aud: "audit_as E (uuid_show (fmt E) (rt_user_id r)) [] ''refresh.reuse_detected'' []
      ''all sessions revoked'' None (?w1\<lparr>db := d, db_calls := db_calls w + 2\<rparr>) = (Inr (), w')"
    using audit_ok by blast
  have "rpc_refresh E token w = (Inl (Status Unauthenticated ''refresh token revoked''), w')"
    using assms(1-3) ign aud
    by (simp add: rpc_refresh_def get_refresh_token_def reading_def bind_ok_def db_try_def
        run_query_def fault_free_def or_fail_def ret_def with_now_def fail_def Let_def
        if_not_P [OF assms(4)])
  with live_audit [OF aud] live_revoke_all [OF rev] show ?thesis by simp
qed

theorem reuse_ends_family_witness:
  "\<exists>w'. rpc_refresh demo_env ''r1''
       (demo_world\<lparr>db := demo_db\<lparr>refresh_tokens :=
          [demo_session\<lparr>rt_revoked_at := Some (10 * second), rt_replaced_by := Some ''hr2''\<rparr>,
           demo_session\<lparr>rt_token_hash := ''hr2''\<rparr>]\<rparr>\<rparr>) =
     (Inl (Status Unauthenticated ''refresh token revoked''), w') \<and> live_sessions (db w') = {}"
proof -
  let ?r = "demo_session\<lparr>rt_revoked_at := Some (10 * second), rt_replaced_by := Some ''hr2''\<rparr>"
  let ?w = "demo_world\<lparr>db := demo_db\<lparr>refresh_tokens := [?r, demo_session\<lparr>rt_token_hash := ''hr2''\<rparr>]\<rparr>\<rparr>"
  have "{s \<in> live_sessions (db ?w). session_user s \<noteq> rt_user_id ?r} = {}"
    by (auto simp: live_iff session_key_def session_user_def demo_session_def)
  moreover have "\<exists>w'. rpc_refresh demo_env ''r1'' ?w =
      (Inl (Status Unauthenticated ''refresh token revoked''), w') \<and>
    live_sessions (db w') = {s \<in> live_sessions (db ?w). session_user s \<noteq> rt_user_id ?r}"
    by (rule reuse_ends_family [where t = "10 * second"])
      (simp_all add: demo_session_def demo_data demo_libs hash_token_def within_grace_def
        refresh_rotation_grace_secs_def)
  ultimately show ?thesis by (simp only:)
qed

end
