(* ===== verification/TokenProps.thy ===== *)
theory TokenProps
  imports RefreshProps
begin

text \<open>
  Access tokens: what \<open>validate_token\<close> accepts and reports, what logging out and switching tenants
  do, and how the Redis denylist relates to the one in Postgres.
\<close>

section \<open>Permissions in a tenant\<close>

text \<open>The specification of the scoped permission query: what the assignments of a user in a tenant
  grant, tenant-wide or in one project.\<close>

definition granted :: "uuid \<Rightarrow> uuid \<Rightarrow> uuid option \<Rightarrow> db \<Rightarrow> string set" where
  "granted i ten pr d = {pe_name p | p ur. p \<in> set (permissions d) \<and> ur \<in> set (user_roles d) \<and>
     ur_user_id ur = i \<and> ur_tenant_id ur = ten \<and> (ur_project_id ur = None \<or> ur_project_id ur = pr) \<and>
     (ur_role_id ur, pe_id p) \<in> set (role_permissions d)}"

lemma mem_held_permissions:
  "x \<in> set (held_permissions s P d) \<longleftrightarrow> (\<exists>p ur. p \<in> set (permissions d) \<and> ur \<in> set (user_roles d) \<and>
     rls_visible s (Some (ur_tenant_id ur)) \<and> P ur \<and>
     (ur_role_id ur, pe_id p) \<in> set (role_permissions d) \<and> x = pe_name p)"
proof -
  have "x \<in> set (held_permissions s P d) \<longleftrightarrow> (\<exists>ur\<in>set (visible_user_roles s d).
     \<exists>rp\<in>set (role_permissions d). \<exists>p\<in>set (permissions d). P ur \<and> fst rp = ur_role_id ur \<and>
       pe_id p = snd rp \<and> x = pe_name p)"
    unfolding held_permissions_def by auto
  also have "\<dots> \<longleftrightarrow> (\<exists>p ur. p \<in> set (permissions d) \<and> ur \<in> set (user_roles d) \<and>
     rls_visible s (Some (ur_tenant_id ur)) \<and> P ur \<and>
     (ur_role_id ur, pe_id p) \<in> set (role_permissions d) \<and> x = pe_name p)" (is "?l \<longleftrightarrow> ?r")
  proof
    assume ?l then show ?r by (fastforce simp: visible_user_roles_def)
  next
    assume ?r
    then obtain p ur where "p \<in> set (permissions d)" "ur \<in> set (visible_user_roles s d)" "P ur"
      "(ur_role_id ur, pe_id p) \<in> set (role_permissions d)" "x = pe_name p"
      by (auto simp: visible_user_roles_def)
    then show ?l by (intro bexI [of _ ur] bexI [of _ "(ur_role_id ur, pe_id p)"] bexI [of _ p]) auto
  qed
  finally show ?thesis .
qed

lemma scoped_visible:
  "rls_visible (tenant_guc_tx conn ten) (Some (ur_tenant_id ur)) \<and> scoped_to i ten pr ur \<longleftrightarrow>
     ur_user_id ur = i \<and> ur_tenant_id ur = ten \<and> (ur_project_id ur = None \<or> ur_project_id ur = pr)"
  by (auto simp: scoped_to_def scope_applies_def)

lemma set_scoped_permissions:
  assumes "get_user_permissions_scoped conn le i ten pr d = Inr (ps, d')"
  shows "set ps = granted i ten pr d"
proof (rule set_eqI)
  fix x
  have "x \<in> set ps \<longleftrightarrow> (\<exists>p ur. p \<in> set (permissions d) \<and> ur \<in> set (user_roles d) \<and>
     (rls_visible (tenant_guc_tx conn ten) (Some (ur_tenant_id ur)) \<and> scoped_to i ten pr ur) \<and>
     (ur_role_id ur, pe_id p) \<in> set (role_permissions d) \<and> x = pe_name p)"
    using assms by (simp add: get_user_permissions_scoped_def mem_held_permissions)
  then show "x \<in> set ps \<longleftrightarrow> x \<in> granted i ten pr d"
    unfolding scoped_visible granted_def by blast
qed

section \<open>Validation\<close>

lemma token_denied_Inr:
  assumes "token_denied E j w = (Inr b, w')"
  shows "db w' = db w" and "now w' = now w" and "\<not> cache_conn E \<Longrightarrow> b \<longleftrightarrow> jti_denied j (db w)"
  using assms
  by (auto simp: token_denied_def cache_is_denied_def is_token_revoked_def jti_denied_def
      redis_next_def split: if_splits option.splits elim!: act_elims)

lemma token_tenant_Inr:
  assumes "token_tenant E i cl w = (Inr ten, w')"
  shows "db w' = db w" and "cl \<noteq> [] \<Longrightarrow> \<exists>t. ten = Some t \<and> uuid_parse (fmt E) cl = Some t \<and> active_member i t (db w)"
  using assms
  by (auto simp: token_tenant_def is_active_member_def split: if_splits elim!: act_elims)

lemma token_project_Inr:
  "token_project E cl w = (Inr pr, w') \<Longrightarrow> w' = w \<and> parse_opt_project E cl = Inr pr"
  by (auto simp: token_project_def parse_opt_project_def split: if_splits elim!: act_elims)

lemma load_permissions_Inr:
  assumes "load_permissions E c i (Some ten) pr w = (Inr ps, w')"
  shows "\<not> cache_conn E \<longrightarrow> set ps = granted i ten pr (db w)"
  using assms
  by (auto simp: load_permissions_def cache_get_perms_def cache_set_perms_def
      dest!: set_scoped_permissions elim!: act_elims)

text \<open>
  C5: an access token is accepted only if it parses as an access token that has not expired, its
  subject is an identity that is not deleted, and its tenant, if any, has the subject as an active
  member.  Without Redis the token is also not on the denylist, and the permissions reported for a
  tenant are exactly those the subject's assignments in that tenant and project grant now.
\<close>

theorem validated_token_is_current:
  assumes "rpc_validate_token E tok w = (Inr v, w')"
  shows "\<exists>c u. jwt_parse_access (jwt E) (now w) tok = Some c \<and> va_user_id v = cl_sub c \<and>
    va_tenant_id v = cl_tenant_id c \<and> va_project_id v = cl_project_id c \<and>
    uuid_parse (fmt E) (cl_sub c) = Some (u_id u) \<and> u \<in> set (users (db w)) \<and> u_deleted_at u = None \<and>
    (cl_tenant_id c \<noteq> [] \<longrightarrow> (\<exists>ten pr. uuid_parse (fmt E) (cl_tenant_id c) = Some ten \<and>
       active_member (u_id u) ten (db w) \<and> parse_opt_project E (cl_project_id c) = Inr pr \<and>
       (\<not> cache_conn E \<longrightarrow> set (va_permissions v) = granted (u_id u) ten pr (db w)))) \<and>
    (\<not> cache_conn E \<longrightarrow> \<not> jti_denied (cl_jti c) (db w))"
proof -
  from assms obtain c i w1 w3 w4 ten pr where
    c: "jwt_parse_access (jwt E) (now w) tok = Some c" "uuid_parse (fmt E) (cl_sub c) = Some i"
    and den: "token_denied E (cl_jti c) w = (Inr False, w1)"
    and act: "case find (\<lambda>u. u_id u = i) (users (db w1)) of None \<Rightarrow> False | Some u \<Rightarrow> u_deleted_at u = None"
    and tenant: "token_tenant E i (cl_tenant_id c) (w1\<lparr>db_calls := Suc (db_calls w1)\<rparr>) = (Inr ten, w3)"
    and project: "token_project E (cl_project_id c) w3 = (Inr pr, w4)"
    and perms: "load_permissions E c i ten pr (w4\<lparr>db_calls := Suc (db_calls w4)\<rparr>) =
       (Inr (va_permissions v), w')"
    and v: "va_user_id v = cl_sub c" "va_tenant_id v = cl_tenant_id c" "va_project_id v = cl_project_id c"
    unfolding rpc_validate_token_def is_user_active_def get_user_roles_scoped_def get_user_roles_def
    by (auto split: option.splits elim!: act_elims)
  note den = token_denied_Inr [OF den] and tenant = token_tenant_Inr [OF tenant]
    and project = token_project_Inr [OF project]
  obtain u where u: "u \<in> set (users (db w))" "u_id u = i" "u_deleted_at u = None"
    using act den(1) by (auto split: option.splits dest: find_SomeD)
  have "cl_tenant_id c \<noteq> [] \<longrightarrow> (\<exists>t. uuid_parse (fmt E) (cl_tenant_id c) = Some t \<and>
       active_member i t (db w) \<and> (\<not> cache_conn E \<longrightarrow> set (va_permissions v) = granted i t pr (db w)))"
    using tenant project load_permissions_Inr perms den(1) by fastforce
  with c v u den(3) project show ?thesis by (intro exI [of _ c] exI [of _ u]) auto
qed

definition ann_token :: string where
  "ann_token = token_of ''access'' ''3'' ''ann@x'' ''j'' [char_of (1::nat)] []"

lemma ann_token_runs: "ok (rpc_validate_token demo_env ann_token) demo_world"
  by (simp add: ann_token_def demo_runs cong: run_weak)

theorem validated_token_is_current_witness:
  "\<exists>v w'. rpc_validate_token demo_env ann_token demo_world = (Inr v, w') \<and>
     (\<exists>u\<in>set (users demo_db). uuid_parse demo_text (va_user_id v) = Some (u_id u) \<and> u_deleted_at u = None)"
proof -
  obtain v w' where run: "rpc_validate_token demo_env ann_token demo_world = (Inr v, w')"
    using okE [OF ann_token_runs] by blast
  from validated_token_is_current [OF run] run show ?thesis
    by (auto simp: demo_world_def)
qed

section \<open>Logout\<close>

text \<open>What the mirror in Redis is told.\<close>

definition mirrored :: "env \<Rightarrow> string \<Rightarrow> int \<Rightarrow> world \<Rightarrow> redis_store" where
  "mirrored E j ttl w =
     (if cache_conn E \<and> j \<noteq> [] \<and> 0 < ttl
      then rd_set_ex (redis_api E) (redis_calls w) (now w) (denylist_key j) ''1'' ttl (redis w) else redis w)"

lemma cache_deny_runs: "\<exists>k. cache_deny E j ttl w = (Inr (), w\<lparr>redis_calls := k, redis := mirrored E j ttl w\<rparr>)"
  by (cases w) (auto simp: cache_deny_def mirrored_def set_ex_def redis_next_def ret_def)

lemma db_ignore_ran:
  assumes "db_fault E (db_calls w) \<noteq> Lost_request" and "q (db w) = Inr (x, d)"
  shows "db_ignore E q w = (Inr (), w\<lparr>db := d, db_calls := Suc (db_calls w)\<rparr>)"
  using assms by (cases "db_fault E (db_calls w)") (simp_all add: db_ignore_def bind_ok_def db_ok_def run_query_def ret_def)

lemma audit_redis_as: "audit_as E a em ac tg de ten w = (r, w') \<Longrightarrow> redis w' = redis w"
  by (auto simp: audit_as_def with_now_def db_ignore_def bind_ok_def db_ok_def run_query_def
      ret_def Let_def split: if_splits fault.splits sum.splits prod.splits)

text \<open>Redis is used and answers that its denylist has no such id.\<close>

definition redis_clears :: "env \<Rightarrow> string \<Rightarrow> world \<Rightarrow> bool" where
  "redis_clears E j w \<longleftrightarrow> cache_conn E \<and> j \<noteq> [] \<and>
     rd_exists (redis_api E) (redis_calls w) (now w) (denylist_key j) (redis w) = Some False"

lemma denied_is_refused:
  assumes "jti_denied (cl_jti c) (db w)" and "\<not> redis_clears E (cl_jti c) w"
    and "jwt_parse_access (jwt E) (now w) token = Some c"
  shows "\<not> ok (rpc_validate_token E token) w \<and> (db_fault E (db_calls w) = Fine \<longrightarrow>
    fst (rpc_validate_token E token w) = Inl (Status Unauthenticated ''token revoked''))"
proof (cases "token_denied E (cl_jti c) w")
  case (Pair b w')
  have "b = Inr True \<or> isl b \<and> db_fault E (db_calls w) \<noteq> Fine"
    using Pair assms(1,2)
    by (auto simp: token_denied_def cache_is_denied_def redis_clears_def redis_next_def bind_ok_def ret_def
        db_try_def run_query_def is_token_revoked_def reading_def jti_denied_def Let_def
        split: if_splits option.splits fault.splits)
  with Pair assms(3) show ?thesis
    by (auto simp: ok_def rpc_validate_token_def with_now_def bind_ok_def or_fail_def ret_def require_def
        fail_def split: sum.split)
qed

text \<open>What a logout with a valid access token does when its two statements reach the database.\<close>

lemma logout_runs:
  assumes "db_fault E (db_calls w) = Fine" and "db_fault E (Suc (db_calls w)) \<noteq> Lost_request"
    and "rpc_logout E md refresh access w = (r, w1)" and "access \<noteq> []"
    and "jwt_parse (jwt E) (now w) access = Some c" and "from_timestamp (fmt E) (cl_exp c) \<noteq> None"
  shows "r = Inr True \<and> jti_denied (cl_jti c) (db w1) \<and>
    live_sessions (db w1) = {s \<in> live_sessions (db w). fst s \<noteq> hash_token (crypto E) refresh} \<and>
    redis w1 = mirrored E (cl_jti c) (cl_exp c - timestamp (now w)) w"
proof -
  from assms(6) obtain ex where ex: "from_timestamp (fmt E) (cl_exp c) = Some ex" by auto
  obtain d where rev: "revoke_refresh_token (now w) (hash_token (crypto E) refresh) (db w) = Inr ((), d)"
    by (simp add: revoke_refresh_token_def)
  obtain d' where deny: "revoke_access_jti (now w) (cl_jti c) ex d = Inr ((), d')"
    by (simp add: revoke_access_jti_def)
  let ?v = "w\<lparr>db := d', db_calls := Suc (Suc (db_calls w))\<rparr>"
  let ?ttl = "cl_exp c - timestamp (now w)"
  obtain k where cd: "cache_deny E (cl_jti c) ?ttl ?v =
      (Inr (), ?v\<lparr>redis_calls := k, redis := mirrored E (cl_jti c) ?ttl ?v\<rparr>)"
    using cache_deny_runs by blast
  let ?w' = "?v\<lparr>redis_calls := k, redis := mirrored E (cl_jti c) ?ttl ?v\<rparr>"
  let ?log = "audit_as E (meta md ''x-user-id'') (meta md ''x-user-email'') ''auth.logout'' [] []
    (case active_tenant E md of Inl _ \<Rightarrow> None | Inr t \<Rightarrow> Some t)"
  obtain w3 where aud: "?log ?w' = (Inr (), w3)" using audit_ok by blast
  have first: "db_try E e (revoke_refresh_token (now w) (hash_token (crypto E) refresh)) w =
      (Inr (), w\<lparr>db := d, db_calls := Suc (db_calls w)\<rparr>)" for e
    using assms(1) rev by (simp add: db_try_def run_query_def)
  have second: "db_ignore E (revoke_access_jti (now w) (cl_jti c) ex) (w\<lparr>db := d, db_calls := Suc (db_calls w)\<rparr>) =
      (Inr (), ?v)"
    using db_ignore_ran [of E "w\<lparr>db := d, db_calls := Suc (db_calls w)\<rparr>"] assms(2) deny by simp
  have "rpc_logout E md refresh access w = (Inr True, w3)"
    using assms(4,5) ex aud cd
    by (simp add: rpc_logout_def with_now_def bind_ok_def first second ret_def audit_def)
  with assms(3) aud have aud: "?log ?w' = (Inr (), w1)" and r: "r = Inr True" by simp_all
  have "jti_denied (cl_jti c) d'"
    using deny by (auto simp: jti_denied_def elim!: revoke_access_jti_E)
  moreover have "revoked_tokens (db w1) = revoked_tokens d'"
    using keptD [OF session_frame(1) [where f = revoked_tokens] aud] by simp
  ultimately have denied: "jti_denied (cl_jti c) (db w1)" by (simp add: jti_denied_def)
  have "live_sessions d' = live_sessions d"
    using deny by (auto simp: live_sessions_def elim!: revoke_access_jti_E)
  then have live: "live_sessions (db w1) = {s \<in> live_sessions (db w). fst s \<noteq> hash_token (crypto E) refresh}"
    using live_audit [OF aud] live_revoke_one [OF rev] by simp
  have "redis w1 = mirrored E (cl_jti c) ?ttl w"
    using audit_redis_as [OF aud] by (simp add: mirrored_def)
  with r denied live show ?thesis by blast
qed

text \<open>
  C6: a logout with a valid access token whose two statements reach the database succeeds, ends the
  presented session and no other, and records the token's id for good: whatever statements of
  whatever requests, tasks and restarts are interleaved from there on, no access token with that id
  is accepted, unless Redis is used and answers that its denylist has no such id.  The logout tells
  Redis the id, for the rest of the token's life.
\<close>

theorem logout_is_final:
  assumes "db_fault E (db_calls w) = Fine" and "db_fault E (Suc (db_calls w)) \<noteq> Lost_request"
    and "rpc_logout E md refresh access w = (r, w1)" and "access \<noteq> []"
    and "jwt_parse (jwt E) (now w) access = Some c" and "from_timestamp (fmt E) (cl_exp c) \<noteq> None"
    and "interleaved E (db w1) (db w2)" and "jwt_parse_access (jwt E) (now w2) token = Some c'"
    and "cl_jti c' = cl_jti c"
  shows "r = Inr True \<and>
    live_sessions (db w1) = {s \<in> live_sessions (db w). fst s \<noteq> hash_token (crypto E) refresh} \<and>
    (\<not> redis_clears E (cl_jti c) w2 \<longrightarrow> \<not> ok (rpc_validate_token E token) w2 \<and>
       (db_fault E (db_calls w2) = Fine \<longrightarrow>
          fst (rpc_validate_token E token w2) = Inl (Status Unauthenticated ''token revoked''))) \<and>
    redis w1 = mirrored E (cl_jti c) (cl_exp c - timestamp (now w)) w"
proof -
  note out = logout_runs [OF assms(1-6)]
  then have "jti_denied (cl_jti c') (db w2)"
    using spent.interleaved [OF assms(7)] assms(9) by (simp add: spent_stays_def)
  from denied_is_refused [OF this _ assms(8)] assms(9) out show ?thesis by simp
qed

text \<open>The world after \<open>ann\<close> logged out with her token.\<close>

definition after_logout :: world where
  "after_logout = snd (rpc_logout demo_env ann_md ''r1'' ann_token session_world)"

lemma after_logout_runs:
  "rpc_logout demo_env ann_md ''r1'' ann_token session_world =
     (fst (rpc_logout demo_env ann_md ''r1'' ann_token session_world), after_logout)"
  by (simp add: after_logout_def)

definition ann_claims :: claims where
  "ann_claims = \<lparr>cl_sub = ''3'', cl_email = ''ann@x'', cl_jti = ''j'', cl_exp = 9000,
     cl_tenant_id = [char_of (1::nat)], cl_project_id = [], cl_purpose = ''access''\<rparr>"

lemma read_ann_token: "read_token ann_token = Some ann_claims"
  unfolding ann_token_def ann_claims_def by (rule read_token_of) (simp_all add: bar_def char_one)

theorem logout_is_final_witness:
  "fst (rpc_validate_token demo_env ann_token after_logout) = Inl (Status Unauthenticated ''token revoked'')"
proof -
  have now: "now after_logout = 1000 * second"
    by (simp add: after_logout_def ann_token_def session_data demo_runs cong: run_weak)
  have parse: "jwt_parse (jwt demo_env) (1000 * second) ann_token = Some ann_claims"
    "jwt_parse_access (jwt demo_env) (1000 * second) ann_token = Some ann_claims"
    by (simp_all add: demo_jwt_def read_ann_token second_def) (simp add: ann_claims_def)
  have "ann_token \<noteq> []" by (simp add: ann_token_def token_of_def)
  moreover have "interleaved demo_env (db after_logout) (db after_logout)" by (simp add: interleaved_def)
  ultimately show ?thesis
    using logout_is_final [OF _ _ after_logout_runs, of ann_claims after_logout ann_token ann_claims] now parse
    by (simp add: session_data demo_world_def demo_text_def redis_clears_def)
qed

section \<open>Redis before Postgres\<close>

text \<open>Actions that cannot fail in a given way.\<close>

definition avoids :: "failure \<Rightarrow> 'a act \<Rightarrow> bool" where
  "avoids e m \<longleftrightarrow> (\<forall>w. fst (m w) \<noteq> Inl e)"

lemma avoidsD: "avoids e m \<Longrightarrow> fst (m w) \<noteq> Inl e"
  by (simp add: avoids_def)

lemma avoids_bind: "avoids e m \<Longrightarrow> (\<And>x. avoids e (f x)) \<Longrightarrow> avoids e (bind_ok m f)"
  unfolding avoids_def bind_ok_def
proof
  fix w
  assume m: "\<forall>w. fst (m w) \<noteq> Inl e" and f: "\<And>x. \<forall>w. fst (f x w) \<noteq> Inl e"
  obtain r w' where run: "m w = (r, w')" by fastforce
  from m have "fst (m w) \<noteq> Inl e" ..
  with run f show "fst (case m w of (Inl e, w') \<Rightarrow> (Inl e, w') | (Inr x, w') \<Rightarrow> f x w') \<noteq> Inl e"
    by (cases r) simp_all
qed

lemma avoids_rules:
  "avoids e (ret x)" "e' \<noteq> e \<Longrightarrow> avoids e (or_fail e' y)" "e' \<noteq> e \<Longrightarrow> avoids e (require b e')"
  "e' \<noteq> e \<Longrightarrow> avoids e (db_try E e' q)"
  "avoids e (cache_get_perms E t p u)" "avoids e (cache_set_perms E t p u ps)"
  by (auto simp: avoids_def ret_def or_fail_def fail_def require_def db_try_def cache_get_perms_def
      cache_set_perms_def set_ex_def split: option.split prod.split sum.split)

text \<open>
  When Redis answers that it has no denylist entry, the denylist in Postgres is not consulted:
  a token that a logout recorded there is not refused as revoked.
\<close>

lemma redis_answer_overrides_denylist:
  assumes "cache_conn E" and "jwt_parse_access (jwt E) (now w) token = Some c" and "cl_jti c \<noteq> []"
    and "jti_denied (cl_jti c) (db w)"
    and "rd_exists (redis_api E) (redis_calls w) (now w) (denylist_key (cl_jti c)) (redis w) = Some False"
  shows "fst (rpc_validate_token E token w) \<noteq> Inl (Status Unauthenticated ''token revoked'')"
proof -
  let ?e = "Status Unauthenticated ''token revoked''"
  have den: "token_denied E (cl_jti c) w = (Inr False, redis_next w)"
    using assms by (simp add: token_denied_def cache_is_denied_def bind_ok_def ret_def)
  have parts: "avoids ?e (token_tenant E i t)" "avoids ?e (token_project E p)"
    "avoids ?e (load_permissions E c i ten pr)" for i t p ten pr
    unfolding token_tenant_def token_project_def load_permissions_def
    by (auto intro!: avoids_bind avoids_rules split: option.split)
  have step: "bind_ok (token_denied E (cl_jti c)) f w = f False (redis_next w)" for f :: "bool \<Rightarrow> 'b act"
    using den by (simp add: bind_ok_def)
  have pure: "bind_ok (or_fail e (Some x)) f v = f x v" "bind_ok (require True e) g v = g () v"
    for e x v and f :: "'c \<Rightarrow> 'b act" and g :: "unit \<Rightarrow> 'b act"
    by (simp_all add: bind_ok_def or_fail_def require_def ret_def)
  show ?thesis
    unfolding rpc_validate_token_def
    by (simp add: with_now_def assms(2) step pure) (intro avoidsD avoids_bind avoids_rules parts; simp)
qed

text \<open>A Redis that has lost the entry of a logged-out token.\<close>

definition redis_env :: env where
  "redis_env = demo_env\<lparr>cache_conn := True\<rparr>"

section \<open>Switching tenants\<close>

lemma visible_project: "exists_where P (visible_projects s d) \<Longrightarrow> exists_where P (projects d)"
  by (auto simp: exists_where_iff visible_projects_def)

text \<open>
  C27: switching tenants issues tokens only to an active member of that tenant, for a project only
  if it is a project of that tenant, and what is signed and stored names the caller, that tenant
  and that project.
\<close>

theorem switch_tenant_is_member:
  assumes "rpc_switch_tenant E md tenant project w = (Inr tp, w')"
  shows "\<exists>i ten pr u. caller_uuid E md = Inr i \<and> uuid_parse (fmt E) tenant = Some ten \<and>
    parse_opt_project E project = Inr pr \<and> active_member i ten (db w) \<and>
    (case pr of None \<Rightarrow> True
     | Some p \<Rightarrow> exists_where (\<lambda>r. pr_id r = p \<and> pr_tenant_id r = ten) (projects (db w))) \<and>
    u \<in> set (users (db w)) \<and> u_id u = i \<and>
    (\<exists>n. jwt_issue (jwt E) n (now w) (uuid_show (fmt E) i) (u_email u) (uuid_show (fmt E) ten)
       (show_opt_uuid E pr) = Some (access_token tp)) \<and>
    live_sessions (db w') =
      insert (hash_token (crypto E) (refresh_token tp), i, ten, pr) (live_sessions (db w))"
proof -
  from assms obtain i ten pr u n where
    md: "caller_uuid E md = Inr i" and ten: "uuid_parse (fmt E) tenant = Some ten"
    and mem: "active_member i ten (db w)" and pr: "parse_opt_project E project = Inr pr"
    and inside: "case pr of None \<Rightarrow> True
     | Some p \<Rightarrow> exists_where (\<lambda>r. pr_id r = p \<and> pr_tenant_id r = ten) (projects (db w))"
    and u: "find (\<lambda>u. u_id u = i) (users (db w)) = Some u"
    and iss: "issue_tokens E i (u_email u) ten pr (w\<lparr>db_calls := n\<rparr>) = (Inr tp, w')"
    unfolding rpc_switch_tenant_def is_active_member_def is_project_in_tenant_def get_user_by_id_def
      parse_opt_project_def
    by (auto split: if_splits elim!: act_elims dest!: visible_project)
  from issue_tokens_Inr [OF iss] obtain ex where
    made: "create_refresh_token i (hash_token (crypto E) (refresh_token tp)) ex ten pr (db w) =
      Inr ((), db w')"
    and signed: "\<exists>n. jwt_issue (jwt E) n (now w) (uuid_show (fmt E) i) (u_email u) (uuid_show (fmt E) ten)
       (show_opt_uuid E pr) = Some (access_token tp)" by auto
  from md ten pr mem inside find_SomeD [OF u] signed live_create [OF made] show ?thesis by blast
qed

theorem switch_tenant_is_member_witness:
  "\<exists>tp w'. rpc_switch_tenant demo_env ann_md [char_of (1::nat)] [char_of (60::nat)] demo_world = (Inr tp, w') \<and>
     live_sessions (db w') = {(hash_token demo_crypto (refresh_token tp), 51, 1, Some 60)}"
proof -
  have "ok (rpc_switch_tenant demo_env ann_md [char_of (1::nat)] [char_of (60::nat)]) demo_world"
    by (simp add: demo_runs cong: run_weak)
  then obtain tp w' where
    run: "rpc_switch_tenant demo_env ann_md [char_of (1::nat)] [char_of (60::nat)] demo_world = (Inr tp, w')"
    using okE by blast
  have "live_sessions (db demo_world) = {}"
    by (simp add: live_sessions_def demo_world_def demo_db_def)
  with switch_tenant_is_member [OF run] run show ?thesis
    by (auto simp: caller_uuid_def meta_def ann_md_def demo_text_def read_uuid_def parse_opt_project_def)
qed

section \<open>From login to validation\<close>

text \<open>Access tokens signed for this user and tenant can be read back, and their ids are not on the
  denylist (behaviour of \<open>JwtManager\<close> within the token's lifetime).\<close>

definition access_readable :: "env \<Rightarrow> time \<Rightarrow> db \<Rightarrow> uuid \<Rightarrow> string \<Rightarrow> uuid \<Rightarrow> bool" where
  "access_readable E t d i em ten \<longleftrightarrow>
     (\<forall>n tok. jwt_issue (jwt E) n t (uuid_show (fmt E) i) em (uuid_show (fmt E) ten) [] = Some tok \<longrightarrow>
        (\<exists>c. jwt_parse_access (jwt E) t tok = Some c \<and> cl_sub c = uuid_show (fmt E) i \<and>
           cl_tenant_id c = uuid_show (fmt E) ten \<and> cl_project_id c = [] \<and> \<not> jti_denied (cl_jti c) d))"

definition uuid_readable :: "env \<Rightarrow> uuid \<Rightarrow> bool" where
  "uuid_readable E i \<longleftrightarrow> uuid_show (fmt E) i \<noteq> [] \<and> uuid_parse (fmt E) (uuid_show (fmt E) i) = Some i"

text \<open>Redis is not used, or it neither denies the token nor has a list of permissions for it.\<close>

definition redis_silent :: "env \<Rightarrow> claims \<Rightarrow> redis_store \<Rightarrow> bool" where
  "redis_silent E c s \<longleftrightarrow> (cache_conn E \<longrightarrow> (\<forall>n t.
     rd_exists (redis_api E) n t (denylist_key (cl_jti c)) s \<noteq> Some True \<and>
     Option.bind (rd_get (redis_api E) n t (perms_key (cl_tenant_id c) (cl_project_id c) (cl_sub c)) s)
       (parse_json_strings (fmt E)) = None))"

lemma token_not_denied:
  assumes "fault_free E" and "redis_silent E c (redis w)" and "\<not> jti_denied (cl_jti c) (db w)"
  shows "\<exists>k l. token_denied E (cl_jti c) w = (Inr False, w\<lparr>db_calls := k, redis_calls := l\<rparr>)"
  using assms
  by (cases w; cases "rd_exists (redis_api E) (redis_calls w) (now w) (denylist_key (cl_jti c)) (redis w)")
    (auto simp: token_denied_def cache_is_denied_def redis_silent_def redis_next_def bind_ok_def ret_def
      db_try_def run_query_def is_token_revoked_def reading_def jti_denied_def fault_free_def)

lemma permissions_load:
  assumes "fault_free E" and "redis_silent E c (redis w)"
    and "get_user_permissions_scoped (conn_role E) (text_le E) i ten pr (db w) = Inr (ps, db w)"
  shows "\<exists>w'. load_permissions E c i (Some ten) pr w = (Inr ps, w')"
  using assms
  by (auto simp: load_permissions_def cache_get_perms_def cache_set_perms_def redis_silent_def redis_next_def
      set_ex_def bind_ok_def ret_def db_try_def run_query_def fault_free_def split: option.split)

lemma validate_runs:
  assumes "fault_free E" and "redis_silent E c (redis w)" and "jwt_parse_access (jwt E) (now w) tok = Some c"
    and "cl_sub c = uuid_show (fmt E) i" and "cl_tenant_id c = uuid_show (fmt E) ten"
    and "cl_project_id c = []" and "\<not> jti_denied (cl_jti c) (db w)"
    and "find (\<lambda>u. u_id u = i) (users (db w)) = Some u" and "u_deleted_at u = None"
    and "uuid_readable E i" and "uuid_readable E ten"
  shows "if active_member i ten (db w)
    then \<exists>v w'. rpc_validate_token E tok w = (Inr v, w') \<and> va_user_id v = uuid_show (fmt E) i \<and>
      va_tenant_id v = uuid_show (fmt E) ten \<and> set (va_permissions v) = granted i ten None (db w)
    else fst (rpc_validate_token E tok w) = Inl (Status Unauthenticated ''tenant membership revoked'')"
proof -
  obtain ps where ps: "get_user_permissions_scoped (conn_role E) (text_le E) i ten None (db w) = Inr (ps, db w)"
    by (simp add: get_user_permissions_scoped_def)
  obtain k l where den: "token_denied E (cl_jti c) w = (Inr False, w\<lparr>db_calls := k, redis_calls := l\<rparr>)"
    using token_not_denied [OF assms(1,2,7)] by blast
  have "\<exists>w'. load_permissions E c i (Some ten) None (w\<lparr>redis_calls := l, db_calls := m\<rparr>) = (Inr ps, w')" for m
    using permissions_load [OF assms(1), of c "w\<lparr>redis_calls := l, db_calls := m\<rparr>"] assms(2) ps by simp
  then obtain f where load: "load_permissions E c i (Some ten) None (w\<lparr>redis_calls := l, db_calls := m\<rparr>) =
      (Inr ps, f m)" for m by metis
  show ?thesis
    using assms(1,3-6,8-11) set_scoped_permissions [OF ps]
    by (simp add: rpc_validate_token_def den with_now_def bind_ok_def or_fail_def ret_def db_try_def
        run_query_def reading_def fault_free_def require_def fail_def uuid_readable_def is_user_active_def
        token_tenant_def is_active_member_def token_project_def get_user_roles_scoped_def load)
qed

definition authz :: "db \<Rightarrow> membership_row list \<times> tenant_row list \<times> revoked_token_row list \<times>
    user_role_row list \<times> (int \<times> int) list \<times> permission_row list" where
  "authz d = (memberships d, tenants d, revoked_tokens d, user_roles d, role_permissions d, permissions d)"

lemmas authz_frame = session_frame [where f = authz, simplified authz_def, simplified]

lemma authz_same:
  assumes "authz d' = authz d"
  shows "active_member i ten d' = active_member i ten d" "jti_denied j d' = jti_denied j d"
    "granted i ten pr d' = granted i ten pr d" "login_tenant le i d' = login_tenant le i d"
  using assms
  by (auto simp: authz_def active_member_def jti_denied_def granted_def login_tenant_def
      list_memberships_def reading_def)

lemma login_leaves_user:
  assumes "fault_free E" and "find (\<lambda>u. u_id u = i) (users (db w)) = Some u"
    and "db_ignore E (reset_login_state i) w = (Inr (), w3)"
    and "audit_as E a em ac tg de ten w3 = (Inr (), w4)"
    and "issue_tokens E i em tn pr (w4\<lparr>db_calls := n\<rparr>) = (Inr tp, w')"
  shows "find (\<lambda>u. u_id u = i) (users (db w')) =
    Some (u\<lparr>u_failed_login_attempts := 0, u_locked_until := None\<rparr>)"
proof -
  have "users (db w') = users (db w4)"
    using issue_tokens_Inr [OF assms(5)] by (auto elim!: create_refresh_token_E)
  moreover have "users (db w4) = users (db w3)" by (rule audit_users [OF assms(4)])
  moreover have "db w3 = update_user i (\<lambda>u. u\<lparr>u_failed_login_attempts := 0, u_locked_until := None\<rparr>) (db w)"
    using db_ignore_fine_Inr [OF assms(1) assms(3) [unfolded reset_login_state_def]] by simp
  ultimately show ?thesis using assms(2) by (simp add: find_update_user)
qed

text \<open>
  C28: with the database answering, the access token of a password login is accepted right away, for
  the tenant the login chose and with exactly the permissions granted there, when the user is an
  active member of that tenant and Redis, if it is used, neither denies the token nor still holds a
  list of permissions for the user there; a user without an active membership gets a token that is
  refused.
\<close>

theorem login_then_validate:
  assumes "fault_free E" and "distinct (map u_id (users (db w)))"
    and "find (\<lambda>u. u_email u = email) (users (db w)) = Some u"
    and "rpc_login E email password w = (Inr tp, w')" and "\<not> mfa_required tp"
    and "access_readable E (now w) (db w) (u_id u) (u_email u) (login_tenant (text_le E) (u_id u) (db w))"
    and "uuid_readable E (u_id u)" and "uuid_readable E (login_tenant (text_le E) (u_id u) (db w))"
    and "\<forall>c. jwt_parse_access (jwt E) (now w) (access_token tp) = Some c \<longrightarrow> redis_silent E c (redis w')"
  shows "let ten = login_tenant (text_le E) (u_id u) (db w) in
    if active_member (u_id u) ten (db w)
    then \<exists>v w''. rpc_validate_token E (access_token tp) w' = (Inr v, w'') \<and>
      va_user_id v = uuid_show (fmt E) (u_id u) \<and> va_tenant_id v = uuid_show (fmt E) ten \<and>
      set (va_permissions v) = granted (u_id u) ten None (db w)
    else fst (rpc_validate_token E (access_token tp) w') =
      Inl (Status Unauthenticated ''tenant membership revoked'')"
proof -
  let ?i = "u_id u" and ?ten = "login_tenant (text_le E) (u_id u) (db w)"
  from login_cases [OF assms(4,5)] obtain v w3 w4 where
    v: "find (\<lambda>u. u_email u = email) (users (db w)) = Some v" "u_deleted_at v = None"
      "db_ignore E (reset_login_state (u_id v)) (w\<lparr>db_calls := Suc (db_calls w)\<rparr>) = (Inr (), w3)"
      "audit_as E (uuid_show (fmt E) (u_id v)) (u_email v) ''login.success'' [] [] None w3 = (Inr (), w4)"
      "issue_for_active_tenant E (u_id v) (u_email v) w4 = (Inr tp, w')"
    by blast
  with assms(3) have "v = u" by simp
  note del = v(2) [unfolded this] and reset = v(3) [unfolded this] and aud = v(4) [unfolded this]
    and iss = v(5) [unfolded this]
  have w4: "authz (db w4) = authz (db w)" "now w4 = now w"
    using keptD [OF session_frame(4) [where f = authz] reset] keptD [OF session_frame(1) [where f = authz] aud]
      audit_users [OF aud] db_ignore_fine_Inr [OF assms(1) reset [unfolded reset_login_state_def]]
    by (simp_all add: authz_def)
  note iss' = issue_active_tenant [OF iss, unfolded authz_same(4) [OF w4(1)]]
  have w': "authz (db w') = authz (db w)" "now w' = now w"
    using keptD [OF session_frame(3) [where f = authz] iss] issue_tokens_Inr [OF iss'] w4
    by (auto simp: authz_def)
  have "find (\<lambda>u. u_id u = ?i) (users (db w)) = Some u"
    using find_unique_key [OF assms(2)] find_SomeD [OF assms(3)] by simp
  then have user: "find (\<lambda>u. u_id u = ?i) (users (db w')) =
      Some (u\<lparr>u_failed_login_attempts := 0, u_locked_until := None\<rparr>)"
    using login_leaves_user [OF assms(1) _ reset aud iss'] by simp
  from issue_tokens_Inr [OF iss'] assms(6) obtain c where
    c: "jwt_parse_access (jwt E) (now w') (access_token tp) = Some c" "cl_sub c = uuid_show (fmt E) ?i"
      "cl_tenant_id c = uuid_show (fmt E) ?ten" "cl_project_id c = []" "\<not> jti_denied (cl_jti c) (db w')"
    using w4(2) w'(2) by (auto simp: access_readable_def show_opt_uuid_def authz_same [OF w'(1)])
  have "redis_silent E c (redis w')" using assms(9) c(1) w'(2) by simp
  from validate_runs [OF assms(1) this c user _ assms(7,8)] del show ?thesis
    by (simp add: authz_same [OF w'(1)] Let_def cong: if_cong)
qed

theorem login_then_validate_witness:
  "\<exists>tp w'. rpc_login demo_env ''ann@x'' ''longsecret'' demo_world = (Inr tp, w') \<and>
     (\<exists>v w''. rpc_validate_token demo_env (access_token tp) w' = (Inr v, w'') \<and>
        set (va_permissions v) = {''user:read'', ''role:write''})"
proof -
  have fst: "case fst (rpc_login demo_env ''ann@x'' ''longsecret'' demo_world) of
      Inr tp \<Rightarrow> \<not> mfa_required tp | Inl _ \<Rightarrow> False"
    by (simp add: demo_runs cong: run_weak)
  then obtain tp w' where run: "rpc_login demo_env ''ann@x'' ''longsecret'' demo_world = (Inr tp, w')"
    and m: "\<not> mfa_required tp"
    by (cases "rpc_login demo_env ''ann@x'' ''longsecret'' demo_world") (auto split: sum.splits)
  have ten: "login_tenant (text_le demo_env) 51 demo_db = 1"
    by (simp add: login_tenant_def list_memberships_def reading_def demo_db_def)
  have chars: "bar \<noteq> char_of (51::nat)" "bar \<noteq> char_of (Suc 0)" "bar \<notin> set ''access''" "bar \<notin> set ''ann@x''"
    by (code_simp, code_simp, simp_all add: bar_def)
  have readable: "access_readable demo_env (1000 * second) demo_db 51 ''ann@x'' 1"
    using chars by (simp add: access_readable_def demo_jwt_def demo_text_def show_uuid_def second_def
        read_token_of letter_not_bar [symmetric] jti_denied_def demo_db_def)
  have granted: "granted 51 1 None demo_db = {''user:read'', ''role:write''}"
    by (auto simp: granted_def demo_db_def intro: exI [of _ "\<lparr>pe_id = 1, pe_name = ''user:read'', pe_description = []\<rparr>"]
        exI [of _ "\<lparr>pe_id = 2, pe_name = ''role:write'', pe_description = []\<rparr>"])
  have "let ten = login_tenant (text_le demo_env) (u_id ann) (db demo_world) in
    if active_member (u_id ann) ten (db demo_world)
    then \<exists>v w''. rpc_validate_token demo_env (access_token tp) w' = (Inr v, w'') \<and>
      va_user_id v = uuid_show (fmt demo_env) (u_id ann) \<and> va_tenant_id v = uuid_show (fmt demo_env) ten \<and>
      set (va_permissions v) = granted (u_id ann) ten None (db demo_world)
    else fst (rpc_validate_token demo_env (access_token tp) w') =
      Inl (Status Unauthenticated ''tenant membership revoked'')"
    by (rule login_then_validate [OF _ _ _ run m])
      (use ten readable in \<open>simp_all add: ann_def bob_def demo_user_def demo_world_def demo_db_def
         uuid_readable_def demo_text_def show_uuid_def read_uuid_def redis_silent_def\<close>)
  with run ten granted show ?thesis
    by (auto simp: ann_def demo_user_def demo_world_def active_member_def Let_def demo_db_def)
qed

end
