(* ===== verification/OidcProps.thy ===== *)
theory OidcProps
  imports TokenProps
begin

text \<open>
  The OIDC provider: who gets tokens for an authorization code, that a code is spent by its first
  exchange for good, which code verifiers a stored code accepts, and that consents are stored.
\<close>

section \<open>Exchanging a code\<close>

definition spend_code :: "string \<Rightarrow> db \<Rightarrow> db" where
  "spend_code h d = d\<lparr>auth_codes := update_where (claimable h) (\<lambda>c. c\<lparr>ac_used := True\<rparr>) (auth_codes d)\<rparr>"

lemma spend_code_same [simp]:
  "oauth_clients (spend_code h d) = oauth_clients d" "users (spend_code h d) = users d"
  "tenants (spend_code h d) = tenants d" "memberships (spend_code h d) = memberships d"
  "active_member i ten (spend_code h d) = active_member i ten d"
  by (simp_all add: spend_code_def active_member_def)

lemma claimed_once:
  assumes "db_ok E (claim_code h) w = (Inr (Some n), w')"
  shows "w' = w\<lparr>db := spend_code h (db w), db_calls := db_calls w + 1\<rparr>"
  using db_ok_Inr [OF assms] by (auto simp: claim_code_def spend_code_def)

lemma code_spent_after:
  assumes "find (\<lambda>c. ac_code_hash c = h) (auth_codes d) = Some r"
  shows "code_spent h (spend_code h d)"
  unfolding code_spent_def
proof
  have "map ac_code_hash (auth_codes (spend_code h d)) = map ac_code_hash (auth_codes d)"
    by (simp add: spend_code_def)
  then have "ac_code_hash ` set (auth_codes (spend_code h d)) = ac_code_hash ` set (auth_codes d)"
    by (metis list.set_map)
  then show "exists_where (\<lambda>c. ac_code_hash c = h) (auth_codes (spend_code h d))"
    using find_SomeD [OF assms] by (auto simp: exists_where_key)
  show "\<forall>c\<in>set (auth_codes (spend_code h d)). ac_code_hash c = h \<longrightarrow> ac_used c"
  proof (intro ballI impI)
    fix c assume "c \<in> set (auth_codes (spend_code h d))" and h: "ac_code_hash c = h"
    then have "c \<in> (\<lambda>c. c\<lparr>ac_used := True\<rparr>) ` set (auth_codes d) \<or> \<not> claimable h c"
      by (auto simp: spend_code_def set_update_where)
    with h show "ac_used c" by (auto simp: claimable_def)
  qed
qed

lemma exchange_cases:
  assumes "rpc_exchange_authorization_code E code cid uri verifier secret w = (Inr tok, w')"
  obtains r c u k tp w2 where
    "find (\<lambda>c. ac_code_hash c = hash_token (crypto E) code) (auth_codes (db w)) = Some r"
    "\<not> ac_used r" "\<not> ac_expires_at r < now w" "ac_client_id r = cid" "ac_redirect_uri r = uri"
    "has_pkce r \<longrightarrow> pkce_accepts (crypto E) r verifier"
    "find (\<lambda>c. oc_client_id c = cid) (oauth_clients (db w)) = Some c"
    "if oc_is_confidential c then oc_client_secret_hash c = Some (hash_token (crypto E) secret) else has_pkce r"
    "find (\<lambda>u. u_id u = ac_user_id r) (users (db w)) = Some u"
    "active_member (ac_user_id r) (oc_tenant_id c) (db w)"
    "issue_tokens E (ac_user_id r) (u_email u) (oc_tenant_id c) None
       (w\<lparr>db := spend_code (hash_token (crypto E) code) (db w), db_calls := k\<rparr>) = (Inr tp, w2)"
    "w' = w2\<lparr>draws := draws w2 + 1\<rparr>" "od_scope tok = ac_scope r"
    "od_access_token tok = access_token tp" "od_refresh_token tok = refresh_token tp"
  using assms unfolding rpc_exchange_authorization_code_def exchange_find_def exchange_finish_def
    find_code_def find_client_def
    user_email_one_def client_tenant_one_def is_active_member_def
  by (auto simp: Let_def split: option.splits if_splits elim!: act_elims dest!: claimed_once)

lemma code_found: "find (\<lambda>c. ac_code_hash c = h) (auth_codes d) = Some r \<Longrightarrow>
    r \<in> set (auth_codes d) \<and> ac_code_hash r = h"
  by (drule find_SomeD)

lemma find_updated:
  "(\<And>r. P r \<Longrightarrow> P (f r)) \<Longrightarrow> find P (update_where P f rows) = map_option f (find P rows)"
  by (induction rows) auto

lemma find_update_other:
  "(\<And>r. P r \<Longrightarrow> \<not> Q r \<and> \<not> Q (f r)) \<Longrightarrow> find Q (update_where P f rows) = find Q rows"
  by (induction rows) auto

lemma filter_unique:
  assumes "distinct (map key rows)" and "r \<in> set rows" and "P r"
    and "\<And>x. P x \<Longrightarrow> key x = key r"
  shows "filter P rows = [r]"
  using assms(1,2)
proof (induction rows)
  case (Cons a rows)
  then show ?case
  proof (cases "a = r")
    case True
    with Cons.prems assms(4) have "\<not> P x" if "x \<in> set rows" for x
      using that by (metis distinct.simps(2) image_eqI list.set_map list.simps(9))
    with True assms(3) show ?thesis by simp
  next
    case False
    with Cons.prems assms(4) have "\<not> P a"
      by (metis distinct.simps(2) image_eqI list.set_map list.simps(9) set_ConsD)
    with False Cons show ?thesis by simp
  qed
qed simp

lemma exchanged_code_spent:
  assumes "rpc_exchange_authorization_code E code cid uri verifier secret w = (Inr tok, w')"
  shows "code_spent (hash_token (crypto E) code) (db w')"
  using assms
proof (cases rule: exchange_cases)
  case (1 r c u k tp w2)
  then show ?thesis
    using code_spent_after [OF 1(1)] keptD [OF session_frame(2) [where f = auth_codes] 1(11)]
    by (simp add: code_spent_def)
qed

text \<open>
  C7: tokens are given for a code only if it is stored, unused and unexpired, was issued for this
  client and redirect URI, its PKCE challenge accepts the verifier, a confidential client presents
  its secret and a public one uses PKCE, and the user is an active member of the client's tenant;
  the session is for that user and tenant, with the scope of the code, and the code is spent.
\<close>

theorem exchange_is_authorised:
  assumes "rpc_exchange_authorization_code E code cid uri verifier secret w = (Inr tok, w')"
  shows "\<exists>r c. r \<in> set (auth_codes (db w)) \<and> c \<in> set (oauth_clients (db w)) \<and>
    ac_code_hash r = hash_token (crypto E) code \<and> \<not> ac_used r \<and> now w \<le> ac_expires_at r \<and>
    ac_client_id r = cid \<and> ac_redirect_uri r = uri \<and> oc_client_id c = cid \<and>
    (has_pkce r \<longrightarrow> pkce_accepts (crypto E) r verifier) \<and>
    (if oc_is_confidential c then oc_client_secret_hash c = Some (hash_token (crypto E) secret)
     else has_pkce r) \<and>
    active_member (ac_user_id r) (oc_tenant_id c) (db w) \<and> od_scope tok = ac_scope r \<and>
    live_sessions (db w') = insert (hash_token (crypto E) (od_refresh_token tok), ac_user_id r,
      oc_tenant_id c, None) (live_sessions (db w)) \<and>
    code_spent (hash_token (crypto E) code) (db w')"
  using assms
proof (cases rule: exchange_cases)
  case (1 r c u k tp w2)
  from issue_tokens_Inr [OF 1(11)] obtain ex where
    made: "create_refresh_token (ac_user_id r) (hash_token (crypto E) (refresh_token tp)) ex
      (oc_tenant_id c) None (spend_code (hash_token (crypto E) code) (db w)) = Inr ((), db w2)" by auto
  have "live_sessions (spend_code h d) = live_sessions d" for h d
    by (simp add: live_sessions_def spend_code_def)
  with live_create [OF made] have "live_sessions (db w') = insert (hash_token (crypto E)
      (od_refresh_token tok), ac_user_id r, oc_tenant_id c, None) (live_sessions (db w))"
    using 1 by simp
  moreover have "code_spent (hash_token (crypto E) code) (db w')"
    using exchanged_code_spent [OF assms] .
  ultimately show ?thesis
    using 1 code_found [OF 1(1)] find_SomeD [OF 1(7)] by (intro exI [of _ r] exI [of _ c]) auto
qed

text \<open>A public client of tenant 1 and a code for \<open>ann\<close> with a PKCE challenge.\<close>

definition demo_client :: oauth_client_row where
  "demo_client = \<lparr>oc_client_id = ''app'', oc_client_secret_hash = None, oc_name = ''App'',
     oc_redirect_uris = [''u''], oc_scopes = [''openid''], oc_grant_types = [''authorization_code''],
     oc_is_confidential = False, oc_tenant_id = 1\<rparr>"

definition demo_code :: auth_code_row where
  "demo_code = \<lparr>ac_code_hash = ''hcode'', ac_client_id = ''app'', ac_user_id = 51,
     ac_redirect_uri = ''u'', ac_scope = ''openid'', ac_code_challenge = Some ''hv'',
     ac_code_challenge_method = Some ''S256'', ac_nonce = None, ac_expires_at = 1100 * second,
     ac_used = False\<rparr>"

definition oidc_world :: world where
  "oidc_world = demo_world\<lparr>db := demo_db\<lparr>oauth_clients := [demo_client], auth_codes := [demo_code]\<rparr>\<rparr>"

lemmas oidc_data = oidc_world_def demo_client_def demo_code_def

lemma demo_exchange_runs:
  "ok (rpc_exchange_authorization_code demo_env ''code'' ''app'' ''u'' ''v'' []) oidc_world"
  by (simp add: oidc_data demo_runs cong: run_weak)

theorem exchange_is_authorised_witness:
  "\<exists>tok w'. rpc_exchange_authorization_code demo_env ''code'' ''app'' ''u'' ''v'' [] oidc_world = (Inr tok, w') \<and>
     pkce_accepts demo_crypto demo_code ''v'' \<and> code_spent ''hcode'' (db w')"
proof -
  obtain tok w' where
    run: "rpc_exchange_authorization_code demo_env ''code'' ''app'' ''u'' ''v'' [] oidc_world = (Inr tok, w')"
    using okE [OF demo_exchange_runs] by blast
  have "auth_codes (db oidc_world) = [demo_code]" by (simp add: oidc_world_def)
  with exchange_is_authorised [OF run] run show ?thesis
    by (auto simp: hash_token_def demo_crypto_def demo_code_def has_pkce_def)
qed

text \<open>The code is stored for this client and redirect URI and has not expired.\<close>

definition presented :: "env \<Rightarrow> string \<Rightarrow> string \<Rightarrow> string \<Rightarrow> world \<Rightarrow> bool" where
  "presented E code cid uri w \<longleftrightarrow> distinct (map ac_code_hash (auth_codes (db w))) \<and>
     (\<exists>c\<in>set (auth_codes (db w)). ac_code_hash c = hash_token (crypto E) code \<and>
        ac_client_id c = cid \<and> ac_redirect_uri c = uri \<and> now w \<le> ac_expires_at c)"

lemma presented_code_spent:
  assumes "fault_free E" and "presented E code cid uri w"
    and "rpc_exchange_authorization_code E code cid uri verifier secret w = (r, w1)"
  shows "code_spent (hash_token (crypto E) code) (db w1)"
proof -
  let ?h = "hash_token (crypto E) code"
  from assms(2) obtain c where uniq: "distinct (map ac_code_hash (auth_codes (db w)))"
    and c: "c \<in> set (auth_codes (db w))" "ac_code_hash c = ?h" "ac_client_id c = cid"
      "ac_redirect_uri c = uri" "\<not> ac_expires_at c < now w"
    by (auto simp: presented_def)
  have found: "find (\<lambda>c. ac_code_hash c = ?h) (auth_codes (db w)) = Some c"
    using find_unique_key [OF uniq c(1)] c(2) by simp
  have "spent_stays (db w) (db w1)"
    using spent.oidc_handlers(5) assms(3) by (rule stableD)
  moreover have "code_spent ?h (db w)" if used: "ac_used c"
  proof -
    have "x = c" if "x \<in> set (auth_codes (db w))" "ac_code_hash x = ?h" for x
      using distinct_map_inj [OF uniq that(1) c(1)] that(2) c(2) by simp
    with used c(1,2) show ?thesis unfolding code_spent_def exists_where_iff by blast
  qed
  moreover have "code_spent ?h (db w1)" if new: "\<not> ac_used c"
  proof -
    define w2 where "w2 = w\<lparr>db := spend_code ?h (db w), db_calls := Suc (Suc (db_calls w))\<rparr>"
    have "filter (claimable ?h) (auth_codes (db w)) = [c]"
      using c new by (intro filter_unique [OF uniq]) (auto simp: claimable_def)
    then have claim: "db_ok E (claim_code ?h) (w\<lparr>db_calls := Suc (db_calls w)\<rparr>) = (Inr (Some 1), w2)"
      using assms(1) by (simp add: w2_def db_ok_def run_query_def fault_free_def claim_code_def spend_code_def)
    have "exchange_find E ?h cid uri w = (Inr c, w\<lparr>db_calls := Suc (db_calls w)\<rparr>)"
      using assms(1) found c new
      by (simp add: exchange_find_def find_code_def reading_def with_now_apply db_try_fine bind_ok_apply
          or_fail_apply require_apply ret_apply cong: bind_weak)
    with assms(3) have "exchange_finish E ?h c verifier secret (w\<lparr>db_calls := Suc (db_calls w)\<rparr>) = (r, w1)"
      by (simp add: rpc_exchange_authorization_code_def bind_ok_def Let_def)
    then have "\<exists>F. (\<forall>x. stable spent_stays (F x)) \<and>
        bind_ok (db_ok E (claim_code ?h)) F (w\<lparr>db_calls := Suc (db_calls w)\<rparr>) = (r, w1)"
      unfolding exchange_finish_def
      apply (intro exI conjI)
       prefer 2
       apply assumption
      apply (intro allI spent.service_rules)
      done
    then obtain F where F: "\<forall>x. stable spent_stays (F x)"
      and run: "bind_ok (db_ok E (claim_code ?h)) F (w\<lparr>db_calls := Suc (db_calls w)\<rparr>) = (r, w1)"
      by (elim exE conjE)
    from run have "F (Some 1) w2 = (r, w1)"
      unfolding bind_ok_apply(2) [where m = "db_ok E (claim_code ?h)", OF claim] .
    with spec [OF F, of "Some 1"] have "spent_stays (db w2) (db w1)" by (rule stableD)
    then show ?thesis
      using code_spent_after [OF found] by (simp add: spent_stays_def w2_def)
  qed
  ultimately show ?thesis by (auto simp: spent_stays_def)
qed

text \<open>
  C14: a code works once: after an exchange that returned tokens, and, with the database answering,
  after any attempt by the right client with the right redirect URI, a wrong code verifier
  included, no exchange of that code returns tokens, by whichever client and whatever statements
  are interleaved in between.
\<close>

theorem code_works_once:
  assumes "rpc_exchange_authorization_code E code cid uri verifier secret w = (r, w1)"
    and "(\<exists>tok. r = Inr tok) \<or> fault_free E \<and> presented E code cid uri w"
    and "interleaved E (db w1) (db w2)"
  shows "\<not> ok (rpc_exchange_authorization_code E code cid' uri' verifier' secret') w2"
proof
  assume "ok (rpc_exchange_authorization_code E code cid' uri' verifier' secret') w2"
  then obtain tok' w3 where
    again: "rpc_exchange_authorization_code E code cid' uri' verifier' secret' w2 = (Inr tok', w3)"
    using okE by blast
  have "code_spent (hash_token (crypto E) code) (db w1)"
    using assms(2)
  proof
    assume "\<exists>tok. r = Inr tok"
    with exchanged_code_spent assms(1) show ?thesis by blast
  next
    assume "fault_free E \<and> presented E code cid uri w"
    with presented_code_spent assms(1) show ?thesis by blast
  qed
  then have "code_spent (hash_token (crypto E) code) (db w2)"
    using spent.interleaved [OF assms(3)] by (simp add: spent_stays_def)
  with again show False
    by (cases rule: exchange_cases) (auto simp: code_spent_def dest: code_found)
qed

theorem code_works_once_witness:
  "\<exists>w1. rpc_exchange_authorization_code demo_env ''code'' ''app'' ''u'' ''guess'' [] oidc_world = (Inl invalid_grant, w1) \<and>
     \<not> ok (rpc_exchange_authorization_code demo_env ''code'' ''app'' ''u'' ''v'' []) w1"
proof -
  have "fst (rpc_exchange_authorization_code demo_env ''code'' ''app'' ''u'' ''guess'' [] oidc_world) = Inl invalid_grant"
    by (simp add: oidc_data demo_runs cong: run_weak)
  then obtain w1 where
    run: "rpc_exchange_authorization_code demo_env ''code'' ''app'' ''u'' ''guess'' [] oidc_world = (Inl invalid_grant, w1)"
    by (metis prod.collapse)
  have "presented demo_env ''code'' ''app'' ''u'' oidc_world"
    by (simp add: presented_def oidc_data demo_world_def demo_db_def hash_token_def demo_crypto_def second_def)
  moreover have "interleaved demo_env (db w1) (db w1)" by (simp add: interleaved_def)
  ultimately show ?thesis
    using code_works_once [OF run] run demo_fault_free by blast
qed

lemma finish_spent:
  assumes "code_spent h (db w)"
  shows "fst (exchange_finish E h row verifier secret w) = Inl invalid_grant \<and>
    db (snd (exchange_finish E h row verifier secret w)) = db w"
proof -
  have "\<not> claimable h c" if "c \<in> set (auth_codes (db w))" for c
    using assms that by (auto simp: code_spent_def claimable_def)
  then have claim: "claim_code h (db w) = Inr (0, db w)"
    by (simp add: claim_code_def filter_empty_conv update_where_def cong: map_cong)
  show ?thesis
    using claim by (cases "db_fault E (db_calls w)")
      (simp_all add: exchange_finish_def bind_ok_def db_ok_def run_query_def require_def fail_def)
qed

text \<open>
  C15: concurrent exchanges of one code race for a single statement and one wins.  An exchange that
  has passed its checks goes on with \<open>exchange_finish\<close>; once another has claimed the code in the
  meantime, whatever else is interleaved, it is refused with \<open>invalid_grant\<close> and changes nothing,
  with the right verifier and client secret too.
\<close>

theorem one_claim_wins:
  assumes "exchange_find E (hash_token (crypto E) code) cid uri w0 = (Inr row, w1)"
    and "interleaved E (db w1) d" and "claim_code (hash_token (crypto E) code) d = Inr (Suc n, d1)"
    and "interleaved E d1 (db w2)"
  shows "rpc_exchange_authorization_code E code cid uri verifier secret w0 =
      exchange_finish E (hash_token (crypto E) code) row verifier secret w1 \<and>
    fst (exchange_finish E (hash_token (crypto E) code) row verifier secret w2) = Inl invalid_grant \<and>
    db (snd (exchange_finish E (hash_token (crypto E) code) row verifier secret w2)) = db w2"
proof -
  let ?h = "hash_token (crypto E) code"
  from assms(3) have n: "length (filter (claimable ?h) (auth_codes d)) = Suc n" and d1: "d1 = spend_code ?h d"
    by (auto simp: claim_code_def spend_code_def)
  from n obtain c where c: "c \<in> set (auth_codes d)" "claimable ?h c"
    by (metis filter_empty_conv length_0_conv nat.distinct(1))
  then have "find (\<lambda>c. ac_code_hash c = ?h) (auth_codes d) \<noteq> None"
    by (auto simp: find_None_iff claimable_def)
  then have "code_spent ?h d1"
    using code_spent_after d1 by blast
  then have "code_spent ?h (db w2)"
    using spent.interleaved [OF assms(4)] by (simp add: spent_stays_def)
  with finish_spent assms(1) show ?thesis
    by (simp add: rpc_exchange_authorization_code_def bind_ok_def Let_def)
qed

text \<open>Both have looked the code up; the other one claims it first.\<close>

definition raced_world :: world where
  "raced_world = oidc_world\<lparr>db := spend_code ''hcode'' (db oidc_world)\<rparr>"

theorem one_claim_wins_witness:
  "fst (rpc_exchange_authorization_code demo_env ''code'' ''app'' ''u'' ''v'' [] oidc_world) \<noteq> Inl invalid_grant \<and>
   fst (exchange_finish demo_env ''hcode'' demo_code ''v'' [] raced_world) = Inl invalid_grant"
proof -
  have find: "exchange_find demo_env (hash_token (crypto demo_env) ''code'') ''app'' ''u'' oidc_world =
      (Inr demo_code, oidc_world\<lparr>db_calls := 1\<rparr>)"
    by (simp add: oidc_data demo_runs cong: run_weak)
  have h: "hash_token demo_crypto ''code'' = ''hcode''" by (simp add: hash_token_def demo_crypto_def)
  have claim: "claim_code (hash_token (crypto demo_env) ''code'') (db oidc_world) = Inr (Suc 0, db raced_world)"
    by (simp add: h claim_code_def raced_world_def spend_code_def oidc_data claimable_def)
  have "interleaved demo_env (db (oidc_world\<lparr>db_calls := 1\<rparr>)) (db oidc_world)"
    "interleaved demo_env (db raced_world) (db raced_world)"
    by (simp_all add: interleaved_def)
  from one_claim_wins [OF find this(1) claim this(2), of "''v''" "[]"]
  have "fst (exchange_finish demo_env ''hcode'' demo_code ''v'' [] raced_world) = Inl invalid_grant" by (simp add: h)
  moreover have "fst (rpc_exchange_authorization_code demo_env ''code'' ''app'' ''u'' ''v'' [] oidc_world) \<noteq> Inl invalid_grant"
    using okE [OF demo_exchange_runs] by auto
  ultimately show ?thesis by blast
qed

section \<open>Issuing a code\<close>

text \<open>
  C30: a code that is issued is stored for that client, user and redirect URI for five minutes, and
  only for an active member of the client's tenant.  Its challenge accepts the verifiers that
  \<open>verify_pkce\<close> accepts for the requested method, where no method means \<open>S256\<close>.
\<close>

theorem issued_code_is_stored:
  assumes "rpc_create_authorization_code E cid user uri scope challenge meth nonce w = (Inr code, w')"
  shows "\<exists>i r c. uuid_parse (fmt E) user = Some i \<and>
    find (\<lambda>x. ac_code_hash x = hash_token (crypto E) code) (auth_codes (db w')) = Some r \<and>
    \<not> ac_used r \<and> ac_client_id r = cid \<and> ac_user_id r = i \<and> ac_redirect_uri r = uri \<and>
    ac_scope r = scope \<and> ac_expires_at r = now w + 300 * second \<and>
    c \<in> set (oauth_clients (db w)) \<and> oc_client_id c = cid \<and> active_member i (oc_tenant_id c) (db w) \<and>
    (has_pkce r \<longleftrightarrow> challenge \<noteq> []) \<and>
    (challenge \<noteq> [] \<longrightarrow> (\<forall>v. pkce_accepts (crypto E) r v \<longleftrightarrow>
       verify_pkce (crypto E) challenge (if meth = [] then ''S256'' else meth) v))"
proof -
  let ?row = "\<lambda>i. \<lparr>ac_code_hash = hash_token (crypto E) code, ac_client_id = cid, ac_user_id = i,
     ac_redirect_uri = uri, ac_scope = scope, ac_code_challenge = nullif_empty challenge,
     ac_code_challenge_method = nullif_empty meth, ac_nonce = nullif_empty nonce,
     ac_expires_at = now w + 300 * second, ac_used = False\<rparr>"
  from assms obtain i c where i: "uuid_parse (fmt E) user = Some i"
    and c: "find (\<lambda>c. oc_client_id c = cid) (oauth_clients (db w)) = Some c"
    and mem: "active_member i (oc_tenant_id c) (db w)"
    and ins: "insert_auth_code (?row i) (db w) = Inr ((), db w')"
    unfolding rpc_create_authorization_code_def find_client_def is_active_member_def
    by (auto elim!: act_elims)
  from ins have "find (\<lambda>x. ac_code_hash x = hash_token (crypto E) code) (auth_codes (db w')) = Some (?row i)"
    by (auto simp: find_append exists_where_find elim!: insert_auth_code_E)
  moreover have "has_pkce (?row i) \<longleftrightarrow> challenge \<noteq> []"
    by (simp add: has_pkce_def nullif_empty_def)
  moreover have "challenge \<noteq> [] \<longrightarrow> (pkce_accepts (crypto E) (?row i) v \<longleftrightarrow>
      verify_pkce (crypto E) challenge (if meth = [] then ''S256'' else meth) v)" for v
    by (simp add: pkce_accepts_def nullif_empty_def str_or_def)
  ultimately show ?thesis
    using i mem find_SomeD [OF c] by (intro exI [of _ i] exI [of _ "?row i"] exI [of _ c]) simp
qed

theorem issued_code_is_stored_witness:
  "\<exists>code w'. rpc_create_authorization_code demo_env ''app'' ''3'' ''u'' ''openid'' ''hv'' [] [] oidc_world =
      (Inr code, w') \<and>
    (\<exists>r. find (\<lambda>x. ac_code_hash x = hash_token demo_crypto code) (auth_codes (db w')) = Some r \<and>
       pkce_accepts demo_crypto r ''v'' \<and> \<not> pkce_accepts demo_crypto r ''hv'')"
proof -
  have "ok (rpc_create_authorization_code demo_env ''app'' ''3'' ''u'' ''openid'' ''hv'' [] []) oidc_world"
    by (simp add: oidc_data demo_runs cong: run_weak)
  then obtain code w' where run: "rpc_create_authorization_code demo_env ''app'' ''3'' ''u'' ''openid''
      ''hv'' [] [] oidc_world = (Inr code, w')"
    using okE by blast
  from issued_code_is_stored [OF run] run show ?thesis
    by (auto simp: verify_pkce_def demo_crypto_def)
qed

section \<open>Consents\<close>

text \<open>
  The consent saved for a user and a client is the one read back, and saving it changes no
  other user's or client's consent.
\<close>

lemma consent_round_trip:
  assumes "fault_free E" and "rpc_save_consent E user cid scopes w = (Inr done', w1)"
  shows "fst (rpc_get_consent E user cid w1) = Inr scopes \<and>
    (\<forall>user' cid'. uuid_parse (fmt E) user' \<noteq> uuid_parse (fmt E) user \<or> cid' \<noteq> cid \<longrightarrow>
       fst (rpc_get_consent E user' cid' w1) = fst (rpc_get_consent E user' cid' w))"
proof -
  let ?at = "\<lambda>i c r. co_user_id r = i \<and> co_client_id r = c"
  from assms(2) obtain i where i: "uuid_parse (fmt E) user = Some i"
    and up: "upsert_consent (now w) i cid scopes (db w) = Inr ((), db w1)"
    unfolding rpc_save_consent_def by (auto elim!: act_elims)
  have get: "fst (rpc_get_consent E u c v) = (case uuid_parse (fmt E) u of
      None \<Rightarrow> Inl (Status Invalid_argument ''invalid user id'')
    | Some j \<Rightarrow> Inr (case find (?at j c) (consents (db v)) of None \<Rightarrow> [] | Some r \<Rightarrow> co_scopes r))" for u c v
    using assms(1)
    by (simp add: rpc_get_consent_def find_consent_def reading_def bind_ok_def or_fail_def ret_def
        fail_def db_try_def run_query_def fault_free_def split: option.split)
  have same: "map_option co_scopes (find (?at i cid) (consents (db w1))) = Some scopes"
    using up by (elim upsert_consent_E)
      (auto simp: find_updated find_append exists_where_find split: option.split)
  have other: "map_option co_scopes (find (?at j c) (consents (db w1))) =
      map_option co_scopes (find (?at j c) (consents (db w)))" if "j \<noteq> i \<or> c \<noteq> cid" for j c
  proof -
    have "find (?at j c) (update_where (?at i cid) (\<lambda>r. r\<lparr>co_scopes := scopes, co_granted_at := now w\<rparr>)
        (consents (db w))) = find (?at j c) (consents (db w))"
      using that by (intro find_update_other) auto
    then show ?thesis
      using up that by (elim upsert_consent_E) (auto simp: find_append split: option.split)
  qed
  have get: "fst (rpc_get_consent E u c v) = (case uuid_parse (fmt E) u of
      None \<Rightarrow> Inl (Status Invalid_argument ''invalid user id'')
    | Some j \<Rightarrow> Inr (case map_option co_scopes (find (?at j c) (consents (db v))) of None \<Rightarrow> [] | Some ss \<Rightarrow> ss))"
    for u c v
    unfolding get by (auto split: option.split)
  show ?thesis
    using i same other by (auto simp: get split: option.split)
qed

end
