(* ===== verification/AccountProps.thy ===== *)
theory AccountProps
  imports TokenProps
begin

text \<open>
  Identities: registration writes a user and its event together or neither, what deleting, resetting
  and changing a password do to the sessions, and what the audit view shows.
\<close>

section \<open>Running to any outcome\<close>

text \<open>Inversion of a run that may fail, for what holds whatever the outcome.\<close>

lemma bind_ok_any:
  assumes "bind_ok m f w = (r, w')"
  obtains e where "m w = (Inl e, w')" "r = Inl e" | x w1 where "m w = (Inr x, w1)" "f x w1 = (r, w')"
  using assms by (auto simp: bind_ok_def split: prod.splits sum.splits)

lemma db_try_Inl:
  assumes "db_try E e q w = (Inl e', w')"
  obtains "db w' = db w" "now w' = now w" | x where "q (db w) = Inr (x, db w')" "now w' = now w"
  using assms
  by (auto simp: db_try_def run_query_def Let_def split: fault.splits sum.splits prod.splits if_splits)

lemma pure_Inl:
  "or_fail e x w = (Inl e', w') \<Longrightarrow> w' = w" "require b e w = (Inl e', w') \<Longrightarrow> w' = w"
  "draw g w = (Inl e', w') \<Longrightarrow> False" "ret y w = (Inl e', w') \<Longrightarrow> False"
  by (auto simp: or_fail_def require_def ret_def fail_def draw_def split: option.splits if_splits)

lemmas any_elims = bind_ok_any db_try_Inl act_elims

section \<open>Registration\<close>

text \<open>The part of \<open>rpc_register\<close> after the transaction.\<close>

definition register_tail :: "env \<Rightarrow> uuid \<Rightarrow> string \<Rightarrow> (string \<times> string) act" where
  "register_tail E i email =
     bind_ok (db_ignore E (create_membership i default_tenant_id)) (\<lambda>_.
     bind_ok (audit_as E (uuid_show (fmt E) i) email ''user.register'' [] [] None) (\<lambda>_.
     ret (uuid_show (fmt E) i, email)))"

lemma register_tail_keeps:
  assumes "register_tail E i email w = (r, w')"
  shows "users (db w') = users (db w) \<and> events (db w') = events (db w)"
proof -
  have "stable (\<lambda>d d'. (users d', events d') = (users d, events d)) (register_tail E i email)"
    unfolding register_tail_def create_membership_def
    by (intro kept.act_rules session_frame(1)
          [where f = "\<lambda>d. (recovery_codes d, recovery_codes d)"] kept.audit_as q_stableI)
      (auto simp: insert_audit_def events_def elim!: insert_membership_E)
  from keptD [OF this assms] show ?thesis by simp
qed

lemma register_any:
  assumes "rpc_register E email password w = (r, w')"
  shows "db w' = db w \<and> isl r \<or>
    (\<exists>i n hash p f w2. email \<noteq> [] \<and> password \<noteq> [] \<and> pw_hash (crypto E) n password = Some hash \<and>
       json_registered (fmt E) (uuid_show (fmt E) i) email (display_name email) = Some p \<and>
       (w' = w2 \<and> isl r \<or> register_tail E i email w2 = (r, w')) \<and>
       create_user_with_role_event (conn_role E) (jsonb E) f (now w) i email hash default_role
         (type_user_registered (cfg E)) p (db w) = Inr ((), db w2))"
  using assms unfolding rpc_register_def register_tail_def [symmetric]
  by (auto simp: with_now_def with_call_def dest!: pure_Inl elim!: any_elims) force+

text \<open>Whatever fails, a registration adds one user together with its event, or neither.\<close>

lemma register_is_atomic:
  assumes "rpc_register E email password w = (r, w')"
  shows "users (db w') = users (db w) \<and> events (db w') = events (db w) \<and> isl r \<or>
    (\<exists>i n hash f p j. users (db w') = users (db w) @ [new_user i email hash (now w)] \<and>
       events (db w') = events (db w) @ [(f, i, type_user_registered (cfg E), j)] \<and>
       json_registered (fmt E) (uuid_show (fmt E) i) email (display_name email) = Some p \<and>
       jsonb E p = Some j \<and> pw_hash (crypto E) n password = Some hash \<and>
       \<not> exists_where (\<lambda>u. u_email u = email) (users (db w)) \<and> email \<noteq> [] \<and> password \<noteq> [])"
  using register_any [OF assms]
proof (elim disjE exE conjE)
  fix i n hash p f w2
  assume made: "create_user_with_role_event (conn_role E) (jsonb E) f (now w) i email hash default_role
       (type_user_registered (cfg E)) p (db w) = Inr ((), db w2)"
    and same: "register_tail E i email w2 = (r, w')"
    and facts: "email \<noteq> []" "password \<noteq> []" "pw_hash (crypto E) n password = Some hash"
      "json_registered (fmt E) (uuid_show (fmt E) i) email (display_name email) = Some p"
  note tail = register_tail_keeps [OF same]
  from made facts tail show ?thesis
    by (elim create_user_with_role_event_E)
      (auto simp: events_def event_of_def exists_where_iff intro!: exI [of _ i] exI [of _ n] exI [of _ f])
next
  fix i n hash p f w2
  assume "create_user_with_role_event (conn_role E) (jsonb E) f (now w) i email hash default_role
       (type_user_registered (cfg E)) p (db w) = Inr ((), db w2)" and "w' = w2"
    and "email \<noteq> []" "password \<noteq> []" "pw_hash (crypto E) n password = Some hash"
      "json_registered (fmt E) (uuid_show (fmt E) i) email (display_name email) = Some p"
  then show ?thesis
    by (elim create_user_with_role_event_E)
      (auto simp: events_def event_of_def exists_where_iff intro!: exI [of _ i] exI [of _ n] exI [of _ f])
qed (simp add: events_def)

section \<open>Deletion\<close>

text \<open>The database without its audit trail.\<close>

definition body :: "db \<Rightarrow> db" where
  "body d = d\<lparr>audit_events := [], audit_seq := 0\<rparr>"

lemma body_fields:
  assumes "body d' = body d"
  shows "users d' = users d" "refresh_tokens d' = refresh_tokens d" "user_roles d' = user_roles d"
    "email_verifications d' = email_verifications d" "password_resets d' = password_resets d"
    "recovery_codes d' = recovery_codes d" "api_keys d' = api_keys d" "memberships d' = memberships d"
    "outbox d' = outbox d" "live_sessions d' = live_sessions d" "events d' = events d"
proof -
  show "users d' = users d" "refresh_tokens d' = refresh_tokens d" "user_roles d' = user_roles d"
    "email_verifications d' = email_verifications d" "password_resets d' = password_resets d"
    "recovery_codes d' = recovery_codes d" "api_keys d' = api_keys d" "memberships d' = memberships d"
    "outbox d' = outbox d"
    using assms by (cases d; cases d'; simp add: body_def)+
  then show "live_sessions d' = live_sessions d" "events d' = events d"
    by (simp_all add: live_sessions_def events_def)
qed

lemma audit_body: "audit_as E a em ac tg de ten w = (r, w') \<Longrightarrow> body (db w') = body (db w)"
proof (rule keptD [where f = body])
  show "stable (\<lambda>d d'. body d' = body d) (audit_as E a em ac tg de ten)"
    by (rule kept.audit_as, rule q_stableI [where R = "\<lambda>d d'. body d' = body d"])
      (auto simp: insert_audit_def body_def)
qed

lemma audit_md_body: "audit E md ac tg de w = (r, w') \<Longrightarrow> body (db w') = body (db w)"
  unfolding audit_def by (rule audit_body)

lemma update_where_all:
  "(\<And>r. P r \<Longrightarrow> Q (f r)) \<Longrightarrow> (\<And>r. \<not> P r \<Longrightarrow> Q r) \<Longrightarrow> \<forall>r\<in>set (update_where P f rows). Q r"
  by (auto simp: update_where_def)

lemma live_soft_delete: "live_sessions (soft_delete_user t i d) = {s \<in> live_sessions d. session_user s \<noteq> i}"
  by (rule live_revoke [where f = "\<lambda>r. r\<lparr>rt_revoked_at := Some t\<rparr>"])
    (auto simp: soft_delete_user_def session_key_def session_user_def)

lemma live_purge: "live_sessions (purge_user i d) = {s \<in> live_sessions d. session_user s \<noteq> i}"
  by (auto simp: live_iff purge_user_def session_key_def session_user_def)

text \<open>No row of a table that cascades from \<open>users\<close> is left for this identity.\<close>

definition erased :: "uuid \<Rightarrow> db \<Rightarrow> bool" where
  "erased i d \<longleftrightarrow> i \<notin> u_id ` set (users d) \<and> i \<notin> rt_user_id ` set (refresh_tokens d) \<and>
     i \<notin> ur_user_id ` set (user_roles d) \<and> i \<notin> ot_user_id ` set (email_verifications d) \<and>
     i \<notin> ot_user_id ` set (password_resets d) \<and> i \<notin> rc_user_id ` set (recovery_codes d) \<and>
     i \<notin> ak_user_id ` set (api_keys d) \<and> i \<notin> me_user_id ` set (memberships d)"

lemma erased_purge: "erased i (purge_user i d)"
  by (auto simp: erased_def purge_user_def)

text \<open>
  C32: a deletion needs the permission \<open>user:delete\<close>; it ends every session of the identity and of
  nobody else and appends its \<open>user.deleted\<close> event.  A soft deletion marks the identity deleted and
  keeps every user; a hard one leaves no row of the identity.
\<close>

theorem delete_user_effect:
  assumes "rpc_delete_user E md user hard w = (Inr b, w1)"
  shows "has_perm md ''user:delete'' \<and> (\<exists>i f j. uuid_parse (fmt E) user = Some i \<and>
    events (db w1) = events (db w) @ [(f, i, type_user_deleted (cfg E), j)] \<and>
    live_sessions (db w1) = {s \<in> live_sessions (db w). session_user s \<noteq> i} \<and>
    filter (\<lambda>u. u_id u \<noteq> i) (users (db w1)) = filter (\<lambda>u. u_id u \<noteq> i) (users (db w)) \<and>
    (if hard then erased i (db w1)
     else map u_id (users (db w1)) = map u_id (users (db w)) \<and>
       (\<forall>u\<in>set (users (db w1)). u_id u = i \<longrightarrow> u_deleted_at u \<noteq> None)))"
proof -
  from assms obtain i p f d2 where perm: "has_perm md ''user:delete''"
    and i: "uuid_parse (fmt E) user = Some i"
    and del: "delete_user_event_soft (jsonb E) f (now w) i hard (type_user_deleted (cfg E)) p (db w) = Inr ((), d2)"
    and aud: "audit E md ''user.delete'' user (if hard then ''hard'' else ''soft'')
      (w\<lparr>db := d2, db_calls := Suc (db_calls w)\<rparr>) = (Inr (), w1)"
    unfolding rpc_delete_user_def by (auto split del: if_split elim!: act_elims)
  note same = body_fields [OF audit_md_body [OF aud], simplified]
  let ?ev = "\<lambda>j. \<lparr>ob_id = f, ob_aggregate_id = i, ob_event_type = type_user_deleted (cfg E),
      ob_payload = j, ob_created_at = now w, ob_published_at = None\<rparr>"
  from del show ?thesis
  proof (rule delete_user_event_soft_E)
    fix j assume "hard" and d: "d2 = (purge_user i (db w))\<lparr>outbox := outbox (db w) @ [?ev j]\<rparr>"
    have "erased i d2" using erased_purge [of i "db w"] by (simp add: d erased_def)
    then have "erased i (db w1)" by (simp add: erased_def same)
    moreover have "filter (\<lambda>u. u_id u \<noteq> i) (users (purge_user i (db w))) = filter (\<lambda>u. u_id u \<noteq> i) (users (db w))"
      by (simp add: purge_user_def delete_where_def)
    moreover have "live_sessions d2 = live_sessions (purge_user i (db w))"
      by (simp add: d live_sessions_def)
    ultimately show ?thesis
      using perm i \<open>hard\<close> by (auto simp: same d live_purge events_def event_of_def)
  next
    fix j assume "\<not> hard" and d: "d2 = (soft_delete_user (now w) i (db w))\<lparr>outbox := outbox (db w) @ [?ev j]\<rparr>"
    have "filter (\<lambda>u. u_id u \<noteq> i) (users (soft_delete_user (now w) i (db w))) = filter (\<lambda>u. u_id u \<noteq> i) (users (db w))"
      unfolding soft_delete_user_def by (simp, rule filter_update_where_disjoint) simp_all
    moreover have "map u_id (users (soft_delete_user (now w) i (db w))) = map u_id (users (db w))"
      by (simp add: soft_delete_user_def)
    moreover have "\<forall>u\<in>set (users (soft_delete_user (now w) i (db w))). u_id u = i \<longrightarrow> u_deleted_at u \<noteq> None"
      unfolding soft_delete_user_def by (simp del: not_None_eq, rule update_where_all) simp_all
    moreover have "live_sessions d2 = live_sessions (soft_delete_user (now w) i (db w))"
      by (simp add: d live_sessions_def)
    ultimately show ?thesis
      using perm i \<open>\<not> hard\<close> by (auto simp: same d live_soft_delete events_def event_of_def)
  qed
qed

theorem delete_user_effect_witness:
  "\<exists>b w1. rpc_delete_user demo_env (ann_md(''x-user-permissions'' \<mapsto> ''user:delete'')) ''3'' True session_world = (Inr b, w1) \<and>
     erased 51 (db w1) \<and> live_sessions (db w1) = {}"
proof -
  let ?md = "ann_md(''x-user-permissions'' \<mapsto> ''user:delete'')"
  have "ok (rpc_delete_user demo_env ?md ''3'' True) session_world"
    by (simp add: session_data demo_runs cong: run_weak)
  then obtain b w1 where run: "rpc_delete_user demo_env ?md ''3'' True session_world = (Inr b, w1)"
    using okE by blast
  have "{s \<in> live_sessions (db session_world). session_user s \<noteq> 51} = {}"
    by (auto simp: live_iff session_key_def session_user_def session_data demo_world_def demo_db_def)
  with delete_user_effect [OF run] run show ?thesis
    by (auto simp: demo_text_def read_uuid_def)
qed

text \<open>
  C33: a deleted identity cannot log in, pass the second factor, use an access token or use an API
  key.
\<close>

theorem deleted_identity_is_shut_out:
  assumes "distinct (map u_id (users (db w)))" and "distinct (map u_email (users (db w)))"
    and "u \<in> set (users (db w))" and "u_deleted_at u \<noteq> None"
  shows "\<not> ok (rpc_login E (u_email u) password) w \<and>
    (\<forall>mfa c. jwt_parse (jwt E) (now w) mfa = Some c \<and> uuid_parse (fmt E) (cl_sub c) = Some (u_id u) \<longrightarrow>
       \<not> ok (rpc_login_totp E mfa code) w) \<and>
    (\<forall>tok c. jwt_parse_access (jwt E) (now w) tok = Some c \<and> uuid_parse (fmt E) (cl_sub c) = Some (u_id u) \<longrightarrow>
       \<not> ok (rpc_validate_token E tok) w) \<and>
    (\<forall>key r. find (\<lambda>r. ak_key_hash r = hash_token (crypto E) key) (api_keys (db w)) = Some r \<and>
       ak_user_id r = u_id u \<longrightarrow> \<not> ok (rpc_validate_api_key E key) w)"
proof -
  have id: "find (\<lambda>x. u_id x = u_id u) (users (db w)) = Some u"
    by (rule find_unique_key [OF assms(1,3) refl])
  have em: "find (\<lambda>x. u_email x = u_email u) (users (db w)) = Some u"
    by (rule find_unique_key [OF assms(2,3) refl])
  have "\<not> ok (rpc_login E (u_email u) password) w"
  proof
    assume "ok (rpc_login E (u_email u) password) w"
    then obtain tp w' where "rpc_login E (u_email u) password w = (Inr tp, w')" using okE by blast
    then show False
      unfolding rpc_login_def get_user_by_email_def using em assms(4)
      by (auto split: if_splits elim!: act_elims)
  qed
  moreover have "\<not> ok (rpc_login_totp E mfa code) w"
    if "jwt_parse (jwt E) (now w) mfa = Some c" "uuid_parse (fmt E) (cl_sub c) = Some (u_id u)" for mfa c
  proof
    assume "ok (rpc_login_totp E mfa code) w"
    then obtain tp w' where "rpc_login_totp E mfa code w = (Inr tp, w')" using okE by blast
    then show False
      unfolding rpc_login_totp_def get_user_by_id_def using id that assms(4)
      by (auto simp: mfa_ready_def elim!: act_elims)
  qed
  moreover have "\<not> ok (rpc_validate_token E tok) w"
    if "jwt_parse_access (jwt E) (now w) tok = Some c" "uuid_parse (fmt E) (cl_sub c) = Some (u_id u)" for tok c
  proof
    assume "ok (rpc_validate_token E tok) w"
    then obtain v w' where "rpc_validate_token E tok w = (Inr v, w')" using okE by blast
    then show False
      unfolding rpc_validate_token_def is_user_active_def using id that assms(4)
      by (auto dest: token_denied_Inr elim!: act_elims)
  qed
  moreover have "\<not> ok (rpc_validate_api_key E key) w"
    if "find (\<lambda>r. ak_key_hash r = hash_token (crypto E) key) (api_keys (db w)) = Some r" "ak_user_id r = u_id u"
    for key r
  proof
    assume "ok (rpc_validate_api_key E key) w"
    then obtain v w' where "rpc_validate_api_key E key w = (Inr v, w')" using okE by blast
    then show False
      unfolding rpc_validate_api_key_def get_api_key_by_hash_def get_user_by_id_def using id that assms(4)
      by (auto elim!: act_elims)
  qed
  ultimately show ?thesis by blast
qed

theorem deleted_identity_is_shut_out_witness:
  "\<not> ok (rpc_login demo_env ''ann@x'' ''longsecret'')
     (demo_world\<lparr>db := demo_db\<lparr>users := [ann\<lparr>u_deleted_at := Some 0\<rparr>, bob]\<rparr>\<rparr>)"
proof -
  let ?u = "ann\<lparr>u_deleted_at := Some 0\<rparr>"
  have "\<not> ok (rpc_login demo_env (u_email ?u) ''longsecret'') (demo_world\<lparr>db := demo_db\<lparr>users := [?u, bob]\<rparr>\<rparr>)"
    by (rule deleted_identity_is_shut_out [THEN conjunct1]) (simp_all add: ann_def bob_def demo_user_def)
  then show ?thesis by (simp add: ann_def demo_user_def)
qed

text \<open>
  C34: one way in is left.  After a soft deletion the identity is marked deleted and has no live
  session, yet a refresh token of it that was rotated less than the grace period ago still yields a
  token pair and a new live session.
\<close>

theorem deleted_identity_refreshes_in_grace:
  assumes "fault_free E" and "rpc_delete_user E md user False w = (Inr b, w1)"
    and "uuid_parse (fmt E) user = Some i" and "distinct (map u_id (users (db w)))"
    and "u \<in> set (users (db w))" and "u_id u = i" and "u_deleted_at u = None"
    and "find (\<lambda>r. rt_token_hash r = hash_token (crypto E) token) (refresh_tokens (db w)) = Some r"
    and "rt_user_id r = i" and "rt_revoked_at r = Some t" and "rotated r" and "within_grace (now w) t"
    and "ok (issue_tokens E i (u_email u) (rt_tenant_id r) (rt_project_id r)) (w1\<lparr>db_calls := db_calls w1 + 2\<rparr>)"
  shows "(\<exists>v. find (\<lambda>u. u_id u = i) (users (db w1)) = Some v \<and> u_deleted_at v = Some (now w)) \<and>
    (\<forall>s\<in>live_sessions (db w1). session_user s \<noteq> i) \<and>
    (\<exists>tp w2. rpc_refresh E token w1 = (Inr tp, w2) \<and>
       session_for i (rt_tenant_id r) (rt_project_id r) (hash_token (crypto E) (refresh_token tp)) (db w2))"
proof -
  let ?h = "hash_token (crypto E) token"
  let ?ev = "\<lambda>f j. \<lparr>ob_id = f, ob_aggregate_id = i, ob_event_type = type_user_deleted (cfg E),
      ob_payload = j, ob_created_at = now w, ob_published_at = None\<rparr>"
  from assms(2,3) obtain p f d2 where
    del: "delete_user_event_soft (jsonb E) f (now w) i False (type_user_deleted (cfg E)) p (db w) = Inr ((), d2)"
    and aud: "audit E md ''user.delete'' user ''soft'' (w\<lparr>db := d2, db_calls := Suc (db_calls w)\<rparr>) = (Inr (), w1)"
    unfolding rpc_delete_user_def by (auto elim!: act_elims)
  from del obtain j where d2: "d2 = (soft_delete_user (now w) i (db w))\<lparr>outbox := outbox (db w) @ [?ev f j]\<rparr>"
    by (auto elim!: delete_user_event_soft_E)
  note same = body_fields [OF audit_md_body [OF aud], simplified]
  have now1: "now w1 = now w" using audit_users(5) [OF aud [unfolded audit_def]] by simp
  have "find (\<lambda>u. u_id u = i) (users (db w)) = Some u"
    by (rule find_unique_key [OF assms(4,5,6)])
  then have user: "find (\<lambda>u. u_id u = i) (users (db w1)) = Some (u\<lparr>u_deleted_at := Some (now w), u_updated_at := now w\<rparr>)"
    using assms(6,7) by (simp add: same d2 soft_delete_user_def find_update_where)
  have row: "find (\<lambda>r. rt_token_hash r = ?h) (refresh_tokens (db w1)) = Some r"
    using assms(8,10) by (simp add: same d2 soft_delete_user_def find_update_where)
  obtain tp w2 where iss: "issue_tokens E i (u_email u) (rt_tenant_id r) (rt_project_id r)
      (w1\<lparr>db_calls := Suc (Suc (db_calls w1))\<rparr>) = (Inr tp, w2)"
    using okE [OF assms(13)] by auto
  have "rpc_refresh E token w1 = (Inr tp, w2)"
    using assms(1,6,9-12) user row iss now1
    by (simp add: rpc_refresh_def get_refresh_token_def get_user_by_id_def reading_def bind_ok_def
        db_try_def run_query_def fault_free_def or_fail_def ret_def with_now_def Let_def)
  moreover have "\<forall>s\<in>live_sessions (db w1). session_user s \<noteq> i"
    using live_soft_delete [of "now w" i "db w"] by (simp add: same d2 live_sessions_def)
  ultimately show ?thesis using user issued_session [OF iss] by simp
qed

text \<open>\<open>bob\<close>'s token \<open>r1\<close> was rotated ten seconds ago.\<close>

definition grace_world :: world where
  "grace_world = demo_world\<lparr>db := demo_db\<lparr>refresh_tokens :=
     [demo_session\<lparr>rt_user_id := 52, rt_revoked_at := Some (990 * second), rt_replaced_by := Some ''hr2''\<rparr>]\<rparr>\<rparr>"

definition admin_md :: metadata where
  "admin_md = ann_md(''x-user-permissions'' \<mapsto> ''user:delete'')"

theorem deleted_identity_refreshes_in_grace_witness:
  "\<exists>w1 tp w2. rpc_delete_user demo_env admin_md ''4'' False grace_world = (Inr True, w1) \<and>
     rpc_refresh demo_env ''r1'' w1 = (Inr tp, w2)"
proof -
  let ?w1 = "snd (rpc_delete_user demo_env admin_md ''4'' False grace_world)"
  have ok: "ok (rpc_delete_user demo_env admin_md ''4'' False) grace_world"
    by (simp add: admin_md_def grace_world_def session_data demo_runs cong: run_weak)
  then obtain b where run: "rpc_delete_user demo_env admin_md ''4'' False grace_world = (Inr b, ?w1)"
    using okE by fastforce
  then have b: "b" unfolding rpc_delete_user_def by (auto split del: if_split elim!: act_elims)
  have iss: "ok (issue_tokens demo_env 52 ''bob@x'' 1 (Some 60)) (?w1\<lparr>db_calls := db_calls ?w1 + 2\<rparr>)"
    by (simp add: admin_md_def grace_world_def session_data demo_runs cong: run_weak)
  have "\<exists>tp w2. rpc_refresh demo_env ''r1'' ?w1 = (Inr tp, w2) \<and> session_for 52 1 (Some 60)
      (hash_token (crypto demo_env) (refresh_token tp)) (db w2)"
    using deleted_identity_refreshes_in_grace [OF _ run, of 52 bob "''r1''"
        "demo_session\<lparr>rt_user_id := 52, rt_revoked_at := Some (990 * second), rt_replaced_by := Some ''hr2''\<rparr>"
        "990 * second"] iss
    by (simp add: grace_world_def demo_session_def demo_world_def demo_db_def demo_text_def read_uuid_def
        ann_def bob_def demo_user_def hash_token_def demo_crypto_def rotated_def within_grace_def
        refresh_rotation_grace_secs_def second_def)
  with run b show ?thesis by auto
qed

end
