(* ===== verification/SecretProps.thy ===== *)
theory SecretProps
  imports AccountProps
begin

text \<open>
  Passwords and second factors: a reset token works once and ends the sessions, and what enrolment
  stores is what the second step of a login checks.
\<close>

section \<open>Resetting a password\<close>

lemma spent_reset:
  assumes "consume_password_reset t h d = Inr (x, d')" and "t \<le> t'"
  shows "\<not> exists_where (spendable_token t' h) (password_resets d')"
proof -
  have "\<forall>r\<in>set (update_where (spendable_token t h) (\<lambda>r. r\<lparr>ot_consumed_at := Some t\<rparr>) (password_resets d)).
      \<not> spendable_token t' h r"
    using assms(2) by (intro update_where_all) (auto simp: spendable_token_def)
  with assms(1) show ?thesis by (auto simp: exists_where_iff elim!: consume_password_reset_E)
qed

lemma reset_owner:
  assumes "consume_password_reset t h d = Inr (Some i, d')"
  shows "\<exists>r\<in>set (password_resets d). spendable_token t h r \<and> i = ot_user_id r"
proof -
  from assms have "map_option ot_user_id (find (spendable_token t h) (password_resets d)) = Some i"
    by (rule consume_password_reset_E) simp
  then show ?thesis by (auto dest: find_SomeD)
qed

text \<open>
  C17: a password is reset only to one of at least eight bytes and with an unexpired, unused token;
  the user that the token was issued for gets the new hash, all sessions of that user and of no
  other end, and the token is spent: it is refused from then on.
\<close>

theorem reset_works_once:
  assumes "fault_free E" and "rpc_reset_password E token password w = (Inr b, w1)"
  shows "8 \<le> length password \<and> (\<exists>r\<in>set (password_resets (db w)). \<exists>hash n.
      spendable_token (now w) (hash_token (crypto E) token) r \<and>
      pw_hash (crypto E) n password = Some hash \<and>
      users (db w1) = users (update_user (ot_user_id r)
        (\<lambda>u. u\<lparr>u_password_hash := hash, u_updated_at := now w\<rparr>) (db w)) \<and>
      live_sessions (db w1) = {s \<in> live_sessions (db w). session_user s \<noteq> ot_user_id r}) \<and>
    (\<forall>password' t. now w \<le> t \<longrightarrow> \<not> ok (rpc_reset_password E token password') (w1\<lparr>now := t\<rparr>))"
proof -
  let ?h = "hash_token (crypto E) token"
  obtain i d1 n hash w2 w3 w4 where len: "\<not> length password < 8"
    and use: "consume_password_reset (now w) ?h (db w) = Inr (Some i, d1)"
    and hash: "pw_hash (crypto E) n password = Some hash"
    and w2: "w2 = w\<lparr>draws := Suc n, db := update_user i (\<lambda>u. u\<lparr>u_password_hash := hash, u_updated_at := now w\<rparr>) d1,
      db_calls := Suc (Suc (db_calls w))\<rparr>"
    and rev: "db_ignore E (revoke_all_user_refresh_tokens (now w) i) w2 = (Inr (), w3)"
    and aud: "audit_as E (uuid_show (fmt E) i) [] ''password.reset'' [] [] None w3 = (Inr (), w1)"
    using assms(2) unfolding rpc_reset_password_def update_password_def
    by (auto elim!: act_elims)
  have w3: "w3 = w2\<lparr>db := (db w2)\<lparr>refresh_tokens := update_where
      (\<lambda>r. rt_user_id r = i \<and> rt_revoked_at r = None) (\<lambda>r. r\<lparr>rt_revoked_at := Some (now w)\<rparr>)
      (refresh_tokens (db w2))\<rparr>, db_calls := db_calls w2 + 1\<rparr>"
    using db_ignore_fine_Inr [OF assms(1) rev [unfolded revoke_all_user_refresh_tokens_def]] .
  note same = body_fields [OF audit_body [OF aud], simplified]
  from reset_owner [OF use] obtain r where r: "r \<in> set (password_resets (db w))"
    "spendable_token (now w) ?h r" "i = ot_user_id r" by blast
  from use have d1: "d1 = (db w)\<lparr>password_resets := update_where (spendable_token (now w) ?h)
       (\<lambda>r. r\<lparr>ot_consumed_at := Some (now w)\<rparr>) (password_resets (db w))\<rparr>"
    by (rule consume_password_reset_E)
  have users: "users (db w1) = users (update_user i
      (\<lambda>u. u\<lparr>u_password_hash := hash, u_updated_at := now w\<rparr>) (db w))"
    by (simp add: same w3 w2 d1 update_user_def)
  have "live_sessions (db w3) = {s \<in> live_sessions (db w2). session_user s \<noteq> i}"
    by (rule live_revoke_all [of "now w" i "db w2"]) (simp add: w3 revoke_all_user_refresh_tokens_def writing_def)
  moreover have "live_sessions (db w2) = live_sessions (db w)"
    by (simp add: w2 d1 update_user_def live_sessions_def)
  ultimately have live: "live_sessions (db w1) = {s \<in> live_sessions (db w). session_user s \<noteq> i}"
    by (simp add: same)
  have "\<not> ok (rpc_reset_password E token password') (w1\<lparr>now := t\<rparr>)" if "now w \<le> t" for password' t
  proof
    assume "ok (rpc_reset_password E token password') (w1\<lparr>now := t\<rparr>)"
    then obtain x w' where "rpc_reset_password E token password' (w1\<lparr>now := t\<rparr>) = (Inr x, w')"
      using okE by blast
    then obtain j d where "consume_password_reset t ?h (db w1) = Inr (Some j, d)"
      unfolding rpc_reset_password_def by (auto elim!: act_elims)
    from reset_owner [OF this] have "exists_where (spendable_token t ?h) (password_resets (db w1))"
      by (auto simp: exists_where_iff)
    moreover have "password_resets (db w1) = password_resets d1"
      by (simp add: same w3 w2 update_user_def)
    ultimately show False using spent_reset [OF use that] by simp
  qed
  with len r hash users live show ?thesis by auto
qed

definition reset_row :: one_time_row where
  "reset_row = \<lparr>ot_token_hash = ''htok'', ot_user_id = 51, ot_expires_at = 2000 * second, ot_consumed_at = None\<rparr>"

definition reset_world :: world where
  "reset_world = demo_world\<lparr>db := demo_db\<lparr>password_resets := [reset_row]\<rparr>\<rparr>"

theorem reset_works_once_witness:
  "\<exists>w1. rpc_reset_password demo_env ''tok'' ''new-secret'' reset_world = (Inr True, w1) \<and>
     \<not> ok (rpc_reset_password demo_env ''tok'' ''other-secret'') (w1\<lparr>now := 1500 * second\<rparr>)"
proof -
  have "case fst (rpc_reset_password demo_env ''tok'' ''new-secret'' reset_world) of Inr b \<Rightarrow> b | Inl _ \<Rightarrow> False"
    by (simp add: reset_world_def reset_row_def demo_runs cong: run_weak)
  then obtain w1 where run: "rpc_reset_password demo_env ''tok'' ''new-secret'' reset_world = (Inr True, w1)"
    by (cases "rpc_reset_password demo_env ''tok'' ''new-secret'' reset_world") (auto split: sum.splits)
  have "now reset_world \<le> 1500 * second" by (simp add: reset_world_def demo_world_def second_def)
  with reset_works_once [OF demo_fault_free run] run show ?thesis by blast
qed

section \<open>Enrolling a second factor\<close>

lemma stored_codes:
  "store_recovery_codes E i cs w = (Inr x, w') \<Longrightarrow>
   (\<exists>new. recovery_codes (db w') = recovery_codes (db w) @ new \<and>
      map (\<lambda>r. (rc_user_id r, rc_code_hash r, rc_used_at r)) new =
        map (\<lambda>c. (i, hash_token (crypto E) c, None)) cs) \<and> users (db w') = users (db w)"
proof (induction cs arbitrary: w)
  case Nil
  then show ?case by (auto elim!: act_elims)
next
  case (Cons c cs)
  then obtain d where ins: "insert_recovery_code i (hash_token (crypto E) c) (db w) = Inr ((), d)"
    and rest: "store_recovery_codes E i cs (w\<lparr>db := d, db_calls := Suc (db_calls w)\<rparr>) = (Inr x, w')"
    by (auto elim!: act_elims)
  from ins have d: "recovery_codes d = recovery_codes (db w) @ [\<lparr>rc_id = recovery_seq (db w), rc_user_id = i,
      rc_code_hash = hash_token (crypto E) c, rc_used_at = None\<rparr>]" "users d = users (db w)"
    by (auto elim!: insert_recovery_code_E)
  from Cons.IH [OF rest] obtain new where
    "recovery_codes (db w') = recovery_codes d @ new" "users (db w') = users d"
    "map (\<lambda>r. (rc_user_id r, rc_code_hash r, rc_used_at r)) new = map (\<lambda>c. (i, hash_token (crypto E) c, None)) cs"
    by auto
  with d show ?case by auto
qed

lemma codes_spendable:
  assumes "recovery_codes d' = delete_where (\<lambda>r. rc_user_id r = i) rows @ new"
    and "map (\<lambda>r. (rc_user_id r, rc_code_hash r, rc_used_at r)) new = map (\<lambda>c. (i, f c, None)) cs"
  shows "exists_where (spendable_code i h) (recovery_codes d') \<longleftrightarrow> h \<in> f ` set cs"
proof -
  have "exists_where (spendable_code i h) (recovery_codes d') \<longleftrightarrow>
      (i, h, None) \<in> (\<lambda>r. (rc_user_id r, rc_code_hash r, rc_used_at r)) ` set new"
    by (auto simp: assms(1) exists_where_iff spendable_code_def image_iff)
  also have "\<dots> \<longleftrightarrow> h \<in> f ` set cs"
    using arg_cong [OF assms(2), of set] by (auto simp: image_iff)
  finally show ?thesis .
qed

lemma encrypt_secret_decrypts:
  assumes "encrypt_secret E pt w = (Inr (Inr stored), w')"
    and "\<forall>n k. length (rnd_bytes (rand E) n k) = k" and "b64_inverse (crypto E)" and "aes_correct (crypto E)"
    and "valid_utf8 pt" and "strip_prefix enc_prefix pt = None"
  shows "decrypt (crypto E) (totp_cipher E) stored = Inr pt"
    and "totp_cipher E \<noteq> None \<Longrightarrow> strip_prefix enc_prefix stored \<noteq> None"
  using assms(1)
  by (auto simp: encrypt_secret_def encrypt_def decrypt_plain assms(6) dest!: encrypt_prefix split: option.splits
      elim!: act_elims intro!: decrypt_encrypt [OF assms(3,4) _ assms(5)] simp: assms(2))

text \<open>
  C18: enrolment gives the caller a secret and ten recovery codes of the form \<open>xxxx-xxxx\<close>.  What is
  stored, encrypted when a key is configured, decrypts to that very secret; the caller's spendable
  codes are exactly the ten returned ones; and the second factor is not active yet.
\<close>

theorem enrolment_round_trip:
  assumes "fault_free E" and "rpc_enroll_totp E md w = (Inr e, w1)" and "caller_uuid E md = Inr i"
    and "\<forall>n k. length (rnd_bytes (rand E) n k) = k" and "b64_inverse (crypto E)" and "aes_correct (crypto E)"
    and "valid_utf8 (en_secret e)" and "strip_prefix enc_prefix (en_secret e) = None"
  shows "(\<exists>v. find (\<lambda>u. u_id u = i) (users (db w1)) = Some v \<and> stored_secret E v = en_secret e \<and>
      u_totp_secret v \<noteq> None \<and> \<not> u_totp_enabled v \<and>
      (totp_cipher E \<noteq> None \<longrightarrow> (\<exists>body. u_totp_secret v = Some (enc_prefix @ body)))) \<and>
    length (en_recovery_codes e) = 10 \<and> (\<forall>c\<in>set (en_recovery_codes e). recovery_code_format c) \<and>
    (\<forall>h. exists_where (spendable_code i h) (recovery_codes (db w1)) \<longleftrightarrow>
       h \<in> hash_token (crypto E) ` set (en_recovery_codes e))"
proof -
  obtain u w2 w3 w4 stored w5 w6 where
    u: "find (\<lambda>u. u_id u = i) (users (db w)) = Some u"
    and codes: "generate_recovery_codes E 10 w2 = (Inr (en_recovery_codes e), w3)"
    and enc: "encrypt_secret E (en_secret e) w3 = (Inr (Inr stored), w4)"
    and del: "db_ignore E (delete_recovery_codes i) (w4\<lparr>db := update_user i
        (\<lambda>u. u\<lparr>u_totp_secret := Some stored, u_totp_enabled := False, u_updated_at := now w4\<rparr>) (db w4),
        db_calls := Suc (db_calls w4)\<rparr>) = (Inr (), w5)"
    and store: "store_recovery_codes E i (en_recovery_codes e) w5 = (Inr (), w6)"
    and aud: "audit E md ''totp.enroll'' [] [] w6 = (Inr (), w1)"
    and w2: "\<exists>g. totp_generate E (u_email u) (w\<lparr>db_calls := Suc (db_calls w)\<rparr>) = (g, w2)"
    using assms(2,3) unfolding rpc_enroll_totp_def get_user_by_id_def set_totp_secret_def
    by (auto split: sum.splits elim!: act_elims)
  let ?f = "\<lambda>u. u\<lparr>u_totp_secret := Some stored, u_totp_enabled := False, u_updated_at := now w4\<rparr>"
  from w2 obtain g where "totp_generate E (u_email u) (w\<lparr>db_calls := Suc (db_calls w)\<rparr>) = (g, w2)" ..
  from unchangedD [OF unchanged.totp_generate this] have d4: "db w4 = db w"
    using unchangedD [OF unchanged.generate_recovery_codes codes] unchangedD [OF unchanged.encrypt_secret enc]
    by simp
  have d5: "db w5 = (update_user i ?f (db w))\<lparr>recovery_codes :=
      delete_where (\<lambda>r. rc_user_id r = i) (recovery_codes (db w))\<rparr>"
    using db_ignore_fine_Inr [OF assms(1) del [unfolded delete_recovery_codes_def]]
    by (simp add: d4 update_user_def)
  from stored_codes [OF store] obtain new where
    new: "recovery_codes (db w6) = recovery_codes (db w5) @ new" "users (db w6) = users (db w5)"
      "map (\<lambda>r. (rc_user_id r, rc_code_hash r, rc_used_at r)) new =
         map (\<lambda>c. (i, hash_token (crypto E) c, None)) (en_recovery_codes e)" by auto
  note same = body_fields [OF audit_md_body [OF aud], simplified]
  have user: "find (\<lambda>u. u_id u = i) (users (db w1)) = Some (?f u)"
    using u find_SomeD [OF u] by (simp add: same new(2) d5 update_user_def find_update_where)
  note decr = encrypt_secret_decrypts [OF enc assms(4-8)]
  have "stored_secret E (?f u) = en_secret e"
    by (simp add: stored_secret_def decr(1))
  moreover have "\<exists>body. stored = enc_prefix @ body" if "totp_cipher E \<noteq> None"
    using decr(2) [OF that] append_take_drop_id [of "length enc_prefix" stored]
    by (auto simp: strip_prefix_def split: if_splits) (metis append_take_drop_id)
  moreover have "exists_where (spendable_code i h) (recovery_codes (db w1)) \<longleftrightarrow>
      h \<in> hash_token (crypto E) ` set (en_recovery_codes e)" for h
    by (rule codes_spendable [OF _ new(3)]) (simp add: same new(1) d5 update_user_def)
  moreover note generate_recovery_codes_Inr [OF codes]
  ultimately show ?thesis using user by auto
qed

definition sealed_env :: env where
  "sealed_env = demo_env\<lparr>totp_cipher := Some ''key''\<rparr>"

lemma store_recovery_codes_ok:
  "fault_free E \<Longrightarrow> has_user i (db w) \<Longrightarrow> ok (store_recovery_codes E i cs) w"
proof (induction cs arbitrary: w)
  case Nil
  then show ?case by (simp add: ok_def ret_apply)
next
  case (Cons c cs)
  let ?d = "(db w)\<lparr>recovery_codes := recovery_codes (db w) @ [\<lparr>rc_id = recovery_seq (db w), rc_user_id = i,
      rc_code_hash = hash_token (crypto E) c, rc_used_at = None\<rparr>], recovery_seq := recovery_seq (db w) + 1\<rparr>"
  have step: "db_try E (Status Internal ''failed to store recovery code'') (insert_recovery_code i (hash_token (crypto E) c)) w
      = (Inr (), w\<lparr>db := ?d, db_calls := db_calls w + 1\<rparr>)"
    using Cons.prems by (simp add: db_try_fine insert_recovery_code_def)
  show ?case
    unfolding store_recovery_codes.simps
    by (rule ok_bind, rule step, rule Cons.IH) (use Cons.prems in \<open>simp_all add: has_user_def\<close>)
qed

lemma audit_succeeds: "ok (audit E md a t d) w"
proof -
  have "ok (db_ignore E q) v" for q :: "unit query" and v
    by (auto simp: ok_def db_ignore_def db_ok_def bind_ok_def ret_def split: prod.splits sum.splits)
  then show ?thesis by (simp add: audit_def audit_as_def ok_def with_now_def ret_def)
qed

lemma sealed_sel [simp]:
  "crypto sealed_env = demo_crypto" "rand sealed_env = demo_random" "fmt sealed_env = demo_text"
  "totp sealed_env = demo_totp" "cfg sealed_env = demo_config" "totp_cipher sealed_env = Some ''key''"
  "fault_free sealed_env"
  by (simp_all add: sealed_env_def fault_free_def)

lemma sealed_generate:
  "totp_generate sealed_env a w =
     (Inr (Some \<lparr>gs_base32 = [letter (draws w)], gs_otpauth_uri = [letter (draws w)]\<rparr>), w\<lparr>draws := draws w + 1\<rparr>)"
  by (simp add: totp_generate_def [THEN fun_cong] demo_totp_def bind_ok_apply draw_apply ret_apply)

lemma sealed_encrypt: "\<exists>s. encrypt_secret sealed_env pt w = (Inr (Inr s), w\<lparr>draws := draws w + 1\<rparr>)"
  by (simp add: encrypt_secret_def [THEN fun_cong] encrypt_def demo_crypto_def bind_ok_apply draw_apply ret_apply)

lemma enrol_ok: "ok (rpc_enroll_totp sealed_env ann_md) demo_world"
proof -
  have user: "find (\<lambda>u. u_id u = 51) (users (db demo_world)) = Some ann"
    and off: "\<not> u_totp_enabled ann"
    by (simp_all add: demo_data)
  define w1 where "w1 = demo_world\<lparr>db_calls := Suc (db_calls demo_world), draws := Suc (draws demo_world)\<rparr>"
  have "draws_in_range sealed_env" by (simp add: draws_in_range_def demo_random_def)
  then obtain cs w2 where codes: "generate_recovery_codes sealed_env 10 w1 = (Inr cs, w2)"
    using okE [OF generate_recovery_codes_ok] by blast
  obtain stored where enc: "encrypt_secret sealed_env [letter (draws demo_world)] w2 = (Inr (Inr stored), w2\<lparr>draws := Suc (draws w2)\<rparr>)"
    using sealed_encrypt [of _ w2] by auto
  have d2: "db w2 = demo_db"
    using unchangedD [OF unchanged.generate_recovery_codes codes] by (simp add: w1_def demo_world_def)
  define w3 where "w3 = w2\<lparr>draws := Suc (draws w2)\<rparr>"
  define w4 where "w4 = w3\<lparr>db := update_user 51 (\<lambda>u. u\<lparr>u_totp_secret := Some stored, u_totp_enabled := False,
      u_updated_at := now w3\<rparr>) demo_db, db_calls := Suc (db_calls w3)\<rparr>"
  define w5 where "w5 = w4\<lparr>db := (db w4)\<lparr>recovery_codes := []\<rparr>, db_calls := Suc (db_calls w4)\<rparr>"
  have "has_user 51 (db w5)"
    by (simp add: w5_def w4_def update_user_def has_user_def exists_where_iff demo_data)
  then obtain u w6 where store: "store_recovery_codes sealed_env 51 cs w5 = (Inr u, w6)"
    using okE [OF store_recovery_codes_ok] by force
  obtain v w7 where aud: "audit sealed_env ann_md ''totp.enroll'' [] [] w6 = (Inr v, w7)"
    using okE [OF audit_succeeds] by blast
  have set: "set_totp_secret (now w3) 51 stored (db w3) = Inr ((), db w4)"
    by (simp add: set_totp_secret_def writing_def w4_def w3_def d2)
  have del: "delete_recovery_codes 51 (db w4) = Inr ((), db w5)"
    by (simp add: delete_recovery_codes_def writing_def w5_def w4_def update_user_def demo_db_def)
  have w45: "w3\<lparr>db := db w4, db_calls := Suc (db_calls w3)\<rparr> = w4" "w4\<lparr>db := db w5, db_calls := Suc (db_calls w4)\<rparr> = w5"
    by (simp_all add: w4_def w5_def)
  have mine: "caller_uuid sealed_env ann_md = Inr 51"
    by (simp add: caller_uuid_def demo_runs)
  show ?thesis
    unfolding rpc_enroll_totp_def mine get_user_by_id_def
    by (simp add: ok_def bind_ok_apply lift_sum_apply db_try_fine db_ignore_fine reading_def user off or_fail_apply require_apply
      sealed_generate codes [unfolded w1_def] enc store aud ret_apply with_now_apply set del
      w45 flip: w3_def)
qed

lemma enrol_secret: "rpc_enroll_totp sealed_env md w = (Inr e, w') \<Longrightarrow> \<exists>n. en_secret e = [letter n]"
  unfolding rpc_enroll_totp_def by (auto simp: sealed_generate elim!: act_elims split: sum.splits)

lemma letter_plain: "valid_utf8 [letter n]" "strip_prefix enc_prefix [letter n] = None"
proof -
  have "n mod 26 < 26" by simp
  then have "byte (letter n) < 128" by (simp add: letter_def byte_def)
  then show "valid_utf8 [letter n]" by simp
qed (simp add: strip_prefix_def enc_prefix_def)

theorem enrolment_round_trip_witness:
  "\<exists>e w1. rpc_enroll_totp sealed_env ann_md demo_world = (Inr e, w1) \<and>
     length (en_recovery_codes e) = 10 \<and>
     (\<exists>v. find (\<lambda>u. u_id u = 51) (users (db w1)) = Some v \<and> stored_secret sealed_env v = en_secret e)"
proof -
  obtain e w1 where run: "rpc_enroll_totp sealed_env ann_md demo_world = (Inr e, w1)"
    using okE [OF enrol_ok] by blast
  from enrol_secret [OF this] have e: "valid_utf8 (en_secret e)" "strip_prefix enc_prefix (en_secret e) = None"
    by (metis letter_plain)+
  have "fault_free sealed_env" "caller_uuid sealed_env ann_md = Inr 51"
    "\<forall>n k. length (rnd_bytes (rand sealed_env) n k) = k" "b64_inverse (crypto sealed_env)"
    "aes_correct (crypto sealed_env)"
    by (simp_all add: sealed_env_def fault_free_def caller_uuid_def b64_inverse_def aes_correct_def
        strip_prefix_append demo_runs)
  from enrolment_round_trip [OF this(1) run this(2-5) e] run show ?thesis by blast
qed

end
