(* ===== verification/CacheProps.thy ===== *)
theory CacheProps
  imports TokenProps
begin

text \<open>
  The permission cache: every request ends although \<open>invalidate_perms\<close> loops on Redis cursors, a
  change of roles takes effect at once, and a change of a role's permissions does not.
\<close>

section \<open>Every request ends\<close>

definition ends :: "'a act \<Rightarrow> bool" where
  "ends m \<longleftrightarrow> (\<forall>w. fst (m w) \<noteq> Inl Hang)"

lemma ends_basic:
  "ends (ret x)" "ends (draw f)" "ends (send_mail a sub body)" "ends (now_plus E n)" "ends (db_ok E q)"
  "e \<noteq> Hang \<Longrightarrow> ends (fail e)" "e \<noteq> Hang \<Longrightarrow> ends (or_fail e opt)" "e \<noteq> Hang \<Longrightarrow> ends (require b e)"
  "s \<noteq> Inl Hang \<Longrightarrow> ends (lift_sum s)" "e \<noteq> Hang \<Longrightarrow> ends (db_try E e q)"
  by (auto simp: ends_def ret_def draw_def send_mail_def now_plus_def with_now_def fail_def or_fail_def
      require_def lift_sum_def db_try_def db_ok_def split: option.split sum.splits prod.splits)

lemma ends_bind:
  assumes "ends m" and "\<And>x. ends (f x)"
  shows "ends (bind_ok m f)"
  unfolding ends_def
proof
  fix w
  obtain r w' where m: "m w = (r, w')" by (cases "m w")
  have "r \<noteq> Inl Hang" using assms(1) m by (metis ends_def fst_conv)
  then show "fst (bind_ok m f w) \<noteq> Inl Hang"
    using assms(2) m by (cases r) (auto simp: bind_ok_def ends_def)
qed

lemma ends_db_ignore: "ends (db_ignore E q)"
  unfolding db_ignore_def by (intro ends_bind ends_basic)

lemma ends_reads:
  "(\<And>t. ends (f t)) \<Longrightarrow> ends (with_now f)" "(\<And>n. ends (g n)) \<Longrightarrow> ends (with_call g)"
  by (simp_all add: ends_def with_now_def with_call_def)

lemma ends_cases:
  "(c \<Longrightarrow> ends m) \<Longrightarrow> (\<not> c \<Longrightarrow> ends n) \<Longrightarrow> ends (if c then m else n)"
  "(x = None \<Longrightarrow> ends m) \<Longrightarrow> (\<And>y. x = Some y \<Longrightarrow> ends (k y)) \<Longrightarrow>
   ends (case x of None \<Rightarrow> m | Some y \<Rightarrow> k y)"
  "(\<And>y. s = Inl y \<Longrightarrow> ends (g y)) \<Longrightarrow> (\<And>y. s = Inr y \<Longrightarrow> ends (h y)) \<Longrightarrow>
   ends (case s of Inl y \<Rightarrow> g y | Inr y \<Rightarrow> h y)"
  "(\<And>a b. p = (a, b) \<Longrightarrow> ends (q a b)) \<Longrightarrow> ends (case p of (a, b) \<Rightarrow> q a b)"
  "(\<And>y. ends (l y)) \<Longrightarrow> ends (Let z l)"
  by (simp_all split: option.split sum.split prod.split)

lemma ends_checks:
  "ends (require_perm md p)" "ends (lift_sum (caller_uuid E md))" "ends (lift_sum (active_tenant E md))"
  "ends (lift_sum (parse_opt_project E s))" "ends (check_internal tok opt md)"
  by (auto simp: require_perm_def caller_uuid_def active_tenant_def parse_opt_project_def
      check_internal_def Let_def split: option.split intro!: ends_basic)

lemma ends_set_ex: "ends (set_ex E k v ttl)"
  by (simp add: ends_def set_ex_def)

lemma ends_cache:
  "ends (cache_deny E j ttl)" "ends (cache_is_denied E j)" "ends (cache_get_perms E t p u)"
  "ends (cache_set_perms E t p u ps)"
  by (auto simp: cache_deny_def cache_is_denied_def cache_get_perms_def cache_set_perms_def
      ends_set_ex ends_basic split: option.split) (simp_all add: ends_def)

lemmas end_rules = ends_basic ends_bind ends_db_ignore ends_reads ends_cases ends_checks ends_cache

lemma ends_helpers:
  "ends (gen_hex E n)" "ends (gen_refresh_token E)" "ends (audit_as E a em ac tg de ten)"
  "ends (audit E md ac tg de)" "ends (issue_tokens E i em tn pr)" "ends (issue_for_active_tenant E i em)"
  "ends (validate_assign E r p tn)" "ends (perm_role_guard E r tn)" "ends (encrypt_secret E s)"
  "ends (totp_generate E a)" "ends (count_failure E i em de)"
  unfolding gen_hex_def gen_refresh_token_def audit_def audit_as_def issue_for_active_tenant_def
    issue_tokens_def validate_assign_def perm_role_guard_def encrypt_secret_def totp_generate_def
    count_failure_def
  by (intro end_rules; simp)+

lemmas end_steps = end_rules ends_helpers

lemma ends_loops:
  "ends (store_recovery_codes E i cs)" "ends (gen_chars E k)" "ends (generate_recovery_codes E k)"
  "ends (jwks_of C rows)"
proof -
  show chars: "ends (gen_chars E k)" for k
    by (induction k) (auto intro!: end_steps)
  show "ends (generate_recovery_codes E k)"
    by (induction k) (auto simp: gen_recovery_code_def intro!: end_steps chars)
  show "ends (store_recovery_codes E i cs)"
    by (induction cs) (auto intro!: end_steps)
  show "ends (jwks_of C rows)"
    by (induction rows) (auto intro!: end_steps)
qed

text \<open>Redis is not used, or its \<open>SCAN\<close> has the termination its documentation guarantees and its \<open>DEL\<close>
  deletes no other keys; either command may fail at any time.\<close>

definition scans_end :: "env \<Rightarrow> bool" where
  "scans_end E \<longleftrightarrow> (cache_conn E \<longrightarrow> scan_ends (redis_api E) \<and> del_only (redis_api E))"

lemma ends_invalidate: "scans_end E \<Longrightarrow> ends (cache_invalidate_perms E u)"
  using scan_del_ends [of E "perms_pattern u"]
  by (auto simp: ends_def cache_invalidate_perms_def scans_end_def split: option.split)

lemma ends_assign_each: "scans_end E \<Longrightarrow> ends (assign_each E n ten pr us k fs)"
  by (induction us arbitrary: k fs) (auto simp: assign_one_def intro!: end_steps ends_invalidate)

lemma ends_done: "ends m \<Longrightarrow> ends (done_with m)"
  unfolding done_with_def by (intro end_rules)

lemmas open_rpc_defs = rpc_get_jwks_def rpc_get_client_def rpc_register_client_def
  rpc_create_authorization_code_def rpc_exchange_authorization_code_def exchange_find_def
  exchange_finish_def rpc_get_consent_def
  rpc_save_consent_def rpc_register_def rpc_login_def rpc_login_totp_def second_factor_ok_def
  rpc_refresh_def rpc_logout_def rpc_validate_token_def token_denied_def token_tenant_def
  token_project_def load_permissions_def rpc_list_my_memberships_def rpc_switch_tenant_def
  rpc_delete_user_def rpc_restore_user_def rpc_request_email_verification_def rpc_verify_email_def
  rpc_request_password_reset_def rpc_reset_password_def rpc_change_password_def
  rpc_list_audit_events_def rpc_enroll_totp_def rpc_get_totp_status_def rpc_activate_totp_def
  rpc_disable_totp_def rpc_create_api_key_def rpc_list_api_keys_def rpc_revoke_api_key_def
  rpc_validate_api_key_def

lemmas admin_rpc_defs = rpc_create_tenant_def rpc_list_tenants_def rpc_create_project_def
  rpc_list_projects_def rpc_add_member_def rpc_remove_member_def rpc_list_members_def
  rpc_create_role_def rpc_update_role_def rpc_delete_role_def rpc_list_roles_def
  rpc_assign_role_def rpc_assign_role_bulk_def rpc_revoke_role_def
  rpc_get_user_role_assignments_def rpc_list_permissions_def rpc_grant_permission_def
  rpc_revoke_permission_def

text \<open>
  C22: every request ends, whatever the database does and whichever calls of the database, of NATS and
  of Redis fail: the answer is a response, a status or a panic.  Where Redis is used this rests on the
  termination the documentation of \<open>SCAN\<close> guarantees, that no iteration over a collection of bounded
  size is endless, and on \<open>DEL\<close> adding no keys.
\<close>

theorem requests_end:
  assumes "scans_end E" and "dp_env D = E"
  shows "fst (serve D md rq w) \<noteq> Inl Hang"
proof -
  have "ends (handle E md rq)"
    by (cases rq)
      (simp_all only: handle.simps,
       (unfold open_rpc_defs admin_rpc_defs invalid_grant_def password_too_short_def,
        intro ends_done end_steps ends_loops ends_assign_each ends_invalidate assms(1); simp)+)
  then have "ends (serve D md rq)"
    unfolding serve_def assms(2) by (intro end_rules)
  then show ?thesis by (simp add: ends_def)
qed

text \<open>The store of the demonstration is iterated in one call.\<close>

lemma demo_scan:
  "scan_ends demo_redis" "scan_complete demo_redis" "del_only demo_redis" "answered demo_redis m m'"
proof -
  show "scan_ends demo_redis"
    by (auto simp: scan_ends_def endless_scan_def demo_redis_def)
  have "xs \<noteq> [] \<and> (\<forall>(s, ks)\<in>set xs. ks = filter (star_match pat) (map fst s))" if "full_scan demo_redis pat c xs"
    for pat c xs
    using that by induction (auto simp: demo_redis_def)
  then show "scan_complete demo_redis"
    unfolding scan_complete_def by (fastforce simp: stored_keys_def neq_Nil_conv)
  show "del_only demo_redis"
    by (auto simp: del_only_def demo_redis_def stored_keys_def entries_def intro: filter_cong)
  show "answered demo_redis m m'"
    by (auto simp: answered_def demo_redis_def stored_keys_def)
qed

text \<open>A Redis on which every other command fails.\<close>

definition failing_env :: env where
  "failing_env = redis_env\<lparr>redis_api := demo_redis\<lparr>
     rd_scan := (\<lambda>n t c pat k s. if even n then None else rd_scan demo_redis n t c pat k s),
     rd_del := (\<lambda>n ks s. if even n then s else rd_del demo_redis n ks s)\<rparr>\<rparr>"

lemma failing_scans_end: "scans_end failing_env"
proof -
  have "scan_ends (redis_api failing_env)"
    by (auto simp: scan_ends_def endless_scan_def failing_env_def demo_redis_def split: if_splits)
  moreover have "del_only (redis_api failing_env)"
    using demo_scan(3) by (simp add: del_only_def failing_env_def)
  ultimately show ?thesis by (simp add: scans_end_def)
qed

theorem requests_end_witness:
  "fst (serve (demo_deployment\<lparr>dp_env := failing_env\<rparr>) ann_md (Assign_role ''4'' ''editor'' []) demo_world)
     \<noteq> Inl Hang"
  by (rule requests_end [OF failing_scans_end]) simp

section \<open>A change of roles takes effect at once\<close>

lemma audit_redis: "audit E md ac tg de w = (r, w') \<Longrightarrow> redis w' = redis w"
  unfolding audit_def by (rule audit_redis_as)

definition uncached :: "env \<Rightarrow> string \<Rightarrow> world \<Rightarrow> bool" where
  "uncached E u w \<longleftrightarrow> (cache_conn E \<longrightarrow> (\<forall>k\<in>stored_keys (redis w). \<not> star_match (perms_pattern u) k))"

lemma invalidate_uncached:
  assumes "cache_invalidate_perms E u w = (Inr x, w')"
    and "cache_conn E \<longrightarrow> scan_complete (redis_api E) \<and> answered (redis_api E) (redis_calls w) (redis_calls w')"
  shows "uncached E u w'"
  using assms scan_del_leaves_none
  by (auto simp: uncached_def cache_invalidate_perms_def split: if_splits option.splits)

lemma uncached_same: "redis w' = redis w \<Longrightarrow> uncached E u w' = uncached E u w"
  by (simp add: uncached_def)

lemma redis_calls_kept:
  "audit E md ac tg de w = (r, w') \<Longrightarrow> redis_calls w' = redis_calls w"
  "validate_assign E n p ten w = (Inr y, w') \<Longrightarrow> redis_calls w' = redis_calls w"
  by (auto simp: audit_def audit_as_def with_now_def db_ignore_def bind_ok_def db_ok_def run_query_def
      ret_def Let_def split: if_splits fault.splits sum.splits prod.splits)
    (auto simp: validate_assign_def split: option.splits if_splits elim!: act_elims)

lemma role_change_uncached:
  assumes "rpc_assign_role E md u n p w = (Inr b, w') \<or> rpc_revoke_role E md u n p w = (Inr b, w')"
    and "cache_conn E \<longrightarrow> scan_complete (redis_api E) \<and> answered (redis_api E) (redis_calls w) (redis_calls w')"
  shows "uncached E u w'"
  using assms unfolding rpc_assign_role_def rpc_revoke_role_def
  by (elim disjE act_elims)
    (simp_all add: uncached_same [OF audit_redis] invalidate_uncached redis_calls_kept)

lemma token_denied_redis: "token_denied E j w = (Inr b, w') \<Longrightarrow> redis w' = redis w"
  by (auto simp: token_denied_def cache_is_denied_def redis_next_def split: if_splits option.splits
      elim!: act_elims)

text \<open>Redis finds no value under a key that is not stored.\<close>

definition misses :: "env \<Rightarrow> bool" where
  "misses E \<longleftrightarrow> (\<forall>n t k s. k \<notin> stored_keys s \<longrightarrow> rd_get (redis_api E) n t k s = None)"

lemma load_uncached:
  assumes "load_permissions E c i (Some ten) pr w = (Inr ps, w')" and "misses E"
    and "uncached E (cl_sub c) w" and "CHR ''*'' \<notin> set (cl_sub c)"
  shows "set ps = granted i ten pr (db w)"
proof -
  have "perms_key (cl_tenant_id c) (cl_project_id c) (cl_sub c) \<notin> stored_keys (redis w)" if "cache_conn E"
    using assms(3) perms_key_matches [OF assms(4)] that by (auto simp: uncached_def)
  with assms(2) have "cache_conn E \<Longrightarrow> rd_get (redis_api E) n t
      (perms_key (cl_tenant_id c) (cl_project_id c) (cl_sub c)) (redis w) = None" for n t
    by (simp add: misses_def)
  with assms(1) show ?thesis
    by (auto simp: load_permissions_def cache_get_perms_def redis_next_def
        dest!: set_scoped_permissions split: if_splits elim!: act_elims)
qed

lemma validate_steps:
  assumes "rpc_validate_token E tok w = (Inr v, w')" and "jwt_parse_access (jwt E) (now w) tok = Some c"
  shows "\<exists>i wa ten wb pr wc. uuid_parse (fmt E) (cl_sub c) = Some i \<and>
    token_denied E (cl_jti c) w = (Inr False, wa) \<and>
    token_tenant E i (cl_tenant_id c) (wa\<lparr>db_calls := Suc (db_calls wa)\<rparr>) = (Inr ten, wb) \<and>
    token_project E (cl_project_id c) wb = (Inr pr, wc) \<and>
    load_permissions E c i ten pr (wc\<lparr>db_calls := Suc (db_calls wc)\<rparr>) = (Inr (va_permissions v), w') \<and>
    redis wc = redis w \<and> now wc = now w"
proof -
  from assms(1) obtain i wa ten wb pr wc where
    i: "uuid_parse (fmt E) (cl_sub c) = Some i"
    and den: "token_denied E (cl_jti c) w = (Inr False, wa)"
    and tenant: "token_tenant E i (cl_tenant_id c) (wa\<lparr>db_calls := Suc (db_calls wa)\<rparr>) = (Inr ten, wb)"
    and project: "token_project E (cl_project_id c) wb = (Inr pr, wc)"
    and perms: "load_permissions E c i ten pr (wc\<lparr>db_calls := Suc (db_calls wc)\<rparr>) =
       (Inr (va_permissions v), w')"
    unfolding rpc_validate_token_def is_user_active_def get_user_roles_scoped_def get_user_roles_def
    using assms(2) by (auto split: option.splits elim!: act_elims)
  have "redis wb = redis wa" "now wb = now wa"
    using tenant by (auto simp: token_tenant_def is_active_member_def split: if_splits elim!: act_elims)
  with token_denied_redis [OF den] token_denied_Inr(2) [OF den] token_project_Inr [OF project]
  have "redis wc = redis w" "now wc = now w" by simp_all
  with i den tenant project perms show ?thesis by blast
qed

text \<open>
  C16: after a role was assigned to or revoked from a user, the next validation of a token of that
  user for a tenant reports exactly the permissions granted now, with or without Redis, provided that
  the request spelled the user's id as the token's subject does and that, where Redis is used, the
  \<open>SCAN\<close> and \<open>DEL\<close> calls of the request were answered: a full \<open>SCAN\<close> returns every key stored
  throughout, and \<open>GET\<close> finds no value under a key that is not stored.
\<close>

theorem role_change_takes_effect:
  assumes "cache_conn E \<longrightarrow> scan_complete (redis_api E) \<and> answered (redis_api E) (redis_calls w) (redis_calls w1)"
    and "misses E" and "CHR ''*'' \<notin> set user"
    and "rpc_assign_role E md user n p w = (Inr b, w1) \<or> rpc_revoke_role E md user n p w = (Inr b, w1)"
    and "jwt_parse_access (jwt E) (now w1) tok = Some c" and "cl_sub c = user" and "cl_tenant_id c \<noteq> []"
    and "rpc_validate_token E tok w1 = (Inr v, w2)"
  shows "\<exists>i ten pr. uuid_parse (fmt E) user = Some i \<and> uuid_parse (fmt E) (cl_tenant_id c) = Some ten \<and>
    parse_opt_project E (cl_project_id c) = Inr pr \<and>
    set (va_permissions v) = granted i ten pr (db w1)"
proof -
  from validate_steps [OF assms(8,5)] obtain i wa ten wb pr wc where
    i: "uuid_parse (fmt E) (cl_sub c) = Some i"
    and den: "token_denied E (cl_jti c) w1 = (Inr False, wa)"
    and tenant: "token_tenant E i (cl_tenant_id c) (wa\<lparr>db_calls := Suc (db_calls wa)\<rparr>) = (Inr ten, wb)"
    and project: "token_project E (cl_project_id c) wb = (Inr pr, wc)"
    and perms: "load_permissions E c i ten pr (wc\<lparr>db_calls := Suc (db_calls wc)\<rparr>) =
       (Inr (va_permissions v), w2)"
    and r: "redis wc = redis w1" by blast
  from token_tenant_Inr [OF tenant] assms(7) token_denied_Inr(1) [OF den] obtain t where
    t: "ten = Some t" "uuid_parse (fmt E) (cl_tenant_id c) = Some t" "db wb = db w1" by auto
  from token_project_Inr [OF project] have p: "wc = wb" "parse_opt_project E (cl_project_id c) = Inr pr"
    by simp_all
  have "uncached E (cl_sub c) (wc\<lparr>db_calls := Suc (db_calls wc)\<rparr>)"
    using role_change_uncached [OF assms(4,1)] assms(6) r by (simp add: uncached_def)
  from load_uncached [OF perms [unfolded t(1)] assms(2) this] assms(3,6) t p i show ?thesis by auto
qed

text \<open>Ann's permissions in tenant 1 are cached; an administrator's metadata.\<close>

definition cached_world :: world where
  "cached_world = demo_world\<lparr>redis :=
     [(perms_key [char_of (1::nat)] [] ''3'', ''user:read,role:write'', 5000 * second)]\<rparr>"

definition admin_roles_md :: metadata where
  "admin_roles_md = ann_md(''x-user-permissions'' \<mapsto> ''role:assign,role:write'')"

lemmas cached_runs = redis_env_def live_def redis_next_def set_ex_def denylist_key_def perms_key_def
  or_dash_def perms_pattern_def cache_invalidate_perms_def scan_del.simps scan_turn_def
  cached_world_def admin_roles_md_def rpc_revoke_role_def [THEN fun_cong]
  rpc_revoke_permission_def [THEN fun_cong] demo_runs

definition unroled_world :: world where
  "unroled_world = snd (rpc_revoke_role redis_env admin_roles_md ''3'' ''admin'' [] cached_world)"

lemma unroled_world_runs:
  "rpc_revoke_role redis_env admin_roles_md ''3'' ''admin'' [] cached_world = (Inr True, unroled_world)"
  by (simp add: unroled_world_def cached_runs cong: run_weak)

lemma unroled_validates: "ok (rpc_validate_token redis_env ann_token) unroled_world"
  by (simp add: unroled_world_def ann_token_def cached_runs cong: run_weak)

theorem role_change_takes_effect_witness:
  "\<exists>w1 v w2. rpc_revoke_role redis_env admin_roles_md ''3'' ''admin'' [] cached_world = (Inr True, w1) \<and>
     rpc_validate_token redis_env ann_token w1 = (Inr v, w2) \<and> va_permissions v = []"
proof -
  obtain v w2 where run: "rpc_validate_token redis_env ann_token unroled_world = (Inr v, w2)"
    using okE [OF unroled_validates] by blast
  have "now unroled_world = 1000 * second" "user_roles (db unroled_world) = []"
    by (simp_all add: unroled_world_def cached_runs cong: run_weak)
  then have parse: "jwt_parse_access (jwt redis_env) (now unroled_world) ann_token = Some ann_claims"
    and none: "granted i ten pr (db unroled_world) = {}" for i ten pr
    by (simp_all add: redis_env_def demo_jwt_def read_ann_token second_def granted_def)
      (simp add: ann_claims_def)
  have "misses redis_env"
    by (auto simp: misses_def redis_env_def demo_redis_def live_def stored_keys_def map_of_eq_None_iff)
  from role_change_takes_effect [OF _ this _ disjI2 [OF unroled_world_runs] parse _ _ run] demo_scan
  have "va_permissions v = []" by (simp add: ann_claims_def none redis_env_def)
  with run unroled_world_runs show ?thesis by blast
qed

section \<open>A change of a role's permissions does not\<close>

text \<open>
  What \<open>SCAN\<close>, \<open>DEL\<close> and \<open>GET\<close> are documented to do with other keys: \<open>SCAN\<close> returns keys that match the
  pattern only, \<open>DEL\<close> touches the keys it is given only, and \<open>GET\<close> depends on the entry of its key only.
  Then an entry that the pattern of \<open>invalidate_perms\<close> misses stays.
\<close>

definition keys_apart :: "redis_lib \<Rightarrow> bool" where
  "keys_apart A \<longleftrightarrow> del_only A \<and>
     (\<forall>n t c pat cnt s c' ks. rd_scan A n t c pat cnt s = Some (c', ks) \<longrightarrow> (\<forall>k\<in>set ks. star_match pat k)) \<and>
     (\<forall>n t k s. rd_get A n t k s = rd_get A n t k (entries k s))"

lemma get_entries:
  assumes "keys_apart A" and "entries k s' = entries k s"
  shows "rd_get A n t k s' = rd_get A n t k s"
proof -
  have get: "rd_get A n t k x = rd_get A n t k (entries k x)" for x
    using assms(1) unfolding keys_apart_def by (elim conjE allE)
  show ?thesis by (subst get, subst assms(2), rule get [symmetric])
qed

lemma scan_turn_misses:
  assumes "keys_apart (redis_api E)" and "\<not> star_match pat k"
    and "scan_turn E pat c w = Inl w' \<or> scan_turn E pat c w = Inr (c', w')"
  shows "entries k (redis w') = entries k (redis w)"
proof (cases "rd_scan (redis_api E) (redis_calls w) (now w) c pat 100 (redis w)")
  case None
  with assms(3) show ?thesis by (auto simp: scan_turn_def redis_next_def)
next
  case (Some p)
  then obtain c0 ks where scan: "rd_scan (redis_api E) (redis_calls w) (now w) c pat 100 (redis w) = Some (c0, ks)"
    by (cases p) auto
  with assms(1,2) have "k \<notin> set ks" by (auto simp: keys_apart_def)
  then have "entries k (rd_del (redis_api E) n ks s) = entries k s" for n s
    using assms(1) by (simp add: keys_apart_def del_only_def)
  then show ?thesis
    using assms(3) scan by (auto simp: scan_turn_def Let_def redis_next_def split: if_splits)
qed

lemma scan_del_misses:
  assumes "scan_del E pat c w = Some w'"
  shows "keys_apart (redis_api E) \<and> \<not> star_match pat k \<longrightarrow> entries k (redis w') = entries k (redis w)"
proof (rule scan_del.raw_induct [where P = "\<lambda>E pat c w w'. keys_apart (redis_api E) \<and> \<not> star_match pat k \<longrightarrow>
      entries k (redis w') = entries k (redis w)", OF _ assms])
  fix scan E pat c w w'
  assume IH: "\<And>E pat c w w'. scan E pat c w = Some w' \<Longrightarrow>
      keys_apart (redis_api E) \<and> \<not> star_match pat k \<longrightarrow> entries k (redis w') = entries k (redis w)"
    and eq: "(case scan_turn E pat c w of Inl w' \<Rightarrow> Some w' | Inr (n, w') \<Rightarrow> scan E pat n w') = Some w'"
  show "keys_apart (redis_api E) \<and> \<not> star_match pat k \<longrightarrow> entries k (redis w') = entries k (redis w)"
  proof (cases "scan_turn E pat c w")
    case (Inl w1)
    with eq scan_turn_misses [of E pat k c w w1] show ?thesis by simp
  next
    case (Inr p)
    then obtain n w1 where p: "scan_turn E pat c w = Inr (n, w1)" by (cases p) auto
    with eq have "scan E pat n w1 = Some w'" by simp
    from IH [OF this] p scan_turn_misses [of E pat k c w w1 n] show ?thesis by simp
  qed
qed

lemma invalidate_misses:
  assumes "cache_invalidate_perms E u w = (Inr x, w')" and "keys_apart (redis_api E)"
    and "\<not> star_match (perms_pattern u) k"
  shows "entries k (redis w') = entries k (redis w)"
  using assms by (auto simp: cache_invalidate_perms_def scan_del_misses split: if_splits option.splits)

lemma validate_assign_redis: "validate_assign E n p ten w = (Inr x, w') \<Longrightarrow> redis w' = redis w"
  unfolding validate_assign_def by (auto split: option.splits if_splits elim!: act_elims)

lemma role_change_misses:
  assumes "rpc_assign_role E md u n p w = (Inr b, w') \<or> rpc_revoke_role E md u n p w = (Inr b, w')"
    and "keys_apart (redis_api E)" and "\<not> star_match (perms_pattern u) k"
  shows "entries k (redis w') = entries k (redis w)"
  using assms(1) unfolding rpc_assign_role_def rpc_revoke_role_def
  by (elim disjE act_elims)
    (simp_all add: audit_redis validate_assign_redis invalidate_misses [OF _ assms(2,3)])

text \<open>
  C37: granting a permission to a role or revoking it leaves the cached permissions of its holders,
  and so does assigning or revoking a role when the request spells the user's id in another way than
  the entry's key: as long as Redis returns the entry, a token is reported with the permissions it
  lists, whatever is granted now.
\<close>

theorem permission_change_keeps_cache:
  assumes "rpc_grant_permission E md n pn w = (Inr b, w1) \<or> rpc_revoke_permission E md n pn w = (Inr b, w1) \<or>
      (rpc_assign_role E md u n p w = (Inr b, w1) \<or> rpc_revoke_role E md u n p w = (Inr b, w1)) \<and>
        keys_apart (redis_api E) \<and> \<not> star_match (perms_pattern u) key"
    and "key = perms_key (cl_tenant_id c) (cl_project_id c) (cl_sub c)"
    and "cache_conn E" and "jwt_parse_access (jwt E) (now w1) tok = Some c"
    and "\<forall>k. rd_get (redis_api E) k (now w1) key (redis w) = Some j"
    and "parse_json_strings (fmt E) j = Some ps" and "rpc_validate_token E tok w1 = (Inr v, w2)"
  shows "va_permissions v = ps"
proof -
  have "rd_get (redis_api E) k t key (redis w1) = rd_get (redis_api E) k t key (redis w)" for k t
    using assms(1)
  proof (elim disjE conjE)
    assume "rpc_assign_role E md u n p w = (Inr b, w1)" "keys_apart (redis_api E)" "\<not> star_match (perms_pattern u) key"
    then show ?thesis by (intro get_entries role_change_misses) auto
  next
    assume "rpc_revoke_role E md u n p w = (Inr b, w1)" "keys_apart (redis_api E)" "\<not> star_match (perms_pattern u) key"
    then show ?thesis by (intro get_entries role_change_misses) auto
  qed (unfold rpc_grant_permission_def rpc_revoke_permission_def perm_role_guard_def tenant_role_exists_def,
      (elim act_elims; simp add: audit_redis)+)
  with assms(5) have r: "\<forall>k. rd_get (redis_api E) k (now w1) key (redis w1) = Some j" by simp
  from validate_steps [OF assms(7,4)] obtain i ten pr wc where
    "load_permissions E c i ten pr (wc\<lparr>db_calls := Suc (db_calls wc)\<rparr>) = (Inr (va_permissions v), w2)"
    "redis wc = redis w1" "now wc = now w1" by blast
  with assms(2,3,6) r show ?thesis
    by (simp add: load_permissions_def cache_get_perms_def bind_ok_def redis_next_def ret_def)
qed

text \<open>Such an environment, and two spellings of an id.\<close>

lemma spelled_otherwise:
  "keys_apart (redis_api redis_env)" "\<not> star_match (perms_pattern ''A'') (perms_key [char_of (1::nat)] [] ''a'')"
proof -
  have "rd_get demo_redis n t k s = rd_get demo_redis n t k (entries k s)" for n t k s
    by (induction s) (auto simp: demo_redis_def entries_def live_def)
  with demo_scan(3) show "keys_apart (redis_api redis_env)"
    by (auto simp: keys_apart_def redis_env_def) (auto simp: demo_redis_def)
  show "\<not> star_match (perms_pattern ''A'') (perms_key [char_of (1::nat)] [] ''a'')"
    by (simp add: perms_pattern_def perms_key_def or_dash_def)
qed

text \<open>Ann is an editor, her cached permissions list what an editor may do.\<close>

definition editor_world :: world where
  "editor_world = demo_world\<lparr>db := demo_db\<lparr>role_permissions := [(4, 1)],
       user_roles := [\<lparr>ur_user_id = 51, ur_role_id = 4, ur_tenant_id = 1, ur_project_id = None\<rparr>]\<rparr>,
     redis := [(perms_key [char_of (1::nat)] [] ''3'', ''user:read'', 5000 * second)]\<rparr>"

definition stripped_world :: world where
  "stripped_world = snd (rpc_revoke_permission redis_env admin_roles_md ''editor'' ''user:read'' editor_world)"

lemma stripped_world_runs:
  "rpc_revoke_permission redis_env admin_roles_md ''editor'' ''user:read'' editor_world =
     (Inr True, stripped_world)"
  by (simp add: stripped_world_def editor_world_def tenant_role_exists_def own_role_def cached_runs cong: run_weak)

theorem permission_change_keeps_cache_witness:
  "\<exists>w1 v w2. rpc_revoke_permission redis_env admin_roles_md ''editor'' ''user:read'' editor_world = (Inr True, w1) \<and>
     rpc_validate_token redis_env ann_token w1 = (Inr v, w2) \<and> va_permissions v = [''user:read''] \<and>
     granted 51 1 None (db w1) = {}"
proof -
  have runs: "ok (rpc_validate_token redis_env ann_token) stripped_world"
    by (simp add: stripped_world_def editor_world_def ann_token_def tenant_role_exists_def own_role_def cached_runs
        del: set_filter cong: run_weak)
  then obtain v w2 where run: "rpc_validate_token redis_env ann_token stripped_world = (Inr v, w2)"
    using okE by blast
  have "now stripped_world = 1000 * second" "role_permissions (db stripped_world) = []"
    by (simp_all add: stripped_world_def editor_world_def tenant_role_exists_def own_role_def cached_runs cong: run_weak)
  then have parse: "jwt_parse_access (jwt redis_env) (now stripped_world) ann_token = Some ann_claims"
    and none: "granted 51 1 None (db stripped_world) = {}"
    by (simp_all add: redis_env_def demo_jwt_def read_ann_token second_def granted_def)
      (simp add: ann_claims_def)
  have "va_permissions v = [''user:read'']"
    by (rule permission_change_keeps_cache [OF disjI2 [OF disjI1 [OF stripped_world_runs]] refl _ parse _ _ run, where j = "''user:read''"])
      (simp_all add: cached_runs ann_claims_def editor_world_def \<open>now stripped_world = 1000 * second\<close>)
  with run none stripped_world_runs show ?thesis by blast
qed

end
