(* ===== verification/KeyProps.thy ===== *)
theory KeyProps
  imports TokenProps
begin

text \<open>
  API keys: what a key is worth when it is used, and that a key just created is accepted.
\<close>

section \<open>Using a key\<close>

definition unexpired :: "time \<Rightarrow> api_key_row \<Rightarrow> bool" where
  "unexpired t r \<longleftrightarrow> (case ak_expires_at r of None \<Rightarrow> True | Some e \<Rightarrow> \<not> e < t)"

lemma set_held_scoped:
  "set (held_permissions (tenant_guc_tx c ten) (scoped_to i ten pr) d) = granted i ten pr d"
  by (rule set_eqI) (simp only: mem_held_permissions conj_assoc [symmetric],
    simp only: conj_assoc scoped_visible granted_def mem_Collect_eq, blast)

text \<open>
  C12: a key is accepted only if it is stored, not revoked, not expired, and its owner is an
  undeleted identity that is an active member of the key's tenant; it carries exactly those of its
  scopes that the owner still holds there.
\<close>

theorem key_scopes_are_held:
  assumes "rpc_validate_api_key E key w = (Inr k, w')"
  shows "\<exists>r\<in>set (api_keys (db w)). \<exists>u\<in>set (users (db w)).
    ak_key_hash r = hash_token (crypto E) key \<and> ak_revoked_at r = None \<and> unexpired (now w) r \<and>
    u_id u = ak_user_id r \<and> u_deleted_at u = None \<and> ki_user_id k = uuid_show (fmt E) (u_id u) \<and>
    active_member (u_id u) (ak_tenant_id r) (db w) \<and>
    set (ki_scopes k) = set (ak_scopes r) \<inter> granted (u_id u) (ak_tenant_id r) (ak_project_id r) (db w)"
proof -
  obtain r u where
    r: "find (\<lambda>r. ak_key_hash r = hash_token (crypto E) key) (api_keys (db w)) = Some r"
    and use: "ak_revoked_at r = None" "unexpired (now w) r"
    and live: "(case find (\<lambda>u. u_id u = ak_user_id r) (users (db w)) of
        Some x \<Rightarrow> if u_deleted_at x = None then Some x else None | None \<Rightarrow> None) = Some u"
    and mem: "active_member (ak_user_id r) (ak_tenant_id r) (db w)"
    and k: "ki_user_id k = uuid_show (fmt E) (ak_user_id r)"
      "ki_scopes k = filter (\<lambda>s. s \<in> granted (ak_user_id r) (ak_tenant_id r) (ak_project_id r) (db w))
        (ak_scopes r)"
    using assms
    unfolding rpc_validate_api_key_def get_api_key_by_hash_def get_user_by_id_def is_active_member_def
      get_user_permissions_scoped_def unexpired_def [symmetric]
    by (elim act_elims) (simp add: set_held_scoped)
  from live have u: "find (\<lambda>u. u_id u = ak_user_id r) (users (db w)) = Some u" "u_deleted_at u = None"
    by (auto split: option.splits if_splits)
  with r use mem k show ?thesis
    by (intro bexI [of _ r] bexI [of _ u]) (auto dest: find_SomeD)
qed

definition demo_key :: api_key_row where
  "demo_key = \<lparr>ak_id = ''k'', ak_user_id = 51, ak_key_hash = ''hkey'', ak_name = ''ci'',
     ak_scopes = [''user:read'', ''tenant:write''], ak_expires_at = Some (2000 * second),
     ak_revoked_at = None, ak_last_used_at = None, ak_created_at = 0, ak_tenant_id = 1,
     ak_project_id = None\<rparr>"

definition key_world :: world where
  "key_world = demo_world\<lparr>db := demo_db\<lparr>api_keys := [demo_key]\<rparr>\<rparr>"

lemma key_world_runs: "ok (rpc_validate_api_key demo_env ''key'') key_world"
  by (simp add: key_world_def demo_key_def demo_runs cong: run_weak)

theorem key_scopes_are_held_witness:
  "\<exists>k w'. rpc_validate_api_key demo_env ''key'' key_world = (Inr k, w') \<and>
     set (ki_scopes k) \<subseteq> {''user:read''}"
proof -
  obtain k w' where run: "rpc_validate_api_key demo_env ''key'' key_world = (Inr k, w')"
    using okE [OF key_world_runs] by blast
  from key_scopes_are_held [OF run] have "set (ki_scopes k) \<subseteq>
      set (ak_scopes demo_key) \<inter> granted 51 1 None (demo_db\<lparr>api_keys := [demo_key]\<rparr>)"
    by (auto simp: key_world_def) (auto simp: demo_key_def)
  also have "\<dots> \<subseteq> {''user:read''}"
    by (auto simp: granted_def demo_key_def demo_db_def)
  finally show ?thesis using run by blast
qed

section \<open>A key that was just created\<close>

lemma find_append_fresh:
  "\<not> exists_where P xs \<Longrightarrow> P x \<Longrightarrow> find P (xs @ [x]) = Some x"
  by (induction xs) (auto simp: exists_where_def)

lemma held_scopes_Inr:
  "(case find (\<lambda>s. s \<notin> A) ss of Some s \<Rightarrow> fail (f s) | None \<Rightarrow> ret ()) w = (Inr x, w') \<Longrightarrow>
   set ss \<subseteq> A \<and> w' = w"
  by (auto simp: find_None_iff fail_def ret_def split: option.splits)

lemma key_expiry_Inr:
  "(if ttl > 0 then bind_ok (now_plus E ttl) (\<lambda>x. ret (Some x)) else ret None) w = (Inr ex, w') \<Longrightarrow>
   w' = w \<and> ex = (if ttl > 0 then add_seconds (fmt E) (now w) ttl else None) \<and> (ttl > 0 \<longrightarrow> ex \<noteq> None)"
  by (auto simp: now_plus_def split: if_splits elim!: act_elims)

lemma create_key_cases:
  assumes "rpc_create_api_key E md name scopes ttl w = (Inr (full, view), w')"
    and "caller_uuid E md = Inr i" and "active_tenant E md = Inr ten"
    and "parse_opt_project E (meta md ''x-project-id'') = Inr pr"
  shows "\<exists>d dr. set scopes \<subseteq> set (caller_perms md) \<and>
    create_api_key (now w) (kv_id view) i (hash_token (crypto E) full) name scopes
       (if ttl > 0 then add_seconds (fmt E) (now w) ttl else None) ten pr (db w) = Inr ((), d) \<and>
    audit E md ''apikey.create'' (kv_id view) name
       (w\<lparr>draws := dr, db := d, db_calls := Suc (db_calls w)\<rparr>) = (Inr (), w')"
  using assms unfolding rpc_create_api_key_def gen_hex_def Let_def
  by (elim act_elims) (drule held_scopes_Inr, drule key_expiry_Inr, force)

text \<open>
  C29: a key is created only with scopes the caller holds; it is accepted right away, for the
  caller's identity, with exactly those of its scopes that the caller holds in the tenant, as long
  as the caller is an undeleted active member of the tenant it was created in.
\<close>

theorem created_key_is_accepted:
  assumes "fault_free E" and "rpc_create_api_key E md name scopes ttl w = (Inr (full, view), w1)"
    and "caller_uuid E md = Inr i" and "active_tenant E md = Inr ten"
    and "parse_opt_project E (meta md ''x-project-id'') = Inr pr"
    and "\<forall>x. add_seconds (fmt E) (now w) ttl = Some x \<and> 0 < ttl \<longrightarrow> now w \<le> x"
    and "find (\<lambda>u. u_id u = i) (users (db w)) = Some u" and "u_deleted_at u = None"
    and "active_member i ten (db w)"
  shows "set scopes \<subseteq> set (caller_perms md) \<and>
    (\<exists>k w2. rpc_validate_api_key E full w1 = (Inr k, w2) \<and> ki_user_id k = uuid_show (fmt E) i \<and>
       set (ki_scopes k) = set scopes \<inter> granted i ten pr (db w))"
proof -
  from create_key_cases [OF assms(2-5)] obtain d dr where
    held: "set scopes \<subseteq> set (caller_perms md)"
    and ins: "create_api_key (now w) (kv_id view) i (hash_token (crypto E) full) name scopes
       (if ttl > 0 then add_seconds (fmt E) (now w) ttl else None) ten pr (db w) = Inr ((), d)"
    and aud: "audit E md ''apikey.create'' (kv_id view) name
       (w\<lparr>draws := dr, db := d, db_calls := Suc (db_calls w)\<rparr>) = (Inr (), w1)" by blast
  let ?r = "\<lparr>ak_id = kv_id view, ak_user_id = i, ak_key_hash = hash_token (crypto E) full,
    ak_name = name, ak_scopes = scopes,
    ak_expires_at = if ttl > 0 then add_seconds (fmt E) (now w) ttl else None, ak_revoked_at = None,
    ak_last_used_at = None, ak_created_at = now w, ak_tenant_id = ten, ak_project_id = pr\<rparr>"
  from ins have fresh: "\<not> exists_where (\<lambda>r. ak_key_hash r = hash_token (crypto E) full) (api_keys (db w))"
    and d: "d = (db w)\<lparr>api_keys := api_keys (db w) @ [?r]\<rparr>"
    by (auto simp: exists_where_iff elim!: create_api_key_E)
  have keys: "api_keys (db w1) = api_keys (db w) @ [?r]" and auth: "authz (db w1) = authz (db w)"
    and us: "users (db w1) = users (db w)" and nw: "now w1 = now w"
    using keptD [OF session_frame(1) [where f = api_keys] aud [unfolded audit_def]]
      keptD [OF session_frame(1) [where f = authz] aud [unfolded audit_def]]
      audit_users [OF aud [unfolded audit_def]] by (simp_all add: d authz_def)
  have found: "find (\<lambda>r. ak_key_hash r = hash_token (crypto E) full) (api_keys (db w1)) = Some ?r"
    unfolding keys by (rule find_append_fresh) (use fresh in simp_all)
  obtain w2 where touch: "db_ignore E (touch_api_key (now w1) (kv_id view))
      (w1\<lparr>db_calls := db_calls w1 + 4\<rparr>) = (Inr (), w2)"
    using assms(1) by (simp add: db_ignore_fine touch_api_key_def)
  have unexp: "unexpired (now w1) ?r"
    using assms(6) by (auto simp: unexpired_def nw split: option.split)
  have "\<exists>k w2. rpc_validate_api_key E full w1 = (Inr k, w2) \<and> ki_user_id k = uuid_show (fmt E) i \<and>
      ki_scopes k = filter (\<lambda>s. s \<in> granted i ten pr (db w)) scopes"
    using assms(1,7-9) found touch unexp us
    unfolding rpc_validate_api_key_def unexpired_def [symmetric]
    by (simp add: act_simps query_defs set_held_scoped authz_same [OF auth])
  with held show ?thesis by fastforce
qed

theorem created_key_is_accepted_witness:
  "\<exists>full view w1. rpc_create_api_key demo_env ann_md ''ci'' [''user:read''] 60 demo_world =
      (Inr (full, view), w1) \<and>
    (\<exists>k w2. rpc_validate_api_key demo_env full w1 = (Inr k, w2) \<and> set (ki_scopes k) \<subseteq> {''user:read''})"
proof -
  have "ok (rpc_create_api_key demo_env ann_md ''ci'' [''user:read''] 60) demo_world"
    by (simp add: demo_runs cong: run_weak)
  then obtain full view w1 where
    run: "rpc_create_api_key demo_env ann_md ''ci'' [''user:read''] 60 demo_world = (Inr (full, view), w1)"
    using okE by (metis surj_pair)
  have "caller_uuid demo_env ann_md = Inr 51" "active_tenant demo_env ann_md = Inr 1"
    "parse_opt_project demo_env (meta ann_md ''x-project-id'') = Inr None"
    "\<forall>x. add_seconds (fmt demo_env) (now demo_world) 60 = Some x \<and> (0::int) < 60 \<longrightarrow> now demo_world \<le> x"
    "find (\<lambda>u. u_id u = 51) (users (db demo_world)) = Some ann" "u_deleted_at ann = None"
    "active_member 51 1 (db demo_world)"
    by (simp_all add: caller_uuid_def active_tenant_def parse_opt_project_def active_member_def
        exists_where_iff demo_runs)
  note created_key_is_accepted [OF demo_fault_free run this]
  with run show ?thesis by auto
qed

end
