(* ===== verification/Constraints.thy ===== *)
theory Constraints
  imports Interleaving Effects
begin

text \<open>
  The integrity of the data: the unique indexes and foreign keys the migrations declare hold in
  every state the program reaches, and, once the service connects as a role that row-level
  security binds, an assignment only ever names a template or a role of its own tenant.
\<close>

section \<open>Images of a table\<close>

lemma image_update_where [simp]:
  "(\<And>r. P r \<Longrightarrow> f (g r) = f r) \<Longrightarrow> f ` set (update_where P g rows) = f ` set rows"
  by (induction rows) auto

lemma image_delete_where: "f ` {r \<in> set rows. \<not> P r} \<subseteq> f ` set rows"
  by auto

lemma exists_where_rewrite:
  "exists_where P rows \<longleftrightarrow> (\<exists>r\<in>set rows. P r)"
  by (rule exists_where_iff)

section \<open>Unique indexes\<close>

definition unique_on :: "('r \<Rightarrow> 'k) \<Rightarrow> (db \<Rightarrow> 'r list) \<Rightarrow> db \<Rightarrow> bool" where
  "unique_on key table d \<longleftrightarrow> distinct (map key (table d))"

text \<open>A \<open>BIGSERIAL\<close> key: unique and below the next value of its sequence.\<close>

definition serial_on :: "('r \<Rightarrow> int) \<Rightarrow> (db \<Rightarrow> 'r list) \<Rightarrow> (db \<Rightarrow> int) \<Rightarrow> db \<Rightarrow> bool" where
  "serial_on key table seq d \<longleftrightarrow> unique_on key table d \<and> (\<forall>r\<in>set (table d). key r < seq d)"

definition keys_unique :: "db \<Rightarrow> bool" where
  "keys_unique d \<longleftrightarrow>
     unique_on u_id users d \<and> unique_on u_email users d \<and>
     unique_on rt_token_hash refresh_tokens d \<and> unique_on ur_key user_roles d \<and>
     unique_on ot_token_hash email_verifications d \<and> unique_on ot_token_hash password_resets d \<and>
     unique_on ak_id api_keys d \<and> unique_on ak_key_hash api_keys d \<and>
     unique_on rv_jti revoked_tokens d \<and> unique_on ob_id outbox d \<and>
     unique_on sk_kid signing_keys d \<and> unique_on oc_client_id oauth_clients d \<and>
     unique_on ac_code_hash auth_codes d \<and>
     unique_on (\<lambda>r. (co_user_id r, co_client_id r)) consents d \<and>
     unique_on te_id tenants d \<and> unique_on te_slug tenants d \<and> unique_on pr_id projects d \<and>
     unique_on (\<lambda>p. (pr_tenant_id p, pr_slug p)) projects d \<and>
     unique_on (\<lambda>m. (me_user_id m, me_tenant_id m)) memberships d \<and>
     serial_on ro_id roles role_seq d \<and> unique_on (\<lambda>r. (ro_tenant_id r, ro_name r)) roles d \<and>
     unique_on id role_permissions d \<and> unique_on pe_id permissions d \<and>
     unique_on pe_name permissions d \<and> serial_on au_id audit_events audit_seq d \<and>
     serial_on rc_id recovery_codes recovery_seq d \<and>
     unique_on sk_active (\<lambda>d. filter sk_active (signing_keys d)) d"

definition unique_kept :: "('r \<Rightarrow> 'k) \<Rightarrow> (db \<Rightarrow> 'r list) \<Rightarrow> db \<Rightarrow> db \<Rightarrow> bool" where
  "unique_kept key table d d' \<longleftrightarrow> (unique_on key table d \<longrightarrow> unique_on key table d')"

definition serial_kept :: "('r \<Rightarrow> int) \<Rightarrow> (db \<Rightarrow> 'r list) \<Rightarrow> (db \<Rightarrow> int) \<Rightarrow> db \<Rightarrow> db \<Rightarrow> bool" where
  "serial_kept key table seq d d' \<longleftrightarrow> (serial_on key table seq d \<longrightarrow> serial_on key table seq d')"

text \<open>Each index is kept on its own.\<close>

definition keys_kept :: "db \<Rightarrow> db \<Rightarrow> bool" where
  "keys_kept d d' \<longleftrightarrow>
     unique_kept u_id users d d' \<and> unique_kept u_email users d d' \<and>
     unique_kept rt_token_hash refresh_tokens d d' \<and> unique_kept ur_key user_roles d d' \<and>
     unique_kept ot_token_hash email_verifications d d' \<and>
     unique_kept ot_token_hash password_resets d d' \<and>
     unique_kept ak_id api_keys d d' \<and> unique_kept ak_key_hash api_keys d d' \<and>
     unique_kept rv_jti revoked_tokens d d' \<and> unique_kept ob_id outbox d d' \<and>
     unique_kept sk_kid signing_keys d d' \<and> unique_kept oc_client_id oauth_clients d d' \<and>
     unique_kept ac_code_hash auth_codes d d' \<and>
     unique_kept (\<lambda>r. (co_user_id r, co_client_id r)) consents d d' \<and>
     unique_kept te_id tenants d d' \<and> unique_kept te_slug tenants d d' \<and>
     unique_kept pr_id projects d d' \<and>
     unique_kept (\<lambda>p. (pr_tenant_id p, pr_slug p)) projects d d' \<and>
     unique_kept (\<lambda>m. (me_user_id m, me_tenant_id m)) memberships d d' \<and>
     serial_kept ro_id roles role_seq d d' \<and>
     unique_kept (\<lambda>r. (ro_tenant_id r, ro_name r)) roles d d' \<and>
     unique_kept id role_permissions d d' \<and> unique_kept pe_id permissions d d' \<and>
     unique_kept pe_name permissions d d' \<and> serial_kept au_id audit_events audit_seq d d' \<and>
     serial_kept rc_id recovery_codes recovery_seq d d' \<and>
     unique_kept sk_active (\<lambda>d. filter sk_active (signing_keys d)) d d'"

lemma keys_keptD: "keys_kept d d' \<Longrightarrow> keys_unique d \<Longrightarrow> keys_unique d'"
  by (simp add: keys_kept_def keys_unique_def unique_kept_def serial_kept_def)

lemma unique_same: "table d' = table d \<Longrightarrow> unique_kept key table d d'"
  by (simp add: unique_kept_def unique_on_def)

lemma unique_append:
  "table d' = table d @ [r] \<Longrightarrow> (\<And>x. x \<in> set (table d) \<Longrightarrow> key x \<noteq> key r) \<Longrightarrow>
   unique_kept key table d d'"
  by (fastforce simp: unique_kept_def unique_on_def)

lemma unique_update:
  "table d' = update_where P f (table d) \<Longrightarrow> (\<And>r. P r \<Longrightarrow> key (f r) = key r) \<Longrightarrow>
   unique_kept key table d d'"
  by (simp add: unique_kept_def unique_on_def)

lemma unique_delete: "table d' = delete_where P (table d) \<Longrightarrow> unique_kept key table d d'"
  by (simp add: unique_kept_def unique_on_def distinct_map_delete_where)

lemma unique_role_rows:
  "role_rows_ok s rs new d0 \<Longrightarrow> user_roles d0 = user_roles d \<Longrightarrow> user_roles d' = user_roles d @ new \<Longrightarrow>
   unique_kept ur_key user_roles d d'"
  by (simp add: unique_kept_def unique_on_def role_rows_ok_def)

lemma unique_new_members:
  "memberships d' = memberships d @ new_members i ten d \<Longrightarrow>
   unique_kept (\<lambda>m. (me_user_id m, me_tenant_id m)) memberships d d'"
  by (auto simp: unique_kept_def unique_on_def new_members_def exists_where_iff)

lemma unique_grants:
  "role_permissions d' = role_permissions d @ new_grants n pn ten d \<Longrightarrow>
   unique_kept id role_permissions d d'"
  by (auto simp: unique_kept_def unique_on_def new_grants_def)

lemma unique_kept_trans:
  "unique_kept key table d1 d2 \<Longrightarrow> unique_kept key table d2 d3 \<Longrightarrow> unique_kept key table d1 d3"
  by (simp add: unique_kept_def)

lemma serial_same: "table d' = table d \<Longrightarrow> seq d' = seq d \<Longrightarrow> serial_kept key table seq d d'"
  by (simp add: serial_kept_def serial_on_def unique_on_def)

lemma serial_append:
  "table d' = table d @ [r] \<Longrightarrow> key r = seq d \<Longrightarrow> seq d' = seq d + 1 \<Longrightarrow> serial_kept key table seq d d'"
  by (fastforce simp: serial_kept_def serial_on_def unique_on_def)

lemma serial_update:
  "table d' = update_where P f (table d) \<Longrightarrow> seq d' = seq d \<Longrightarrow> (\<And>r. P r \<Longrightarrow> key (f r) = key r) \<Longrightarrow>
   serial_kept key table seq d d'"
  by (auto simp: serial_kept_def serial_on_def unique_on_def set_update_where)

lemma serial_delete:
  "table d' = delete_where P (table d) \<Longrightarrow> seq d' = seq d \<Longrightarrow> serial_kept key table seq d d'"
  by (auto simp: serial_kept_def serial_on_def unique_on_def distinct_map_delete_where)

lemma serial_kept_trans:
  "serial_kept key table seq d1 d2 \<Longrightarrow> serial_kept key table seq d2 d3 \<Longrightarrow> serial_kept key table seq d1 d3"
  by (simp add: serial_kept_def)

interpretation keys: statements keys_kept E for E
proof (unfold_locales, goal_cases)
  case 1 then show ?case by (simp add: keys_kept_def unique_kept_def serial_kept_def)
next
  case 2 then show ?case unfolding keys_kept_def by (blast intro: unique_kept_trans serial_kept_trans)
qed (((rule q_stableI, (unfold write_defs)?, elim query_elims);
    (unfold keys_kept_def; intro conjI;
      (rule unique_same, simp add: row_change_defs; fail |
       rule serial_same, simp add: row_change_defs, simp add: row_change_defs; fail |
       rule serial_append, simp, simp, simp; fail |
       rule serial_update, simp, simp, simp; fail |
       rule serial_delete, simp add: row_change_defs, simp add: row_change_defs; fail |
       rule unique_role_rows, assumption, simp, simp; fail |
       rule unique_new_members, simp; fail |
       rule unique_grants, simp; fail |
       rule unique_append, simp, auto simp: exists_where_iff new_user_def; fail |
       rule unique_update, simp add: row_change_defs, simp; fail |
       rule unique_delete, simp add: row_change_defs; fail |
       auto simp: unique_kept_def unique_on_def row_change_defs exists_where_iff split: if_splits)))+)

section \<open>Foreign keys\<close>

definition user_ids :: "db \<Rightarrow> uuid set" where "user_ids d = u_id ` set (users d)"
definition tenant_ids :: "db \<Rightarrow> uuid set" where "tenant_ids d = te_id ` set (tenants d)"
definition owner_ids :: "db \<Rightarrow> uuid option set" where
  "owner_ids d = insert None (Some ` te_id ` set (tenants d))"
definition project_ids :: "db \<Rightarrow> uuid option set" where
  "project_ids d = insert None (Some ` pr_id ` set (projects d))"
definition role_ids :: "db \<Rightarrow> int set" where "role_ids d = ro_id ` set (roles d)"
definition permission_ids :: "db \<Rightarrow> int set" where "permission_ids d = pe_id ` set (permissions d)"
definition client_ids :: "db \<Rightarrow> string set" where "client_ids d = oc_client_id ` set (oauth_clients d)"

lemmas target_defs = user_ids_def tenant_ids_def owner_ids_def project_ids_def role_ids_def permission_ids_def
  client_ids_def

lemma has_row_iff:
  "has_user i d \<longleftrightarrow> i \<in> user_ids d" "has_tenant ten d \<longleftrightarrow> ten \<in> tenant_ids d"
  "has_project pr d \<longleftrightarrow> pr \<in> project_ids d"
  "exists_where (\<lambda>c. oc_client_id c = ci) (oauth_clients d) \<longleftrightarrow> ci \<in> client_ids d"
  by (auto simp: has_user_def has_tenant_def has_project_def target_defs exists_where_iff
      split: option.splits)

definition refers :: "('r \<Rightarrow> 'k) \<Rightarrow> (db \<Rightarrow> 'r list) \<Rightarrow> (db \<Rightarrow> 'k set) \<Rightarrow> db \<Rightarrow> bool" where
  "refers col table target d \<longleftrightarrow> col ` set (table d) \<subseteq> target d"

definition refs_valid :: "db \<Rightarrow> bool" where
  "refs_valid d \<longleftrightarrow>
     refers rt_user_id refresh_tokens user_ids d \<and> refers rt_tenant_id refresh_tokens tenant_ids d \<and>
     refers rt_project_id refresh_tokens project_ids d \<and>
     refers ur_user_id user_roles user_ids d \<and> refers ur_tenant_id user_roles tenant_ids d \<and>
     refers ur_project_id user_roles project_ids d \<and> refers ur_role_id user_roles role_ids d \<and>
     refers ot_user_id email_verifications user_ids d \<and> refers ot_user_id password_resets user_ids d \<and>
     refers rc_user_id recovery_codes user_ids d \<and> refers ak_user_id api_keys user_ids d \<and>
     refers ak_tenant_id api_keys tenant_ids d \<and> refers ak_project_id api_keys project_ids d \<and>
     refers me_user_id memberships user_ids d \<and> refers me_tenant_id memberships tenant_ids d \<and>
     refers pr_tenant_id projects tenant_ids d \<and> refers oc_tenant_id oauth_clients tenant_ids d \<and>
     refers ro_tenant_id roles owner_ids d \<and>
     refers ac_client_id auth_codes client_ids d \<and> refers co_client_id consents client_ids d \<and>
     refers fst role_permissions role_ids d \<and> refers snd role_permissions permission_ids d"

definition ref_kept :: "('r \<Rightarrow> 'k) \<Rightarrow> (db \<Rightarrow> 'r list) \<Rightarrow> (db \<Rightarrow> 'k set) \<Rightarrow> db \<Rightarrow> db \<Rightarrow> bool" where
  "ref_kept col table target d d' \<longleftrightarrow>
     (refers col table target d \<longrightarrow> refers col table target d')"

definition refs_kept :: "db \<Rightarrow> db \<Rightarrow> bool" where
  "refs_kept d d' \<longleftrightarrow>
     ref_kept rt_user_id refresh_tokens user_ids d d' \<and>
     ref_kept rt_tenant_id refresh_tokens tenant_ids d d' \<and>
     ref_kept rt_project_id refresh_tokens project_ids d d' \<and>
     ref_kept ur_user_id user_roles user_ids d d' \<and> ref_kept ur_tenant_id user_roles tenant_ids d d' \<and>
     ref_kept ur_project_id user_roles project_ids d d' \<and> ref_kept ur_role_id user_roles role_ids d d' \<and>
     ref_kept ot_user_id email_verifications user_ids d d' \<and>
     ref_kept ot_user_id password_resets user_ids d d' \<and>
     ref_kept rc_user_id recovery_codes user_ids d d' \<and> ref_kept ak_user_id api_keys user_ids d d' \<and>
     ref_kept ak_tenant_id api_keys tenant_ids d d' \<and> ref_kept ak_project_id api_keys project_ids d d' \<and>
     ref_kept me_user_id memberships user_ids d d' \<and> ref_kept me_tenant_id memberships tenant_ids d d' \<and>
     ref_kept pr_tenant_id projects tenant_ids d d' \<and> ref_kept oc_tenant_id oauth_clients tenant_ids d d' \<and>
     ref_kept ro_tenant_id roles owner_ids d d' \<and>
     ref_kept ac_client_id auth_codes client_ids d d' \<and> ref_kept co_client_id consents client_ids d d' \<and>
     ref_kept fst role_permissions role_ids d d' \<and> ref_kept snd role_permissions permission_ids d d'"

lemma refs_keptD: "refs_kept d d' \<Longrightarrow> refs_valid d \<Longrightarrow> refs_valid d'"
  by (simp add: refs_kept_def refs_valid_def ref_kept_def)

lemma ref_same:
  "table d' = table d \<Longrightarrow> target d' = target d \<Longrightarrow> ref_kept col table target d d'"
  by (simp add: ref_kept_def refers_def)

lemma ref_grow:
  "table d' = table d \<Longrightarrow> target d \<subseteq> target d' \<Longrightarrow> ref_kept col table target d d'"
  by (auto simp: ref_kept_def refers_def)

lemma ref_append:
  "table d' = table d @ new \<Longrightarrow> target d \<subseteq> target d' \<Longrightarrow> (\<And>r. r \<in> set new \<Longrightarrow> col r \<in> target d') \<Longrightarrow>
   ref_kept col table target d d'"
  by (auto simp: ref_kept_def refers_def)

lemma ref_update:
  "table d' = update_where P f (table d) \<Longrightarrow> (\<And>r. P r \<Longrightarrow> col (f r) = col r) \<Longrightarrow>
   target d \<subseteq> target d' \<Longrightarrow> ref_kept col table target d d'"
  by (auto simp: ref_kept_def refers_def)

lemma ref_delete:
  "table d' = delete_where P (table d) \<Longrightarrow>
   (\<And>r. r \<in> set (table d) \<Longrightarrow> col r \<in> target d \<Longrightarrow> \<not> P r \<Longrightarrow> col r \<in> target d') \<Longrightarrow>
   ref_kept col table target d d'"
  by (auto simp: ref_kept_def refers_def)

text \<open>A statement that leaves the keys and the references as they are, the common case.\<close>

lemma refs_same:
  assumes "user_ids d' = user_ids d" "tenant_ids d' = tenant_ids d" "project_ids d' = project_ids d"
    "owner_ids d' = owner_ids d" "ro_tenant_id ` set (roles d') = ro_tenant_id ` set (roles d)"
    "role_ids d' = role_ids d" "permission_ids d' = permission_ids d" "client_ids d' = client_ids d"
    "(rt_user_id ` set (refresh_tokens d'), rt_tenant_id ` set (refresh_tokens d'),
      rt_project_id ` set (refresh_tokens d')) = (rt_user_id ` set (refresh_tokens d),
      rt_tenant_id ` set (refresh_tokens d), rt_project_id ` set (refresh_tokens d))"
    "user_roles d' = user_roles d"
    "ot_user_id ` set (email_verifications d') = ot_user_id ` set (email_verifications d)"
    "ot_user_id ` set (password_resets d') = ot_user_id ` set (password_resets d)"
    "rc_user_id ` set (recovery_codes d') = rc_user_id ` set (recovery_codes d)"
    "(ak_user_id ` set (api_keys d'), ak_tenant_id ` set (api_keys d'),
      ak_project_id ` set (api_keys d')) = (ak_user_id ` set (api_keys d),
      ak_tenant_id ` set (api_keys d), ak_project_id ` set (api_keys d))"
    "memberships d' = memberships d" "projects d' = projects d" "oauth_clients d' = oauth_clients d"
    "ac_client_id ` set (auth_codes d') = ac_client_id ` set (auth_codes d)"
    "consents d' = consents d" "role_permissions d' = role_permissions d"
  shows "refs_kept d d'"
  using assms unfolding refs_kept_def ref_kept_def refers_def by (simp del: image_update_where)

lemma ref_kept_trans:
  "ref_kept col table target d1 d2 \<Longrightarrow> ref_kept col table target d2 d3 \<Longrightarrow>
   ref_kept col table target d1 d3"
  by (simp add: ref_kept_def)

lemma default_row_role: "r \<in> set (default_role_rows s i n d) \<Longrightarrow> ur_role_id r \<in> role_ids d"
  by (auto simp: default_role_rows_def visible_roles_def role_ids_def)

lemma admin_row_role: "r \<in> set (admin_template_rows c i ten d) \<Longrightarrow> ur_role_id r \<in> role_ids d"
  by (auto simp: admin_template_rows_def visible_roles_def role_ids_def)

lemma new_grants_ids:
  "rp \<in> set (new_grants n pn ten d) \<Longrightarrow> fst rp \<in> role_ids d \<and> snd rp \<in> permission_ids d"
  by (auto simp: new_grants_def role_ids_def permission_ids_def)

lemma set_new_members: "m \<in> set (new_members i ten d) \<Longrightarrow> me_user_id m = i \<and> me_tenant_id m = ten"
  by (auto simp: new_members_def split: if_splits)

lemma refs_users: "refs_kept d (d\<lparr>users := users d @ xs\<rparr>)"
  by (auto simp: refs_kept_def ref_kept_def refers_def target_defs)

lemma refs_tenants: "refs_kept d (d\<lparr>tenants := tenants d @ xs\<rparr>)"
  by (auto simp: refs_kept_def ref_kept_def refers_def target_defs)

lemma refs_members:
  assumes "\<forall>m\<in>set (new_members i ten d). has_user i d \<and> has_tenant ten d"
  shows "refs_kept d (d\<lparr>memberships := memberships d @ new_members i ten d\<rparr>)"
proof -
  have "me_user_id m \<in> user_ids d \<and> me_tenant_id m \<in> tenant_ids d"
    if "m \<in> set (new_members i ten d)" for m
    using assms that set_new_members [OF that] by (auto simp: has_row_iff)
  then show ?thesis
    by (auto simp: refs_kept_def ref_kept_def refers_def target_defs)
qed

lemma refs_role_rows:
  assumes "role_rows_ok s rs new d" and "\<And>r. r \<in> set rs \<Longrightarrow> ur_role_id r \<in> role_ids d"
  shows "refs_kept d (d\<lparr>user_roles := user_roles d @ new\<rparr>)"
proof -
  have "ur_user_id r \<in> user_ids d \<and> ur_tenant_id r \<in> tenant_ids d \<and> ur_project_id r \<in> project_ids d \<and>
      ur_role_id r \<in> role_ids d" if "r \<in> set new" for r
    using assms that by (auto simp: role_rows_ok_def has_row_iff)
  then show ?thesis
    by (auto simp: refs_kept_def ref_kept_def refers_def target_defs)
qed

lemma refs_unassign: "refs_kept d (d\<lparr>user_roles := delete_where P (user_roles d)\<rparr>)"
  by (auto simp: refs_kept_def ref_kept_def refers_def target_defs)

lemma refs_trans: "refs_kept d1 d2 \<Longrightarrow> refs_kept d2 d3 \<Longrightarrow> refs_kept d1 d3"
  unfolding refs_kept_def by (blast intro: ref_kept_trans)

lemma refs_outbox: "refs_kept d (d\<lparr>outbox := x\<rparr>)"
  by (rule refs_same) (simp_all add: target_defs)

lemma refs_new_user:
  assumes "role_rows_ok s (default_role_rows s i n d) new (d\<lparr>users := users d @ xs\<rparr>)"
  shows "refs_kept d (d\<lparr>users := users d @ xs, user_roles := user_roles d @ new\<rparr>)"
proof (rule refs_trans [OF refs_users])
  have "r \<in> set (default_role_rows s i n d) \<Longrightarrow> ur_role_id r \<in> role_ids (d\<lparr>users := users d @ xs\<rparr>)" for r
    using default_row_role by (fastforce simp: role_ids_def)
  from refs_role_rows [OF assms this]
  show "refs_kept (d\<lparr>users := users d @ xs\<rparr>) (d\<lparr>users := users d @ xs, user_roles := user_roles d @ new\<rparr>)"
    by simp
qed

lemma refs_create_tenant:
  assumes "create_tenant_with_admin c f sl n i d = Inr (x, d')"
  shows "refs_kept d d'"
  using assms unfolding create_tenant_with_admin_def
proof (elim then_query_InrE insert_tenant_E insert_membership_E insert_user_roles_E, goal_cases)
  case (1 t d1 u d2 v d3 new)
  then have d1: "d1 = d\<lparr>tenants := tenants d @ [t]\<rparr>"
    and d2: "d2 = d1\<lparr>memberships := memberships d1 @ new_members i (te_id t) d1\<rparr>"
    and m: "\<forall>m\<in>set (new_members i (te_id t) d1). has_user i d1 \<and> has_tenant (te_id t) d1"
    and d3: "d3 = d2\<lparr>user_roles := user_roles d2 @ new\<rparr>"
    and new: "role_rows_ok (pool_session c) (admin_template_rows c i (te_id t) d2) new d2"
    and d': "d' = d3"
    by simp_all
  have "refs_kept d d1" unfolding d1 by (rule refs_tenants)
  moreover have "refs_kept d1 d2" unfolding d2 by (rule refs_members [OF m])
  moreover have "refs_kept d2 d3" unfolding d3 by (rule refs_role_rows [OF new admin_row_role])
  ultimately show ?case unfolding d' by (blast intro: refs_trans)
qed

lemma refs_delete_role:
  assumes "delete_role n ten d = Inr (x, d')"
  shows "refs_kept d d'"
  using assms
  by (auto simp: delete_role_def Let_def refs_kept_def ref_kept_def refers_def target_defs)

lemma refs_delete_user:
  assumes "delete_user_event_soft js f t i hard ty p d = Inr (x, d')"
  shows "refs_kept d d'"
  using assms
proof (rule delete_user_event_soft_E)
  fix j assume "d' = (purge_user i d)\<lparr>outbox := outbox d @
      [\<lparr>ob_id = f, ob_aggregate_id = i, ob_event_type = ty, ob_payload = j, ob_created_at = t,
        ob_published_at = None\<rparr>]\<rparr>"
  moreover have "refs_kept d (purge_user i d)"
    by (auto simp: purge_user_def refs_kept_def ref_kept_def refers_def target_defs)
  ultimately show ?thesis
    using refs_trans refs_outbox by blast
next
  fix j assume "d' = (soft_delete_user t i d)\<lparr>outbox := outbox d @
      [\<lparr>ob_id = f, ob_aggregate_id = i, ob_event_type = ty, ob_payload = j, ob_created_at = t,
        ob_published_at = None\<rparr>]\<rparr>"
  then show ?thesis
    by (intro refs_same) (simp_all add: soft_delete_user_def target_defs)
qed

interpretation refs: statements refs_kept E for E
proof (unfold_locales, goal_cases)
  case 1 then show ?case by (simp add: refs_kept_def ref_kept_def)
next
  case 2 then show ?case by (rule refs_trans)
qed (rule q_stableI;
    (erule refs_create_tenant refs_delete_role refs_delete_user |
     ((unfold write_defs)?, elim query_elims; hypsubst?);
       (rule refs_same; simp add: row_change_defs target_defs; fail |
        rule refs_new_user, assumption |
        rule refs_trans [OF refs_new_user], assumption, simp add: refs_outbox; fail |
        rule refs_members, assumption |
        rule refs_role_rows, assumption, force simp: role_ids_def dest: resolve_role_SomeD; fail |
        rule refs_unassign |
        force simp: refs_kept_def ref_kept_def refers_def target_defs row_change_defs has_row_iff
          dest: new_grants_ids)))+

section \<open>Assignments stay in their tenant\<close>

text \<open>Every assignment names a template or a role of the tenant it is made in.\<close>

definition assignments_home :: "db \<Rightarrow> bool" where
  "assignments_home d \<longleftrightarrow> (\<forall>ur\<in>set (user_roles d). \<exists>r\<in>set (roles d).
     ro_id r = ur_role_id ur \<and> (ro_tenant_id r = None \<or> ro_tenant_id r = Some (ur_tenant_id ur)))"

definition home_kept :: "env \<Rightarrow> db \<Rightarrow> db \<Rightarrow> bool" where
  "home_kept E d d' \<longleftrightarrow>
     (conn_role E \<noteq> App_superuser \<longrightarrow> assignments_home d \<longrightarrow> assignments_home d')"

lemma home_grow:
  "user_roles d' = user_roles d \<Longrightarrow> set (roles d) \<subseteq> set (roles d') \<Longrightarrow> home_kept E d d'"
  by (fastforce simp: home_kept_def assignments_home_def)

lemma home_append:
  "roles d' = roles d \<Longrightarrow> user_roles d' = user_roles d @ new \<Longrightarrow>
   (\<And>ur. conn_role E \<noteq> App_superuser \<Longrightarrow> ur \<in> set new \<Longrightarrow> \<exists>r\<in>set (roles d).
     ro_id r = ur_role_id ur \<and> (ro_tenant_id r = None \<or> ro_tenant_id r = Some (ur_tenant_id ur))) \<Longrightarrow>
   home_kept E d d'"
  by (auto simp: home_kept_def assignments_home_def)

lemma home_delete:
  "roles d' = roles d \<Longrightarrow> user_roles d' = delete_where P (user_roles d) \<Longrightarrow> home_kept E d d'"
  by (auto simp: home_kept_def assignments_home_def)

lemma default_rows_home:
  "conn_role E \<noteq> App_superuser \<Longrightarrow>
   ur \<in> set (default_role_rows (default_tenant_tx (conn_role E)) i n d) \<Longrightarrow>
   \<exists>r\<in>set (roles d). ro_id r = ur_role_id ur \<and>
     (ro_tenant_id r = None \<or> ro_tenant_id r = Some (ur_tenant_id ur))"
  by (auto simp: default_role_rows_def visible_roles_def default_tenant_tx_def rls_visible_def)

lemma admin_rows_home:
  "ur \<in> set (admin_template_rows c i ten d) \<Longrightarrow> \<exists>r\<in>set (roles d). ro_id r = ur_role_id ur \<and>
     (ro_tenant_id r = None \<or> ro_tenant_id r = Some (ur_tenant_id ur))"
  by (auto simp: admin_template_rows_def visible_roles_def)

lemma home_update_role:
  assumes "update_role n de ten d = Inr (x, d')"
  shows "home_kept E d d'"
proof -
  have d': "d' = d\<lparr>roles := update_where (own_role n ten) (\<lambda>r. r\<lparr>ro_description := de\<rparr>) (roles d)\<rparr>"
    using assms by (rule update_role_E)
  show ?thesis
    unfolding home_kept_def assignments_home_def
  proof (intro impI ballI)
    fix ur
    assume home: "\<forall>ur\<in>set (user_roles d). \<exists>r\<in>set (roles d).
       ro_id r = ur_role_id ur \<and> (ro_tenant_id r = None \<or> ro_tenant_id r = Some (ur_tenant_id ur))"
      and "ur \<in> set (user_roles d')"
    then obtain r where r: "r \<in> set (roles d)" "ro_id r = ur_role_id ur"
      "ro_tenant_id r = None \<or> ro_tenant_id r = Some (ur_tenant_id ur)" by (auto simp: d')
    let ?r = "if own_role n ten r then r\<lparr>ro_description := de\<rparr> else r"
    from r(1) have "?r \<in> set (roles d')" by (auto simp: d' set_update_where)
    with r(2,3) show "\<exists>r\<in>set (roles d'). ro_id r = ur_role_id ur \<and>
        (ro_tenant_id r = None \<or> ro_tenant_id r = Some (ur_tenant_id ur))"
      by (intro bexI [of _ ?r]) auto
  qed
qed

lemma home_delete_role:
  assumes "delete_role n ten d = Inr (x, d')"
  shows "home_kept E d d'"
  unfolding home_kept_def assignments_home_def
proof (intro impI ballI)
  fix ur
  assume home: "\<forall>ur\<in>set (user_roles d). \<exists>r\<in>set (roles d).
     ro_id r = ur_role_id ur \<and> (ro_tenant_id r = None \<or> ro_tenant_id r = Some (ur_tenant_id ur))"
    and "ur \<in> set (user_roles d')"
  with assms have ur: "ur \<in> set (user_roles d)"
    and live: "ur_role_id ur \<notin> ro_id ` {r \<in> set (roles d). own_role n ten r}"
    by (auto simp: delete_role_def Let_def)
  from home ur obtain r where r: "r \<in> set (roles d)" "ro_id r = ur_role_id ur"
    "ro_tenant_id r = None \<or> ro_tenant_id r = Some (ur_tenant_id ur)" by blast
  with live have "\<not> own_role n ten r" by force
  with assms r show "\<exists>r\<in>set (roles d'). ro_id r = ur_role_id ur \<and>
      (ro_tenant_id r = None \<or> ro_tenant_id r = Some (ur_tenant_id ur))"
    by (auto simp: delete_role_def Let_def)
qed

interpretation home: statements "home_kept E" E for E
proof (unfold_locales, goal_cases)
  case 1 then show ?case by (simp add: home_kept_def)
next
  case 2 then show ?case by (simp add: home_kept_def)
qed (rule q_stableI;
    (erule home_update_role | erule home_delete_role |
     ((unfold write_defs)?, elim query_elims);
       (rule home_grow, simp add: row_change_defs, (auto simp: row_change_defs)[1]; fail |
        rule home_delete, simp add: row_change_defs, simp add: row_change_defs; fail |
        rule home_append, simp, simp,
          auto simp: role_rows_ok_def dest!: subsetD default_rows_home admin_rows_home
            resolve_role_SomeD; fail)))+

end
