(* ===== verification/Launch.thy ===== *)
theory Launch
  imports Service
begin

text \<open>
  \<open>src/main.rs\<close>: what \<open>main\<close> does before it serves, with the start of the saga
  (\<open>src/saga.rs\<close>, \<open>run\<close>) and of the cache (\<open>src/cache.rs\<close>, \<open>Cache::new\<close>).  The surroundings
  of the process are a parameter: its arguments and environment, and what connecting, migrating
  and opening the broker and Redis give.
\<close>

section \<open>Surroundings\<close>

text \<open>
  \<open>ho_args\<close> includes the program name; \<open>ho_security\<close> is the error of
  \<open>common::config::validate_security()\<close>; \<open>ho_must_env\<close> is \<open>common::must_env\<close>, which may end
  the process; \<open>ho_migrate\<close> runs the embedded migrations, with their error; the remaining fields
  answer the calls of the same name, an error message standing for a failure.
\<close>

record host =
  ho_args :: "string list"
  ho_security :: "string option"
  ho_must_env :: "string \<Rightarrow> failure + string"
  ho_env_or :: env_or
  ho_connect :: "string \<Rightarrow> nat \<Rightarrow> string + unit"
  ho_migrate :: "db \<Rightarrow> string option \<times> db"
  ho_issuer :: string
  ho_access_ttl :: int
  ho_refresh_ttl :: int
  ho_nats_url :: string
  ho_nats_connect :: "string \<Rightarrow> string option"
  ho_ensure_stream :: "string option"
  ho_get_stream :: "string option"
  ho_get_consumer :: "string option"
  ho_redis_open :: "string \<Rightarrow> bool"
  ho_redis_connect :: "string \<Rightarrow> bool"
  ho_internal_token :: string
  ho_internal_optional :: bool
  ho_addr_parses :: "string \<Rightarrow> bool"

text \<open>What the process runs with once it serves.\<close>

record serving =
  sv_keys :: jwt_manager
  sv_refresh_ttl :: int
  sv_relay :: bool
  sv_saga :: bool
  sv_cache :: bool
  sv_cipher :: "string option"
  sv_token :: string
  sv_optional :: bool
  sv_addr :: string

text \<open>\<open>main\<close> ends after \<open>migrate\<close>, or serves.\<close>

datatype (plugins only: size) run = Migrated | Serving serving

section \<open>Parts of main\<close>

definition or_abort :: "string option \<Rightarrow> unit act" where
  "or_abort e = (case e of None \<Rightarrow> ret () | Some m \<Rightarrow> fail (Aborted m))"

definition run_migrations :: "host \<Rightarrow> unit act" where
  "run_migrations H w =
     (let (e, d) = ho_migrate H (db w) in or_abort e (w\<lparr>db := d\<rparr>))"

definition cache_new :: "host \<Rightarrow> string \<Rightarrow> bool" where
  "cache_new H url \<longleftrightarrow> (if url = [] then False else ho_redis_open H url \<and> ho_redis_connect H url)"

text \<open>\<open>saga::run\<close>: the consumer is obtained, then the task is spawned; \<open>main\<close> only logs the
  error.\<close>

definition saga_run :: "host \<Rightarrow> string option" where
  "saga_run H = (case ho_get_stream H of Some e \<Rightarrow> Some e | None \<Rightarrow> ho_get_consumer H)"

text \<open>Whether the relay and the saga were started.\<close>

definition start_events :: "host \<Rightarrow> (bool \<times> bool) act" where
  "start_events H =
     (if ho_nats_url H \<noteq> [] then
        bind_ok (or_abort (ho_nats_connect H (ho_nats_url H))) (\<lambda>_.
        bind_ok (or_abort (ho_ensure_stream H)) (\<lambda>_.
        ret (True, saga_run H = None)))
      else ret (False, False))"

definition migrate_only :: "host \<Rightarrow> bool" where
  "migrate_only H \<longleftrightarrow> 1 < length (ho_args H) \<and> ho_args H ! 1 = ''migrate''"

definition auto_migrate :: "host \<Rightarrow> bool" where
  "auto_migrate H \<longleftrightarrow> ho_env_or H ''AUTO_MIGRATE'' ''true'' \<noteq> ''false''"

definition grpc_addr :: "host \<Rightarrow> string" where
  "grpc_addr H = ''0.0.0.0:'' @ ho_env_or H ''AUTH_GRPC_PORT'' ''50051''"

section \<open>The program\<close>

definition main_run :: "env \<Rightarrow> host \<Rightarrow> run act" where
  "main_run E H =
     bind_ok (case ho_security H of
                Some e \<Rightarrow> require (migrate_only H) (Aborted (''insecure configuration: '' @ e))
              | None \<Rightarrow> ret ()) (\<lambda>_.
     bind_ok (lift_sum (ho_must_env H ''AUTH_DATABASE_URL'')) (\<lambda>url.
     bind_ok (lift_sum (fst (connect_with_retry (ho_connect H url)))) (\<lambda>_.
     bind_ok (if migrate_only H \<or> auto_migrate H then run_migrations H else ret ()) (\<lambda>_.
     if migrate_only H then ret Migrated
     else
       bind_ok (bootstrap E (ho_env_or H) (ho_issuer H) (ho_access_ttl H)) (\<lambda>jm.
       bind_ok (start_events H) (\<lambda>(relay, saga).
       bind_ok (require (ho_addr_parses H (grpc_addr H)) (Aborted ''invalid socket address syntax'')) (\<lambda>_.
       ret (Serving
         \<lparr>sv_keys = jm, sv_refresh_ttl = ho_refresh_ttl H, sv_relay = relay, sv_saga = saga,
          sv_cache = cache_new H (ho_env_or H ''REDIS_URL'' []),
          sv_cipher = encryptor_new (crypto E) (ho_env_or H ''TOTP_ENC_KEY'' []),
          sv_token = ho_internal_token H, sv_optional = ho_internal_token H = [] \<and> ho_internal_optional H,
          sv_addr = grpc_addr H\<rparr>))))))))"

text \<open>The deployment that then answers requests: \<open>AuthSvc::new\<close> with the values above.\<close>

definition deployed :: "env \<Rightarrow> host \<Rightarrow> serving \<Rightarrow> deployment" where
  "deployed E H s =
     \<lparr>dp_env = E\<lparr>refresh_ttl_secs := sv_refresh_ttl s, cache_conn := sv_cache s, totp_cipher := sv_cipher s\<rparr>,
      dp_token = sv_token s, dp_optional = sv_optional s, dp_cfg_or = ho_env_or H,
      dp_issuer = ho_issuer H, dp_access_ttl = ho_access_ttl H\<rparr>"

end
