(* ===== verification/LaunchProps.thy ===== *)
theory LaunchProps
  imports TokenProps Constraints Launch "HOL-Library.Sublist"
begin

text \<open>
  The program as it is launched: which configurations serve and whom they answer, what an
  interrupted first start leaves behind, and what the saga does about failed profiles.
\<close>

section \<open>Starting\<close>

definition trusted :: "deployment \<Rightarrow> metadata \<Rightarrow> bool" where
  "trusted D md \<longleftrightarrow> (if dp_token D = [] then dp_optional D
     else md ''x-internal-token'' = Some (dp_token D))"

lemma serve_trusted:
  "serve D md rq w =
     (if trusted D md then handle (dp_env D) md rq w
      else (Inl (Status Unauthenticated ''missing or invalid internal service token''), w))"
  by (auto simp: serve_def check_internal_def trusted_def bind_ok_def require_def ret_def fail_def
      split: option.split)

text \<open>What a start that serves has gone through.\<close>

lemma served:
  assumes "main_run E H w = (Inr (Serving s), w1)"
  obtains d where "ho_security H = None" and "\<not> migrate_only H"
    and "if auto_migrate H then ho_migrate H (db w) = (None, d) else d = db w"
    and "bootstrap E (ho_env_or H) (ho_issuer H) (ho_access_ttl H) (w\<lparr>db := d\<rparr>) = (Inr (sv_keys s), w1)"
    and "sv_token s = ho_internal_token H"
    and "sv_optional s = (ho_internal_token H = [] \<and> ho_internal_optional H)"
proof -
  from assms have only: "\<not> migrate_only H"
    unfolding main_run_def by (auto elim!: act_elims split: if_splits)
  with assms have sec: "ho_security H = None"
    unfolding main_run_def by (auto elim!: act_elims split: option.splits)
  obtain w2 where mig: "(if auto_migrate H then run_migrations H else ret ()) w = (Inr (), w2)"
    and boot: "bootstrap E (ho_env_or H) (ho_issuer H) (ho_access_ttl H) w2 = (Inr (sv_keys s), w1)"
    and s: "sv_token s = ho_internal_token H" "sv_optional s = (ho_internal_token H = [] \<and> ho_internal_optional H)"
    using assms only sec unfolding main_run_def start_events_def or_abort_def
    by (auto simp: ret_apply elim!: act_elims split: if_splits option.splits)
  obtain d where "w2 = w\<lparr>db := d\<rparr>" "if auto_migrate H then ho_migrate H (db w) = (None, d) else d = db w"
    using mig by (cases "ho_migrate H (db w)")
      (auto simp: run_migrations_def or_abort_def split: if_splits option.splits elim!: act_elims)
  with that [OF sec only _ _ s] boot show thesis by simp
qed

text \<open>
  C19: the program serves only with a configuration that passed the security validation and, unless
  they are left to the job, after the migrations succeeded; the accounts were bootstrapped by then.
  Once it serves, a request without the internal token is refused and changes nothing; without a
  configured token every request is, unless the deployment opted out explicitly.  A server with an
  insecure configuration ends before it touches the database.
\<close>

theorem start_fails_closed:
  assumes "main_run E H w = (Inr (Serving s), w1)"
  shows "ho_security H = None \<and> \<not> migrate_only H \<and>
    (\<exists>d v. (if auto_migrate H then ho_migrate H (db w) = (None, d) else d = db w) \<and>
       bootstrap E (ho_env_or H) (ho_issuer H) (ho_access_ttl H) (w\<lparr>db := d\<rparr>) = (Inr v, w1)) \<and>
    (\<forall>md rq v. \<not> (if ho_internal_token H = [] then ho_internal_optional H
        else md ''x-internal-token'' = Some (ho_internal_token H)) \<longrightarrow>
       serve (deployed E H s) md rq v =
         (Inl (Status Unauthenticated ''missing or invalid internal service token''), v)) \<and>
    (\<forall>e E' v. \<not> migrate_only H \<longrightarrow>
       snd (main_run E' (H\<lparr>ho_security := Some e\<rparr>) v) = v)"
proof -
  have insecure: "snd (main_run E' (H\<lparr>ho_security := Some e\<rparr>) v) = v" if "\<not> migrate_only H" for E' e v
    using that by (simp add: main_run_def bind_ok_apply require_apply migrate_only_def)
  from assms show ?thesis
  proof (rule served)
    fix d
    assume sec: "ho_security H = None" "\<not> migrate_only H"
      and run: "if auto_migrate H then ho_migrate H (db w) = (None, d) else d = db w"
        "bootstrap E (ho_env_or H) (ho_issuer H) (ho_access_ttl H) (w\<lparr>db := d\<rparr>) = (Inr (sv_keys s), w1)"
      and s: "sv_token s = ho_internal_token H" "sv_optional s = (ho_internal_token H = [] \<and> ho_internal_optional H)"
    have "trusted (deployed E H s) md \<longleftrightarrow> (if ho_internal_token H = [] then ho_internal_optional H
        else md ''x-internal-token'' = Some (ho_internal_token H))" for md
      by (auto simp: trusted_def deployed_def s)
    with sec run insecure show ?thesis by (auto simp: serve_trusted)
  qed
qed

definition demo_host :: host where
  "demo_host = \<lparr>ho_args = [''auth''], ho_security = None, ho_must_env = Inr,
     ho_env_or = (\<lambda>k d. if k = ''OIDC_CONSOLE_REDIRECT_URIS'' then '' u'' else if k = ''DEMO_EMAIL'' then [] else d),
     ho_connect = (\<lambda>url k. if k < 2 then Inl ''refused'' else Inr ()), ho_migrate = Pair None, ho_issuer = ''iss'',
     ho_access_ttl = 900, ho_refresh_ttl = 86400, ho_nats_url = ''nats'', ho_nats_connect = Map.empty,
     ho_ensure_stream = None, ho_get_stream = Some ''no stream'', ho_get_consumer = None,
     ho_redis_open = (\<lambda>u. True), ho_redis_connect = (\<lambda>u. True), ho_internal_token = ''internal'',
     ho_internal_optional = True, ho_addr_parses = (\<lambda>a. True)\<rparr>"

lemma trim_space: "trim '' u'' = ''u''"
  by code_simp

lemma client_seeded:
  "fault_free E \<Longrightarrow> has_tenant default_tenant_id (db w) \<Longrightarrow> ok (bootstrap_oidc_client E conf) w"
  by (simp add: ok_def bootstrap_oidc_client_def db_try_def run_query_def fault_free_def seed_client_def)

lemma demo_boots: "ok (bootstrap demo_env (ho_env_or demo_host) ''iss'' 900) demo_world"
proof -
  have idle: "bootstrap_admin demo_env (ho_env_or demo_host) w = (Inr (), w)"
    "bootstrap_demo demo_env (ho_env_or demo_host) w = (Inr (), w)" for w
    by (simp_all add: demo_host_def bootstrap_admin_def bootstrap_demo_def bootstrap_user_def ret_apply)
  have "ok (load_jwt_manager demo_env ''iss'' 900) demo_world"
    by (simp add: load_jwt_manager_def [THEN fun_cong] demo_runs cong: run_weak)
  then obtain jm w1 where load: "load_jwt_manager demo_env ''iss'' 900 demo_world = (Inr jm, w1)"
    using okE by blast
  have "grows tenants (db demo_world) (db w1)"
    using ledger.load_jwt_manager [THEN stableD, OF ledger.w_signing_key load] by (simp add: ledger_def)
  then have "has_tenant default_tenant_id (db w1)"
    by (auto simp: grows_def has_tenant_def exists_where_iff default_tenant_id_def demo_world_def demo_db_def)
  then obtain x w2 where "bootstrap_oidc_client demo_env (ho_env_or demo_host) w1 = (Inr x, w2)"
    using okE [OF client_seeded [OF demo_fault_free]] by blast
  with load idle show ?thesis
    by (simp add: bootstrap_def ok_def bind_ok_apply ret_apply)
qed

lemma demo_start: "\<exists>s w1. main_run demo_env demo_host demo_world = (Inr (Serving s), w1)"
proof -
  obtain jm w1 where boot: "bootstrap demo_env (ho_env_or demo_host) ''iss'' 900 demo_world = (Inr jm, w1)"
    using okE [OF demo_boots] by blast
  have host: "ho_security demo_host = None" "\<not> migrate_only demo_host" "ho_must_env demo_host x = Inr x"
    "ho_issuer demo_host = ''iss''" "ho_access_ttl demo_host = 900" "run_migrations demo_host w = (Inr (), w)"
    "fst (connect_with_retry (ho_connect demo_host x)) = Inr ()"
    "start_events demo_host w = (Inr (True, False), w)" "ho_addr_parses demo_host x" for x w
    by (simp_all add: demo_host_def migrate_only_def run_migrations_def or_abort_def connect_with_retry_def
        eval_nat_numeral start_events_def saga_run_def bind_ok_apply ret_apply)
  show ?thesis
    unfolding main_run_def
    by (simp add: host bind_ok_apply ret_apply lift_sum_apply require_apply boot)
qed

theorem start_fails_closed_witness:
  "\<exists>s w1. main_run demo_env demo_host demo_world = (Inr (Serving s), w1) \<and>
     serve (deployed demo_env demo_host s) (ann_md(''x-internal-token'' := None)) List_tenants w1 =
       (Inl (Status Unauthenticated ''missing or invalid internal service token''), w1)"
proof -
  obtain s w1 where run: "main_run demo_env demo_host demo_world = (Inr (Serving s), w1)"
    using demo_start by blast
  from start_fails_closed [OF run] run show ?thesis by (auto simp: demo_host_def)
qed

section \<open>An interrupted first start\<close>

lemma created_user:
  assumes "create_user_with_role c i t em h ro d = Inr (x, d')"
  shows "x = i \<and> users d' = users d @ [new_user i em h t] \<and> memberships d' = memberships d \<and> \<not> has_user i d"
  using assms
  by (auto simp: create_user_with_role_def has_user_def exists_where_iff
      elim!: then_query_InrE insert_user_E insert_user_roles_E)

text \<open>
  C35: the account and the membership of the first administrator are two transactions.  When the
  reply of the first one, or the second one, is lost, the start ends with an account that is a
  member of no tenant, and no later start adds the membership, because the account exists.
\<close>

theorem interrupted_bootstrap_is_permanent:
  assumes "em = conf ''BOOTSTRAP_ADMIN_EMAIL'' []" and "em \<noteq> []" and "conf ''BOOTSTRAP_ADMIN_PASSWORD'' [] \<noteq> []"
    and "refs_valid (db w)" and "\<not> (\<exists>u\<in>set (users (db w)). u_email u = em)"
    and "pw_hash (crypto E) (draws w) (conf ''BOOTSTRAP_ADMIN_PASSWORD'' []) = Some h"
    and "n = db_calls w" and "create_user_with_role (conn_role E) (db_uuid E (Suc n)) (now w) em h ''admin'' (db w) = Inr (i, d)"
    and "db_fault E n = Fine"
    and "db_fault E (Suc n) = Lost_reply \<or> db_fault E (Suc n) = Fine \<and> db_fault E (Suc (Suc n)) = Lost_request"
  shows "\<exists>w1 u. bootstrap_admin E conf w = (Inl db_error, w1) \<and>
      u \<in> set (users (db w1)) \<and> u_email u = em \<and> (\<forall>ten. \<not> active_member (u_id u) ten (db w1)) \<and>
      (\<forall>E' v. (\<exists>u\<in>set (users (db v)). u_email u = em) \<longrightarrow> db (snd (bootstrap_admin E' conf v)) = db v)"
proof -
  note made = created_user [OF assms(8)]
  have none: "find (\<lambda>u. u_email u = em) (users (db w)) = None"
    using assms(5) by (auto simp: find_None_iff)
  let ?w = "w\<lparr>db_calls := Suc n, draws := Suc (draws w)\<rparr>"
  obtain w1 where run: "bootstrap_admin E conf w = (Inl db_error, w1)" and db: "db w1 = d"
    using assms(10)
  proof
    assume "db_fault E (Suc n) = Lost_reply"
    then show thesis
      using assms(1-3,6-9) none that
      by (simp add: bootstrap_admin_def bootstrap_user_def bind_ok_apply db_try_def run_query_def
          get_user_by_email_def reading_def draw_apply or_fail_apply with_now_apply with_call_apply)
  next
    assume "db_fault E (Suc n) = Fine \<and> db_fault E (Suc (Suc n)) = Lost_request"
    then show thesis
      using assms(1-3,6-9) none that
      by (simp add: bootstrap_admin_def bootstrap_user_def bind_ok_apply db_try_def run_query_def
          get_user_by_email_def reading_def draw_apply or_fail_apply with_now_apply with_call_apply)
  qed
  have "\<not> active_member i ten d" for ten
    using assms(4) made by (auto simp: refs_valid_def refers_def user_ids_def active_member_def
        has_user_def exists_where_iff)
  moreover have "db (snd (bootstrap_admin E' conf v)) = db v" if "\<exists>u\<in>set (users (db v)). u_email u = em" for E' v
  proof -
    from that obtain u where "find (\<lambda>u. u_email u = em) (users (db v)) = Some u"
      by (cases "find (\<lambda>u. u_email u = em) (users (db v))") (auto simp: find_None_iff)
    with assms(1-3) show ?thesis
      by (cases "db_fault E' (db_calls v)")
        (simp_all add: bootstrap_admin_def bootstrap_user_def bind_ok_def db_try_def run_query_def
          get_user_by_email_def reading_def ret_def Let_def)
  qed
  ultimately show ?thesis
    using run db made by (intro exI [of _ w1] exI [of _ "new_user i em h (now w)"]) (simp add: new_user_def)
qed

definition cut_env :: env where
  "cut_env = demo_env\<lparr>db_fault := (\<lambda>n. if n = 1 then Lost_reply else Fine)\<rparr>"

definition root_conf :: env_or where
  "root_conf k d = (if k = ''BOOTSTRAP_ADMIN_EMAIL'' then ''root@x''
     else if k = ''BOOTSTRAP_ADMIN_PASSWORD'' then ''secret'' else d)"

theorem interrupted_bootstrap_is_permanent_witness:
  "\<exists>w1 u. bootstrap_admin cut_env root_conf demo_world = (Inl db_error, w1) \<and> u \<in> set (users (db w1)) \<and>
     u_email u = ''root@x'' \<and> \<not> active_member (u_id u) default_tenant_id (db w1) \<and>
     db (snd (bootstrap_admin demo_env root_conf w1)) = db w1"
proof -
  have refs: "refs_valid (db demo_world)"
    by (simp add: demo_data refs_valid_def refers_def target_defs)
  obtain i d where "create_user_with_role App_superuser 98 (1000 * second) ''root@x'' ''#secret'' ''admin'' demo_db = Inr (i, d)"
    by (simp add: demo_runs)
  then have "create_user_with_role (conn_role cut_env) (db_uuid cut_env (Suc 0)) (now demo_world) ''root@x''
      ''#secret'' ''admin'' (db demo_world) = Inr (i, d)"
    by (simp add: cut_env_def demo_env_def demo_world_def)
  from interrupted_bootstrap_is_permanent [OF _ _ _ refs _ _ _ this, of root_conf] show ?thesis
    by (fastforce simp: root_conf_def cut_env_def demo_env_def demo_world_def demo_db_def ann_def bob_def demo_user_def
      demo_crypto_def)
qed

section \<open>The saga\<close>

text \<open>What one stream of deliveries hands over, and the incident a payload reports.\<close>

fun received :: "string option list \<Rightarrow> string list" where
  "received [] = []"
| "received (None # items) = []"
| "received (Some p # items) = p # received items"

definition incident :: "env \<Rightarrow> string \<Rightarrow> (string \<times> string) list" where
  "incident E p =
     (case parse_profile_failed (fmt E) p of
        None \<Rightarrow> []
      | Some (user, reason) \<Rightarrow> if uuid_parse (fmt E) user = None then [] else [(user, reason)])"

definition saga_record :: "audit_row \<Rightarrow> (string \<times> string) option" where
  "saga_record r =
     (if au_actor_id r = ''system'' \<and> au_actor_email r = ''saga'' \<and> au_tenant_id r = None \<and>
         au_action r = ''profile.creation_failed''
      then Some (au_target r, au_detail r) else None)"

definition only_recorded :: "audit_row list \<Rightarrow> db \<Rightarrow> db \<Rightarrow> bool" where
  "only_recorded new d d' \<longleftrightarrow>
     d' = d\<lparr>audit_events := audit_events d @ new, audit_seq := audit_seq d + int (length new)\<rparr>"

definition recorded :: "env \<Rightarrow> string list \<Rightarrow> world \<Rightarrow> world \<Rightarrow> bool" where
  "recorded E ps w w' \<longleftrightarrow> (\<exists>new. only_recorded new (db w) (db w') \<and>
     subseq (map saga_record new) (map Some (concat (map (incident E) ps))) \<and>
     (fault_free E \<longrightarrow> map saga_record new = map Some (concat (map (incident E) ps))))"

lemma recorded_none: "db w' = db w \<Longrightarrow> recorded E [] w w'"
  by (auto simp: recorded_def only_recorded_def intro: exI [of _ "[]"])

lemma recorded_trans:
  assumes "recorded E ps w w1" and "recorded E qs w1 w2"
  shows "recorded E (ps @ qs) w w2"
proof -
  from assms obtain new new' where
    n: "only_recorded new (db w) (db w1)" "subseq (map saga_record new) (map Some (concat (map (incident E) ps)))"
      "fault_free E \<longrightarrow> map saga_record new = map Some (concat (map (incident E) ps))"
    and m: "only_recorded new' (db w1) (db w2)" "subseq (map saga_record new') (map Some (concat (map (incident E) qs)))"
      "fault_free E \<longrightarrow> map saga_record new' = map Some (concat (map (incident E) qs))"
    by (auto simp: recorded_def)
  have "only_recorded (new @ new') (db w) (db w2)" using n(1) m(1) by (simp add: only_recorded_def)
  with n m show ?thesis
    unfolding recorded_def by (intro exI [of _ "new @ new'"]) (simp add: list_emb_append_mono)
qed

lemma saga_message_records:
  "\<exists>w'. saga_message E p w = (Inr (), w') \<and> recorded E [p] w w'"
proof (cases "incident E p")
  case Nil
  then have "saga_message E p w = (Inr (), w)"
    by (auto simp: saga_message_def incident_def ret_def split: option.splits if_splits)
  with Nil show ?thesis by (auto simp: recorded_def only_recorded_def intro: exI [of _ "[]"])
next
  case (Cons x xs)
  then obtain user reason i where p: "parse_profile_failed (fmt E) p = Some (user, reason)"
    "uuid_parse (fmt E) user = Some i" "incident E p = [(user, reason)]"
    by (auto simp: incident_def split: option.splits if_splits)
  let ?r = "\<lparr>au_id = audit_seq (db w), au_actor_id = ''system'', au_actor_email = ''saga'',
     au_action = ''profile.creation_failed'', au_target = user, au_detail = reason, au_tenant_id = None,
     au_created_at = now w\<rparr>"
  have fine: "fault_free E \<Longrightarrow> db_fault E (db_calls w) = Fine" by (simp add: fault_free_def)
  have run: "\<exists>w'. saga_message E p w = (Inr (), w') \<and> (db w' = db w \<and> \<not> fault_free E \<or>
      db w' = (db w)\<lparr>audit_events := audit_events (db w) @ [?r], audit_seq := audit_seq (db w) + 1\<rparr>)"
    using p fine by (cases "db_fault E (db_calls w)")
      (auto simp: saga_message_def with_now_def db_ignore_def bind_ok_def db_ok_def run_query_def
        insert_audit_def writing_def ret_def)
  then obtain w' where w': "saga_message E p w = (Inr (), w')" "db w' = db w \<and> \<not> fault_free E \<or>
      db w' = (db w)\<lparr>audit_events := audit_events (db w) @ [?r], audit_seq := audit_seq (db w) + 1\<rparr>" by blast
  from w'(2) have "recorded E [p] w w'"
  proof
    assume "db w' = db w \<and> \<not> fault_free E"
    then show ?thesis by (auto simp: recorded_def only_recorded_def intro: exI [of _ "[]"])
  next
    assume "db w' = (db w)\<lparr>audit_events := audit_events (db w) @ [?r], audit_seq := audit_seq (db w) + 1\<rparr>"
    then show ?thesis
      using p(3) by (auto simp: recorded_def only_recorded_def saga_record_def intro: exI [of _ "[?r]"])
  qed
  with w'(1) show ?thesis by blast
qed

lemma saga_stream_records:
  "\<exists>w'. saga_stream E items w = (Inr (received items), w') \<and> recorded E (received items) w w'"
proof (induction items arbitrary: w rule: received.induct)
  case (3 p items)
  obtain w1 where m: "saga_message E p w = (Inr (), w1)" "recorded E [p] w w1"
    using saga_message_records by blast
  from "3" obtain w2 where "saga_stream E items w1 = (Inr (received items), w2)" "recorded E (received items) w1 w2"
    by blast
  with m recorded_trans [OF m(2)] show ?case by (fastforce simp: bind_ok_apply ret_apply)
qed (simp_all add: ret_apply recorded_none)

text \<open>
  C36: a profile that could not be created never costs the identity: whatever is delivered and
  whatever fails, the saga acknowledges every message it received, in order, and only adds audit
  records, one for each message that names a user, in order; without database faults none is missing.
\<close>

theorem profile_failure_keeps_identity:
  assumes "saga_consume E streams w = (r, w')"
  shows "\<exists>ps. ps = concat (map (case_option [] received) streams) \<and> r = Inr ps \<and> recorded E ps w w'"
proof -
  have "\<exists>v. saga_consume E streams w = (Inr (concat (map (case_option [] received) streams)), v) \<and>
      recorded E (concat (map (case_option [] received) streams)) w v"
  proof (induction E streams arbitrary: w rule: saga_consume.induct)
    case (3 E items streams)
    obtain w1 where m: "saga_stream E items w = (Inr (received items), w1)" "recorded E (received items) w w1"
      using saga_stream_records by blast
    with "3" [of w1] recorded_trans [OF m(2)] show ?case by (fastforce simp: bind_ok_apply ret_apply)
  qed (simp_all add: ret_apply recorded_none)
  with assms show ?thesis by auto
qed

theorem profile_failure_keeps_identity_witness:
  "\<exists>w'. saga_consume demo_env [Some [Some ''3'', None], None, Some [Some ''none'']] demo_world =
      (Inr [''3'', ''none''], w') \<and> users (db w') = [ann, bob] \<and>
    map saga_record (audit_events (db w')) = [Some (''3'', ''gone'')]"
proof -
  let ?ss = "[Some [Some ''3'', None], None, Some [Some ''none'']]"
  obtain r w' where run: "saga_consume demo_env ?ss demo_world = (r, w')" by fastforce
  from profile_failure_keeps_identity [OF this] have "r = Inr [''3'', ''none'']"
    "recorded demo_env [''3'', ''none''] demo_world w'" by auto
  with run show ?thesis
    by (auto simp: recorded_def only_recorded_def incident_def demo_text_def read_uuid_def demo_world_def demo_db_def)
qed

end
