(* ===== verification/TenancyProps.thy ===== *)
theory TenancyProps
  imports TokenProps Constraints
begin

text \<open>
  Administration: which permission each request needs, and that a request bound to one tenant
  leaves every other tenant's roles, assignments, members and projects alone.
\<close>

section \<open>Permissions\<close>

text \<open>The permission the gateway's metadata must carry for a request, as a table.\<close>

definition needs :: "request \<Rightarrow> string option" where
  "needs rq = (case rq of
     Create_tenant _ _ \<Rightarrow> Some ''tenant:write'' | List_tenants \<Rightarrow> Some ''tenant:read''
   | Create_project _ _ \<Rightarrow> Some ''project:write'' | List_projects \<Rightarrow> Some ''project:read''
   | Add_member _ \<Rightarrow> Some ''member:write'' | Remove_member _ \<Rightarrow> Some ''member:write''
   | List_members \<Rightarrow> Some ''member:read''
   | Delete_user _ _ \<Rightarrow> Some ''user:delete'' | Restore_user _ \<Rightarrow> Some ''user:delete''
   | Create_role _ _ \<Rightarrow> Some ''role:write'' | Update_role _ _ \<Rightarrow> Some ''role:write''
   | Delete_role _ \<Rightarrow> Some ''role:write'' | List_roles \<Rightarrow> Some ''role:read''
   | Assign_role _ _ _ \<Rightarrow> Some ''role:assign'' | Assign_role_bulk _ _ _ \<Rightarrow> Some ''role:assign''
   | Revoke_role _ _ _ \<Rightarrow> Some ''role:assign''
   | Get_user_role_assignments _ \<Rightarrow> Some ''role:read'' | List_permissions \<Rightarrow> Some ''role:read''
   | Grant_permission _ _ \<Rightarrow> Some ''role:write'' | Revoke_permission _ _ \<Rightarrow> Some ''role:write''
   | Register_client _ _ _ _ \<Rightarrow> Some ''role:write''
   | List_audit_events _ \<Rightarrow> Some ''audit:read''
   | _ \<Rightarrow> None)"

lemmas guarded_rpc_defs = rpc_create_tenant_def rpc_list_tenants_def rpc_create_project_def
  rpc_list_projects_def rpc_add_member_def rpc_remove_member_def rpc_list_members_def
  rpc_delete_user_def rpc_restore_user_def rpc_create_role_def rpc_update_role_def
  rpc_delete_role_def rpc_list_roles_def rpc_assign_role_def rpc_assign_role_bulk_def
  rpc_revoke_role_def rpc_get_user_role_assignments_def rpc_list_permissions_def
  rpc_grant_permission_def rpc_revoke_permission_def rpc_register_client_def
  rpc_list_audit_events_def

lemma require_perm_denied:
  "\<not> has_perm md p \<Longrightarrow>
   bind_ok (require_perm md p) f w = (Inl (Status Permission_denied (''permission denied: '' @ p)), w)"
  by (simp add: require_perm_def act_simps)

text \<open>
  C13: a request that needs a permission is refused, before anything is read or written, unless
  the permission is one of the comma-separated entries of the caller's \<open>x-user-permissions\<close>.
\<close>

theorem admin_needs_permission:
  assumes "needs rq = Some p"
    and "md ''x-user-permissions'' = (if ps = [] then None else Some (join_on comma ps))"
    and "\<forall>q\<in>set ps. comma \<notin> set q" and "p \<notin> set ps"
  shows "handle E md rq w = (Inl (Status Permission_denied (''permission denied: '' @ p)), w)"
proof -
  have no: "\<not> has_perm md p"
    using assms(2-4) by (cases "ps = []") (simp_all add: has_perm_def split_join_on)
  from assms(1) show ?thesis
    by (cases rq) (simp_all add: needs_def guarded_rpc_defs done_with_def bind_ok_def
        require_perm_def require_def fail_def no)
qed

theorem admin_needs_permission_witness:
  "handle demo_env (ann_md(''x-user-permissions'' \<mapsto> ''role:read,user:read'')) (Grant_permission ''ops'' ''user:delete'')
     demo_world = (Inl (Status Permission_denied ''permission denied: role:write''), demo_world)"
  using admin_needs_permission [of "Grant_permission ''ops'' ''user:delete''" "''role:write''"
      "ann_md(''x-user-permissions'' \<mapsto> ''role:read,user:read'')" "[''role:read'', ''user:read'']"]
  by (simp add: needs_def comma_def)

section \<open>Tenants are isolated from each other\<close>

text \<open>What does not belong to a tenant: the templates and the other tenants' roles with their
  permissions, the other tenants' assignments of those, members, projects, clients, keys and audit
  records, and every table that no tenant owns.  Of the whole database this leaves out the tenant's
  own rows and the sequences of the serial keys of \<open>roles\<close> and \<open>audit_events\<close>.\<close>

definition foreign_roles :: "uuid \<Rightarrow> db \<Rightarrow> role_row list" where
  "foreign_roles ten d = filter (\<lambda>r. ro_tenant_id r \<noteq> Some ten) (roles d)"

definition foreign_grants :: "uuid \<Rightarrow> db \<Rightarrow> (int \<times> int) list" where
  "foreign_grants ten d = filter (\<lambda>rp. fst rp \<in> ro_id ` set (foreign_roles ten d)) (role_permissions d)"

definition foreign_assignments :: "uuid \<Rightarrow> db \<Rightarrow> user_role_row list" where
  "foreign_assignments ten d = filter (\<lambda>ur. ur_tenant_id ur \<noteq> ten \<and>
     ur_role_id ur \<in> ro_id ` set (foreign_roles ten d)) (user_roles d)"

definition same_outside :: "uuid \<Rightarrow> db \<Rightarrow> db \<Rightarrow> bool" where
  "same_outside ten d d' \<longleftrightarrow>
     foreign_roles ten d' = foreign_roles ten d \<and> foreign_grants ten d' = foreign_grants ten d \<and>
     foreign_assignments ten d' = foreign_assignments ten d \<and>
     {ur \<in> set (user_roles d'). ur_tenant_id ur \<noteq> ten} \<subseteq> set (user_roles d) \<and>
     filter (\<lambda>m. me_tenant_id m \<noteq> ten) (memberships d') = filter (\<lambda>m. me_tenant_id m \<noteq> ten) (memberships d) \<and>
     filter (\<lambda>p. pr_tenant_id p \<noteq> ten) (projects d') = filter (\<lambda>p. pr_tenant_id p \<noteq> ten) (projects d) \<and>
     filter (\<lambda>a. au_tenant_id a \<noteq> Some ten) (audit_events d') =
       filter (\<lambda>a. au_tenant_id a \<noteq> Some ten) (audit_events d) \<and>
     filter (\<lambda>c. oc_tenant_id c \<noteq> ten) (oauth_clients d') = filter (\<lambda>c. oc_tenant_id c \<noteq> ten) (oauth_clients d) \<and>
     filter (\<lambda>k. ak_tenant_id k \<noteq> ten) (api_keys d') = filter (\<lambda>k. ak_tenant_id k \<noteq> ten) (api_keys d) \<and>
     users d' = users d \<and> tenants d' = tenants d \<and> permissions d' = permissions d \<and>
     refresh_tokens d' = refresh_tokens d \<and> revoked_tokens d' = revoked_tokens d \<and>
     email_verifications d' = email_verifications d \<and> password_resets d' = password_resets d \<and>
     recovery_codes d' = recovery_codes d \<and> recovery_seq d' = recovery_seq d \<and>
     outbox d' = outbox d \<and> signing_keys d' = signing_keys d \<and> auth_codes d' = auth_codes d \<and>
     consents d' = consents d"

definition isolates :: "uuid \<Rightarrow> db \<Rightarrow> db \<Rightarrow> bool" where
  "isolates ten d d' \<longleftrightarrow> (sound_roles d \<longrightarrow> sound_roles d' \<and> same_outside ten d d')"

interpretation isolates: db_order "isolates ten" for ten
  by unfold_locales (auto simp: isolates_def same_outside_def subset_iff)

lemma own_role_not_foreign:
  "sound_roles d \<Longrightarrow> r \<in> set (roles d) \<Longrightarrow> own_role n ten r \<Longrightarrow> ro_id r \<notin> ro_id ` set (foreign_roles ten d)"
  by (auto simp: sound_roles_def foreign_roles_def own_role_def dest: distinct_map_inj)

text \<open>A statement that leaves the roles alone.\<close>

lemma isolates_same_roles:
  assumes "roles d' = roles d" and "role_seq d' = role_seq d"
    and "foreign_roles ten d' = foreign_roles ten d \<Longrightarrow> same_outside ten d d'"
  shows "isolates ten d d'"
  using assms by (simp add: isolates_def sound_roles_def foreign_roles_def)

lemmas outside_defs = same_outside_def foreign_roles_def foreign_grants_def foreign_assignments_def

lemma isolates_create_role: "q_stable (isolates ten) (create_role n de ten)"
  by (rule q_stableI, erule create_role_E)
    (fastforce simp: isolates_def sound_roles_def outside_defs)

lemma isolates_update_role: "q_stable (isolates ten) (update_role n de ten)"
proof (rule q_stableI)
  fix d x d'
  assume "update_role n de ten d = Inr (x, d')"
  then have d': "d' = d\<lparr>roles := update_where (own_role n ten) (\<lambda>r. r\<lparr>ro_description := de\<rparr>) (roles d)\<rparr>"
    by (rule update_role_E)
  have f: "foreign_roles ten d' = foreign_roles ten d"
    unfolding foreign_roles_def d' by (simp, rule filter_update_where_disjoint) (simp_all add: own_role_def)
  have "sound_roles d \<Longrightarrow> sound_roles d'"
    by (auto simp: d' sound_roles_def set_update_where)
  with f show "isolates ten d d'"
    by (simp add: isolates_def same_outside_def foreign_grants_def foreign_assignments_def d')
qed

lemma isolates_delete_role: "q_stable (isolates ten) (delete_role n ten)"
proof (rule q_stableI)
  fix d x d'
  assume del: "delete_role n ten d = Inr (x, d')"
  let ?ids = "ro_id ` set (filter (own_role n ten) (roles d))"
  have d': "roles d' = delete_where (own_role n ten) (roles d)"
      "role_permissions d' = delete_where (\<lambda>rp. fst rp \<in> ?ids) (role_permissions d)"
      "user_roles d' = delete_where (\<lambda>ur. ur_role_id ur \<in> ?ids) (user_roles d)"
    and rest: "role_seq d' = role_seq d" "memberships d' = memberships d" "projects d' = projects d"
      "audit_events d' = audit_events d" "users d' = users d" "tenants d' = tenants d"
      "permissions d' = permissions d" "refresh_tokens d' = refresh_tokens d"
      "api_keys d' = api_keys d" "oauth_clients d' = oauth_clients d"
      "revoked_tokens d' = revoked_tokens d" "email_verifications d' = email_verifications d"
      "password_resets d' = password_resets d" "recovery_codes d' = recovery_codes d"
      "recovery_seq d' = recovery_seq d" "outbox d' = outbox d" "signing_keys d' = signing_keys d"
      "auth_codes d' = auth_codes d" "consents d' = consents d"
    using del by (simp_all add: delete_role_def Let_def)
  have f: "foreign_roles ten d' = foreign_roles ten d"
    unfolding foreign_roles_def d'(1) by (rule filter_delete_where_disjoint) (simp add: own_role_def)
  have gone: "i \<notin> ro_id ` set (foreign_roles ten d)" if "sound_roles d" "i \<in> ?ids" for i
    using own_role_not_foreign [OF that(1)] that(2) by auto
  have "foreign_grants ten d' = foreign_grants ten d" if "sound_roles d"
    unfolding foreign_grants_def f d'(2) using gone [OF that]
    by (intro filter_delete_where_disjoint) auto
  moreover have "foreign_assignments ten d' = foreign_assignments ten d" if "sound_roles d"
    unfolding foreign_assignments_def f d'(3) using gone [OF that]
    by (intro filter_delete_where_disjoint) auto
  moreover have "sound_roles d \<Longrightarrow> sound_roles d'"
    by (simp add: d'(1) rest sound_roles_def distinct_map_delete_where)
  ultimately show "isolates ten d d'"
    using f rest by (auto simp: isolates_def same_outside_def d'(3))
qed

lemma isolates_grant: "q_stable (isolates ten) (grant_permission n pn ten)"
proof (rule q_stableI)
  fix d x d'
  assume "grant_permission n pn ten d = Inr (x, d')"
  then have d': "d' = d\<lparr>role_permissions := role_permissions d @ new_grants n pn ten d\<rparr>"
    by (rule grant_permission_E)
  have "fst rp \<notin> ro_id ` set (foreign_roles ten d)"
    if "sound_roles d" "rp \<in> set (new_grants n pn ten d)" for rp
    using that own_role_not_foreign [OF that(1)] by (fastforce simp: new_grants_def)
  then show "isolates ten d d'"
    by (auto simp: isolates_def sound_roles_def outside_defs d' filter_empty_conv)
qed

lemma isolates_ungrant: "q_stable (isolates ten) (revoke_permission n pn ten)"
proof (rule q_stableI)
  fix d x d'
  assume "revoke_permission n pn ten d = Inr (x, d')"
  then show "isolates ten d d'"
  proof (rule revoke_permission_E)
    assume "d' = d" then show ?thesis by (simp add: isolates.refl)
  next
    fix r p
    assume own: "filter (own_role n ten) (roles d) = [r]"
      and d': "d' = d\<lparr>role_permissions :=
        delete_where (\<lambda>rp. rp = (ro_id r, pe_id p)) (role_permissions d)\<rparr>"
    have r: "r \<in> set (roles d)" "own_role n ten r"
      using arg_cong [OF own, of set] by auto
    have f: "foreign_roles ten d' = foreign_roles ten d" by (simp add: d' foreign_roles_def)
    have "foreign_grants ten d' = foreign_grants ten d" if "sound_roles d"
      unfolding foreign_grants_def f using own_role_not_foreign [OF that r]
      by (auto simp: d' intro!: filter_delete_where_disjoint)
    with f show ?thesis
      by (simp add: isolates_def sound_roles_def same_outside_def foreign_assignments_def d')
  qed
qed

lemma isolates_others:
  "q_stable (isolates ten) (assign_role i n ten pr)" "q_stable (isolates ten) (revoke_role eager i n ten pr)"
  "q_stable (isolates ten) (add_member i ten)" "q_stable (isolates ten) (remove_member i ten)"
  "q_stable (isolates ten) (create_project f ten sl n)"
  "q_stable (isolates ten) (insert_audit t ai ae ac tg de (Some ten))"
  "q_stable (isolates ten) (create_api_key t' k i h n ss ex ten pr)"
  unfolding add_member_def remove_member_def insert_audit_def
  by (rule q_stableI, rule isolates_same_roles;
      auto simp: outside_defs role_rows_ok_def new_members_def scope_match_def filter_empty_conv
        intro!: filter_delete_where_disjoint elim!: query_elims)+

lemma isolates_insert_client: "oc_tenant_id c = ten \<Longrightarrow> q_stable (isolates ten) (insert_client c)"
  by (rule q_stableI, rule isolates_same_roles; auto simp: outside_defs elim!: query_elims)

text \<open>The requests that act on the tenant of the caller's token.\<close>

definition tenant_bound :: "request \<Rightarrow> bool" where
  "tenant_bound rq \<longleftrightarrow> (case rq of
     Create_project _ _ \<Rightarrow> True | List_projects \<Rightarrow> True | Add_member _ \<Rightarrow> True
   | Remove_member _ \<Rightarrow> True | List_members \<Rightarrow> True | Create_role _ _ \<Rightarrow> True
   | Update_role _ _ \<Rightarrow> True | Delete_role _ \<Rightarrow> True | List_roles \<Rightarrow> True
   | Assign_role _ _ _ \<Rightarrow> True | Assign_role_bulk _ _ _ \<Rightarrow> True | Revoke_role _ _ _ \<Rightarrow> True
   | Get_user_role_assignments _ \<Rightarrow> True | Grant_permission _ _ \<Rightarrow> True
   | Revoke_permission _ _ \<Rightarrow> True | Register_client _ _ _ _ \<Rightarrow> True
   | Create_api_key _ _ _ \<Rightarrow> True | List_audit_events _ \<Rightarrow> True | _ \<Rightarrow> False)"

lemma bind_lift_Inr: "bind_ok (lift_sum (Inr x)) f = f x"
  by (simp add: fun_eq_iff bind_ok_def lift_sum_def ret_def)

lemma isolates_audit:
  "active_tenant E md = Inr ten \<Longrightarrow> stable (isolates ten) (audit E md ac tg de)"
  by (simp add: audit_def isolates.audit_as isolates_others)

lemma isolates_list_audit: "q_stable (isolates ten) (list_audit ten k)"
  by (auto simp: q_stable_def list_audit_def isolates.refl split: if_splits)

lemmas isolation_rules = isolates.base_rules isolates.query_rules isolates_create_role
  isolates_update_role isolates_delete_role isolates_grant isolates_ungrant isolates_others
  isolates.audit_as isolates_audit isolates_list_audit

lemma isolates_assign_each: "stable (isolates ten) (assign_each E n ten pr us k fs)"
  by (induction us arbitrary: k fs) (auto simp: assign_one_def intro!: isolation_rules)

lemma isolates_register_client:
  "active_tenant E md = Inr ten \<Longrightarrow> stable (isolates ten) (rpc_register_client E md n us ss b)"
  unfolding rpc_register_client_def
  by (simp only: bind_lift_Inr, intro isolation_rules isolates_insert_client) simp

lemma isolates_create_key:
  assumes "active_tenant E md = Inr ten"
  shows "stable (isolates ten) (rpc_create_api_key E md n ss ttl)"
  unfolding rpc_create_api_key_def assms bind_lift_Inr by (intro isolation_rules assms)

lemma isolates_handle:
  assumes "active_tenant E md = Inr ten" and "tenant_bound rq"
  shows "stable (isolates ten) (handle E md rq)"
proof (cases rq)
  case (Register_client n us ss b)
  show ?thesis
    unfolding Register_client handle.simps done_with_def
    by (intro isolates.act_rules isolates_register_client assms(1))
next
  case (Create_api_key n ss ttl)
  show ?thesis
    unfolding Create_api_key handle.simps done_with_def
    by (intro isolates.act_rules isolates_create_key assms(1))
qed (use assms(2) in \<open>simp_all add: tenant_bound_def done_with_def guarded_rpc_defs assms(1) bind_lift_Inr
       list_projects_by_tenant_def get_user_by_email_def list_members_by_tenant_def
       tenant_role_exists_def list_roles_with_permissions_def role_exists_def
       get_user_role_assignments_def\<close>,
     (intro isolation_rules isolates_assign_each assms(1))+)

text \<open>
  An assignment in another tenant of a role that belongs to this one.  Row-level security rejects such
  a row; over a connection that bypasses it, the statement that gives a new account its role finds the
  roles of that name of every tenant.
\<close>

definition borrowed :: "uuid \<Rightarrow> uuid \<Rightarrow> uuid \<Rightarrow> db \<Rightarrow> bool" where
  "borrowed ten i ten' d \<longleftrightarrow> (\<exists>ur\<in>set (user_roles d). ur_user_id ur = i \<and> ur_tenant_id ur = ten' \<and>
     ur_role_id ur \<notin> ro_id ` set (foreign_roles ten d))"

lemma home_not_borrowed:
  assumes "assignments_home d" and "ten' \<noteq> ten"
  shows "\<not> borrowed ten i ten' d"
  unfolding borrowed_def
proof clarify
  fix ur
  assume ur: "ur \<in> set (user_roles d)" "ten' = ur_tenant_id ur"
    and out: "ur_role_id ur \<notin> ro_id ` set (foreign_roles ten d)"
  from assms(1) ur(1) obtain r where "r \<in> set (roles d)" "ro_id r = ur_role_id ur"
    "ro_tenant_id r = None \<or> ro_tenant_id r = Some (ur_tenant_id ur)"
    by (auto simp: assignments_home_def)
  with out ur(2) assms(2) show False by (auto simp: foreign_roles_def intro!: rev_image_eqI)
qed

lemma granted_elsewhere:
  assumes "same_outside ten d d'" and "\<not> borrowed ten i ten' d" and "ten' \<noteq> ten"
  shows "granted i ten' pr d' = granted i ten' pr d"
proof -
  let ?ids = "ro_id ` set (foreign_roles ten d)"
  let ?held = "\<lambda>d ur. ur \<in> set (user_roles d) \<and> ur_user_id ur = i \<and> ur_tenant_id ur = ten'"
  have home: "ur_role_id ur \<in> ?ids" if held: "?held d ur" for ur
    using assms(2) that by (auto simp: borrowed_def)
  have kept: "foreign_assignments ten d' = foreign_assignments ten d"
    "foreign_grants ten d' = foreign_grants ten d" "foreign_roles ten d' = foreign_roles ten d"
    "permissions d' = permissions d"
    "{ur \<in> set (user_roles d'). ur_tenant_id ur \<noteq> ten} \<subseteq> set (user_roles d)"
    using assms(1) by (simp_all add: same_outside_def)
  have urs: "?held d' ur \<longleftrightarrow> ?held d ur" for ur
  proof
    assume "?held d' ur"
    with kept(5) assms(3) show "?held d ur" by auto
  next
    assume held: "?held d ur"
    with home [OF this] assms(3) have "ur \<in> set (foreign_assignments ten d)"
      by (simp add: foreign_assignments_def)
    then have "ur \<in> set (foreign_assignments ten d')" by (simp only: kept(1))
    with held show "?held d' ur" by (simp add: foreign_assignments_def)
  qed
  have "{rp \<in> set (role_permissions d'). fst rp \<in> ?ids} = {rp \<in> set (role_permissions d). fst rp \<in> ?ids}"
    using arg_cong [OF kept(2), of set] by (simp add: foreign_grants_def kept(3))
  then have rps: "rp \<in> set (role_permissions d') \<longleftrightarrow> rp \<in> set (role_permissions d)" if "fst rp \<in> ?ids" for rp
    using that by blast
  show ?thesis
    unfolding granted_def kept(4) using urs rps home by (intro Collect_cong) (metis fst_conv)
qed

text \<open>
  C8: a request bound to a tenant, whatever its outcome, changes nothing that does not belong to
  that tenant: the templates, the other tenants' roles with their permissions, assignments of those,
  members, projects, clients, keys and audit records stay, and so does every table that no tenant
  owns.  A user's permissions in another tenant stay too, unless the user holds there a role of this
  tenant, which no data allows on which assignments name templates and roles of their own tenant
  (C10).  Role ids are taken to be unique and below their sequence, which the request keeps.
\<close>

theorem tenants_are_isolated:
  assumes "active_tenant E md = Inr ten" and "tenant_bound rq" and "sound_roles (db w)"
    and "handle E md rq w = (r, w')"
  shows "same_outside ten (db w) (db w') \<and> sound_roles (db w') \<and>
    (\<forall>i ten' pr. ten' \<noteq> ten \<and> \<not> borrowed ten i ten' (db w) \<longrightarrow>
       granted i ten' pr (db w') = granted i ten' pr (db w)) \<and>
    (assignments_home (db w) \<longrightarrow>
       (\<forall>i ten' pr. ten' \<noteq> ten \<longrightarrow> granted i ten' pr (db w') = granted i ten' pr (db w)))"
proof -
  have "isolates ten (db w) (db w')"
    using isolates_handle [OF assms(1,2)] assms(4) by (rule stableD)
  with assms(3) have "same_outside ten (db w) (db w')" "sound_roles (db w')" by (simp_all add: isolates_def)
  with granted_elsewhere home_not_borrowed show ?thesis by blast
qed

theorem tenants_are_isolated_witness:
  "same_outside 1 demo_db (db (snd (handle demo_env ann_md (Delete_role ''editor'') demo_world))) \<and>
   granted 51 50 None (db (snd (handle demo_env ann_md (Delete_role ''editor'') demo_world))) =
     granted 51 50 None demo_db"
proof -
  let ?m = "handle demo_env ann_md (Delete_role ''editor'')"
  obtain r w' where run: "?m demo_world = (r, w')" by (cases "?m demo_world")
  have "active_tenant demo_env ann_md = Inr 1" and "tenant_bound (Delete_role ''editor'')"
    by (simp_all add: tenant_bound_def active_tenant_def demo_runs cong: run_weak)
  moreover have "sound_roles (db demo_world)" and "assignments_home demo_db" and "db demo_world = demo_db"
    by (simp_all add: sound_roles_def assignments_home_def demo_world_def demo_db_def demo_role_def)
  ultimately show ?thesis
    using tenants_are_isolated [of demo_env ann_md 1 "Delete_role ''editor''" demo_world, OF _ _ _ run] run
    by simp
qed

end
