(* ===== verification/Migrations.thy ===== *)
theory Migrations
  imports RepoTenancy
begin

text \<open>
  The rows the migrations (\<open>migrations/0001\<close> to \<open>0016\<close>) write, for a fresh installation.  A
  migration is a function on the final schema: what it creates and alters is in \<open>Schema\<close> and in
  the guards of the statements, so \<open>0001\<close>, \<open>0004\<close>, \<open>0006\<close> to \<open>0009\<close>, \<open>0012\<close> to \<open>0014\<close> and
  \<open>0016\<close>, which write no row, are the identity and are left out.  \<open>sqlx::migrate\<close> applies each of
  them once, in order.
\<close>

section \<open>Statements of the migrations\<close>

text \<open>\<open>INSERT INTO permissions ... ON CONFLICT (name) DO NOTHING\<close>: nothing was inserted into or
  deleted from the table besides, so its sequence is one more than the number of its rows.\<close>

definition seed_permission :: "string \<times> string \<Rightarrow> db \<Rightarrow> db" where
  "seed_permission p d =
     (if exists_where (\<lambda>r. pe_name r = fst p) (permissions d) then d
      else d\<lparr>permissions := permissions d @
             [\<lparr>pe_id = int (length (permissions d)) + 1, pe_name = fst p, pe_description = snd p\<rparr>]\<rparr>)"

text \<open>\<open>INSERT INTO roles (name, description)\<close> for a template.\<close>

definition seed_role :: "string \<times> string \<Rightarrow> db \<Rightarrow> db" where
  "seed_role p d =
     (if exists_where (\<lambda>r. ro_name r = fst p \<and> ro_tenant_id r = None) (roles d) then d
      else d\<lparr>roles := roles d @
             [\<lparr>ro_id = role_seq d, ro_name = fst p, ro_description = snd p, ro_tenant_id = None\<rparr>],
           role_seq := role_seq d + 1\<rparr>)"

text \<open>\<open>INSERT INTO role_permissions SELECT r.id, p.id FROM roles r, permissions p WHERE ... ON CONFLICT
  DO NOTHING\<close>.\<close>

definition seed_grants :: "(role_row \<Rightarrow> bool) \<Rightarrow> (string \<Rightarrow> bool) \<Rightarrow> db \<Rightarrow> db" where
  "seed_grants R P d = d\<lparr>role_permissions := role_permissions d @
     filter (\<lambda>rp. rp \<notin> set (role_permissions d))
       [(ro_id r, pe_id p). r \<leftarrow> filter R (roles d), p \<leftarrow> filter (\<lambda>p. P (pe_name p)) (permissions d)]\<rparr>"

text \<open>\<open>p.name LIKE '%:read'\<close>\<close>

definition ends_in :: "string \<Rightarrow> string \<Rightarrow> bool" where
  "ends_in suf s \<longleftrightarrow> drop (length s - length suf) s = suf"

section \<open>The migrations\<close>

text \<open>The state of the tables after their \<open>CREATE TABLE\<close>.\<close>

definition empty_db :: db where
  "empty_db =
     \<lparr>users = [], refresh_tokens = [], roles = [], role_seq = 1, permissions = [],
      role_permissions = [], user_roles = [], revoked_tokens = [], email_verifications = [],
      password_resets = [], audit_events = [], audit_seq = 1, outbox = [], signing_keys = [],
      oauth_clients = [], auth_codes = [], consents = [], recovery_codes = [], recovery_seq = 1,
      api_keys = [], tenants = [], projects = [], memberships = []\<rparr>"

definition seed_rbac :: "db \<Rightarrow> db" where
  "seed_rbac d =
     seed_grants (\<lambda>r. ro_name r = ''user'') (\<lambda>p. p \<in> {''profile:read'', ''profile:write''})
       (seed_grants (\<lambda>r. ro_name r = ''admin'') (\<lambda>p. True)
         (fold seed_permission
           [(''user:read'', ''Read any user''), (''user:write'', ''Modify any user''),
            (''user:delete'', ''Delete any user''), (''role:read'', ''List roles and permissions''),
            (''role:assign'', ''Assign roles to users''), (''profile:read'', ''Read own profile''),
            (''profile:write'', ''Modify own profile'')]
           (fold seed_role
             [(''admin'', ''Full administrative access''), (''user'', ''Standard authenticated user'')] d)))"

definition role_write :: "db \<Rightarrow> db" where
  "role_write d =
     seed_grants (\<lambda>r. ro_name r = ''admin'') (\<lambda>p. p = ''role:write'')
       (seed_permission
         (''role:write'', ''Create, update, delete roles and grant/revoke their permissions'') d)"

definition security_plus :: "db \<Rightarrow> db" where
  "security_plus d =
     seed_grants (\<lambda>r. ro_name r = ''admin'') (\<lambda>p. p = ''audit:read'')
       (seed_permission (''audit:read'', ''Read the audit log'') d)"

text \<open>The default tenant and project with their fixed ids, the permissions, and the backfill of
  memberships and of roles that are not built in; the other backfilled tables are empty.\<close>

definition default_project_id :: uuid where
  "default_project_id = 2"

definition seed_default_tenant :: "db \<Rightarrow> db" where
  "seed_default_tenant d = d
     \<lparr>tenants := tenants d @ (if has_tenant default_tenant_id d then [] else
        [\<lparr>te_id = default_tenant_id, te_slug = ''default'', te_name = ''Default Organization'',
          te_status = ''active''\<rparr>]),
      projects := projects d @ (if has_project (Some default_project_id) d then [] else
        [\<lparr>pr_id = default_project_id, pr_tenant_id = default_tenant_id, pr_slug = ''default'',
          pr_name = ''Default Project''\<rparr>])\<rparr>"

definition backfill :: "db \<Rightarrow> db" where
  "backfill d = d
     \<lparr>memberships := memberships d @
        map (\<lambda>u. \<lparr>me_user_id = u_id u, me_tenant_id = default_tenant_id, me_status = ''active''\<rparr>)
          (filter (\<lambda>u. \<not> exists_where (\<lambda>m. me_user_id m = u_id u \<and>
             me_tenant_id m = default_tenant_id) (memberships d)) (users d)),
      roles := update_where (\<lambda>r. ro_name r \<notin> {''admin'', ''user''} \<and> ro_tenant_id r = None)
        (\<lambda>r. r\<lparr>ro_tenant_id := Some default_tenant_id\<rparr>) (roles d)\<rparr>"

definition multitenant :: "db \<Rightarrow> db" where
  "multitenant d = backfill (fold seed_permission
     [(''tenant:read'', ''Read tenant settings/members''),
      (''tenant:write'', ''Create/update/delete tenants''), (''project:read'', ''Read projects''),
      (''project:write'', ''Create/update/delete projects''), (''member:read'', ''List members''),
      (''member:write'', ''Add/remove members'')] (seed_default_tenant d))"

definition grant_tenant_admin :: "db \<Rightarrow> db" where
  "grant_tenant_admin d = seed_grants (\<lambda>r. ro_name r = ''admin'') (\<lambda>p. True) d"

definition demo_viewer :: "db \<Rightarrow> db" where
  "demo_viewer d =
     seed_grants (\<lambda>r. ro_name r = ''viewer'' \<and> ro_tenant_id r = None) (ends_in '':read'')
       (seed_role (''viewer'', ''Read-only access (public demo)'') d)"

definition migrate :: "db \<Rightarrow> db" where
  "migrate = demo_viewer \<circ> grant_tenant_admin \<circ> multitenant \<circ> security_plus \<circ> role_write \<circ> seed_rbac"

definition migrated_db :: db where
  "migrated_db = migrate empty_db"

section \<open>The migrated database\<close>

definition seeded_permissions :: "(string \<times> string) list" where
  "seeded_permissions =
     [(''user:read'', ''Read any user''), (''user:write'', ''Modify any user''),
      (''user:delete'', ''Delete any user''), (''role:read'', ''List roles and permissions''),
      (''role:assign'', ''Assign roles to users''), (''profile:read'', ''Read own profile''),
      (''profile:write'', ''Modify own profile''),
      (''role:write'', ''Create, update, delete roles and grant/revoke their permissions''),
      (''audit:read'', ''Read the audit log''), (''tenant:read'', ''Read tenant settings/members''),
      (''tenant:write'', ''Create/update/delete tenants''), (''project:read'', ''Read projects''),
      (''project:write'', ''Create/update/delete projects''), (''member:read'', ''List members''),
      (''member:write'', ''Add/remove members'')]"

definition permission_rows :: "int \<Rightarrow> permission_row list" where
  "permission_rows k = map (\<lambda>(i, n, de). \<lparr>pe_id = i, pe_name = n, pe_description = de\<rparr>)
     (zip [1..k] seeded_permissions)"

definition template_row :: "int \<Rightarrow> string \<Rightarrow> string \<Rightarrow> role_row" where
  "template_row i n de = \<lparr>ro_id = i, ro_name = n, ro_description = de, ro_tenant_id = None\<rparr>"

definition admin_row :: role_row where "admin_row = template_row 1 ''admin'' ''Full administrative access''"
definition plain_row :: role_row where "plain_row = template_row 2 ''user'' ''Standard authenticated user''"
definition viewer_row :: role_row where "viewer_row = template_row 3 ''viewer'' ''Read-only access (public demo)''"

lemma id_ranges:
  "[1..7::int] = [1, 2, 3, 4, 5, 6, 7]"
  "[1..8::int] = [1, 2, 3, 4, 5, 6, 7, 8]"
  "[1..9::int] = [1, 2, 3, 4, 5, 6, 7, 8, 9]"
  "[1..15::int] = [1, 2, 3, 4, 5, 6, 7, 8, 9, 10, 11, 12, 13, 14, 15]"
  "[8..15::int] = [8, 9, 10, 11, 12, 13, 14, 15]"
  by code_simp+

lemmas template_defs = template_row_def admin_row_def plain_row_def viewer_row_def

lemmas row_defs = id_ranges permission_rows_def seeded_permissions_def template_defs

lemmas seed_defs = seed_permission_def seed_role_def seed_grants_def

text \<open>The migrations, evaluated one after the other.\<close>

lemma after_seed_rbac:
  "seed_rbac empty_db = empty_db\<lparr>roles := [admin_row, plain_row], role_seq := 3,
     permissions := permission_rows 7, role_permissions := map (Pair 1) [1..7] @ [(2, 6), (2, 7)]\<rparr>"
  by (simp add: seed_rbac_def seed_defs empty_db_def row_defs)

lemma after_role_write:
  "role_write (seed_rbac empty_db) = empty_db\<lparr>roles := [admin_row, plain_row], role_seq := 3,
     permissions := permission_rows 8,
     role_permissions := map (Pair 1) [1..7] @ [(2, 6), (2, 7)] @ [(1, 8)]\<rparr>"
  unfolding after_seed_rbac by (simp add: role_write_def seed_defs empty_db_def row_defs)

lemma after_security_plus:
  "security_plus (role_write (seed_rbac empty_db)) = empty_db\<lparr>roles := [admin_row, plain_row], role_seq := 3,
     permissions := permission_rows 9,
     role_permissions := map (Pair 1) [1..7] @ [(2, 6), (2, 7)] @ [(1, 8), (1, 9)]\<rparr>"
  unfolding after_role_write by (simp add: security_plus_def seed_defs empty_db_def row_defs)

definition default_tenant_row :: tenant_row where
  "default_tenant_row = \<lparr>te_id = default_tenant_id, te_slug = ''default'', te_name = ''Default Organization'',
     te_status = ''active''\<rparr>"

definition default_project_row :: project_row where
  "default_project_row = \<lparr>pr_id = default_project_id, pr_tenant_id = default_tenant_id,
     pr_slug = ''default'', pr_name = ''Default Project''\<rparr>"

lemma after_default_tenant:
  "seed_default_tenant (security_plus (role_write (seed_rbac empty_db))) =
     empty_db\<lparr>roles := [admin_row, plain_row], role_seq := 3, permissions := permission_rows 9,
       role_permissions := map (Pair 1) [1..7] @ [(2, 6), (2, 7)] @ [(1, 8), (1, 9)],
       tenants := [default_tenant_row], projects := [default_project_row]\<rparr>"
  unfolding after_security_plus
  by (simp add: seed_default_tenant_def empty_db_def has_tenant_def has_project_def
      default_tenant_row_def default_project_row_def)

lemma after_multitenant:
  "multitenant (security_plus (role_write (seed_rbac empty_db))) =
     empty_db\<lparr>roles := [admin_row, plain_row], role_seq := 3, permissions := permission_rows 15,
       role_permissions := map (Pair 1) [1..7] @ [(2, 6), (2, 7)] @ [(1, 8), (1, 9)],
       tenants := [default_tenant_row], projects := [default_project_row]\<rparr>"
  unfolding multitenant_def after_default_tenant
  by (simp add: seed_defs empty_db_def row_defs) (simp add: backfill_def)

lemma migrated_db:
  "migrated_db = empty_db\<lparr>roles := [admin_row, plain_row, viewer_row], role_seq := 4,
     permissions := permission_rows 15,
     role_permissions := map (Pair 1) [1..7] @ [(2, 6), (2, 7)] @ map (Pair 1) [8..15] @
       map (Pair 3) [1, 4, 6, 9, 10, 12, 14],
     tenants := [default_tenant_row], projects := [default_project_row]\<rparr>"
  unfolding migrated_db_def migrate_def comp_def after_multitenant
  by (simp add: grant_tenant_admin_def demo_viewer_def seed_defs empty_db_def row_defs ends_in_def)

end
