(* ===== verification/Fresh.thy ===== *)
theory Fresh
  imports Migrations History Constraints
begin

text \<open>
  A fresh installation: the databases that any interleaving of the program's statements makes of
  the migrated one.  They are well formed, and the three templates the migrations seed keep their
  permissions in all of them.
\<close>

definition fresh :: "env \<Rightarrow> db \<Rightarrow> bool" where
  "fresh E d \<longleftrightarrow> interleaved E migrated_db d"

lemma fresh_migrated: "fresh E migrated_db"
  by (simp add: fresh_def interleaved_def)

lemma fresh_later: "fresh E d \<Longrightarrow> interleaved E d d' \<Longrightarrow> fresh E d'"
  by (simp add: fresh_def interleaved_def)

section \<open>The migrated database is well formed\<close>

lemma migrated_tables:
  "roles migrated_db = [admin_row, plain_row, viewer_row]" "role_seq migrated_db = 4"
  "permissions migrated_db = permission_rows 15" "users migrated_db = []" "user_roles migrated_db = []"
  "role_permissions migrated_db = map (Pair 1) [1..7] @ [(2, 6), (2, 7)] @ map (Pair 1) [8..15] @
     map (Pair 3) [1, 4, 6, 9, 10, 12, 14]"
  "tenants migrated_db = [default_tenant_row]" "projects migrated_db = [default_project_row]"
  "memberships migrated_db = []" "oauth_clients migrated_db = []" "signing_keys migrated_db = []"
  "outbox migrated_db = []" "audit_events migrated_db = []" "audit_seq migrated_db = 1"
  by (simp_all add: migrated_db empty_db_def)

lemma permission_ids_15: "map pe_id (permission_rows 15) = [1..15]"
  by (simp add: permission_rows_def seeded_permissions_def id_ranges)

lemma permission_names_15: "map pe_name (permission_rows 15) = map fst seeded_permissions"
  by (simp add: permission_rows_def seeded_permissions_def id_ranges)

lemma migrated_keys: "keys_unique migrated_db"
proof -
  have "distinct (map pe_id (permission_rows 15))" by (simp add: permission_ids_15)
  moreover have "distinct (map pe_name (permission_rows 15))"
    by (simp add: permission_names_15 seeded_permissions_def)
  moreover have "distinct (role_permissions migrated_db)"
    by (simp add: migrated_tables id_ranges)
  ultimately show ?thesis
    by (simp add: keys_unique_def unique_on_def serial_on_def migrated_db empty_db_def admin_row_def
        plain_row_def viewer_row_def template_row_def)
qed

lemma migrated_refs: "refs_valid migrated_db"
proof -
  have "pe_id ` set (permission_rows 15) = set [1..15]"
    unfolding permission_ids_15 [symmetric] by simp
  then show ?thesis
    by (simp add: refs_valid_def refers_def target_defs migrated_db empty_db_def admin_row_def
        plain_row_def viewer_row_def template_row_def default_tenant_row_def default_project_row_def
        id_ranges)
qed

lemma migrated_sound:
  "sound_roles migrated_db" "names_reserved migrated_db" "assignments_home migrated_db"
  by (simp_all add: sound_roles_def names_reserved_def assignments_home_def migrated_tables
      admin_row_def plain_row_def viewer_row_def template_row_def)

lemma migrated_templates: "template_roles migrated_db = [admin_row, plain_row, viewer_row]"
  by (simp add: template_roles_def migrated_tables admin_row_def plain_row_def viewer_row_def
      template_row_def)

section \<open>So is what becomes of it\<close>

lemma fresh_keys: "fresh E d \<Longrightarrow> keys_unique d"
  unfolding fresh_def using keys.interleaved [THEN keys_keptD] migrated_keys by blast

lemma fresh_refs: "fresh E d \<Longrightarrow> refs_valid d"
  unfolding fresh_def using refs.interleaved [THEN refs_keptD] migrated_refs by blast

lemma fresh_home: "fresh E d \<Longrightarrow> conn_role E \<noteq> App_superuser \<Longrightarrow> assignments_home d"
  unfolding fresh_def using home.interleaved migrated_sound(3) by (fastforce simp: home_kept_def)

lemma fresh_reserved: "fresh E d \<Longrightarrow> names_reserved d"
  unfolding fresh_def using reserved.interleaved migrated_sound(2) by (fastforce simp: reserved_kept_def)

lemma fresh_templates:
  assumes "fresh E d"
  shows "sound_roles d" "template_roles d = [admin_row, plain_row, viewer_row]"
    "template_grants d = template_grants migrated_db" "permissions d = permission_rows 15"
  using templates.interleaved [OF assms [unfolded fresh_def]] migrated_sound(1)
  by (simp_all add: templates_fixed_def migrated_templates migrated_tables)

section \<open>What the templates grant\<close>

definition role_grants :: "int \<Rightarrow> db \<Rightarrow> string set" where
  "role_grants k d = pe_name ` {p \<in> set (permissions d). (k, pe_id p) \<in> set (role_permissions d)}"

lemma fresh_grants:
  assumes "fresh E d" and "k \<in> {1, 2, 3}"
  shows "role_grants k d = role_grants k migrated_db"
proof -
  have ids: "ro_id ` set (template_roles d) = {1, 2, 3}" "ro_id ` set (template_roles migrated_db) = {1, 2, 3}"
    by (simp_all add: fresh_templates [OF assms(1)] migrated_templates admin_row_def plain_row_def
        viewer_row_def template_row_def)
  have "(k, x) \<in> set (role_permissions e) \<longleftrightarrow> (k, x) \<in> set (template_grants e)"
    if "ro_id ` set (template_roles e) = {1, 2, 3}" for e x
    using assms(2) that by (simp add: template_grants_def)
  with ids fresh_templates(3) [OF assms(1)]
  have "(k, x) \<in> set (role_permissions d) \<longleftrightarrow> (k, x) \<in> set (role_permissions migrated_db)" for x
    by simp
  then show ?thesis
    by (simp add: role_grants_def fresh_templates [OF assms(1)] migrated_tables(3))
qed

lemma migrated_role_grants:
  "role_grants 1 migrated_db = set (map fst seeded_permissions)"
  "role_grants 2 migrated_db = {''profile:read'', ''profile:write''}"
  "role_grants 3 migrated_db = set (filter (ends_in '':read'') (map fst seeded_permissions))"
proof -
  have row: "p \<in> set (permission_rows 15) \<Longrightarrow> pe_id p \<in> set [1..15]" for p
    using permission_ids_15 by (metis image_eqI set_map)
  have "role_grants 1 migrated_db = pe_name ` set (permission_rows 15)"
    unfolding role_grants_def migrated_tables using row by (intro arg_cong [where f = "(`) pe_name"]) fastforce
  then show "role_grants 1 migrated_db = set (map fst seeded_permissions)"
    by (simp flip: permission_names_15)
  show "role_grants 2 migrated_db = {''profile:read'', ''profile:write''}"
    "role_grants 3 migrated_db = set (filter (ends_in '':read'') (map fst seeded_permissions))"
    unfolding role_grants_def migrated_tables set_filter [symmetric] set_map [symmetric]
    by (simp_all add: permission_rows_def seeded_permissions_def id_ranges ends_in_def)
qed

lemmas fresh_role_grants = fresh_grants [of _ _ 1, simplified migrated_role_grants, simplified]
  fresh_grants [of _ _ 2, simplified migrated_role_grants, simplified]
  fresh_grants [of _ _ 3, simplified migrated_role_grants, simplified]

end
