(* ===== verification/GrantProps.thy ===== *)
theory GrantProps
  imports TenancyProps AccountProps Fresh
begin

text \<open>
  Where permissions come from: which requests can add to what a user may do, on whose authority,
  and what a registration gives in a fresh installation.
\<close>

section \<open>What a request can add\<close>

text \<open>At most the users of \<open>S\<close> got new assignments, in the tenants it pairs them with; no permission was
  added to a role.\<close>

definition gain_only :: "(uuid \<times> uuid) set \<Rightarrow> db \<Rightarrow> db \<Rightarrow> bool" where
  "gain_only S d d' \<longleftrightarrow>
     set (user_roles d') \<subseteq> set (user_roles d) \<union> {ur. (ur_user_id ur, ur_tenant_id ur) \<in> S} \<and>
     set (role_permissions d') \<subseteq> set (role_permissions d) \<and> set (permissions d') \<subseteq> set (permissions d)"

interpretation gain: plain_statements "gain_only S" E for S E
proof (unfold_locales, goal_cases)
  case 1 then show ?case by (simp add: gain_only_def)
next
  case 2 then show ?case by (auto simp: gain_only_def subset_iff)
qed (rule q_stableI; auto simp: write_defs row_change_defs gain_only_def elim!: query_elims)+

lemma gain_nothing: "gain_only {} d d' \<Longrightarrow> granted i ten pr d' \<subseteq> granted i ten pr d"
  by (fastforce simp: gain_only_def granted_def)

lemma gain_others: "gain_only S d d' \<Longrightarrow> (i, ten) \<notin> S \<Longrightarrow> granted i ten pr d' \<subseteq> granted i ten pr d"
  by (fastforce simp: gain_only_def granted_def)

lemma gain_assign: "(i, ten) \<in> S \<Longrightarrow> q_stable (gain_only S) (assign_role i n ten pr)"
  by (rule q_stableI) (auto simp: gain_only_def role_rows_ok_def dest!: subsetD elim!: query_elims)

lemma gain_assign_each:
  "(\<And>u i. u \<in> set us \<Longrightarrow> uuid_parse (fmt E) u = Some i \<Longrightarrow> (i, ten) \<in> S) \<Longrightarrow>
   stable (gain_only S) (assign_each E n ten pr us k fs)"
  by (induction us arbitrary: k fs)
    (auto simp: assign_one_def intro!: gain.service_rules gain_assign)

text \<open>What is known of the tenant and the user when the rest of a request runs.\<close>

lemma gain_tenant:
  "(\<And>t. s = Inr t \<Longrightarrow> stable (gain_only S) (f t)) \<Longrightarrow> stable (gain_only S) (bind_ok (lift_sum s) f)"
  by (cases s) (simp_all add: stable_def bind_ok_def lift_sum_def fail_def ret_def gain.refl)

lemma gain_user:
  "(\<And>i. x = Some i \<Longrightarrow> stable (gain_only S) (f i)) \<Longrightarrow> stable (gain_only S) (bind_ok (or_fail e x) f)"
  by (cases x) (simp_all add: stable_def bind_ok_def or_fail_def fail_def ret_def gain.refl)

lemma gain_rpc_assign:
  assumes "\<And>i ten. uuid_parse (fmt E) u = Some i \<Longrightarrow> active_tenant E md = Inr ten \<Longrightarrow> (i, ten) \<in> S"
  shows "stable (gain_only S) (rpc_assign_role E md u n p)"
  unfolding rpc_assign_role_def
  by (rule gain.bind [OF gain.require_perm], rule gain_tenant, rule gain_user)
    (intro gain.service_rules gain_assign assms)

lemma gain_rpc_assign_bulk:
  assumes "\<And>u i ten. u \<in> set us \<Longrightarrow> uuid_parse (fmt E) u = Some i \<Longrightarrow> active_tenant E md = Inr ten \<Longrightarrow>
      (i, ten) \<in> S"
  shows "stable (gain_only S) (rpc_assign_role_bulk E md us n p)"
  unfolding rpc_assign_role_bulk_def
  by (rule gain.bind [OF gain.require_perm], rule gain_tenant)
    (intro gain.service_rules gain_assign_each assms)

text \<open>At most the permission \<open>pn\<close> was added to roles.\<close>

definition grant_only :: "string \<Rightarrow> db \<Rightarrow> db \<Rightarrow> bool" where
  "grant_only pn d d' \<longleftrightarrow> set (user_roles d') \<subseteq> set (user_roles d) \<and> permissions d' = permissions d \<and>
     set (role_permissions d') \<subseteq> set (role_permissions d) \<union>
       {rp. \<exists>p\<in>set (permissions d). snd rp = pe_id p \<and> pe_name p = pn}"

interpretation grants: db_order "grant_only pn" for pn
  by unfold_locales (simp add: grant_only_def, unfold grant_only_def, fastforce)

lemma grant_only_audit: "q_stable (grant_only pn) (insert_audit t a em ac tg de ten)"
  by (rule q_stableI) (auto simp: insert_audit_def grant_only_def)

lemma grant_only_grant: "q_stable (grant_only pn) (grant_permission n pn ten)"
  by (rule q_stableI) (auto simp: grant_only_def new_grants_def elim!: query_elims)

lemma grant_only_rpc: "stable (grant_only pn) (rpc_grant_permission E md n pn)"
  unfolding rpc_grant_permission_def perm_role_guard_def role_exists_def tenant_role_exists_def
  by (intro grants.base_rules grants.query_rules grants.audit grant_only_audit grant_only_grant)

lemma grant_only_granted:
  assumes "grant_only pn d d'" and "unique_on pe_id permissions d"
  shows "granted i ten pr d' \<subseteq> insert pn (granted i ten pr d)"
proof
  fix x
  assume "x \<in> granted i ten pr d'"
  then obtain p ur where p: "x = pe_name p" "p \<in> set (permissions d)" and ur: "ur \<in> set (user_roles d)"
      "ur_user_id ur = i" "ur_tenant_id ur = ten" "ur_project_id ur = None \<or> ur_project_id ur = pr"
    and rp: "(ur_role_id ur, pe_id p) \<in> set (role_permissions d')"
    using assms(1) unfolding granted_def grant_only_def by auto
  show "x \<in> insert pn (granted i ten pr d)"
  proof (cases "(ur_role_id ur, pe_id p) \<in> set (role_permissions d)")
    case True
    with p ur show ?thesis by (auto simp: granted_def)
  next
    case False
    with rp assms(1) obtain q where "q \<in> set (permissions d)" "pe_id q = pe_id p" "pe_name q = pn"
      unfolding grant_only_def by fastforce
    with p assms(2) have "q = p"
      by (auto simp: unique_on_def dest: distinct_map_inj)
    with p \<open>pe_name q = pn\<close> show ?thesis by simp
  qed
qed

text \<open>A permission that was not there comes from one of the new assignments.\<close>

lemma granted_new:
  assumes "x \<in> granted i ten pr d'" and "x \<notin> granted i ten pr d"
    and "user_roles d' = user_roles d @ new" and "role_permissions d' = role_permissions d"
    and "permissions d' = permissions d"
  shows "\<exists>ur\<in>set new. ur_user_id ur = i \<and> ur_tenant_id ur = ten"
proof -
  from assms(1,3-5) obtain p ur where p: "x = pe_name p" "p \<in> set (permissions d)"
    and ur: "ur \<in> set (user_roles d) \<union> set new" "ur_user_id ur = i" "ur_tenant_id ur = ten"
      "ur_project_id ur = None \<or> ur_project_id ur = pr"
    and rp: "(ur_role_id ur, pe_id p) \<in> set (role_permissions d)"
    by (auto simp: granted_def)
  have "ur \<notin> set (user_roles d)"
    using assms(2) p ur(2-4) rp unfolding granted_def by blast
  with ur show ?thesis by auto
qed

section \<open>On whose authority\<close>

lemma fail_unchanged: "fail e w = (r, w') \<Longrightarrow> w' = w"
  by (simp add: fail_def)

lemma require_perm_cases:
  assumes "bind_ok (require_perm md q) f w = (r, w')"
  obtains "w' = w" | "has_perm md q" and "f () w = (r, w')"
  using assms by (cases "has_perm md q") (auto simp: require_perm_def bind_ok_def require_def ret_def fail_def)

lemma lift_cases:
  assumes "bind_ok (lift_sum s) f w = (r, w')"
  obtains "w' = w" | x where "s = Inr x" and "f x w = (r, w')"
  using assms by (cases s) (auto simp: bind_ok_def lift_sum_def ret_def fail_def)

lemma require_cases:
  assumes "bind_ok (require b e) f w = (r, w')"
  obtains "w' = w" | b and "f () w = (r, w')"
  using assms by (cases b) (auto simp: bind_ok_def require_def ret_def fail_def)

lemma try_cases:
  assumes "bind_ok (db_try E e q) f w = (r, w')"
  obtains "db w' = db w" | x d where "q (db w) = Inr (x, d)" and "db w' = d"
  | x v where "q (db w) = Inr (x, db v)" and "f x v = (r, w')"
  using assms
proof (rule bind_ok_any)
  fix e'
  assume "db_try E e q w = (Inl e', w')"
  then show thesis by (rule db_try_Inl) (use that(1,2) in auto)
next
  fix x w1
  assume run: "db_try E e q w = (Inr x, w1)" and rest: "f x w1 = (r, w')"
  from run have "q (db w) = Inr (x, db w1)" by (rule db_try_Inr) simp
  with rest show thesis by (rule that(3) [rotated])
qed

lemma done_with_run: "done_with m w = (r, w') \<Longrightarrow> \<exists>r'. m w = (r', w')"
  by (cases "m w"; cases "fst (m w)") (auto simp: done_with_def bind_ok_def ret_def)

lemma own_authority:
  assumes "rq = Assign_role u n q \<or> rq = Assign_role_bulk us n q \<or> rq = Grant_permission n q"
    and "handle E md rq w = (r, w')" and "w' \<noteq> w"
  shows "\<exists>ten. active_tenant E md = Inr ten \<and>
    has_perm md (case rq of Grant_permission _ _ \<Rightarrow> ''role:write'' | _ \<Rightarrow> ''role:assign'')"
  using assms
  by (auto simp: rpc_assign_role_def rpc_assign_role_bulk_def rpc_grant_permission_def dest!: done_with_run
      elim!: require_perm_cases lift_cases)

lemma register_gains:
  assumes "rpc_register E em pw w = (r, w')" and "x \<in> granted i ten pr (db w')"
    and "x \<notin> granted i ten pr (db w)"
  shows "\<not> has_user i (db w) \<and> ten = default_tenant_id"
  using register_any [OF assms(1)]
proof (elim disjE exE conjE)
  assume "db w' = db w" with assms(2,3) show ?thesis by simp
next
  fix k f h p and w2 :: world
  assume made: "create_user_with_role_event (conn_role E) (jsonb E) f (now w) k em h default_role
       (type_user_registered (cfg E)) p (db w) = Inr ((), db w2)"
  have new: ?thesis if "x \<in> granted i ten pr (db w2)"
    using made
  proof (rule create_user_with_role_event_E)
    fix new j
    assume no: "\<not> exists_where (\<lambda>u. u_id u = k \<or> u_email u = em) (users (db w))"
      and d: "db w2 = db w\<lparr>users := users (db w) @ [new_user k em h (now w)], user_roles := user_roles (db w) @ new,
         outbox := outbox (db w) @ [\<lparr>ob_id = f, ob_aggregate_id = k, ob_event_type = type_user_registered (cfg E),
           ob_payload = j, ob_created_at = now w, ob_published_at = None\<rparr>]\<rparr>"
      and rows: "role_rows_ok (default_tenant_tx (conn_role E))
         (default_role_rows (default_tenant_tx (conn_role E)) k default_role (db w)) new
         (db w\<lparr>users := users (db w) @ [new_user k em h (now w)]\<rparr>)"
    from granted_new [OF that assms(3), of new] d obtain ur where
      "ur \<in> set new" "ur_user_id ur = i" "ur_tenant_id ur = ten" by auto
    with rows no show ?thesis
      by (auto simp: role_rows_ok_def default_role_rows_def has_user_def exists_where_iff dest!: subsetD)
  qed
  {
    assume "w' = w2" with assms(2) new show ?thesis by simp
  next
    assume tail: "register_tail E k em w2 = (r, w')"
    have "stable (gain_only {}) (register_tail E k em)"
      unfolding register_tail_def by (intro gain.service_rules)
    from gain_nothing [OF stableD [OF this tail]] assms(2) new show ?thesis by blast
  }
qed

lemma create_tenant_any:
  assumes "rpc_create_tenant E md sl n w = (r, w')"
  obtains "db w' = db w"
  | i f t d where "has_perm md ''tenant:write''" and "caller_uuid E md = Inr i"
    and "create_tenant_with_admin (conn_role E) f sl n i (db w) = Inr (t, d)"
    and "gain_only {} d (db w')"
proof -
  from assms consider "w' = w"
    | i where "has_perm md ''tenant:write''" "caller_uuid E md = Inr i"
      "bind_ok (db_try E (Status Already_exists ''tenant slug already taken'')
         (create_tenant_with_admin (conn_role E) (db_uuid E (db_calls w)) sl n i)) (\<lambda>t.
       bind_ok (audit_as E (uuid_show (fmt E) i) [] ''tenant.create'' (uuid_show (fmt E) (te_id t)) sl None)
         (\<lambda>_. ret (show_tenant E t))) w = (r, w')"
    unfolding rpc_create_tenant_def with_call_def
    by (elim require_perm_cases lift_cases require_cases) auto
  then show thesis
  proof cases
    case 2
    from 2(3) show thesis
    proof (rule try_cases)
      fix t v
      assume "create_tenant_with_admin (conn_role E) (db_uuid E (db_calls w)) sl n i (db w) = Inr (t, db v)"
        and "bind_ok (audit_as E (uuid_show (fmt E) i) [] ''tenant.create'' (uuid_show (fmt E) (te_id t)) sl None)
          (\<lambda>_. ret (show_tenant E t)) v = (r, w')"
      moreover have "stable (gain_only {}) (bind_ok (audit_as E (uuid_show (fmt E) i) [] ''tenant.create''
          (uuid_show (fmt E) (te_id t)) sl None) (\<lambda>_. ret (show_tenant E t)))"
        by (intro gain.service_rules)
      ultimately show thesis using that(2) [OF 2(1,2)] stableD by blast
    qed (use that(1) that(2) [OF 2(1,2)] gain.refl in auto)
  qed (use that(1) in simp)
qed

lemma create_tenant_gains:
  assumes "rpc_create_tenant E md sl n w = (r, w')" and "x \<in> granted i ten pr (db w')"
    and "x \<notin> granted i ten pr (db w)"
  shows "has_perm md ''tenant:write'' \<and> caller_uuid E md = Inr i \<and> \<not> has_tenant ten (db w)"
  using assms(1)
proof (rule create_tenant_any)
  assume "db w' = db w" with assms(2,3) show ?thesis by simp
next
  fix k f t d
  assume who: "has_perm md ''tenant:write''" "caller_uuid E md = Inr k" and "gain_only {} d (db w')"
    and made: "create_tenant_with_admin (conn_role E) f sl n k (db w) = Inr (t, d)"
  then have x: "x \<in> granted i ten pr d" using gain_nothing assms(2) by blast
  from made show ?thesis
  proof (rule create_tenant_with_admin_E)
    fix new
    assume no: "\<not> exists_where (\<lambda>t. te_id t = f \<or> te_slug t = sl) (tenants (db w))"
      and d: "d = db w\<lparr>tenants := tenants (db w) @ [t], memberships := memberships (db w) @ new_members k f (db w),
               user_roles := user_roles (db w) @ new\<rparr>"
      and rows: "role_rows_ok (pool_session (conn_role E)) (admin_template_rows (conn_role E) k f (db w)) new
           (db w\<lparr>tenants := tenants (db w) @ [t], memberships := memberships (db w) @ new_members k f (db w)\<rparr>)"
    from granted_new [OF x assms(3), of new] d obtain ur where
      "ur \<in> set new" "ur_user_id ur = i" "ur_tenant_id ur = ten" by auto
    with rows no who show ?thesis
      by (auto simp: role_rows_ok_def admin_template_rows_def has_tenant_def exists_where_iff dest!: subsetD)
  qed
qed

lemma assign_gains:
  assumes "rpc_assign_role E md u n q w = (r, w')" and "x \<in> granted i ten pr (db w') - granted i ten pr (db w)"
  shows "uuid_parse (fmt E) u = Some i \<and> active_tenant E md = Inr ten"
proof (rule ccontr)
  assume "\<not> (uuid_parse (fmt E) u = Some i \<and> active_tenant E md = Inr ten)"
  then have "stable (gain_only (- {(i, ten)})) (rpc_assign_role E md u n q)"
    by (intro gain_rpc_assign) auto
  from gain_others [OF stableD [OF this assms(1)]] assms(2) show False by auto
qed

lemma assign_bulk_gains:
  assumes "rpc_assign_role_bulk E md us n q w = (r, w')"
    and "x \<in> granted i ten pr (db w') - granted i ten pr (db w)"
  shows "(\<exists>u\<in>set us. uuid_parse (fmt E) u = Some i) \<and> active_tenant E md = Inr ten"
proof (rule ccontr)
  assume "\<not> ((\<exists>u\<in>set us. uuid_parse (fmt E) u = Some i) \<and> active_tenant E md = Inr ten)"
  then have "stable (gain_only (- {(i, ten)})) (rpc_assign_role_bulk E md us n q)"
    by (intro gain_rpc_assign_bulk) auto
  from gain_others [OF stableD [OF this assms(1)]] assms(2) show False by auto
qed

lemma grant_authority:
  assumes "handle E md (Grant_permission n q) w = (r, w')"
    and "x \<in> granted i ten pr (db w') - granted i ten pr (db w)" and "sound_roles (db w)"
  shows "\<exists>t. active_tenant E md = Inr t \<and> (t = ten \<or> borrowed t i ten (db w))"
proof -
  have "w' \<noteq> w" using assms(2) by auto
  from own_authority [OF _ assms(1) this] obtain t where t: "active_tenant E md = Inr t" by blast
  have "tenant_bound (Grant_permission n q)" by (simp add: tenant_bound_def)
  from isolates_handle [OF t this, THEN stableD, OF assms(1)] assms(3)
  have "same_outside t (db w) (db w')" by (simp add: isolates_def)
  from granted_elsewhere [OF this] assms(2) have "t = ten \<or> borrowed t i ten (db w)" by blast
  with t show ?thesis by blast
qed

text \<open>
  C9: a request adds a permission to what a user may do in a tenant only on the authority the
  system asks for.  Assigning roles needs \<open>role:assign\<close> in that tenant and concerns the named users;
  granting needs \<open>role:write\<close>, adds the named permission, and is for that tenant or for the owner of a
  role that the user holds there although it belongs to another tenant, which no data allows on which
  assignments stay in their tenant (C10); a registration gives permissions to the new user, in the
  default tenant; whoever holds \<open>tenant:write\<close> and creates a tenant gets them there.  No other request
  adds any, to anyone.  The ids of roles and of permissions are taken to be unique (C10).
\<close>

theorem permissions_need_authority:
  assumes "handle E md rq w = (r, w')" and "x \<in> granted i ten pr (db w') - granted i ten pr (db w)"
    and "sound_roles (db w)" and "unique_on pe_id permissions (db w)"
  shows "case rq of
      Assign_role u n q \<Rightarrow> has_perm md ''role:assign'' \<and> active_tenant E md = Inr ten \<and>
        uuid_parse (fmt E) u = Some i
    | Assign_role_bulk us n q \<Rightarrow> has_perm md ''role:assign'' \<and> active_tenant E md = Inr ten \<and>
        (\<exists>u\<in>set us. uuid_parse (fmt E) u = Some i)
    | Grant_permission n q \<Rightarrow> has_perm md ''role:write'' \<and> q = x \<and>
        (\<exists>t. active_tenant E md = Inr t \<and> (t = ten \<or> borrowed t i ten (db w)) \<and>
           (assignments_home (db w) \<longrightarrow> t = ten))
    | Register em pw \<Rightarrow> ten = default_tenant_id \<and> \<not> has_user i (db w)
    | Create_tenant sl n \<Rightarrow> has_perm md ''tenant:write'' \<and> caller_uuid E md = Inr i \<and> \<not> has_tenant ten (db w)
    | _ \<Rightarrow> False"
proof (cases "may_grant rq")
  case False
  from gain.plain_handle [OF this, THEN stableD, OF assms(1)] assms(2) gain_nothing show ?thesis by blast
next
  case True
  have changed: "w' \<noteq> w" using assms(2) by auto
  from True show ?thesis
  proof (cases rq)
    case (Register em pw)
    with assms(1,2) show ?thesis by (auto dest!: done_with_run register_gains)
  next
    case (Create_tenant sl n)
    with assms(1,2) show ?thesis by (auto dest!: done_with_run create_tenant_gains)
  next
    case (Assign_role u n q)
    with assms(1) obtain r' where "rpc_assign_role E md u n q w = (r', w')"
      by (auto dest: done_with_run)
    from assign_gains [OF this assms(2)] own_authority [OF _ assms(1) changed] show ?thesis
      by (simp add: Assign_role)
  next
    case (Assign_role_bulk us n q)
    with assms(1) obtain r' where "rpc_assign_role_bulk E md us n q w = (r', w')"
      by (auto dest: done_with_run)
    from assign_bulk_gains [OF this assms(2)] own_authority [OF _ assms(1) changed] show ?thesis
      by (simp add: Assign_role_bulk)
  next
    case (Grant_permission n q)
    note run = assms(1) [unfolded Grant_permission]
    from run obtain r' where "rpc_grant_permission E md n q w = (r', w')"
      by (auto dest: done_with_run)
    from stableD [OF grant_only_rpc this] have "grant_only q (db w) (db w')" .
    with grant_only_granted [OF this assms(4)] assms(2) have "q = x" by blast
    moreover from own_authority [OF _ run changed] have "has_perm md ''role:write''" by auto
    moreover from grant_authority [OF run assms(2,3)] obtain t where
      t: "active_tenant E md = Inr t" "t = ten \<or> borrowed t i ten (db w)" by blast
    moreover have "assignments_home (db w) \<longrightarrow> t = ten"
      using t(2) home_not_borrowed [of "db w" ten t i] by blast
    ultimately show ?thesis by (simp add: Grant_permission)
  qed (simp_all add: may_grant_def)
qed

definition assign_md :: metadata where
  "assign_md = ann_md(''x-user-permissions'' \<mapsto> ''role:assign'')"

lemma assign_runs:
  "let d = db (snd (handle demo_env assign_md (Assign_role ''4'' ''viewer'' []) demo_world)) in
     user_roles d = user_roles demo_db @
       [\<lparr>ur_user_id = 52, ur_role_id = 3, ur_tenant_id = 1, ur_project_id = None\<rparr>] \<and>
     role_permissions d = role_permissions demo_db \<and> permissions d = permissions demo_db"
  by (simp add: Let_def done_with_def [THEN fun_cong] assign_md_def resolve_role_def demo_runs
      cong: run_weak)

theorem permissions_need_authority_witness:
  "has_perm assign_md ''role:assign'' \<and> active_tenant demo_env assign_md = Inr 1 \<and>
   uuid_parse (fmt demo_env) ''4'' = Some 52"
proof -
  let ?h = "handle demo_env assign_md (Assign_role ''4'' ''viewer'' []) demo_world"
  have run: "?h = (fst ?h, snd ?h)" by simp
  have start: "db demo_world = demo_db" by (simp add: demo_world_def)
  have "''user:read'' \<in> granted 52 1 None (db (snd ?h)) - granted 52 1 None (db demo_world)"
    using assign_runs by (force simp: Let_def granted_def start demo_db_def)
  moreover have "sound_roles (db demo_world)" "unique_on pe_id permissions (db demo_world)"
    by (simp_all add: sound_roles_def unique_on_def start demo_db_def demo_role_def)
  ultimately show ?thesis using permissions_need_authority [OF run] by simp
qed

section \<open>What a registration gives\<close>

lemma register_tail_rbac:
  assumes "register_tail E i email w = (r, w')"
  shows "user_roles (db w') = user_roles (db w) \<and> role_permissions (db w') = role_permissions (db w) \<and>
    permissions (db w') = permissions (db w)"
proof -
  have "stable (\<lambda>d d'. (user_roles d', role_permissions d', permissions d') =
      (user_roles d, role_permissions d, permissions d)) (register_tail E i email)"
    unfolding register_tail_def create_membership_def
    by (intro kept.act_rules session_frame(1)
          [where f = "\<lambda>d. (recovery_codes d, recovery_codes d)"] kept.audit_as q_stableI)
      (auto simp: insert_audit_def elim!: insert_membership_E)
  from keptD [OF this assms] show ?thesis by simp
qed

lemma sole_assignment:
  assumes "filter (\<lambda>ur. ur_user_id ur = i) (user_roles d) = [r]" and "ur_project_id r = None"
  shows "granted i ten pr d = (if ten = ur_tenant_id r then role_grants (ur_role_id r) d else {})"
proof -
  have "ur \<in> set (user_roles d) \<and> ur_user_id ur = i \<longleftrightarrow> ur = r" for ur
    using arg_cong [OF assms(1), of "\<lambda>xs. ur \<in> set xs"] by simp
  then have only: "(\<exists>ur. ur \<in> set (user_roles d) \<and> ur_user_id ur = i \<and> P ur) \<longleftrightarrow> P r" for P
    unfolding conj_assoc [symmetric] by simp
  have "granted i ten pr d = {x. \<exists>p. x = pe_name p \<and> p \<in> set (permissions d) \<and>
      (\<exists>ur. ur \<in> set (user_roles d) \<and> ur_user_id ur = i \<and> (ur_tenant_id ur = ten \<and>
         (ur_project_id ur = None \<or> ur_project_id ur = pr) \<and> (ur_role_id ur, pe_id p) \<in> set (role_permissions d)))}"
    unfolding granted_def by blast
  with assms(2) show ?thesis unfolding only by (auto simp: role_grants_def)
qed

lemma insert_sole_role:
  assumes "insert_user_roles s rs d = Inr (x, d')" and "rs = [r]"
    and "\<And>ur. ur \<in> set (user_roles d) \<Longrightarrow> ur_user_id ur \<noteq> ur_user_id r"
  shows "d' = d\<lparr>user_roles := user_roles d @ [r]\<rparr>"
proof -
  from assms(1,2) have "insert_user_role s r d = Inr ((), d')"
    by (simp split: sum.splits prod.splits)
  from insert_user_role_InrD(1) [OF this] assms(3) show ?thesis
    by (fastforce simp: ur_key_def)
qed

text \<open>In a fresh installation the default role is the template \<open>user\<close> and nothing else.\<close>

lemma fresh_default_rows:
  assumes "fresh E d"
  shows "default_role_rows s i default_role d =
    [\<lparr>ur_user_id = i, ur_role_id = 2, ur_tenant_id = default_tenant_id, ur_project_id = None\<rparr>]"
proof -
  have "filter (\<lambda>r. ro_name r = ''user'') (visible_roles s d) =
      filter (\<lambda>r. ro_name r = ''user'') (template_roles d)"
    using fresh_reserved [OF assms] unfolding visible_roles_def template_roles_def filter_filter
    by (intro filter_cong) (auto simp: names_reserved_def is_builtin_role_def)
  then show ?thesis
    by (simp add: default_role_rows_def default_role_def fresh_templates [OF assms] admin_row_def
        plain_row_def viewer_row_def template_row_def)
qed

lemma registered_assignment:
  assumes "create_user_with_role_event c js f t i em h default_role ty p d = Inr (x, d')" and "fresh E d"
  shows "\<not> has_user i d \<and> role_permissions d' = role_permissions d \<and> permissions d' = permissions d \<and>
    user_roles d' = user_roles d @
      [\<lparr>ur_user_id = i, ur_role_id = 2, ur_tenant_id = default_tenant_id, ur_project_id = None\<rparr>]"
  using assms(1) unfolding create_user_with_role_event_def
proof (elim then_query_InrE insert_user_E insert_outbox_E)
  fix y d1 z d2 j
  let ?row = "\<lparr>ur_user_id = i, ur_role_id = 2, ur_tenant_id = default_tenant_id, ur_project_id = None\<rparr>"
  assume no: "\<not> exists_where (\<lambda>u. u_id u = i \<or> u_email u = em) (users d)"
    and d1: "d1 = d\<lparr>users := users d @ [new_user i em h t]\<rparr>"
    and rows: "insert_user_roles (default_tenant_tx c)
       (default_role_rows (default_tenant_tx c) i default_role d1) d1 = Inr (z, d2)"
    and d': "d' = d2\<lparr>outbox := outbox d2 @ [\<lparr>ob_id = f, ob_aggregate_id = i, ob_event_type = ty,
       ob_payload = j, ob_created_at = t, ob_published_at = None\<rparr>]\<rparr>"
  from no have new: "i \<notin> user_ids d" by (auto simp: exists_where_iff user_ids_def)
  have old: "ur_user_id ur \<noteq> i" if "ur \<in> set (user_roles d)" for ur
    using fresh_refs [OF assms(2)] new that by (auto simp: refs_valid_def refers_def)
  from insert_sole_role [OF rows] old
  have "d2 = d1\<lparr>user_roles := user_roles d1 @ [?row]\<rparr>"
    by (auto simp: d1 fresh_default_rows [OF assms(2)])
  with new show ?thesis by (simp add: d' d1 has_row_iff)
qed

lemma registered_grants:
  assumes "fresh E (db w)" and "rpc_register E email password w = (Inr (s, em), w')"
  shows "\<exists>i. s = uuid_show (fmt E) i \<and> \<not> has_user i (db w) \<and>
    (\<forall>ten pr. granted i ten pr (db w') =
      (if ten = default_tenant_id then {''profile:read'', ''profile:write''} else {}))"
  using register_any [OF assms(2)]
proof (elim disjE exE conjE)
  fix i f h p and w2 :: world
  assume made: "create_user_with_role_event (conn_role E) (jsonb E) f (now w) i email h default_role
       (type_user_registered (cfg E)) p (db w) = Inr ((), db w2)"
    and tail: "register_tail E i email w2 = (Inr (s, em), w')"
  note eff = registered_assignment [OF made assms(1)] and rest = register_tail_rbac [OF tail]
  from tail have s: "s = uuid_show (fmt E) i"
    unfolding register_tail_def by (auto elim!: act_elims)
  have old: "ur_user_id ur \<noteq> i" if "ur \<in> set (user_roles (db w))" for ur
    using fresh_refs [OF assms(1)] eff that by (auto simp: refs_valid_def refers_def has_row_iff)
  have "granted i ten pr (db w') = (if ten = default_tenant_id then role_grants 2 (db w) else {})" for ten pr
  proof -
    have "filter (\<lambda>ur. ur_user_id ur = i) (user_roles (db w')) =
        [\<lparr>ur_user_id = i, ur_role_id = 2, ur_tenant_id = default_tenant_id, ur_project_id = None\<rparr>]"
      using eff rest old by (simp add: filter_empty_conv)
    from sole_assignment [OF this] eff rest show ?thesis by (simp add: role_grants_def)
  qed
  with s eff show ?thesis by (auto simp: fresh_role_grants [OF assms(1)])
qed auto

text \<open>
  C31: whatever fails, a registration adds exactly one user together with its \<open>user.registered\<close>
  event, or neither; the e-mail was free, the stored hash is of the given password and the e-mail is
  still to be verified.  In a fresh installation the user it reports may read and write the own
  profile in the default tenant, and nothing else anywhere.
\<close>

theorem registration_is_unprivileged:
  assumes "rpc_register E email password w = (r, w')"
  shows "(users (db w') = users (db w) \<and> events (db w') = events (db w) \<and> isl r \<or>
    (\<exists>i n hash f p j. users (db w') = users (db w) @ [new_user i email hash (now w)] \<and>
       events (db w') = events (db w) @ [(f, i, type_user_registered (cfg E), j)] \<and>
       json_registered (fmt E) (uuid_show (fmt E) i) email (display_name email) = Some p \<and>
       jsonb E p = Some j \<and> pw_hash (crypto E) n password = Some hash \<and>
       \<not> exists_where (\<lambda>u. u_email u = email) (users (db w)) \<and> email \<noteq> [] \<and> password \<noteq> [])) \<and>
    (fresh E (db w) \<longrightarrow> (\<forall>s em. r = Inr (s, em) \<longrightarrow>
      (\<exists>i. s = uuid_show (fmt E) i \<and> \<not> has_user i (db w) \<and>
        (\<forall>ten pr. granted i ten pr (db w') =
          (if ten = default_tenant_id then {''profile:read'', ''profile:write''} else {})))))"
  using register_is_atomic [OF assms] registered_grants [of E w email password _ _ w'] assms by auto

definition fresh_world :: world where
  "fresh_world = demo_world\<lparr>db := migrated_db\<rparr>"

lemma fresh_register: "ok (rpc_register demo_env ''eve@x'' ''secret'') fresh_world"
  by (simp add: fresh_world_def migrated_tables template_defs default_tenant_row_def demo_runs
      cong: run_weak)

theorem registration_is_unprivileged_witness:
  "\<exists>i r w'. rpc_register demo_env ''eve@x'' ''secret'' fresh_world = (r, w') \<and>
     length (users (db w')) = 1 \<and> granted i default_tenant_id None (db w') = {''profile:read'', ''profile:write''}"
proof -
  obtain s em w' where run: "rpc_register demo_env ''eve@x'' ''secret'' fresh_world = (Inr (s, em), w')"
    using okE [OF fresh_register] by auto
  have start: "fresh demo_env (db fresh_world)" "users (db fresh_world) = []"
    by (simp_all add: fresh_world_def fresh_migrated migrated_tables)
  note all = registration_is_unprivileged [OF run]
  from all start have one: "length (users (db w')) = 1" by auto
  from all start(1) obtain i where "\<forall>ten pr. granted i ten pr (db w') =
      (if ten = default_tenant_id then {''profile:read'', ''profile:write''} else {})" by blast
  then have "granted i default_tenant_id None (db w') = {''profile:read'', ''profile:write''}" by simp
  with run one show ?thesis by blast
qed

end
