(* ===== verification/StartupProps.thy ===== *)
theory StartupProps
  imports TokenProps
begin

text \<open>
  Start-up and the background tasks: the connection retry, the signing keys and the relay.
\<close>

section \<open>Connecting\<close>

lemma connect_loop_result:
  "connect_loop c k n err =
     (case find (\<lambda>j. \<not> isl (c j)) [k..<k + n] of
        Some j \<Rightarrow> (Inr (projr (c j)), j - k)
      | None \<Rightarrow> (case (if n = 0 then err else Some (projl (c (k + n - 1)))) of
            None \<Rightarrow> (Inl Panic, n)
          | Some e \<Rightarrow> (Inl (Aborted (''postgres not reachable: '' @ e)), n)))"
proof (induction n arbitrary: k err)
  case 0
  then show ?case by (simp split: option.split)
next
  case (Suc n)
  have up: "[k..<Suc (k + n)] = k # [Suc k..<Suc (k + n)]"
    by (simp add: upt_conv_Cons)
  show ?case
  proof (cases "c k")
    case (Inr pool)
    then show ?thesis by (simp add: up del: upt_Suc)
  next
    case (Inl e)
    have "j \<in> set [Suc k..<Suc (k + n)]" if "find (\<lambda>j. \<not> isl (c j)) [Suc k..<Suc (k + n)] = Some j" for j
      using find_SomeD [OF that] by simp
    with Inl Suc.IH [of "Suc k" "Some e"] show ?thesis
      by (auto simp: up Suc_diff_le simp del: upt_Suc split: option.splits)
  qed
qed

text \<open>
  C40: connecting ends after at most 15 attempts: it returns the pool of the first attempt that
  succeeds, after as many two-second pauses as attempts failed before it, or the last error after
  15 pauses; \<open>last_err.unwrap()\<close> never panics.
\<close>

theorem connect_is_bounded:
  "connect_with_retry c =
     (case find (\<lambda>j. \<not> isl (c j)) [0..<15] of
        Some j \<Rightarrow> (Inr (projr (c j)), j)
      | None \<Rightarrow> (Inl (Aborted (''postgres not reachable: '' @ projl (c 14))), 15)) \<and>
   snd (connect_with_retry c) \<le> 15"
proof -
  have eq: "connect_with_retry c =
     (case find (\<lambda>j. \<not> isl (c j)) [0..<15] of
        Some j \<Rightarrow> (Inr (projr (c j)), j)
      | None \<Rightarrow> (Inl (Aborted (''postgres not reachable: '' @ projl (c 14))), 15))"
    unfolding connect_with_retry_def connect_loop_result by (simp split: option.split)
  have "j \<le> 15" if "find (\<lambda>j. \<not> isl (c j)) [0..<15] = Some j" for j
    using find_SomeD [OF that] by auto
  with eq show ?thesis by (auto split: option.split)
qed

section \<open>Signing keys\<close>

definition jwk_for :: "crypto_lib \<Rightarrow> signing_key_row \<Rightarrow> jwk \<Rightarrow> bool" where
  "jwk_for C r k \<longleftrightarrow> jk_kid k = sk_kid r \<and> jk_alg k = ''RS256'' \<and>
     (\<exists>n e. rsa_public C (sk_public_pem r) = Some (n, e) \<and>
        jk_n k = b64url_encode C n \<and> jk_e k = b64url_encode C e)"

lemma jwks_of_Inr:
  "jwks_of C rows w = (Inr ks, w') \<Longrightarrow> list_all2 (jwk_for C) rows ks"
  by (induction rows arbitrary: ks w)
    (fastforce simp: jwk_for_def elim!: act_elims)+

lemma all2_member: "list_all2 P xs ys \<Longrightarrow> x \<in> set xs \<Longrightarrow> \<exists>y\<in>set ys. P x y"
  by (induction rule: list_all2_induct) auto

lemma load_keys_rows:
  assumes "load_jwt_manager E iss ttl w = (Inr jm, w')"
  obtains rows w1 publics kid priv where "rows = signing_keys (db w)" and "w1 = w\<lparr>db_calls := Suc (db_calls w)\<rparr>"
    and "jm_kid jm = kid" and "jm_private_pem jm = priv" and "jm_publics jm = publics"
    and "(if rows = [] then
          bind_ok (draw (jwt_generate_rsa (jwt E))) (\<lambda>g.
          bind_ok (or_fail (Aborted ''key generation failed'') g) (\<lambda>(kid, priv, pub).
          bind_ok (db_try E db_error (insert_signing_key kid priv pub)) (\<lambda>_.
          ret ([kid \<mapsto> pub], (kid, priv)))))
        else
          (let (publics, found) = collect_keys rows Map.empty None in
           bind_ok (or_fail (Aborted ''no active signing key'') found) (\<lambda>active.
           ret (publics, active)))) w1 = (Inr (publics, kid, priv), w')"
  using assms unfolding load_jwt_manager_def by (auto split: if_splits elim!: act_elims)

lemma first_inserted_key:
  assumes "insert_signing_key kid priv pub d = Inr (x, d')" and "signing_keys d = []"
  shows "\<exists>k. d' = d\<lparr>signing_keys := [k]\<rparr> \<and> sk_active k \<and> sk_kid k = kid \<and> sk_private_pem k = priv"
  using assms by (auto simp: insert_signing_key_def split: if_splits)

lemma first_key:
  assumes "load_jwt_manager E iss ttl w = (Inr jm, w')" and "signing_keys (db w) = []"
  shows "\<exists>k. db w' = (db w)\<lparr>signing_keys := [k]\<rparr> \<and> sk_active k \<and> sk_kid k = jm_kid jm \<and>
    sk_private_pem k = jm_private_pem jm"
  using assms(1)
proof (rule load_keys_rows, goal_cases)
  case (1 rows w1 publics kid priv)
  from 1(1) assms(2) have "rows = []" by simp
  from 1(6) [unfolded this if_True simp_thms] 1(2-4)
  have "insert_signing_key (jm_kid jm) (jm_private_pem jm) (the (jm_publics jm (jm_kid jm))) (db w) = Inr ((), db w')"
    using 1(5) by (auto elim!: act_elims)
  from first_inserted_key [OF this assms(2)] show ?case .
qed

lemma load_keys_Inr:
  assumes "load_jwt_manager E iss ttl w = (Inr jm, w')"
  shows "\<exists>r\<in>set (signing_keys (db w')). sk_active r \<and> sk_kid r = jm_kid jm \<and>
    sk_private_pem r = jm_private_pem jm \<and>
    (distinct (map sk_kid (signing_keys (db w'))) \<longrightarrow>
       (\<forall>k\<in>set (signing_keys (db w')). jm_publics jm (sk_kid k) = Some (sk_public_pem k)))"
proof -
  obtain rows w1 publics kid priv where
    rows: "rows = signing_keys (db w)" "w1 = w\<lparr>db_calls := Suc (db_calls w)\<rparr>"
    and jm: "jm_kid jm = kid" "jm_private_pem jm = priv" "jm_publics jm = publics"
    and mid: "(if rows = [] then
          bind_ok (draw (jwt_generate_rsa (jwt E))) (\<lambda>g.
          bind_ok (or_fail (Aborted ''key generation failed'') g) (\<lambda>(kid, priv, pub).
          bind_ok (db_try E db_error (insert_signing_key kid priv pub)) (\<lambda>_.
          ret ([kid \<mapsto> pub], (kid, priv)))))
        else
          (let (publics, found) = collect_keys rows Map.empty None in
           bind_ok (or_fail (Aborted ''no active signing key'') found) (\<lambda>active.
           ret (publics, active)))) w1 = (Inr (publics, kid, priv), w')"
    using load_keys_rows [OF assms] .
  show ?thesis
  proof (cases "rows = []")
    case True
    with mid rows jm show ?thesis
      by (auto elim!: act_elims insert_signing_key_E)
  next
    case False
    obtain ps found where c: "collect_keys rows Map.empty None = (ps, found)" by fastforce
    with mid False have w: "w' = w1" and f: "found = Some (kid, priv)" "ps = publics"
      by (auto elim!: act_elims)
    have pub: "publics = map_of (rev (map (\<lambda>r. (sk_kid r, sk_public_pem r)) rows))"
      using collect_keys_publics [of rows Map.empty None] c f by simp
    have "publics (sk_kid k) = Some (sk_public_pem k)"
      if "distinct (map sk_kid rows)" "k \<in> set rows" for k
      unfolding pub using that
      by (intro map_of_is_SomeI) (auto simp: rev_map [symmetric] o_def distinct_rev)
    with collect_keys_found [of rows Map.empty None kid priv] c f rows w jm show ?thesis by auto
  qed
qed

text \<open>
  C24: the key the program signs with is an active key stored in the database, every stored public
  key is known to the verifier, and from then on, whatever statements are interleaved, the key set the
  service publishes lists the signing key with the parameters of its public half.
\<close>

theorem signing_key_is_published:
  assumes "load_jwt_manager E iss ttl w = (Inr jm, w1)" and "interleaved E (db w1) (db w2)"
    and "rpc_get_jwks E w2 = (Inr ks, w3)"
  shows "\<exists>r\<in>set (signing_keys (db w1)). sk_active r \<and> sk_kid r = jm_kid jm \<and>
    sk_private_pem r = jm_private_pem jm \<and> (\<exists>k\<in>set ks. jwk_for (crypto E) r k) \<and>
    (distinct (map sk_kid (signing_keys (db w1))) \<longrightarrow>
       (\<forall>k\<in>set (signing_keys (db w1)). jm_publics jm (sk_kid k) = Some (sk_public_pem k)))"
proof -
  obtain r where r: "r \<in> set (signing_keys (db w1))" "sk_active r" "sk_kid r = jm_kid jm"
    "sk_private_pem r = jm_private_pem jm"
    "distinct (map sk_kid (signing_keys (db w1))) \<longrightarrow>
       (\<forall>k\<in>set (signing_keys (db w1)). jm_publics jm (sk_kid k) = Some (sk_public_pem k))"
    using load_keys_Inr [OF assms(1)] by blast
  have kept: "r \<in> set (signing_keys (db w2))"
    using ledger.interleaved [OF assms(2)] r(1) by (auto simp: ledger_def grows_def)
  have "list_all2 (jwk_for (crypto E)) (signing_keys (db w2)) ks"
    using assms(3) by (auto simp: rpc_get_jwks_def dest: jwks_of_Inr elim!: act_elims)
  from all2_member [OF this kept] obtain k where "k \<in> set ks" "jwk_for (crypto E) r k" by blast
  with r show ?thesis by blast
qed

theorem signing_key_is_published_witness:
  "\<exists>jm w1 ks w3. load_jwt_manager demo_env ''iss'' 900 demo_world = (Inr jm, w1) \<and>
     rpc_get_jwks demo_env w1 = (Inr ks, w3) \<and> (\<exists>k\<in>set ks. jk_kid k = jm_kid jm)"
proof -
  let ?m = "load_jwt_manager demo_env ''iss'' 900"
  have load: "ok ?m demo_world" and get: "ok (rpc_get_jwks demo_env) (snd (?m demo_world))"
    by (simp_all add: load_jwt_manager_def [THEN fun_cong] rpc_get_jwks_def [THEN fun_cong] demo_runs
        cong: run_weak)
  from okE [OF load] obtain jm w1 where run: "?m demo_world = (Inr jm, w1)" by blast
  with okE [OF get] obtain ks w3 where jwks: "rpc_get_jwks demo_env w1 = (Inr ks, w3)" by auto
  have "interleaved demo_env (db w1) (db w1)" by (simp add: interleaved_def)
  from signing_key_is_published [OF run this jwks] run jwks
  show ?thesis by (auto simp: jwk_for_def)
qed

section \<open>The relay\<close>

text \<open>The message of an outbox row, and the batch a tick takes.\<close>

definition message_of :: "env \<Rightarrow> outbox_row \<Rightarrow> string \<times> string \<times> string" where
  "message_of E r = (uuid_show (fmt E) (ob_id r), subject_prefix (cfg E) @ ob_event_type r, ob_payload r)"

definition batch :: "db \<Rightarrow> outbox_row list" where
  "batch d = take 100 (order_by (\<lambda>a b. ob_created_at a \<le> ob_created_at b)
     (filter (\<lambda>r. ob_published_at r = None) (outbox d)))"

text \<open>Reference: the rows with the given ids are marked.\<close>

definition marked :: "time \<Rightarrow> uuid set \<Rightarrow> outbox_row list \<Rightarrow> outbox_row list" where
  "marked t I rows = map (\<lambda>r. if ob_id r \<in> I then r\<lparr>ob_published_at := Some t\<rparr> else r) rows"

lemma marked_none [simp]: "marked t {} rows = rows"
  by (simp add: marked_def)

lemma marked_marked: "marked t I (marked t J rows) = marked t (I \<union> J) rows"
  by (auto simp: marked_def)

lemma mark_row:
  assumes "db_try E e (mark_outbox_published (now w) i) w = (r, w')"
  shows "stream w' = stream w" and "now w' = now w"
    and "outbox (db w') = outbox (db w) \<and> r = Inl e \<or>
         outbox (db w') = marked (now w) {i} (outbox (db w)) \<and> (r = Inr () \<or> r = Inl e)"
  using assms
  by (auto simp: db_try_def run_query_def mark_outbox_published_def writing_def Let_def marked_def
      update_where_def split: fault.splits)

lemma publish_row:
  assumes "publish E i s p w = (r, w')"
  shows "db w' = db w" and "now w' = now w"
    and "stream w' = stream w @ [(i, s, p)] \<or> stream w' = stream w \<and> r \<noteq> Inr ()"
    and "r = Inr () \<or> r = Inl (Aborted ''publish failed'')"
  using assms by (auto simp: publish_def Let_def split: fault.splits)

definition relayed :: "env \<Rightarrow> outbox_row list \<Rightarrow> nat \<Rightarrow> nat \<Rightarrow> world \<Rightarrow> world \<Rightarrow> bool" where
  "relayed E rows sent done' w w' \<longleftrightarrow>
     done' \<le> sent \<and> sent \<le> Suc done' \<and> sent \<le> length rows \<and>
     stream w' = stream w @ map (message_of E) (take sent rows) \<and>
     outbox (db w') = marked (now w) (ob_id ` set (take done' rows)) (outbox (db w))"

lemma relay_rows_relayed:
  "relay_rows E rows w = (r, w') \<Longrightarrow>
   (\<exists>sent done'. relayed E rows sent done' w w' \<and> (r = Inr () \<longrightarrow> done' = length rows)) \<and>
   (r = Inr () \<or> (\<exists>e. r = Inl (Aborted e)))"
proof (induction rows arbitrary: w)
  case Nil
  then show ?case by (auto simp: relayed_def ret_def)
next
  case (Cons row rows)
  let ?pub = "publish E (uuid_show (fmt E) (ob_id row)) (subject_prefix (cfg E) @ ob_event_type row) (ob_payload row)"
  obtain r1 w1 where p: "?pub w = (r1, w1)" by (cases "?pub w")
  note pub = publish_row [OF p]
  show ?case
  proof (cases "r1 = Inr ()")
    case False
    with Cons.prems p pub(4) have r: "r = Inl (Aborted ''publish failed'')" "w' = w1"
      by (auto simp: bind_ok_def)
    have "relayed E (row # rows) 0 0 w w1 \<or> relayed E (row # rows) 1 0 w w1"
      using pub by (auto simp: relayed_def message_of_def)
    with r show ?thesis by blast
  next
    case True
    obtain r2 w2 where m: "db_try E (Aborted ''database error'') (mark_outbox_published (now w1) (ob_id row)) w1 = (r2, w2)"
      by (cases "db_try E (Aborted ''database error'') (mark_outbox_published (now w1) (ob_id row)) w1")
    note mark = mark_row [OF m]
    have st: "stream w1 = stream w @ [message_of E row]"
      using pub(3) True by (auto simp: message_of_def)
    show ?thesis
    proof (cases "r2 = Inr ()")
      case False
      with mark(3) have "r2 = Inl (Aborted ''database error'')" by auto
      with Cons.prems p m True have r: "r = Inl (Aborted ''database error'')" "w' = w2"
        by (auto simp: bind_ok_def with_now_def)
      have "relayed E (row # rows) 1 0 w w2 \<or> relayed E (row # rows) 1 1 w w2"
        using mark st pub(1,2) by (auto simp: relayed_def)
      with r show ?thesis by blast
    next
      case True
      have "relay_rows E rows w2 = (r, w')"
        using Cons.prems p m \<open>r1 = Inr ()\<close> True by (auto simp: bind_ok_def with_now_def)
      from Cons.IH [OF this] obtain s d where
        rest: "relayed E rows s d w2 w'" "r = Inr () \<longrightarrow> d = length rows" "r = Inr () \<or> (\<exists>e. r = Inl (Aborted e))"
        by blast
      have "outbox (db w2) = marked (now w) {ob_id row} (outbox (db w))"
        using mark(3) True pub(1,2) by simp
      with rest(1) mark(1,2) st pub(1,2) have "relayed E (row # rows) (Suc s) (Suc d) w w'"
        by (auto simp: relayed_def marked_marked)
      with rest(2,3) show ?thesis by (intro conjI exI [of _ "Suc s"] exI [of _ "Suc d"]) auto
    qed
  qed
qed

lemma relay_rows_fine:
  "fault_free E \<Longrightarrow> \<forall>n. nats_fault E n = Fine \<Longrightarrow> \<exists>w'. relay_rows E rows w = (Inr (), w')"
  by (induction rows arbitrary: w)
    (auto simp: ret_def bind_ok_def with_now_def publish_def db_try_def run_query_def fault_free_def
      mark_outbox_published_def writing_def Let_def)

text \<open>
  C21: a tick of the relay is equivalent to publishing, in order of creation, a prefix of the oldest
  100 unpublished events and marking those rows, except possibly the last one: whatever fails, no
  event is marked that was not published, none is skipped, and a tick never stops the relay.
\<close>

theorem relay_publishes_in_order:
  assumes "relay_tick E w = (r, w')"
  shows "r = Inr () \<and> (\<exists>sent done'. relayed E (batch (db w)) sent done' w w' \<and>
    (fault_free E \<and> (\<forall>n. nats_fault E n = Fine) \<longrightarrow> done' = length (batch (db w))))"
proof -
  have fetch: "fetch_unpublished_outbox 100 (db w) = Inr (batch (db w), db w)"
    by (simp add: fetch_unpublished_outbox_def batch_def)
  let ?w = "w\<lparr>db_calls := Suc (db_calls w)\<rparr>"
  obtain q where q: "db_try E (Aborted ''database error'') (fetch_unpublished_outbox 100) w = (q, ?w)"
    and qe: "q = Inr (batch (db w)) \<or> q = Inl (Aborted ''database error'')"
    and fine0: "db_fault E (db_calls w) = Fine \<Longrightarrow> q = Inr (batch (db w))"
    using fetch by (cases "db_fault E (db_calls w)")
      (auto simp: db_try_def run_query_def)
  then have fine: "fault_free E \<Longrightarrow> q = Inr (batch (db w))" by (simp add: fault_free_def)
  show ?thesis
  proof (cases "q = Inr (batch (db w))")
    case False
    with qe q assms have "r = Inr ()" "w' = ?w"
      by (auto simp: relay_tick_def warn_on_error_def drain_def bind_ok_def)
    moreover have "relayed E (batch (db w)) 0 0 w ?w" by (simp add: relayed_def)
    ultimately show ?thesis using fine False by blast
  next
    case True
    obtain r1 w1 where rows: "relay_rows E (batch (db w)) ?w = (r1, w1)"
      by (cases "relay_rows E (batch (db w)) ?w")
    from relay_rows_relayed [OF rows] obtain s d where
      sd: "relayed E (batch (db w)) s d ?w w1" "r1 = Inr () \<longrightarrow> d = length (batch (db w))"
      and r1: "r1 = Inr () \<or> (\<exists>e. r1 = Inl (Aborted e))" by blast
    have "r = Inr () \<and> w' = w1"
      using assms q True rows r1
      by (auto simp: relay_tick_def warn_on_error_def drain_def bind_ok_def)
    moreover have "relayed E (batch (db w)) s d w w1"
      using sd(1) by (simp add: relayed_def)
    moreover have "r1 = Inr ()" if "fault_free E" "\<forall>n. nats_fault E n = Fine"
      using relay_rows_fine [OF that, of "batch (db w)" ?w] rows by auto
    ultimately show ?thesis using sd(2) by blast
  qed
qed

definition event_row :: "uuid \<Rightarrow> outbox_row" where
  "event_row i = \<lparr>ob_id = i, ob_aggregate_id = 51, ob_event_type = ''user.deleted'', ob_payload = ''{}'',
     ob_created_at = 0, ob_published_at = None\<rparr>"

theorem relay_publishes_in_order_witness:
  "\<exists>r w'. relay_tick demo_env (demo_world\<lparr>db := demo_db\<lparr>outbox := [event_row 65, event_row 66]\<rparr>\<rparr>) = (r, w') \<and>
     map (fst \<circ> snd) (stream w') = [''iam.user.deleted'', ''iam.user.deleted''] \<and>
     (\<forall>e\<in>set (outbox (db w')). ob_published_at e \<noteq> None)"
proof -
  let ?w = "demo_world\<lparr>db := demo_db\<lparr>outbox := [event_row 65, event_row 66]\<rparr>\<rparr>"
  have b: "batch (demo_db\<lparr>outbox := [event_row 65, event_row 66]\<rparr>) = [event_row 65, event_row 66]"
    by (simp add: batch_def event_row_def)
  obtain r w' where run: "relay_tick demo_env ?w = (r, w')" by (cases "relay_tick demo_env ?w")
  have "\<forall>n. nats_fault demo_env n = Fine" by (simp add: demo_env_def)
  with relay_publishes_in_order [OF run] obtain s where
    rel: "relayed demo_env [event_row 65, event_row 66] s (Suc (Suc 0)) ?w w'"
    by (auto simp: b)
  then have "s = Suc (Suc 0)" by (auto simp: relayed_def)
  with rel have st: "stream w' = [message_of demo_env (event_row 65), message_of demo_env (event_row 66)]"
    and ob: "outbox (db w') = marked (now demo_world) {65, 66} [event_row 65, event_row 66]"
    by (simp_all add: relayed_def event_row_def demo_world_def)
  from st have "map (fst \<circ> snd) (stream w') = [''iam.user.deleted'', ''iam.user.deleted'']"
    by (simp add: message_of_def event_row_def demo_env_def demo_config_def)
  moreover from ob have "\<forall>e\<in>set (outbox (db w')). ob_published_at e \<noteq> None"
    by (simp add: marked_def event_row_def)
  ultimately show ?thesis using run by (intro exI conjI)
qed

end
