(* ===== verification/FirstStart.thy ===== *)
theory FirstStart
  imports LaunchProps GrantProps StartupProps
begin

text \<open>
  What the first start of the program makes of a migrated database: the signing key, the
  administrator, the demonstration account and the client of the console.
\<close>

section \<open>One account\<close>

text \<open>The account \<open>u\<close> with the template \<open>k\<close> in the default tenant, next to what \<open>d\<close> held.\<close>

definition with_account :: "user_row \<Rightarrow> int \<Rightarrow> db \<Rightarrow> db" where
  "with_account u k d = d\<lparr>users := users d @ [u],
     user_roles := user_roles d @
       [\<lparr>ur_user_id = u_id u, ur_role_id = k, ur_tenant_id = default_tenant_id, ur_project_id = None\<rparr>],
     memberships := memberships d @
       [\<lparr>me_user_id = u_id u, me_tenant_id = default_tenant_id, me_status = ''active''\<rparr>]\<rparr>"

definition known_users :: "db \<Rightarrow> bool" where
  "known_users d \<longleftrightarrow> ur_user_id ` set (user_roles d) \<subseteq> user_ids d \<and> me_user_id ` set (memberships d) \<subseteq> user_ids d"

lemma created_with_role:
  assumes "create_user_with_role c i t em h ro d = Inr (x, d')" and "known_users d"
    and "filter (\<lambda>r. ro_name r = ro) (roles d) = [r]" and "ro_tenant_id r = None"
  shows "x = i \<and> i \<notin> user_ids d \<and>
    d' = d\<lparr>users := users d @ [new_user i em h t], user_roles := user_roles d @
       [\<lparr>ur_user_id = i, ur_role_id = ro_id r, ur_tenant_id = default_tenant_id, ur_project_id = None\<rparr>]\<rparr>"
  using assms(1) unfolding create_user_with_role_def
proof (elim then_query_InrE insert_user_E)
  fix y d1 z d2
  let ?s = "default_tenant_tx c"
  assume no: "\<not> exists_where (\<lambda>u. u_id u = i \<or> u_email u = em) (users d)"
    and d1: "d1 = d\<lparr>users := users d @ [new_user i em h t]\<rparr>"
    and rows: "insert_user_roles ?s (default_role_rows ?s i ro d1) d1 = Inr (z, d2)"
    and last: "reading (\<lambda>_. i) d2 = Inr (x, d')"
  from no have new: "i \<notin> user_ids d" by (auto simp: exists_where_iff user_ids_def)
  have "filter (\<lambda>r. ro_name r = ro) (visible_roles ?s d) =
      filter (\<lambda>r. rls_visible ?s (ro_tenant_id r)) (filter (\<lambda>r. ro_name r = ro) (roles d))"
    by (simp add: visible_roles_def conj_commute)
  then have "default_role_rows ?s i ro d1 =
      [\<lparr>ur_user_id = i, ur_role_id = ro_id r, ur_tenant_id = default_tenant_id, ur_project_id = None\<rparr>]"
    using assms(3,4) unfolding d1 default_role_rows_users by (simp add: default_role_rows_def)
  from insert_sole_role [OF rows this] new assms(2) last show ?thesis
    by (auto simp: d1 known_users_def reading_def)
qed

lemma account_made:
  assumes "bootstrap_user E em pw ro e w = (Inr (), w')" and "em \<noteq> []" and "pw \<noteq> []"
    and "em \<notin> u_email ` set (users (db w))" and "known_users (db w)"
    and "filter (\<lambda>r. ro_name r = ro) (roles (db w)) = [r]" and "ro_tenant_id r = None"
  shows "\<exists>i h n. i \<notin> user_ids (db w) \<and> pw_hash (crypto E) n pw = Some h \<and>
    db w' = with_account (new_user i em h (now w)) (ro_id r) (db w)"
proof -
  from assms(4) have none: "find (\<lambda>u. u_email u = em) (users (db w)) = None"
    by (auto simp: find_None_iff)
  from assms(1-3) none obtain n h c d1 x where h: "pw_hash (crypto E) n pw = Some h"
    and made: "create_user_with_role (conn_role E) (db_uuid E c) (now w) em h ro (db w) = Inr (x, d1)"
    and member: "create_membership x default_tenant_id d1 = Inr ((), db w')"
    unfolding bootstrap_user_def
    by (fastforce simp: get_user_by_email_def reading_def with_now_def with_call_def elim!: act_elims)
  note new = created_with_role [OF made assms(5,6,7)]
  from member new assms(5) have "db w' = with_account (new_user x em h (now w)) (ro_id r) (db w)"
    by (auto simp: create_membership_def insert_membership_def exists_where_iff with_account_def new_user_def
        known_users_def split: if_splits)
  with h new show ?thesis by blast
qed

section \<open>The client of the console\<close>

lemma seeded_client:
  assumes "seed_client c d = Inr (x, d')" and "oauth_clients d = []" and "oc_tenant_id c = ten" and "oc_client_id c = i"
  shows "\<exists>c. d' = d\<lparr>oauth_clients := [c]\<rparr> \<and> oc_tenant_id c = ten \<and> oc_client_id c = i"
  using assms by (auto simp: seed_client_def split: if_splits)

lemma first_client:
  assumes "bootstrap_oidc_client E cfg_or w = (Inr (), w')" and "oauth_clients (db w) = []"
  shows "\<exists>c. db w' = (db w)\<lparr>oauth_clients := [c]\<rparr> \<and> oc_tenant_id c = default_tenant_id \<and>
    oc_client_id c = cfg_or ''OIDC_CONSOLE_CLIENT_ID'' ''iam-admin-console''"
  using assms unfolding bootstrap_oidc_client_def by (elim db_try_Inr) (drule seeded_client, simp_all)

section \<open>The whole start\<close>

text \<open>The key \<open>k\<close>, the client \<open>c\<close> and the accounts of the administrator and of the demonstration,
  written after the migrations.\<close>

definition provisioned :: "signing_key_row \<Rightarrow> user_row \<Rightarrow> oauth_client_row \<Rightarrow> user_row \<Rightarrow> db" where
  "provisioned k admin c demo = with_account demo 3
     (with_account admin 1 (migrated_db\<lparr>signing_keys := [k]\<rparr>)\<lparr>oauth_clients := [c]\<rparr>)"

lemma provisioned_tables:
  "users (provisioned k a c u) = [a, u]"
  "signing_keys (provisioned k a c u) = [k]" "oauth_clients (provisioned k a c u) = [c]"
  "permissions (provisioned k a c u) = permissions migrated_db"
  "tenants (provisioned k a c u) = [default_tenant_row]"
  "role_permissions (provisioned k a c u) = role_permissions migrated_db"
  "user_roles (provisioned k a c u) =
     [\<lparr>ur_user_id = u_id a, ur_role_id = 1, ur_tenant_id = default_tenant_id, ur_project_id = None\<rparr>,
      \<lparr>ur_user_id = u_id u, ur_role_id = 3, ur_tenant_id = default_tenant_id, ur_project_id = None\<rparr>]"
  "memberships (provisioned k a c u) =
     [\<lparr>me_user_id = u_id a, me_tenant_id = default_tenant_id, me_status = ''active''\<rparr>,
      \<lparr>me_user_id = u_id u, me_tenant_id = default_tenant_id, me_status = ''active''\<rparr>]"
  by (simp_all add: provisioned_def with_account_def migrated_tables)

lemma provisioned_grants:
  assumes "u_id a \<noteq> u_id u"
  shows "granted (u_id a) ten pr (provisioned k a c u) =
      (if ten = default_tenant_id then role_grants 1 migrated_db else {})"
    and "granted (u_id u) ten pr (provisioned k a c u) =
      (if ten = default_tenant_id then role_grants 3 migrated_db else {})"
proof -
  let ?d = "provisioned k a c u"
  have a: "filter (\<lambda>ur. ur_user_id ur = u_id a) (user_roles ?d) =
      [\<lparr>ur_user_id = u_id a, ur_role_id = 1, ur_tenant_id = default_tenant_id, ur_project_id = None\<rparr>]"
    and u: "filter (\<lambda>ur. ur_user_id ur = u_id u) (user_roles ?d) =
      [\<lparr>ur_user_id = u_id u, ur_role_id = 3, ur_tenant_id = default_tenant_id, ur_project_id = None\<rparr>]"
    using assms by (simp_all add: provisioned_tables)
  show "granted (u_id a) ten pr ?d = (if ten = default_tenant_id then role_grants 1 migrated_db else {})"
    "granted (u_id u) ten pr ?d = (if ten = default_tenant_id then role_grants 3 migrated_db else {})"
    using sole_assignment [OF a] sole_assignment [OF u] by (simp_all add: role_grants_def provisioned_tables)
qed

lemma template_named:
  "filter (\<lambda>r. ro_name r = ''admin'') (roles migrated_db) = [admin_row]"
  "filter (\<lambda>r. ro_name r = ''viewer'') (roles migrated_db) = [viewer_row]"
  by (simp_all add: migrated_tables admin_row_def plain_row_def viewer_row_def template_row_def)

lemma first_bootstrap:
  assumes "bootstrap E cfg_or iss ttl w = (Inr jm, w')" and "db w = migrated_db"
    and "em = cfg_or ''BOOTSTRAP_ADMIN_EMAIL'' []" and "pw = cfg_or ''BOOTSTRAP_ADMIN_PASSWORD'' []"
    and "dem = cfg_or ''DEMO_EMAIL'' ''demo@iam.local''" and "dpw = cfg_or ''DEMO_PASSWORD'' ''demo1234''"
    and "em \<noteq> []" "pw \<noteq> []" "dem \<noteq> []" "dpw \<noteq> []" "em \<noteq> dem"
  shows "\<exists>k i h t n c j h' t' n'. db w' = provisioned k (new_user i em h t) c (new_user j dem h' t') \<and> i \<noteq> j \<and>
    pw_hash (crypto E) n pw = Some h \<and> pw_hash (crypto E) n' dpw = Some h' \<and>
    sk_active k \<and> sk_kid k = jm_kid jm \<and> sk_private_pem k = jm_private_pem jm \<and>
    oc_client_id c = cfg_or ''OIDC_CONSOLE_CLIENT_ID'' ''iam-admin-console'' \<and> oc_tenant_id c = default_tenant_id"
proof -
  from assms(1) obtain w1 w2 w3 where key: "load_jwt_manager E iss ttl w = (Inr jm, w1)"
    and admin: "bootstrap_user E em pw ''admin'' ''hash admin password'' w1 = (Inr (), w2)"
    and client: "bootstrap_oidc_client E cfg_or w2 = (Inr (), w3)"
    and demo: "bootstrap_user E dem dpw ''viewer'' ''hash demo password'' w3 = (Inr (), w')"
    unfolding bootstrap_def bootstrap_admin_def bootstrap_demo_def assms(3-6) by (auto elim!: bind_ok_Inr ret_Inr)
  from first_key [OF key] obtain k where k: "db w1 = migrated_db\<lparr>signing_keys := [k]\<rparr>" "sk_active k"
    "sk_kid k = jm_kid jm" "sk_private_pem k = jm_private_pem jm"
    by (auto simp: assms(2) migrated_tables)
  have "known_users (db w1)" "em \<notin> u_email ` set (users (db w1))"
    "filter (\<lambda>r. ro_name r = ''admin'') (roles (db w1)) = [admin_row]"
    by (simp_all add: k(1) known_users_def migrated_tables(4,5,9) template_named)
  from account_made [OF admin assms(7,8) this(2,1,3)] obtain i h n where a: "pw_hash (crypto E) n pw = Some h"
    "db w2 = with_account (new_user i em h (now w1)) 1 (db w1)"
    by (auto simp: admin_row_def template_row_def)
  from first_client [OF client] obtain c where c: "db w3 = (db w2)\<lparr>oauth_clients := [c]\<rparr>"
    "oc_tenant_id c = default_tenant_id" "oc_client_id c = cfg_or ''OIDC_CONSOLE_CLIENT_ID'' ''iam-admin-console''"
    by (auto simp: a k with_account_def migrated_tables)
  have "known_users (db w3)" "dem \<notin> u_email ` set (users (db w3))"
    "filter (\<lambda>r. ro_name r = ''viewer'') (roles (db w3)) = [viewer_row]" "i \<in> user_ids (db w3)"
    using assms(11) by (simp_all add: c(1) a(2) k(1) with_account_def known_users_def user_ids_def new_user_def
        migrated_tables(4,5,9) template_named)
  note before = this
  from account_made [OF demo assms(9,10) before(2,1,3)] obtain j h' n' where
    "j \<notin> user_ids (db w3)" "pw_hash (crypto E) n' dpw = Some h'"
    "db w' = with_account (new_user j dem h' (now w3)) 3 (db w3)"
    by (auto simp: viewer_row_def template_row_def)
  moreover from this(1) before(4) have "i \<noteq> j" by blast
  ultimately show ?thesis using a k c by (metis provisioned_def)
qed

text \<open>
  C20: when the program starts on a new database, the migrations have run and it serves, there is one
  active signing key, the one it signs with, the client of the console, and two accounts.  The
  administrator is a member of the default tenant alone and has every permission of the catalogue
  there; the demonstration account, in the same tenant, has the reading permissions only; the stored
  hashes are of the configured passwords.
\<close>

theorem first_start_provisions:
  assumes "main_run E H w = (Inr (Serving s), w1)" and "auto_migrate H"
    and "ho_migrate H (db w) = (None, migrated_db)"
    and "em = ho_env_or H ''BOOTSTRAP_ADMIN_EMAIL'' []" and "pw = ho_env_or H ''BOOTSTRAP_ADMIN_PASSWORD'' []"
    and "dem = ho_env_or H ''DEMO_EMAIL'' ''demo@iam.local''" and "dpw = ho_env_or H ''DEMO_PASSWORD'' ''demo1234''"
    and "em \<noteq> []" "pw \<noteq> []" "dem \<noteq> []" "dpw \<noteq> []" "em \<noteq> dem"
  shows "\<exists>k c a u n n'. signing_keys (db w1) = [k] \<and> sk_active k \<and> sk_kid k = jm_kid (sv_keys s) \<and>
      sk_private_pem k = jm_private_pem (sv_keys s) \<and>
    oauth_clients (db w1) = [c] \<and> oc_tenant_id c = default_tenant_id \<and>
      oc_client_id c = ho_env_or H ''OIDC_CONSOLE_CLIENT_ID'' ''iam-admin-console'' \<and>
    users (db w1) = [a, u] \<and> u_id a \<noteq> u_id u \<and> u_email a = em \<and> u_email u = dem \<and>
      pw_hash (crypto E) n pw = Some (u_password_hash a) \<and>
      pw_hash (crypto E) n' dpw = Some (u_password_hash u) \<and>
    (\<forall>ten. active_member (u_id a) ten (db w1) = (ten = default_tenant_id) \<and>
       active_member (u_id u) ten (db w1) = (ten = default_tenant_id)) \<and>
    (\<forall>ten pr. granted (u_id a) ten pr (db w1) =
       (if ten = default_tenant_id then set (map fst seeded_permissions) else {})) \<and>
    (\<forall>ten pr. granted (u_id u) ten pr (db w1) =
       (if ten = default_tenant_id then set (filter (ends_in '':read'') (map fst seeded_permissions)) else {}))"
  using assms(1)
proof (rule served)
  fix d
  assume "if auto_migrate H then ho_migrate H (db w) = (None, d) else d = db w"
    and "bootstrap E (ho_env_or H) (ho_issuer H) (ho_access_ttl H) (w\<lparr>db := d\<rparr>) = (Inr (sv_keys s), w1)"
  with assms(2,3) have "bootstrap E (ho_env_or H) (ho_issuer H) (ho_access_ttl H) (w\<lparr>db := migrated_db\<rparr>) =
      (Inr (sv_keys s), w1)" by simp
  from first_bootstrap [OF this _ assms(4-)] obtain k i h t n c j h' t' n' where
    db: "db w1 = provisioned k (new_user i em h t) c (new_user j dem h' t')" and "i \<noteq> j"
    and rest: "pw_hash (crypto E) n pw = Some h" "pw_hash (crypto E) n' dpw = Some h'"
      "sk_active k" "sk_kid k = jm_kid (sv_keys s)" "sk_private_pem k = jm_private_pem (sv_keys s)"
      "oc_client_id c = ho_env_or H ''OIDC_CONSOLE_CLIENT_ID'' ''iam-admin-console''"
      "oc_tenant_id c = default_tenant_id"
    by auto
  let ?a = "new_user i em h t" and ?u = "new_user j dem h' t'"
  have new: "u_id ?a = i" "u_id ?u = j" "u_email ?a = em" "u_email ?u = dem" "u_password_hash ?a = h"
    "u_password_hash ?u = h'" by (simp_all add: new_user_def)
  have "active_member i ten (db w1) = (ten = default_tenant_id)"
    "active_member j ten (db w1) = (ten = default_tenant_id)" for ten
    using new by (auto simp: db active_member_def provisioned_tables exists_where_iff default_tenant_row_def)
  then have members: "\<forall>ten. active_member (u_id ?a) ten (db w1) = (ten = default_tenant_id) \<and>
      active_member (u_id ?u) ten (db w1) = (ten = default_tenant_id)"
    by (simp only: new simp_thms)
  have ne: "u_id ?a \<noteq> u_id ?u" using new \<open>i \<noteq> j\<close> by simp
  have grants: "\<forall>ten pr. granted (u_id ?a) ten pr (db w1) =
       (if ten = default_tenant_id then set (map fst seeded_permissions) else {})"
    "\<forall>ten pr. granted (u_id ?u) ten pr (db w1) =
       (if ten = default_tenant_id then set (filter (ends_in '':read'') (map fst seeded_permissions)) else {})"
    by (simp_all only: db provisioned_grants [OF ne] migrated_role_grants simp_thms)
  show ?thesis
    by (rule exI [of _ k], rule exI [of _ c], rule exI [of _ ?a], rule exI [of _ ?u], rule exI [of _ n],
        rule exI [of _ n'], intro conjI members grants ne rest)
      (simp_all only: db new rest provisioned_tables)
qed

definition first_host :: host where
  "first_host = demo_host\<lparr>ho_migrate := (\<lambda>d. (None, migrated_db)),
     ho_env_or := (\<lambda>k d. if k = ''OIDC_CONSOLE_REDIRECT_URIS'' then [] else root_conf k d)\<rparr>"

lemma first_boots: "ok (bootstrap demo_env (ho_env_or first_host) ''iss'' 900) fresh_world"
  by (simp add: bootstrap_def bootstrap_admin_def bootstrap_demo_def bootstrap_user_def [THEN fun_cong]
      bootstrap_oidc_client_def [THEN fun_cong] load_jwt_manager_def [THEN fun_cong] first_host_def root_conf_def
      fresh_world_def migrated_tables template_defs default_tenant_row_def demo_runs cong: run_weak)

lemma first_start: "\<exists>s w1. main_run demo_env first_host (demo_world\<lparr>db := empty_db\<rparr>) = (Inr (Serving s), w1)"
proof -
  obtain jm w1 where boot: "bootstrap demo_env (ho_env_or first_host) ''iss'' 900 fresh_world = (Inr jm, w1)"
    using okE [OF first_boots] by blast
  have host: "ho_security first_host = None" "\<not> migrate_only first_host" "ho_must_env first_host x = Inr x"
    "ho_issuer first_host = ''iss''" "ho_access_ttl first_host = 900" "auto_migrate first_host"
    "run_migrations first_host (demo_world\<lparr>db := empty_db\<rparr>) = (Inr (), fresh_world)"
    "fst (connect_with_retry (ho_connect first_host x)) = Inr ()"
    "start_events first_host w = (Inr (True, False), w)" "ho_addr_parses first_host x" for x w
    by (simp_all add: first_host_def root_conf_def demo_host_def migrate_only_def auto_migrate_def run_migrations_def
        fresh_world_def or_abort_def connect_with_retry_def eval_nat_numeral start_events_def saga_run_def
        bind_ok_apply ret_apply)
  show ?thesis
    unfolding main_run_def
    by (simp add: host bind_ok_apply ret_apply lift_sum_apply require_apply boot)
qed

theorem first_start_provisions_witness:
  "\<exists>s w1 a u. main_run demo_env first_host (demo_world\<lparr>db := empty_db\<rparr>) = (Inr (Serving s), w1) \<and>
     users (db w1) = [a, u] \<and> u_email a = ''root@x'' \<and> u_email u = ''demo@iam.local'' \<and>
     ''user:delete'' \<in> granted (u_id a) default_tenant_id None (db w1) \<and>
     ''user:delete'' \<notin> granted (u_id u) default_tenant_id None (db w1)"
proof -
  obtain s w1 where run: "main_run demo_env first_host (demo_world\<lparr>db := empty_db\<rparr>) = (Inr (Serving s), w1)"
    using first_start by blast
  have "auto_migrate first_host" "ho_migrate first_host x = (None, migrated_db)" for x
    by (simp_all add: first_host_def root_conf_def auto_migrate_def)
  from first_start_provisions [OF run this refl refl refl refl] obtain a u where
    "users (db w1) = [a, u]" "u_email a = ''root@x''" "u_email u = ''demo@iam.local''"
    "granted (u_id a) default_tenant_id None (db w1) = set (map fst seeded_permissions)"
    "granted (u_id u) default_tenant_id None (db w1) =
       set (filter (ends_in '':read'') (map fst seeded_permissions))"
    by (auto simp: first_host_def root_conf_def)
  then have "''user:delete'' \<in> granted (u_id a) default_tenant_id None (db w1)"
    "''user:delete'' \<notin> granted (u_id u) default_tenant_id None (db w1)"
    by (simp_all add: seeded_permissions_def ends_in_def)
  with run \<open>users (db w1) = [a, u]\<close> \<open>u_email a = ''root@x''\<close> \<open>u_email u = ''demo@iam.local''\<close>
  show ?thesis by blast
qed

end
