(* ===== verification/SystemProps.thy ===== *)
theory SystemProps
  imports TenancyProps Fresh
begin

text \<open>
  The deployed program over time: what no interleaving of requests, tasks and restarts can undo, the
  integrity of the data, and the two places where the connection role decides what a statement
  does.
\<close>

section \<open>History\<close>

text \<open>
  C23: whatever statements of whatever requests, tasks and restarts are interleaved, the audit trail,
  the recorded events, the signing keys, the clients, the tenants and the projects are only ever
  added to, and the shared role templates keep their rows and permissions.
\<close>

theorem history_is_kept:
  assumes "interleaved E d d'"
  shows "ledger d d' \<and> (sound_roles d \<longrightarrow> template_roles d' = template_roles d \<and>
    template_grants d' = template_grants d \<and> permissions d' = permissions d)"
  using ledger.interleaved [OF assms] templates.interleaved [OF assms]
  by (simp add: templates_fixed_def)

lemma step_reaches: "step D w w' \<Longrightarrow> reaches D w w'"
  by (rule reaches.more [OF reaches.start])

definition later_world :: world where
  "later_world = snd (serve demo_deployment ann_md (Create_role ''ops'' []) demo_world)"

lemma later_reached: "reaches demo_deployment demo_world later_world"
proof -
  let ?m = "serve demo_deployment ann_md (Create_role ''ops'' [])"
  have "?m demo_world = (fst (?m demo_world), later_world)" by (simp add: later_world_def)
  then show ?thesis by (intro step_reaches step.request)
qed

lemma later_runs: "roles (db later_world) = roles demo_db @
    [\<lparr>ro_id = 6, ro_name = ''ops'', ro_description = [], ro_tenant_id = Some 1\<rparr>]"
  by (simp add: later_world_def serve_def demo_deployment_def check_internal_def done_with_def Let_def show_role_def demo_runs
      cong: run_weak)

theorem history_is_kept_witness:
  "roles (db later_world) \<noteq> roles demo_db \<and> template_roles (db later_world) = template_roles demo_db \<and>
   ledger demo_db (db later_world)"
proof -
  have "db demo_world = demo_db" and "sound_roles demo_db"
    by (simp_all add: demo_world_def sound_roles_def demo_db_def demo_role_def)
  with history_is_kept [OF reaches_interleaved [OF later_reached refl]] later_runs show ?thesis by simp
qed

section \<open>Integrity\<close>



section \<open>Statements that cannot succeed\<close>

text \<open>\<open>refused d m\<close>: on the database \<open>d\<close> the action fails and leaves it as it is.\<close>

definition refused :: "db \<Rightarrow> 'a act \<Rightarrow> bool" where
  "refused d m \<longleftrightarrow> (\<forall>w::world. db w = d \<longrightarrow> (\<exists>e w'. m w = (Inl e, w') \<and> db w' = d))"

lemma refused_bind:
  assumes "stable (=) m" and "\<And>x. refused d (f x)"
  shows "refused d (bind_ok m f)"
  unfolding refused_def
proof (intro allI impI)
  fix w :: world
  assume "db w = d"
  obtain r w1 where m: "m w = (r, w1)" by (cases "m w")
  with unchangedD [OF assms(1) m] \<open>db w = d\<close> assms(2)
  show "\<exists>e w'. bind_ok m f w = (Inl e, w') \<and> db w' = d"
    by (cases r) (auto simp: bind_ok_def refused_def)
qed

lemma refused_first: "refused d m \<Longrightarrow> refused d (bind_ok m f)"
  by (fastforce simp: refused_def bind_ok_def)

lemma refused_query: "q d = Inl se \<Longrightarrow> refused d (db_try E e q)"
  by (auto simp: refused_def db_try_def run_query_def Let_def split: fault.split)

lemma refused_with_call: "(\<And>n. refused d (f n)) \<Longrightarrow> refused d (with_call f)"
  by (simp add: refused_def with_call_def)

lemma refusedD: "refused (db w) m \<Longrightarrow> \<not> ok m w \<and> db (snd (m w)) = db w"
  by (fastforce simp: refused_def ok_def)

lemmas refused_rules = unchanged.base_rules unchanged.query_rules refused_with_call















text \<open>
  C39: connected as a role that row-level security binds, no tenant can be created: the statement
  that makes the creator an administrator runs without \<open>app.tenant_id\<close>, so the policy rejects its
  row and the transaction with it.
\<close>

theorem no_tenant_under_rls:
  assumes "conn_role E \<noteq> App_superuser"
    and "r \<in> set (roles (db w))" and "ro_name r = ''admin''" and "ro_tenant_id r = None"
  shows "\<not> ok (rpc_create_tenant E md slug name) w \<and>
    db (snd (rpc_create_tenant E md slug name w)) = db w"
proof -
  have "admin_template_rows (conn_role E) i f (db w) \<noteq> []" for i f
    using assms(2-4) by (auto simp: admin_template_rows_def visible_roles_def filter_empty_conv)
  moreover have "ur_tenant_id x = f" if "x \<in> set (admin_template_rows (conn_role E) i f (db w))" for x i f
    using that by (auto simp: admin_template_rows_def)
  ultimately have none: "insert_user_roles (pool_session (conn_role E))
      (admin_template_rows (conn_role E) i f (db w)) d = Inl Rls_violation" for i f d
    using assms(1) by (cases "admin_template_rows (conn_role E) i f (db w)")
      (auto simp: insert_user_role_def rls_visible_def pool_session_def)
  have "create_tenant_with_admin (conn_role E) f slug name i (db w) \<noteq> Inr p" for f i p
    by (cases p, unfold create_tenant_with_admin_def)
      (auto elim!: then_query_InrE insert_tenant_E insert_membership_E simp: none)
  then have "\<exists>e. create_tenant_with_admin (conn_role E) f slug name i (db w) = Inl e" for f i
    by (cases "create_tenant_with_admin (conn_role E) f slug name i (db w)") auto
  then obtain se where fails: "create_tenant_with_admin (conn_role E) f slug name i (db w) = Inl (se f i)" for f i
    by metis
  have query: "refused (db w) (db_try E e (create_tenant_with_admin (conn_role E) f slug name i))" for e f i
    by (rule refused_query) (rule fails)
  have "refused (db w) (rpc_create_tenant E md slug name)"
    unfolding rpc_create_tenant_def
    by (rule refused_first [OF query] | rule refused_bind | rule refused_rules)+
  from refusedD [OF this] show ?thesis .
qed

theorem no_tenant_under_rls_witness:
  "\<not> ok (rpc_create_tenant (demo_env\<lparr>conn_role := Iam_app\<rparr>)
     (ann_md(''x-user-permissions'' \<mapsto> ''tenant:write'')) ''new'' ''New'') demo_world"
  by (rule no_tenant_under_rls [where r = "demo_role 1 ''admin'' None", THEN conjunct1])
    (simp_all add: demo_data)

end
