(* ===== verification/Spec2Isabelle.thy ===== *)
theory Spec2Isabelle
  imports GuessProps OidcProps SecretProps CacheProps KeyProps FirstStart SystemProps
begin

text \<open>
  Verification of the authentication service of this repository, the gRPC server \<open>AuthService\<close>
  of \<open>src/*.rs\<close>: identities with passwords and second factors, sessions of access and refresh
  tokens, an OIDC provider, tenants with roles and permissions, API keys, an audit trail, and an
  outbox of events.

  \<^bold>\<open>The program.\<close>  \<open>main.rs\<close> validates the configuration, connects to Postgres, migrates, loads
  the signing keys (\<open>keys.rs\<close>), bootstraps the first accounts, starts the outbox relay
  (\<open>relay.rs\<close>) and the saga (\<open>saga.rs\<close>), and serves the handlers of \<open>grpc.rs\<close> behind an
  interceptor that demands an internal token.  The handlers run statements of \<open>repo.rs\<close>, keep a
  denylist and a permission cache in Redis (\<open>cache.rs\<close>) and use \<open>totp.rs\<close> and \<open>totpsecret.rs\<close>
  for second factors.  All lasting state is in Postgres: the services share it by its rows only.

  \<^bold>\<open>The model.\<close>  A table is the list of its rows, the database (\<open>Schema.db\<close>) a record of tables
  with the sequences.  A statement or transaction is a \<open>query\<close>: a function from a database to an
  SQL error or a result and the new database; unique indexes, foreign keys, cascades and
  row-level security are guards of it.  A handler is an action (\<open>Platform.act\<close>) on the
  \<open>world\<close>: database, Redis, mails sent, clock, counters of the draws from the random generator and
  of the calls, and the messages the broker accepted.  It returns a gRPC status, a panic, an abort
  or a response, with the new world either way.  \<open>bind_ok\<close> is Rust's \<open>?\<close>; every call of the
  database may fail before or after it ran (\<open>fault\<close>), and \<open>db_try\<close>, \<open>db_ok\<close>, \<open>db_ignore\<close> are the
  three ways the code treats that.  Crates outside the repository (\<open>common\<close>, \<open>sha2\<close>, \<open>aes-gcm\<close>,
  \<open>totp-rs\<close>, \<open>redis\<close>, \<open>uuid\<close>, \<open>chrono\<close>, \<open>serde_json\<close>) are the fields of \<open>env\<close>; theorems that
  rely on a documented law of theirs name it as a hypothesis (\<open>b64_inverse\<close>, \<open>aes_correct\<close>,
  \<open>scan_ends\<close>, \<open>scan_complete\<close>, \<open>del_only\<close>, \<open>draws_in_range\<close>).  Two choices of Postgres are fields too:
  the collation, and whether a plan evaluates a scalar subquery that no row needs
  (\<open>subquery_eager\<close>).  Strings are byte lists, uuids are 128-bit words, times are integers in
  microseconds.

  \<^bold>\<open>Theories.\<close>
  \<^item> \<open>Prelude\<close>: tables as lists, strings, the collections of facts.
  \<^item> \<open>Schema\<close>: rows, database, sessions and the row-level security policies (migrations, the row
    structs of \<open>repo.rs\<close>).
  \<^item> \<open>RepoUsers\<close>, \<open>RepoTokens\<close>, \<open>RepoTenancy\<close>: the statements of \<open>repo.rs\<close>, one definition per
    method of \<open>Repo\<close>, with its name.
  \<^item> \<open>Migrations\<close>: the rows that \<open>migrations/*.sql\<close> write, one definition per migration that writes any,
    and the database they make of empty tables (\<open>migrated_db\<close>).
  \<^item> \<open>Platform\<close>: libraries, faults, world, actions, their evaluation and inversion rules, and the
    locale \<open>db_order\<close> (below).
  \<^item> \<open>TotpSecret\<close>, \<open>Cache\<close>, \<open>Keys\<close>, \<open>Events\<close>, \<open>Startup\<close>, \<open>Launch\<close>: the files \<open>totp.rs\<close> and
    \<open>totpsecret.rs\<close>, \<open>cache.rs\<close>, \<open>keys.rs\<close>, \<open>relay.rs\<close> and \<open>saga.rs\<close>, and \<open>main.rs\<close>.
  \<^item> \<open>ServiceBase\<close>, \<open>SvcSession\<close>, \<open>SvcOidc\<close>, \<open>SvcAccount\<close>, \<open>SvcTenancy\<close>: the helpers and the
    handlers of \<open>grpc.rs\<close>; the handler \<open>x\<close> is \<open>rpc_x\<close>, of the metadata it reads and the
    fields of its request.
  \<^item> \<open>Service\<close>: the requests and their dispatch, the steps of the deployed program (request, clock,
    eviction in Redis, relay, saga, restart) and the locales \<open>plain_statements\<close> and \<open>statements\<close>;
    \<open>Interleaving\<close>: the statements of concurrent requests in any order.
  \<^item> \<open>Effects\<close>: what a statement that succeeded did, one inversion rule each.
  \<^item> \<open>History\<close>, \<open>Constraints\<close>: the invariants, as interpretations of \<open>statements\<close>; \<open>Fresh\<close>: they hold
    in every database that becomes of the migrated one, whose templates keep their permissions.
  \<^item> \<open>Demo\<close>: a concrete deployment, on which the hypotheses of the properties are shown to hold.
  \<^item> \<open>SessionProps\<close>, \<open>GuessProps\<close>, \<open>RefreshProps\<close>, \<open>TokenProps\<close>, \<open>OidcProps\<close>, \<open>AccountProps\<close>,
    \<open>SecretProps\<close>, \<open>TenancyProps\<close>, \<open>GrantProps\<close>, \<open>KeyProps\<close>, \<open>CacheProps\<close>, \<open>StartupProps\<close>, \<open>LaunchProps\<close>,
    \<open>FirstStart\<close>, \<open>SystemProps\<close>: the properties C1 to C40, each followed by its application to a
    concrete deployment.

  \<^bold>\<open>Interfaces.\<close>  \<open>db_order\<close> fixes a reflexive and transitive relation on databases and derives
  that an action respects it when its statements do; \<open>plain_statements\<close> extends it by one law for each
  of the 41 writing statements that cannot give a user a permission and derives that every handler
  but the five of \<open>may_grant\<close> respects the relation; \<open>statements\<close> adds the other five and derives it for
  every handler, task, start, step, run and interleaving.  The law for \<open>create_role\<close> is the one the
  handler guarantees: the name is not reserved.  \<open>session_store\<close> is what the refresh handler relies on in the statements on
  refresh tokens: opening, closing, replacing and ending sessions, on the abstract set of live ones.
  The interpretations are the relations the invariants need: equality and
  equality of a table (what a read-only action leaves), the ledger of tables that only grow, codes
  and token ids that stay spent, templates that never change, unique indexes, foreign keys, roles of
  an assignment's own tenant, reserved role names, isolation of tenants, assignments that a
  shadowed name keeps, what a request can add to a user's permissions (of \<open>plain_statements\<close>), and \<open>interleaved\<close> itself, which says that every
  request is a sequence of the program's statements.

  \<^bold>\<open>Properties.\<close>  \<open>SessionProps\<close>, \<open>GuessProps\<close>: what a password and a second factor give and to whom,
  counting and lockout.  \<open>RefreshProps\<close>: refresh tokens as a refinement on the abstract set of live
  sessions, and reuse.  \<open>TokenProps\<close>: which access tokens are accepted, logout, switching tenants, from
  login to validation; with Redis they say which answers of it they need.  \<open>OidcProps\<close>: who gets tokens
  for a code, that a code works once, also for concurrent exchanges (\<open>exchange_find\<close> and
  \<open>exchange_finish\<close> are the parts of the handler between which they meet), what an issued code accepts.  \<open>AccountProps\<close>, \<open>SecretProps\<close>: deletion
  and what is left after it, password reset, enrolment of a second factor.  \<open>TenancyProps\<close>,
  \<open>KeyProps\<close>: isolation of tenants, permissions, API keys.  \<open>GrantProps\<close>: on whose authority a request
  can add to what a user may do, and what a registration gives.  \<open>CacheProps\<close>: every request ends, role
  changes and the permission cache.  \<open>StartupProps\<close>, \<open>LaunchProps\<close>: connecting, signing keys, relay,
  the launch and its interruption, the saga; \<open>FirstStart\<close>: keys, accounts and permissions after the
  first start on a new database.  \<open>SystemProps\<close>: history and integrity under any
  interleaving, and two operations that cannot succeed.

  \<^bold>\<open>Bounds.\<close>  \<open>connect_with_retry\<close> makes 15 attempts by structural recursion.  \<open>trim\<close> takes the
  length of its string as fuel: each turn removes a byte.  The \<open>SCAN\<close> loop of
  \<open>cache_invalidate_perms\<close> is a partial function; a run that does not end is the failure \<open>Hang\<close>.  Such a
  run is an endless iteration of \<open>SCAN\<close> over a store that never grows (\<open>scan_del_ends\<close>), which the
  documentation of \<open>SCAN\<close> excludes (\<open>scan_ends\<close>); \<open>CacheProps\<close> derives that every request ends, whichever
  commands fail.  The counter of \<open>assign_role_bulk\<close> is an \<open>i32\<close> and wraps.  Times, limits and
  lifetimes are unbounded integers where the code has \<open>i64\<close> and \<open>chrono\<close>: an addition that \<open>chrono\<close>
  cannot represent is a panic (\<open>now_plus\<close>).

  \<^bold>\<open>What modelling showed.\<close>  Wrong second-factor codes never lock an account, because each password
  step resets the counter; a refresh token in its grace period works for a deleted identity; an
  answer of Redis overrides a revocation that Postgres has (\<open>redis_answer_overrides_denylist\<close>);
  granting and revoking permissions leaves the cache stale, and so does changing a user's roles under
  another spelling of the user's id; a tenant's own \<open>viewer\<close> role makes assignments irrevocable and is
  given to the demonstration account; tenants cannot be created once row-level security binds the connection;
  an interrupted first start leaves an administrator without a tenant for good; a missing PKCE
  method is \<open>S256\<close> for a stored code though \<open>verify_pkce\<close> calls \<open>plain\<close> the default.

  \<^bold>\<open>Not modelled.\<close>  Telemetry, log lines, the health service, tonic's server loop and TLS; the
  DDL of the migrations as such (it appears as guards and row types, without the intermediate schemas
  and the grants to Postgres roles; \<open>sqlx::migrate\<close> is a parameter of \<open>main_run\<close>, which \<open>FirstStart\<close>
  takes to end in \<open>migrated_db\<close>); timing, so the verification against the dummy hash has no effect here; the rows of
  columns no statement reads; the text of database errors; values a sequence loses to a failed insert; NUL bytes, which Postgres refuses;
  cancellation of a request by its client between two statements (a prefix of its statements, so
  covered by \<open>interleaved\<close> but not by \<open>reaches\<close>); and the isolation level: a transaction of several
  statements is one step.  Build files, CI and the test modules are not part of the program.
\<close>

end
